(* ===== verification/Prelude.thy ===== *)
theory Prelude
  imports Main "HOL-Library.Word" "HOL-Library.Multiset"
begin

text \<open>
  Shared vocabulary of the development.

  \<^item> Machine integers: a Go \<open>uint32\<close> is a \<open>32 word\<close>, an \<open>int32\<close> is a \<open>32 word\<close> read with
    \<open>sint\<close>, an \<open>int\<close> or \<open>int64\<close> is an \<open>int\<close>; every conversion between widths that the
    source writes is one of the functions below.
  \<^item> Errors: \<open>'s go_error\<close>, where \<open>'s\<close> enumerates the sentinel errors of one Go package
    (\<open>errors.New\<close> values are compared by identity, so a constructor per variable is exact), with
    \<open>errors.Is\<close> as \<open>errors_Is\<close>. A fallible operation returns \<open>'s go_error + 'a\<close>.
  \<^item> gRPC status codes and the status values a handler returns.
  \<^item> Generic lemmas on lists and maps that several components use.
\<close>

named_theorems err_simps \<open>which sentinel an error is\<close>
named_theorems port_defs \<open>definitions of the adapters, unfolded at the boundary of a component\<close>

section \<open>Machine integers\<close>

type_synonym u32 = "32 word"
type_synonym i32 = "32 word"

definition uint32 :: "int \<Rightarrow> u32" where
  "uint32 x = word_of_int x"

definition int32 :: "int \<Rightarrow> i32" where
  "int32 x = word_of_int x"

lemma uint_uint32: "0 \<le> x \<Longrightarrow> x < 4294967296 \<Longrightarrow> uint (uint32 x) = x"
  by (simp add: uint32_def uint_word_of_int)

lemma uint_uint32_mod: "uint (uint32 x) = x mod 4294967296"
  by (simp add: uint32_def uint_word_of_int)

lemma uint32_uint [simp]: "uint32 (uint w) = w"
  by (simp add: uint32_def)

text \<open>The 32-bit signed range: what a column \<open>INT\<close> holds and what scans into an \<open>int32\<close>.\<close>

definition int4 :: "int \<Rightarrow> bool" where
  "int4 i = (- 2147483648 \<le> i \<and> i < 2147483648)"

lemma sint_int32 [simp]: "int4 i \<Longrightarrow> sint (int32 i) = i"
  unfolding int32_def int4_def by transfer (simp add: signed_take_bit_int_eq_self)

lemma int4_sint [simp]: "int4 (sint (w :: i32))"
  using sint_lt [of w] sint_ge [of w] by (simp add: int4_def)

lemma int32_sint [simp]: "int32 (sint w) = w"
  by (simp add: int32_def)

lemma sint_eq_i32: "sint (a :: i32) = sint b \<longleftrightarrow> a = b"
  by (metis int32_sint)

lemma uint_eq_u32: "uint (a :: u32) = uint b \<longleftrightarrow> a = b"
  by (metis uint32_uint)

section \<open>Errors\<close>

datatype code =
    OK | Canceled | Unknown | InvalidArgument | DeadlineExceeded | NotFound | AlreadyExists
  | PermissionDenied | ResourceExhausted | FailedPrecondition | Aborted | OutOfRange
  | Unimplemented | Internal | Unavailable | DataLoss | Unauthenticated

text \<open>A gRPC status: what a server handler returns instead of a reply.\<close>

datatype rpc_status = Status (status_code: code) (status_msg: string)

text \<open>
  \<open>Sentinel\<close> is a package-level \<open>errors.New\<close> variable, \<open>Wrapf p e\<close> is
  \<open>fmt.Errorf("p: %w", e)\<close>, \<open>StatusErr\<close> is an error a gRPC stub returned, \<open>Plain\<close> is any
  other error, known by its text only.
\<close>

datatype 's go_error =
    Sentinel 's
  | Wrapf string "'s go_error"
  | StatusErr rpc_status
  | Plain string

fun errors_Is :: "'s go_error \<Rightarrow> 's \<Rightarrow> bool" where
  "errors_Is (Sentinel s) t = (s = t)"
| "errors_Is (Wrapf _ e) t = errors_Is e t"
| "errors_Is (StatusErr _) t = False"
| "errors_Is (Plain _) t = False"

text \<open>An error is at most one sentinel, so the order of the cases of a \<open>switch\<close> does not matter.\<close>

lemma errors_Is_unique: "errors_Is e s \<Longrightarrow> errors_Is e t \<Longrightarrow> s = t"
  by (induction e) auto

text \<open>\<open>err.Error()\<close>: the text, given the texts of the package's sentinels.\<close>

fun code_name :: "code \<Rightarrow> string" where
  "code_name OK = ''OK''"
| "code_name Canceled = ''Canceled''"
| "code_name Unknown = ''Unknown''"
| "code_name InvalidArgument = ''InvalidArgument''"
| "code_name DeadlineExceeded = ''DeadlineExceeded''"
| "code_name NotFound = ''NotFound''"
| "code_name AlreadyExists = ''AlreadyExists''"
| "code_name PermissionDenied = ''PermissionDenied''"
| "code_name ResourceExhausted = ''ResourceExhausted''"
| "code_name FailedPrecondition = ''FailedPrecondition''"
| "code_name Aborted = ''Aborted''"
| "code_name OutOfRange = ''OutOfRange''"
| "code_name Unimplemented = ''Unimplemented''"
| "code_name Internal = ''Internal''"
| "code_name Unavailable = ''Unavailable''"
| "code_name DataLoss = ''DataLoss''"
| "code_name Unauthenticated = ''Unauthenticated''"

fun error_text :: "('s \<Rightarrow> string) \<Rightarrow> 's go_error \<Rightarrow> string" where
  "error_text txt (Sentinel s) = txt s"
| "error_text txt (Wrapf p e) = p @ '': '' @ error_text txt e"
| "error_text txt (StatusErr st) =
     ''rpc error: code = '' @ code_name (status_code st) @ '' desc = '' @ status_msg st"
| "error_text txt (Plain m) = m"

section \<open>Generic lemmas\<close>

lemma Inr_case_iff:
  "(case r of Inl e \<Rightarrow> Inl (f e) | Inr x \<Rightarrow> Inr (g x)) = Inr y \<longleftrightarrow> (\<exists>x. r = Inr x \<and> y = g x)"
  by (auto split: sum.splits)

lemma mset_eq_sorted_key_unique:
  fixes f :: "'a \<Rightarrow> 'k::linorder"
  assumes "mset xs = mset ys" and "inj_on f (set xs)"
    and "sorted (map f xs)" and "sorted (map f ys)"
  shows "xs = ys"
proof -
  have set: "set ys = set xs"
    using assms(1) by (metis set_mset_mset)
  have "mset (map f xs) = mset (map f ys)"
    using assms(1) by (metis mset_map)
  then have "map f xs = map f ys"
    using assms(3,4) by (metis properties_for_sort)
  then show ?thesis
    using assms(2) set by (metis map_inj_on sup.idem)
qed

lemma find_SomeD: "List.find P xs = Some x \<Longrightarrow> x \<in> set xs \<and> P x"
  by (induction xs) (auto split: if_splits)

text \<open>The first occurrences of a list, in order: what a loop with a \<open>seen\<close> set keeps.\<close>

fun first_occ :: "'a set \<Rightarrow> 'a list \<Rightarrow> 'a list" where
  "first_occ S [] = []"
| "first_occ S (x # xs) = (if x \<in> S then first_occ S xs else x # first_occ (insert x S) xs)"

lemma set_first_occ: "set (first_occ S xs) = set xs - S"
  by (induction xs arbitrary: S) auto

lemma distinct_first_occ: "distinct (first_occ S xs)"
  by (induction xs arbitrary: S) (auto simp: set_first_occ)

lemma first_occ_append:
  "first_occ S (xs @ ys) = first_occ S xs @ first_occ (S \<union> set xs) ys"
  by (induction xs arbitrary: S) (auto simp: insert_absorb)

lemma first_occ_id: "distinct xs \<Longrightarrow> set xs \<inter> S = {} \<Longrightarrow> first_occ S xs = xs"
  by (induction xs arbitrary: S) auto

end
