(* ===== verification/GoSort.thy ===== *)
theory GoSort
  imports Prelude
begin

text \<open>
  Go's \<open>sort.Slice\<close> and \<open>sort.Ints\<close>. \<open>sort.Slice(xs, less)\<close> promises a permutation of \<open>xs\<close>
  in which no element is \<open>less\<close> than an earlier one, for a \<open>less\<close> that is a strict weak order; it
  is not stable. The model computes one such permutation by insertion; the last lemma of the
  theory says when there is only one, so that the choice cannot be observed.
\<close>

fun slice_insert :: "('a \<Rightarrow> 'a \<Rightarrow> bool) \<Rightarrow> 'a \<Rightarrow> 'a list \<Rightarrow> 'a list" where
  "slice_insert lt x [] = [x]"
| "slice_insert lt x (y # ys) =
     (if lt y x then y # slice_insert lt x ys else x # y # ys)"

definition sort_Slice :: "('a \<Rightarrow> 'a \<Rightarrow> bool) \<Rightarrow> 'a list \<Rightarrow> 'a list" where
  "sort_Slice lt xs = foldr (slice_insert lt) xs []"

text \<open>The promise of \<open>sort.Slice\<close>: the output is in order for \<open>less\<close>.\<close>

definition slice_sorted :: "('a \<Rightarrow> 'a \<Rightarrow> bool) \<Rightarrow> 'a list \<Rightarrow> bool" where
  "slice_sorted lt xs = sorted_wrt (\<lambda>x y. \<not> lt y x) xs"

lemma mset_slice_insert: "mset (slice_insert lt x ys) = add_mset x (mset ys)"
  by (induction ys) auto

lemma mset_sort_Slice [simp]: "mset (sort_Slice lt xs) = mset xs"
  by (induction xs) (auto simp: sort_Slice_def mset_slice_insert)

lemma set_sort_Slice [simp]: "set (sort_Slice lt xs) = set xs"
  by (metis mset_sort_Slice set_mset_mset)

lemma length_sort_Slice [simp]: "length (sort_Slice lt xs) = length xs"
  by (metis mset_sort_Slice size_mset)

lemma distinct_sort_Slice: "distinct (map f (sort_Slice lt xs)) = distinct (map f xs)"
  by (metis mset_map mset_sort_Slice mset_eq_imp_distinct_iff)

section \<open>Comparators that compare a key\<close>

text \<open>
  Every comparator of the source orders by a key into a linear order; what its users need is
  proved once for such a comparator.
\<close>

locale key_comparator =
  fixes lt :: "'a \<Rightarrow> 'a \<Rightarrow> bool" and key :: "'a \<Rightarrow> 'k::linorder"
  assumes lt_key: "lt x y = (key x < key y)"
begin

lemma slice_insert_sorted:
  "sorted (map key ys) \<Longrightarrow> sorted (map key (slice_insert lt x ys))"
proof (induction ys)
  case (Cons y ys)
  have "set (slice_insert lt x ys) = insert x (set ys)"
    by (metis mset_slice_insert set_mset_add_mset_insert set_mset_mset)
  with Cons show ?case by (auto simp: lt_key [of y x])
qed simp

lemma sort_sorted: "sorted (map key (sort_Slice lt xs))"
  by (induction xs) (auto simp: sort_Slice_def slice_insert_sorted)

lemma slice_sorted_iff: "slice_sorted lt xs = sorted (map key xs)"
  by (simp add: slice_sorted_def lt_key sorted_map not_less)

lemma sort_slice_sorted: "slice_sorted lt (sort_Slice lt xs)"
  by (simp add: slice_sorted_iff sort_sorted)

lemma sort_unique:
  assumes "mset ys = mset xs" and "slice_sorted lt ys" and "inj_on key (set xs)"
  shows "ys = sort_Slice lt xs"
proof (rule mset_eq_sorted_key_unique [where f = key])
  show "mset ys = mset (sort_Slice lt xs)" using assms(1) by simp
  have "set ys = set xs" using assms(1) by (metis set_mset_mset)
  then show "inj_on key (set ys)" using assms(3) by simp
  show "sorted (map key ys)" using assms(2) by (simp add: slice_sorted_iff)
  show "sorted (map key (sort_Slice lt xs))" by (rule sort_sorted)
qed

lemma sort_cong_mset:
  assumes "mset ys = mset xs" and "inj_on key (set xs)"
  shows "sort_Slice lt ys = sort_Slice lt xs"
  by (rule sort_unique) (simp_all add: assms sort_slice_sorted)

end

section \<open>sort.Ints\<close>

definition sort_Ints :: "int list \<Rightarrow> int list" where
  "sort_Ints xs = sort_Slice (<) xs"

interpretation ints: key_comparator "(<)" "\<lambda>x :: int. x"
  by unfold_locales simp

lemma sort_Ints_eq_sort: "sort_Ints xs = sort xs"
  unfolding sort_Ints_def
  by (rule ints.sort_unique [symmetric])
    (simp_all add: ints.slice_sorted_iff)

end
