(* ===== verification/SearchIndex.thy ===== *)
theory SearchIndex
  imports GoSort
begin

text \<open>
  The inverted index of the search service: \<open>search-services/search/core/models.go\<close> and
  \<open>index.go\<close>. The read-write mutex makes \<open>Build\<close>, \<open>DocsForTokens\<close> and \<open>DocsByIDs\<close> atomic, so
  each is one function of the index; what happens between two of them is in the service.
\<close>

section \<open>Comics\<close>

record Comics =
  ID :: int
  URL :: string
  Title :: "string list"
  Alt :: "string list"
  Words :: "string list"

text \<open>All words of a comic, in the order \<open>Build\<close> visits them.\<close>

definition comic_tokens :: "Comics \<Rightarrow> string list" where
  "comic_tokens c = Title c @ Alt c @ Words c"

section \<open>The index\<close>

record InvertedIndex =
  byToken :: "string \<Rightarrow> int list option"
  docs :: "int \<Rightarrow> Comics option"

definition NewInvertedIndex :: InvertedIndex where
  "NewInvertedIndex = \<lparr>byToken = Map.empty, docs = Map.empty\<rparr>"

text \<open>Indexing a map of slices: a missing key reads as \<open>nil\<close>.\<close>

definition posting :: "(string \<Rightarrow> int list option) \<Rightarrow> string \<Rightarrow> int list" where
  "posting m tok = (case m tok of Some ids \<Rightarrow> ids | None \<Rightarrow> [])"

text \<open>The closure \<open>add\<close>, with the state it captures (\<open>seen\<close>, \<open>byToken\<close>) passed in and out.\<close>

definition build_add ::
  "int \<Rightarrow> string \<Rightarrow> string set \<times> (string \<Rightarrow> int list option)
     \<Rightarrow> string set \<times> (string \<Rightarrow> int list option)" where
  "build_add cid tok st =
     (case st of (seen, m) \<Rightarrow>
        if tok = [] then (seen, m)
        else if tok \<in> seen then (seen, m)
        else (insert tok seen, m(tok \<mapsto> posting m tok @ [cid])))"

definition build_step ::
  "Comics \<Rightarrow> (string \<Rightarrow> int list option) \<times> (int \<Rightarrow> Comics option)
     \<Rightarrow> (string \<Rightarrow> int list option) \<times> (int \<Rightarrow> Comics option)" where
  "build_step c st =
     (case st of (m, ds) \<Rightarrow>
        let ds = ds(ID c \<mapsto> c);
            s0 = ({}, m);
            s1 = fold (build_add (ID c)) (Title c) s0;
            s2 = fold (build_add (ID c)) (Alt c) s1;
            s3 = fold (build_add (ID c)) (Words c) s2
        in (snd s3, ds))"

definition Build :: "Comics list \<Rightarrow> InvertedIndex \<Rightarrow> InvertedIndex" where
  "Build comics idx =
     (case fold build_step comics (Map.empty, Map.empty) of
        (m, ds) \<Rightarrow> idx\<lparr>byToken := m, docs := ds\<rparr>)"

text \<open>
  Go iterates over the set in an unspecified order and sorts; the model inserts into a list of
  distinct ids and sorts, which gives the same list for every order.
\<close>

definition DocsForTokens :: "InvertedIndex \<Rightarrow> string list \<Rightarrow> int list" where
  "DocsForTokens idx tokens =
     (if tokens = [] then []
      else let ids = fold (\<lambda>tok acc. fold List.insert (posting (byToken idx) tok) acc) tokens []
           in if ids = [] then [] else sort_Ints ids)"

fun docs_lookup :: "(int \<Rightarrow> Comics option) \<Rightarrow> int list \<Rightarrow> Comics list" where
  "docs_lookup ds [] = []"
| "docs_lookup ds (i # is) =
     (case ds i of Some c \<Rightarrow> c # docs_lookup ds is | None \<Rightarrow> docs_lookup ds is)"

definition DocsByIDs :: "InvertedIndex \<Rightarrow> int list \<Rightarrow> Comics list" where
  "DocsByIDs idx ids = docs_lookup (docs idx) ids"

section \<open>What Build computes\<close>

lemma build_add_fold:
  "fold (build_add cid) toks (seen, m) =
     (seen \<union> (set toks - {[]}),
      \<lambda>t. if t \<in> set toks - {[]} - seen then Some (posting m t @ [cid]) else m t)"
proof (induction toks arbitrary: seen m)
  case (Cons tok toks)
  show ?case
  proof (cases "tok = [] \<or> tok \<in> seen")
    case True
    then have "build_add cid tok (seen, m) = (seen, m)" by (auto simp: build_add_def)
    with True show ?thesis by (auto simp: Cons.IH fun_eq_iff)
  next
    case False
    then have "build_add cid tok (seen, m) = (insert tok seen, m(tok \<mapsto> posting m tok @ [cid]))"
      by (simp add: build_add_def)
    with False show ?thesis by (auto simp: Cons.IH fun_eq_iff posting_def)
  qed
qed simp

lemma build_step_eq:
  "build_step c (m, ds) =
     (\<lambda>t. if t \<noteq> [] \<and> t \<in> set (comic_tokens c) then Some (posting m t @ [ID c]) else m t,
      ds(ID c \<mapsto> c))"
proof -
  have "fold (build_add (ID c)) (Words c) (fold (build_add (ID c)) (Alt c)
          (fold (build_add (ID c)) (Title c) ({}, m))) =
        fold (build_add (ID c)) (comic_tokens c) ({}, m)"
    by (simp add: comic_tokens_def)
  then show ?thesis by (auto simp: build_step_def Let_def build_add_fold fun_eq_iff)
qed

lemma build_fold:
  "fold build_step cs (m, ds) =
     (\<lambda>t. let ids = map ID (filter (\<lambda>c. t \<noteq> [] \<and> t \<in> set (comic_tokens c)) cs)
          in if ids = [] then m t else Some (posting m t @ ids),
      ds ++ map_of (rev (map (\<lambda>c. (ID c, c)) cs)))"
proof (induction cs arbitrary: m ds)
  case (Cons c cs)
  show ?case
    by (auto simp: Cons.IH build_step_eq fun_eq_iff Let_def posting_def map_add_def
        split: option.splits)
qed simp

lemma Build_byToken:
  "posting (byToken (Build cs idx)) t =
     map ID (filter (\<lambda>c. t \<noteq> [] \<and> t \<in> set (comic_tokens c)) cs)"
  by (simp add: Build_def build_fold Let_def posting_def split: option.splits)

lemma Build_docs: "docs (Build cs idx) = map_of (rev (map (\<lambda>c. (ID c, c)) cs))"
  by (simp add: Build_def build_fold)

lemma Build_docs_distinct:
  assumes "distinct (map ID cs)"
  shows "docs (Build cs idx) i = Some c \<longleftrightarrow> c \<in> set cs \<and> ID c = i"
proof -
  have "distinct (map fst (rev (map (\<lambda>c. (ID c, c)) cs)))"
    using assms by (simp add: rev_map [symmetric] comp_def)
  then show ?thesis by (auto simp: Build_docs map_of_eq_Some_iff)
qed

section \<open>Looking tokens up\<close>

lemma fold_insert_set: "set (fold List.insert xs acc) = set xs \<union> set acc"
  by (induction xs arbitrary: acc) auto

lemma fold_insert_distinct: "distinct acc \<Longrightarrow> distinct (fold List.insert xs acc)"
  by (induction xs arbitrary: acc) auto

lemma gather_set:
  "set (fold (\<lambda>tok acc. fold List.insert (f tok) acc) toks acc) = (\<Union>t \<in> set toks. set (f t)) \<union> set acc"
  by (induction toks arbitrary: acc) (auto simp: fold_insert_set)

lemma gather_distinct:
  "distinct acc \<Longrightarrow> distinct (fold (\<lambda>tok acc. fold List.insert (f tok) acc) toks acc)"
  by (induction toks arbitrary: acc) (auto simp: fold_insert_distinct)

lemma set_DocsForTokens: "set (DocsForTokens idx toks) = (\<Union>t \<in> set toks. set (posting (byToken idx) t))"
proof -
  let ?ids = "fold (\<lambda>tok acc. fold List.insert (posting (byToken idx) tok) acc) toks []"
  have "set ?ids = (\<Union>t \<in> set toks. set (posting (byToken idx) t))" by (simp add: gather_set)
  moreover have "set (DocsForTokens idx toks) = set ?ids"
    by (auto simp: DocsForTokens_def sort_Ints_eq_sort Let_def)
  ultimately show ?thesis by simp
qed

lemma DocsForTokens_sorted_distinct:
  "sorted (DocsForTokens idx toks) \<and> distinct (DocsForTokens idx toks)"
  by (auto simp: DocsForTokens_def sort_Ints_eq_sort Let_def gather_distinct)

text \<open>A comic matches when one of the query's non-empty tokens is one of its words.\<close>

definition comic_matches :: "string list \<Rightarrow> Comics \<Rightarrow> bool" where
  "comic_matches toks c = (\<exists>t \<in> set toks. t \<noteq> [] \<and> t \<in> set (comic_tokens c))"

lemma DocsForTokens_Build:
  "set (DocsForTokens (Build cs idx) toks) = ID ` set (filter (comic_matches toks) cs)"
  by (auto simp: set_DocsForTokens Build_byToken comic_matches_def)

lemma docs_lookup_eq: "docs_lookup ds ids = List.map_filter ds ids"
  by (induction ids) (auto simp: List.map_filter_def split: option.splits)

lemma set_DocsByIDs: "set (DocsByIDs idx ids) = {c. \<exists>i \<in> set ids. docs idx i = Some c}"
proof -
  have "set (docs_lookup ds is) = {c. \<exists>i \<in> set is. ds i = Some c}" for ds "is"
    by (induction "is") (auto split: option.splits)
  then show ?thesis by (simp add: DocsByIDs_def)
qed

lemma docs_lookup_IDs:
  assumes "\<forall>i \<in> set ids. \<exists>c. ds i = Some c \<and> ID c = i"
  shows "map ID (docs_lookup ds ids) = ids"
  using assms by (induction ids) auto

text \<open>
  The candidates of an indexed search are the matching comics, once each and by ascending id.
\<close>

lemma index_candidates:
  assumes "distinct (map ID cs)"
  shows "mset (DocsByIDs (Build cs idx) (DocsForTokens (Build cs idx) toks)) =
           mset (filter (comic_matches toks) cs)"
    and "map ID (DocsByIDs (Build cs idx) (DocsForTokens (Build cs idx) toks)) =
           DocsForTokens (Build cs idx) toks"
proof -
  let ?ids = "DocsForTokens (Build cs idx) toks"
  let ?out = "DocsByIDs (Build cs idx) ?ids"
  have found: "\<forall>i \<in> set ?ids. \<exists>c. docs (Build cs idx) i = Some c \<and> ID c = i"
    using assms by (auto simp: DocsForTokens_Build Build_docs_distinct)
  then show ids: "map ID ?out = ?ids"
    unfolding DocsByIDs_def by (rule docs_lookup_IDs)
  have "distinct (map ID ?out)" using ids DocsForTokens_sorted_distinct by metis
  then have d: "distinct ?out" by (simp add: distinct_map)
  have "set ?out = set (filter (comic_matches toks) cs)"
  proof (intro set_eqI iffI)
    fix c assume "c \<in> set ?out"
    then obtain i where i: "i \<in> set ?ids" "docs (Build cs idx) i = Some c"
      by (auto simp: set_DocsByIDs)
    then obtain c' where "c' \<in> set cs" "comic_matches toks c'" "ID c' = i"
      by (auto simp: DocsForTokens_Build)
    with i assms show "c \<in> set (filter (comic_matches toks) cs)"
      by (auto simp: Build_docs_distinct distinct_map dest: inj_onD)
  next
    fix c assume "c \<in> set (filter (comic_matches toks) cs)"
    then show "c \<in> set ?out"
      using assms by (auto simp: set_DocsByIDs DocsForTokens_Build Build_docs_distinct)
  qed
  moreover have "distinct (filter (comic_matches toks) cs)"
    using assms by (simp add: distinct_map)
  ultimately show "mset ?out = mset (filter (comic_matches toks) cs)"
    using d by (metis set_eq_iff_mset_eq_distinct)
qed

lemma DocsByIDs_Build:
  assumes "distinct (map ID cs)"
  shows "set (DocsByIDs (Build cs idx) ids) \<subseteq> set cs"
    and "distinct ids \<Longrightarrow> distinct (DocsByIDs (Build cs idx) ids)"
proof -
  show "set (DocsByIDs (Build cs idx) ids) \<subseteq> set cs"
    using assms by (auto simp: set_DocsByIDs Build_docs_distinct)
  have sub: "set (map ID (DocsByIDs (Build cs idx) is)) \<subseteq> set is" for "is"
    using assms by (auto simp: set_DocsByIDs Build_docs_distinct)
  show "distinct ids \<Longrightarrow> distinct (DocsByIDs (Build cs idx) ids)"
  proof (induction ids)
    case (Cons i ids)
    show ?case
    proof (cases "docs (Build cs idx) i")
      case (Some c)
      then have "ID c = i" using assms by (simp add: Build_docs_distinct)
      then have "c \<notin> set (DocsByIDs (Build cs idx) ids)" using sub [of ids] Cons.prems by auto
      with Some Cons show ?thesis by (simp add: DocsByIDs_def)
    qed (use Cons in \<open>simp add: DocsByIDs_def\<close>)
  qed (simp add: DocsByIDs_def)
qed

end
