(* ===== verification/SearchRank.thy ===== *)
theory SearchRank
  imports SearchIndex
begin

text \<open>
  Scoring and ranking: \<open>makeSet\<close>, \<open>scoreComic\<close> and \<open>rangComics\<close> of
  \<open>search-services/search/core/service.go\<close>. Scores are \<open>int\<close>: with fewer than \<open>2 ^ 56\<close> query
  tokens a Go \<open>int\<close> holds every value exactly.
\<close>

definition defaultLimit :: u32 where "defaultLimit = 10"
definition weightTitle :: int where "weightTitle = 5"
definition weightAlt :: int where "weightAlt = 3"
definition weightWords :: int where "weightWords = 1"

section \<open>makeSet\<close>

fun makeSet_loop :: "string list \<Rightarrow> (string \<Rightarrow> bool option) \<Rightarrow> (string \<Rightarrow> bool option)" where
  "makeSet_loop [] m = m"
| "makeSet_loop (v # vs) m = (if v = [] then makeSet_loop vs m else makeSet_loop vs (m(v \<mapsto> True)))"

definition makeSet :: "string list \<Rightarrow> (string \<Rightarrow> bool option)" where
  "makeSet arr = makeSet_loop arr Map.empty"

definition in_set :: "(string \<Rightarrow> bool option) \<Rightarrow> string \<Rightarrow> bool" where
  "in_set m t = (case m t of Some b \<Rightarrow> b | None \<Rightarrow> False)"

lemma in_set_makeSet_loop:
  "in_set (makeSet_loop arr m) t = (in_set m t \<or> t \<noteq> [] \<and> t \<in> set arr)"
  by (induction arr arbitrary: m) (auto simp: in_set_def)

lemma in_set_makeSet [simp]: "in_set (makeSet arr) t = (t \<noteq> [] \<and> t \<in> set arr)"
  by (simp add: makeSet_def in_set_makeSet_loop) (simp add: in_set_def)

section \<open>scoreComic\<close>

record tally =
  titleMatches :: int
  altMatches :: int
  wordsMatches :: int
  covered :: "string list"

text \<open>One turn of the loop; \<open>covered\<close> is the set of tokens found so far, without repetition.\<close>

definition score_step ::
  "(string \<Rightarrow> bool option) \<Rightarrow> (string \<Rightarrow> bool option) \<Rightarrow> (string \<Rightarrow> bool option) \<Rightarrow> string \<Rightarrow> tally \<Rightarrow> tally" where
  "score_step titleSet altSet wordsSet t y =
     (let m1 = in_set titleSet t; m2 = in_set altSet t; m3 = in_set wordsSet t;
          y = (if m1 then y\<lparr>titleMatches := titleMatches y + 1\<rparr> else y);
          y = (if m2 then y\<lparr>altMatches := altMatches y + 1\<rparr> else y);
          y = (if m3 then y\<lparr>wordsMatches := wordsMatches y + 1\<rparr> else y)
      in if m1 \<or> m2 \<or> m3 then y\<lparr>covered := List.insert t (covered y)\<rparr> else y)"

definition scoreComic :: "Comics \<Rightarrow> string list \<Rightarrow> int" where
  "scoreComic c tokens =
     (let titleSet = makeSet (Title c);
          altSet = makeSet (Alt c);
          wordsSet = makeSet (Words c);
          y = fold (score_step titleSet altSet wordsSet) tokens
                \<lparr>titleMatches = 0, altMatches = 0, wordsMatches = 0, covered = []\<rparr>
      in if covered y = [] then 0
         else int (length (covered y)) * 100 + titleMatches y * weightTitle
              + altMatches y * weightAlt + wordsMatches y * weightWords)"

section \<open>rangComics\<close>

record scored =
  comic :: Comics
  score :: int

definition scored_less :: "scored \<Rightarrow> scored \<Rightarrow> bool" where
  "scored_less x y =
     (if score x = score y then ID (comic x) < ID (comic y) else score x > score y)"

fun scored_list :: "string list \<Rightarrow> Comics list \<Rightarrow> scored list" where
  "scored_list tokens [] = []"
| "scored_list tokens (c # cs) =
     (let s = scoreComic c tokens in
      if s > 0 then \<lparr>comic = c, score = s\<rparr> # scored_list tokens cs else scored_list tokens cs)"

definition rangComics :: "Comics list \<Rightarrow> string list \<Rightarrow> u32 \<Rightarrow> Comics list \<times> u32" where
  "rangComics comics tokens limit =
     (let scoredList = scored_list tokens comics;
          total = uint32 (int (length scoredList));
          sorted_l = sort_Slice scored_less scoredList;
          cut = (if uint32 (int (length sorted_l)) > limit then take (unat limit) sorted_l else sorted_l)
      in (map comic cut, total))"

section \<open>What scoreComic computes\<close>

text \<open>The number of query tokens (with repetition) found in a field, and the distinct ones found.\<close>

definition hits :: "string list \<Rightarrow> string list \<Rightarrow> nat" where
  "hits field tokens = length (filter (\<lambda>t. t \<noteq> [] \<and> t \<in> set field) tokens)"

definition covered_tokens :: "Comics \<Rightarrow> string list \<Rightarrow> string set" where
  "covered_tokens c tokens = {t \<in> set tokens. t \<noteq> [] \<and> t \<in> set (comic_tokens c)}"

lemma score_step_fields:
  "titleMatches (score_step a b c t y) = titleMatches y + (if in_set a t then 1 else 0)"
  "altMatches (score_step a b c t y) = altMatches y + (if in_set b t then 1 else 0)"
  "wordsMatches (score_step a b c t y) = wordsMatches y + (if in_set c t then 1 else 0)"
  "covered (score_step a b c t y) =
     (if in_set a t \<or> in_set b t \<or> in_set c t then List.insert t (covered y) else covered y)"
  by (simp_all add: score_step_def Let_def)

lemma score_fold:
  fixes y :: tally
  defines "f \<equiv> \<lambda>c. score_step (makeSet (Title c)) (makeSet (Alt c)) (makeSet (Words c))"
  shows "titleMatches (fold (f c) toks y) = titleMatches y + int (hits (Title c) toks)"
    and "altMatches (fold (f c) toks y) = altMatches y + int (hits (Alt c) toks)"
    and "wordsMatches (fold (f c) toks y) = wordsMatches y + int (hits (Words c) toks)"
    and "set (covered (fold (f c) toks y)) = set (covered y) \<union> covered_tokens c toks"
    and "distinct (covered y) \<Longrightarrow> distinct (covered (fold (f c) toks y))"
  unfolding f_def
  by (induction toks arbitrary: y)
    (auto simp: score_step_fields hits_def covered_tokens_def comic_tokens_def)

lemma scoreComic_eq:
  "scoreComic c toks =
     (if covered_tokens c toks = {} then 0
      else int (card (covered_tokens c toks)) * 100 + 5 * int (hits (Title c) toks)
           + 3 * int (hits (Alt c) toks) + int (hits (Words c) toks))"
proof -
  define y where "y = fold (score_step (makeSet (Title c)) (makeSet (Alt c)) (makeSet (Words c))) toks
    \<lparr>titleMatches = 0, altMatches = 0, wordsMatches = 0, covered = []\<rparr>"
  have "set (covered y) = covered_tokens c toks" "distinct (covered y)"
    by (simp_all add: y_def score_fold)
  then have "length (covered y) = card (covered_tokens c toks)"
    "covered y = [] \<longleftrightarrow> covered_tokens c toks = {}"
    by (metis distinct_card) (use \<open>set (covered y) = _\<close> in \<open>auto simp flip: set_empty\<close>)
  then show ?thesis
    by (simp add: scoreComic_def Let_def y_def [symmetric])
      (simp add: y_def score_fold weightTitle_def weightAlt_def weightWords_def)
qed

lemma scoreComic_pos_iff: "0 < scoreComic c toks \<longleftrightarrow> comic_matches toks c"
proof -
  have "finite (covered_tokens c toks)" by (simp add: covered_tokens_def)
  then have "covered_tokens c toks \<noteq> {} \<Longrightarrow> 0 < card (covered_tokens c toks)"
    by (simp add: card_gt_0_iff)
  moreover have "comic_matches toks c \<longleftrightarrow> covered_tokens c toks \<noteq> {}"
    by (auto simp: comic_matches_def covered_tokens_def)
  ultimately show ?thesis by (fastforce simp: scoreComic_eq)
qed

lemma scoreComic_nonneg: "0 \<le> scoreComic c toks"
  by (simp add: scoreComic_eq)

text \<open>Bounds: every covered token is found in some field, and at most once in each when the
  query has no repetition.\<close>

lemma hits_le_covered:
  assumes "distinct toks" and "set field \<subseteq> set (comic_tokens c)"
  shows "hits field toks \<le> card (covered_tokens c toks)"
proof -
  have "hits field toks = card (set (filter (\<lambda>t. t \<noteq> [] \<and> t \<in> set field) toks))"
    using assms(1) by (metis hits_def distinct_card distinct_filter)
  also have "\<dots> \<le> card (covered_tokens c toks)"
    using assms(2) by (intro card_mono) (auto simp: covered_tokens_def)
  finally show ?thesis .
qed

lemma covered_le_hits:
  "card (covered_tokens c toks) \<le> hits (Title c) toks + hits (Alt c) toks + hits (Words c) toks"
proof -
  let ?S = "\<lambda>field. set (filter (\<lambda>t. t \<noteq> [] \<and> t \<in> set field) toks)"
  have h: "card (?S field) \<le> hits field toks" for field
    unfolding hits_def by (rule card_length)
  have "covered_tokens c toks \<subseteq> ?S (Title c) \<union> (?S (Alt c) \<union> ?S (Words c))"
    by (auto simp: covered_tokens_def comic_tokens_def)
  then have "card (covered_tokens c toks) \<le> card (?S (Title c) \<union> (?S (Alt c) \<union> ?S (Words c)))"
    by (intro card_mono) auto
  also have "\<dots> \<le> card (?S (Title c)) + (card (?S (Alt c)) + card (?S (Words c)))"
    by (intro order.trans [OF card_Un_le] add_left_mono card_Un_le)
  also have "\<dots> \<le> hits (Title c) toks + (hits (Alt c) toks + hits (Words c) toks)"
    by (intro add_mono h)
  finally show ?thesis by simp
qed

lemma score_bounds:
  assumes "distinct toks"
  shows "101 * int (card (covered_tokens c toks)) \<le> scoreComic c toks"
    and "scoreComic c toks \<le> 109 * int (card (covered_tokens c toks))"
proof -
  note h = hits_le_covered [OF assms, of _ c]
  have "hits (Title c) toks \<le> card (covered_tokens c toks)"
    "hits (Alt c) toks \<le> card (covered_tokens c toks)"
    "hits (Words c) toks \<le> card (covered_tokens c toks)"
    by (auto intro!: h simp: comic_tokens_def)
  then show "101 * int (card (covered_tokens c toks)) \<le> scoreComic c toks"
    and "scoreComic c toks \<le> 109 * int (card (covered_tokens c toks))"
    using covered_le_hits [of c toks] by (auto simp: scoreComic_eq)
qed

section \<open>The ranking order\<close>

text \<open>The key \<open>rangComics\<close> sorts by: higher score first, then smaller id.\<close>

datatype rank = Rank (rank_score: int) (rank_id: int)

instantiation rank :: linorder
begin

definition less_rank :: "rank \<Rightarrow> rank \<Rightarrow> bool" where
  "less_rank a b =
     (if rank_score a = rank_score b then rank_id a < rank_id b else rank_score a > rank_score b)"

definition less_eq_rank :: "rank \<Rightarrow> rank \<Rightarrow> bool" where
  "less_eq_rank a b = (a = b \<or> a < (b :: rank))"

instance
  by standard (auto simp: less_rank_def less_eq_rank_def rank.expand split: if_splits)

end

definition rank_of :: "scored \<Rightarrow> rank" where
  "rank_of x = Rank (score x) (ID (comic x))"

interpretation rank: key_comparator scored_less rank_of
  by unfold_locales (simp add: scored_less_def rank_of_def less_rank_def)

lemma scored_list_eq:
  "scored_list toks cs = map (\<lambda>c. \<lparr>comic = c, score = scoreComic c toks\<rparr>) (filter (comic_matches toks) cs)"
  by (induction cs) (auto simp: Let_def scoreComic_pos_iff)

lemma comic_scored_list: "map comic (scored_list toks cs) = filter (comic_matches toks) cs"
  by (simp add: scored_list_eq comp_def)

lemma inj_rank_scored_list:
  assumes "distinct (map ID cs)"
  shows "inj_on rank_of (set (scored_list toks cs))"
proof -
  have "inj_on ID (set cs)" using assms by (simp add: distinct_map)
  then show ?thesis
    by (auto simp: scored_list_eq inj_on_def rank_of_def)
qed

text \<open>The ranking by any permutation that \<open>sort.Slice\<close> may return.\<close>

definition ranking :: "string list \<Rightarrow> Comics list \<Rightarrow> Comics list" where
  "ranking toks cs = map comic (sort_Slice scored_less (scored_list toks cs))"

lemma ranking_mset: "mset (ranking toks cs) = mset (filter (comic_matches toks) cs)"
proof -
  have "mset (ranking toks cs) = image_mset comic (mset (scored_list toks cs))"
    by (simp add: ranking_def mset_map del: mset_sort_Slice) simp
  then show ?thesis by (metis comic_scored_list mset_map)
qed

lemma set_ranking: "set (ranking toks cs) = set (filter (comic_matches toks) cs)"
  by (metis ranking_mset set_mset_mset)

lemma length_ranking: "length (ranking toks cs) = length (filter (comic_matches toks) cs)"
  by (metis ranking_mset size_mset)

lemma ranking_sorted:
  "sorted (map (\<lambda>c. Rank (scoreComic c toks) (ID c)) (ranking toks cs))"
proof -
  let ?l = "sort_Slice scored_less (scored_list toks cs)"
  have "\<forall>x \<in> set ?l. rank_of x = Rank (scoreComic (comic x) toks) (ID (comic x))"
    by (auto simp: scored_list_eq rank_of_def)
  then have "map rank_of ?l = map (\<lambda>x. Rank (scoreComic (comic x) toks) (ID (comic x))) ?l"
    by (intro map_cong) simp_all
  then show ?thesis using rank.sort_sorted [of "scored_list toks cs"]
    by (simp only: ranking_def map_map comp_def)
qed

text \<open>Only the matching comics matter, and not their order.\<close>

lemma ranking_cong:
  assumes "mset (filter (comic_matches toks) cs) = mset (filter (comic_matches toks) ds)"
    and "distinct (map ID ds)"
  shows "ranking toks cs = ranking toks ds"
proof -
  have "mset (scored_list toks cs) = mset (scored_list toks ds)"
    using assms(1) by (simp add: scored_list_eq)
  then show ?thesis
    using rank.sort_cong_mset inj_rank_scored_list [OF assms(2)] by (metis ranking_def)
qed

lemma rangComics_eq:
  "rangComics cs toks limit =
     (let r = ranking toks cs; n = length r in
      (if uint32 (int n) > limit then take (unat limit) r else r, uint32 (int n)))"
proof -
  have "length (scored_list toks cs) = length (ranking toks cs)" by (simp add: ranking_def)
  then show ?thesis
    by (auto simp: rangComics_def ranking_def Let_def take_map)
qed

lemma rangComics_small:
  assumes "length (filter (comic_matches toks) cs) < 4294967296"
  shows "fst (rangComics cs toks limit) = take (unat limit) (ranking toks cs)"
    and "uint (snd (rangComics cs toks limit)) = int (length (filter (comic_matches toks) cs))"
proof -
  let ?n = "length (ranking toks cs)"
  have n: "uint (uint32 (int ?n)) = int ?n"
    using assms by (intro uint_uint32) (simp_all add: length_ranking)
  have "unat (uint32 (int ?n)) = ?n" by (metis n nat_int unat_eq_nat_uint)
  then have "limit < uint32 (int ?n) \<longleftrightarrow> unat limit < ?n" by (simp add: word_less_nat_alt)
  then show "fst (rangComics cs toks limit) = take (unat limit) (ranking toks cs)"
    by (simp add: rangComics_eq Let_def)
  show "uint (snd (rangComics cs toks limit)) = int (length (filter (comic_matches toks) cs))"
    using n by (simp add: rangComics_eq Let_def length_ranking)
qed

section \<open>Properties of the ranking\<close>

text \<open>C7: \<open>rangComics\<close> returns the best \<open>limit\<close> of the comics that match the query: there is one
  list of all the matching comics, ordered by falling score and rising id, and the answer is its
  first \<open>limit\<close> elements together with its length.\<close>

theorem rangComics_best_first:
  assumes "length (filter (comic_matches toks) cs) < 4294967296"
  shows "\<exists>r. mset r = mset (filter (comic_matches toks) cs) \<and>
    sorted (map (\<lambda>c. Rank (scoreComic c toks) (ID c)) r) \<and>
    rangComics cs toks limit = (take (unat limit) r, uint32 (int (length r))) \<and>
    uint (snd (rangComics cs toks limit)) = int (length r)"
proof (intro exI conjI)
  note small = rangComics_small [OF assms, of limit]
  show "mset (ranking toks cs) = mset (filter (comic_matches toks) cs)" by (rule ranking_mset)
  show "sorted (map (\<lambda>c. Rank (scoreComic c toks) (ID c)) (ranking toks cs))" by (rule ranking_sorted)
  show "rangComics cs toks limit = (take (unat limit) (ranking toks cs), uint32 (int (length (ranking toks cs))))"
    using small(1) by (simp add: prod_eq_iff) (simp add: rangComics_eq Let_def)
  show "uint (snd (rangComics cs toks limit)) = int (length (ranking toks cs))"
    using small(2) by (simp add: length_ranking)
qed

definition demo_comics :: "Comics list" where
  "demo_comics =
     [\<lparr>ID = 3, URL = ''u3'', Title = [], Alt = [''cat''], Words = []\<rparr>,
      \<lparr>ID = 2, URL = ''u2'', Title = [''cat''], Alt = [], Words = [''dog'']\<rparr>,
      \<lparr>ID = 1, URL = ''u1'', Title = [''fish''], Alt = [''bird''], Words = [''owl'']\<rparr>]"

lemma rangComics_best_first_witness:
  "length (filter (comic_matches [''cat'']) demo_comics) = 2 \<and>
   (\<exists>r. mset r = mset (filter (comic_matches [''cat'']) demo_comics) \<and>
      rangComics demo_comics [''cat''] 1 = (take 1 r, 2))"
proof -
  have n: "length (filter (comic_matches [''cat'']) demo_comics) = 2"
    by (simp add: demo_comics_def comic_matches_def comic_tokens_def)
  then have "length (filter (comic_matches [''cat'']) demo_comics) < 4294967296" by simp
  then obtain r where r: "mset r = mset (filter (comic_matches [''cat'']) demo_comics)"
    "rangComics demo_comics [''cat''] 1 = (take (unat (1 :: u32)) r, uint32 (int (length r)))"
    using rangComics_best_first by blast
  moreover have "length r = 2" using n r(1) by (metis size_mset)
  ultimately show ?thesis using n by (auto simp: uint32_def)
qed

text \<open>The order does not depend on how \<open>sort.Slice\<close> sorts: for comics with distinct ids, every
  permutation of the scored list in which no element is less than its predecessor is the list the
  model sorts to.\<close>

theorem rangComics_any_sort:
  assumes "distinct (map ID cs)" and "mset ys = mset (scored_list toks cs)" and "slice_sorted scored_less ys"
  shows "ys = sort_Slice scored_less (scored_list toks cs)"
  using assms inj_rank_scored_list [OF assms(1)] by (intro rank.sort_unique) auto

lemma rangComics_any_sort_witness:
  "sort_Slice scored_less (scored_list [''cat''] demo_comics) =
     rev (scored_list [''cat''] demo_comics)"
proof -
  let ?ys = "rev (scored_list [''cat''] demo_comics)"
  have "slice_sorted scored_less ?ys" by code_simp
  moreover have "distinct (map ID demo_comics)" by (simp add: demo_comics_def)
  ultimately show ?thesis
    using rangComics_any_sort [of demo_comics ?ys "[''cat'']"] by simp
qed

text \<open>A comic that covers more tokens of the query ranks higher, whatever the fields the
  tokens are in, as long as the other covers at most twelve (the tokens of a query are distinct,
  as the words service returns them).\<close>

lemma coverage_dominates:
  assumes "distinct toks" and "card (covered_tokens c toks) < card (covered_tokens d toks)"
    and "card (covered_tokens c toks) \<le> 12"
  shows "scoreComic c toks < scoreComic d toks"
  using score_bounds [OF assms(1), of c] score_bounds [OF assms(1), of d] assms(2,3) by linarith

definition letters :: "string list" where
  "letters = [''a'', ''b'', ''c'', ''d'', ''e'', ''f'', ''g'', ''h'', ''i'', ''j'', ''k'', ''l'', ''m'', ''n'']"

text \<open>Above twelve the weights win over the coverage: of these two comics the first covers 13
  of the 14 tokens and the second all of them, and the first scores higher.\<close>

lemma coverage_not_dominant:
  "let c = \<lparr>ID = 1, URL = [], Title = take 13 letters, Alt = take 13 letters, Words = take 13 letters\<rparr>;
       d = \<lparr>ID = 2, URL = [], Title = [], Alt = [], Words = letters\<rparr>
   in distinct letters \<and> card (covered_tokens c letters) = 13 \<and> card (covered_tokens d letters) = 14 \<and>
      scoreComic c letters = 1417 \<and> scoreComic d letters = 1414 \<and>
      fst (rangComics [d, c] letters 1) = [c]"
proof -
  let ?c = "\<lparr>ID = 1, URL = [], Title = take 13 letters, Alt = take 13 letters, Words = take 13 letters\<rparr>"
  let ?d = "\<lparr>ID = 2, URL = [], Title = [], Alt = [], Words = letters\<rparr>"
  have l: "distinct letters" "[] \<notin> set letters" by (simp_all add: letters_def)
  have card: "card (covered_tokens x letters) = length ws"
    if "set (comic_tokens x) = set ws" "distinct ws" "set ws \<subseteq> set letters" for x ws
  proof -
    have "covered_tokens x letters = set ws" using that l(2) by (auto simp: covered_tokens_def)
    then show ?thesis using that(2) by (simp add: distinct_card)
  qed
  have "card (covered_tokens ?c letters) = length (take 13 letters)"
    using l(1) by (intro card) (auto simp: comic_tokens_def dest: in_set_takeD)
  moreover have "card (covered_tokens ?d letters) = length letters"
    using l(1) by (intro card) (auto simp: comic_tokens_def)
  moreover have "scoreComic ?c letters = 1417" "scoreComic ?d letters = 1414"
    "fst (rangComics [?d, ?c] letters 1) = [?c]" by code_simp+
  ultimately show ?thesis using l(1) by (simp add: letters_def)
qed

text \<open>C36: A comic that covers more tokens of the query ranks higher, whatever the fields the tokens are in, as
  long as the other covers at most twelve; and twelve is the exact bound: there are a query of 14 tokens and
  two comics that cover 13 and all of them, where the first scores higher and is shown first.\<close>

theorem coverage_up_to_twelve:
  "(\<forall>toks c d. distinct toks \<and> card (covered_tokens c toks) < card (covered_tokens d toks) \<and>
      card (covered_tokens c toks) \<le> 12 \<longrightarrow> scoreComic c toks < scoreComic d toks) \<and>
   (\<exists>toks c d. distinct toks \<and> card (covered_tokens c toks) = 13 \<and> card (covered_tokens d toks) = 14 \<and>
      scoreComic d toks < scoreComic c toks \<and> fst (rangComics [d, c] toks 1) = [c])"
proof
  show "\<exists>toks c d. distinct toks \<and> card (covered_tokens c toks) = 13 \<and> card (covered_tokens d toks) = 14 \<and>
      scoreComic d toks < scoreComic c toks \<and> fst (rangComics [d, c] toks 1) = [c]"
    using coverage_not_dominant unfolding Let_def
    by (intro exI [of _ letters] exI [of _ "\<lparr>ID = 1, URL = [], Title = take 13 letters, Alt = take 13 letters, Words = take 13 letters\<rparr>"]
        exI [of _ "\<lparr>ID = 2, URL = [], Title = [], Alt = [], Words = letters\<rparr>"]) (elim conjE, intro conjI, assumption+, simp, assumption)
qed (use coverage_dominates in blast)

lemma coverage_up_to_twelve_witness:
  "scoreComic \<lparr>ID = 1, URL = [], Title = [''a''], Alt = [''a''], Words = [''a'']\<rparr> [''a'', ''b''] <
   scoreComic \<lparr>ID = 2, URL = [], Title = [], Alt = [], Words = [''a'', ''b'']\<rparr> [''a'', ''b'']"
proof (rule coverage_up_to_twelve [THEN conjunct1, rule_format], intro conjI)
  let ?c = "\<lparr>ID = 1, URL = [], Title = [''a''], Alt = [''a''], Words = [''a'']\<rparr>"
  let ?d = "\<lparr>ID = 2, URL = [], Title = [], Alt = [], Words = [''a'', ''b'']\<rparr>"
  have c: "covered_tokens ?c [''a'', ''b''] = {''a''}" and d: "covered_tokens ?d [''a'', ''b''] = {''a'', ''b''}"
    by (auto simp: covered_tokens_def comic_tokens_def)
  show "card (covered_tokens ?c [''a'', ''b'']) < card (covered_tokens ?d [''a'', ''b''])"
    and "card (covered_tokens ?c [''a'', ''b'']) \<le> 12" by (simp_all add: c d)
qed simp

end
