(* ===== verification/GoStrings.thy ===== *)
theory GoStrings
  imports Prelude
begin

text \<open>
  The parts of Go's \<open>strings\<close>, \<open>strconv\<close> and \<open>regexp\<close> packages that the services use, on
  strings as byte lists (\<open>char\<close> is a byte, as in Go). White space is Unicode's: a space is
  recognised by its UTF-8 encoding at the front of the string, which is exact because no
  encoding of a space is a proper part of another rune's encoding.
\<close>

section \<open>White space\<close>

text \<open>The UTF-8 encodings of the code points \<open>unicode.IsSpace\<close> accepts.\<close>

definition space_encodings :: "char list list" where
  "space_encodings =
     [[CHR 0x09], [CHR 0x0A], [CHR 0x0B], [CHR 0x0C], [CHR 0x0D], [CHR 0x20],
      [CHR 0xC2, CHR 0x85], [CHR 0xC2, CHR 0xA0], [CHR 0xE1, CHR 0x9A, CHR 0x80]]
     @ map (\<lambda>b. [CHR 0xE2, CHR 0x80, b])
         [CHR 0x80, CHR 0x81, CHR 0x82, CHR 0x83, CHR 0x84, CHR 0x85, CHR 0x86, CHR 0x87,
          CHR 0x88, CHR 0x89, CHR 0x8A, CHR 0xA8, CHR 0xA9, CHR 0xAF]
     @ [[CHR 0xE2, CHR 0x81, CHR 0x9F], [CHR 0xE3, CHR 0x80, CHR 0x80]]"

fun strip_prefix :: "'a list \<Rightarrow> 'a list \<Rightarrow> 'a list option" where
  "strip_prefix [] s = Some s"
| "strip_prefix (p # ps) [] = None"
| "strip_prefix (p # ps) (c # s) = (if p = c then strip_prefix ps s else None)"

fun strip_any :: "'a list list \<Rightarrow> 'a list \<Rightarrow> 'a list option" where
  "strip_any [] s = None"
| "strip_any (e # es) s = (case strip_prefix e s of Some r \<Rightarrow> Some r | None \<Rightarrow> strip_any es s)"

lemma strip_prefix_Some: "strip_prefix p s = Some r \<longleftrightarrow> s = p @ r"
  by (induction p s rule: strip_prefix.induct) auto

lemma strip_any_Some: "strip_any es s = Some r \<Longrightarrow> \<exists>e \<in> set es. s = e @ r"
  by (induction es) (auto split: option.splits simp: strip_prefix_Some)

lemma strip_any_None: "strip_any es s = None \<longleftrightarrow> (\<forall>e \<in> set es. \<forall>r. s \<noteq> e @ r)"
proof (induction es)
  case (Cons e es)
  have "strip_prefix e s = None \<longleftrightarrow> (\<forall>r. s \<noteq> e @ r)"
    using strip_prefix_Some [of e s] by (cases "strip_prefix e s") auto
  with Cons.IH show ?case by (auto split: option.splits)
qed simp

lemma strip_any_shorter:
  "[] \<notin> set es \<Longrightarrow> strip_any es s = Some r \<Longrightarrow> length r < length s"
  by (auto dest!: strip_any_Some)

lemma spaces_nonempty [simp]: "[] \<notin> set space_encodings"
  by (simp add: space_encodings_def)

text \<open>Trimming one end with a given set of encodings (for the right end: all reversed).\<close>

function trim_with :: "'a list list \<Rightarrow> 'a list \<Rightarrow> 'a list" where
  "trim_with es s =
     (if [] \<in> set es then s
      else case strip_any es s of Some r \<Rightarrow> trim_with es r | None \<Rightarrow> s)"
  by pat_completeness auto
termination
  by (relation "measure (\<lambda>(es, s). length s)") (auto dest: strip_any_shorter)

declare trim_with.simps [simp del]

lemma trim_with_None: "strip_any es s = None \<Longrightarrow> trim_with es s = s"
  by (simp add: trim_with.simps)

lemma strip_any_trim_with: "[] \<notin> set es \<Longrightarrow> strip_any es (trim_with es s) = None"
proof (induction es s rule: trim_with.induct)
  case (1 es s)
  then show ?case
    by (cases "strip_any es s") (simp_all add: trim_with.simps [of es s])
qed

lemma trim_with_suffix: "\<exists>p. s = p @ trim_with es s"
proof (induction es s rule: trim_with.induct)
  case (1 es s)
  show ?case
  proof (cases "[] \<in> set es \<or> strip_any es s = None")
    case True
    then show ?thesis by (auto simp: trim_with.simps [of es s])
  next
    case False
    then obtain r where r: "strip_any es s = Some r" by auto
    with False "1.IH" obtain p where "r = p @ trim_with es r" by auto
    moreover obtain e where "s = e @ r" using r by (auto dest: strip_any_Some)
    ultimately have "s = (e @ p) @ trim_with es r" by simp
    moreover have "trim_with es s = trim_with es r"
      using False r by (simp add: trim_with.simps [of es s])
    ultimately show ?thesis by metis
  qed
qed

definition TrimLeftSpace :: "string \<Rightarrow> string" where
  "TrimLeftSpace s = trim_with space_encodings s"

definition TrimRightSpace :: "string \<Rightarrow> string" where
  "TrimRightSpace s = rev (trim_with (map rev space_encodings) (rev s))"

definition TrimSpace :: "string \<Rightarrow> string" where
  "TrimSpace s = TrimRightSpace (TrimLeftSpace s)"

text \<open>A string that starts, respectively ends, with a white-space rune.\<close>

definition starts_with_space :: "string \<Rightarrow> bool" where
  "starts_with_space s = (strip_any space_encodings s \<noteq> None)"

definition ends_with_space :: "string \<Rightarrow> bool" where
  "ends_with_space s = (strip_any (map rev space_encodings) (rev s) \<noteq> None)"

lemma rev_spaces_nonempty [simp]: "[] \<notin> set (map rev space_encodings)"
  by (auto simp: space_encodings_def)

lemma TrimSpace_no_trailing: "\<not> ends_with_space (TrimSpace s)"
  unfolding ends_with_space_def TrimSpace_def TrimRightSpace_def rev_rev_ident
  by (subst strip_any_trim_with) auto

lemma TrimRightSpace_prefix: "\<exists>q. s = TrimRightSpace s @ q"
proof -
  obtain p where "rev s = p @ trim_with (map rev space_encodings) (rev s)"
    using trim_with_suffix by blast
  then have "s = rev (trim_with (map rev space_encodings) (rev s)) @ rev p"
    by (metis rev_append rev_rev_ident)
  then show ?thesis unfolding TrimRightSpace_def by blast
qed

lemma starts_with_space_append: "starts_with_space s \<Longrightarrow> starts_with_space (s @ q)"
  unfolding starts_with_space_def by (auto simp: strip_any_None) (metis append_assoc)

lemma TrimSpace_no_leading: "\<not> starts_with_space (TrimSpace s)"
proof
  assume "starts_with_space (TrimSpace s)"
  moreover obtain q where "TrimLeftSpace s = TrimSpace s @ q"
    unfolding TrimSpace_def using TrimRightSpace_prefix by blast
  ultimately have "starts_with_space (TrimLeftSpace s)"
    using starts_with_space_append by metis
  then show False
    unfolding starts_with_space_def TrimLeftSpace_def by (simp add: strip_any_trim_with)
qed

lemma TrimSpace_id:
  "\<not> starts_with_space s \<Longrightarrow> \<not> ends_with_space s \<Longrightarrow> TrimSpace s = s"
  unfolding starts_with_space_def ends_with_space_def TrimSpace_def TrimLeftSpace_def
    TrimRightSpace_def
  by (simp add: trim_with_None)

lemma TrimSpace_idem [simp]: "TrimSpace (TrimSpace s) = TrimSpace s"
  by (rule TrimSpace_id [OF TrimSpace_no_leading TrimSpace_no_trailing])

lemma TrimSpace_Nil [simp]: "TrimSpace [] = []"
  by code_simp

section \<open>Prefixes and suffixes\<close>

definition HasPrefix :: "string \<Rightarrow> string \<Rightarrow> bool" where
  "HasPrefix s p = (strip_prefix p s \<noteq> None)"

definition TrimPrefix :: "string \<Rightarrow> string \<Rightarrow> string" where
  "TrimPrefix s p = (case strip_prefix p s of Some r \<Rightarrow> r | None \<Rightarrow> s)"

lemma HasPrefix_iff: "HasPrefix s p \<longleftrightarrow> (\<exists>r. s = p @ r)"
  by (auto simp: HasPrefix_def strip_prefix_Some)

lemma strip_prefix_append [simp]: "strip_prefix p (p @ r) = Some r"
  by (simp add: strip_prefix_Some)

lemma HasPrefix_append [simp]: "HasPrefix (p @ r) p"
  by (simp add: HasPrefix_def)

lemma TrimPrefix_append [simp]: "TrimPrefix (p @ r) p = r"
  by (simp add: TrimPrefix_def)

text \<open>\<open>strings.TrimRight(s, "c")\<close> for a single ASCII character.\<close>

definition TrimRightChar :: "string \<Rightarrow> char \<Rightarrow> string" where
  "TrimRightChar s c = rev (dropWhile (\<lambda>x. x = c) (rev s))"

section \<open>Decimal numbers\<close>

definition is_digit :: "char \<Rightarrow> bool" where
  "is_digit c = (48 \<le> (of_char c :: nat) \<and> (of_char c :: nat) \<le> 57)"

definition digit_val :: "char \<Rightarrow> nat" where
  "digit_val c = of_char c - 48"

definition digit_char :: "nat \<Rightarrow> char" where
  "digit_char d = char_of (48 + d)"

lemma is_digit_digit_char [simp]: "d < 10 \<Longrightarrow> is_digit (digit_char d)"
  by (simp add: is_digit_def digit_char_def)

lemma digit_val_digit_char [simp]: "d < 10 \<Longrightarrow> digit_val (digit_char d) = d"
  by (simp add: digit_val_def digit_char_def)

text \<open>\<open>strconv.FormatUint(n, 10)\<close>.\<close>

fun FormatUint :: "nat \<Rightarrow> string" where
  "FormatUint n =
     (if n < 10 then [digit_char n] else FormatUint (n div 10) @ [digit_char (n mod 10)])"

declare FormatUint.simps [simp del]

definition decimal_value :: "string \<Rightarrow> nat" where
  "decimal_value s = foldl (\<lambda>n c. n * 10 + digit_val c) 0 s"

text \<open>
  \<open>strconv.ParseUint(s, 10, bits)\<close>: no sign, no underscore, at least one digit, and a value below
  \<open>2 ^ bits\<close>; \<open>None\<close> is a syntax or range error.
\<close>

definition ParseUint :: "nat \<Rightarrow> string \<Rightarrow> nat option" where
  "ParseUint bits s =
     (if s = [] \<or> \<not> list_all is_digit s then None
      else if decimal_value s < 2 ^ bits then Some (decimal_value s) else None)"

text \<open>\<open>strconv.Atoi(s)\<close> on a 64-bit platform: an optional sign, then digits, within \<open>int64\<close>.\<close>

definition Atoi :: "string \<Rightarrow> int option" where
  "Atoi s =
     (case s of
        [] \<Rightarrow> None
      | c # ds \<Rightarrow>
          let neg = (c = CHR ''-''); body = (if c = CHR ''-'' \<or> c = CHR ''+'' then ds else s) in
          if body = [] \<or> \<not> list_all is_digit body then None
          else let n = int (decimal_value body) in
               if neg then (if n \<le> 2 ^ 63 then Some (- n) else None)
               else (if n < 2 ^ 63 then Some n else None))"

lemma FormatUint_nonempty [simp]: "FormatUint n \<noteq> []"
  by (subst FormatUint.simps) simp

lemma FormatUint_digits: "list_all is_digit (FormatUint n)"
proof (induction n rule: FormatUint.induct)
  case (1 n)
  then show ?case by (cases "n < 10") (simp_all add: FormatUint.simps [of n])
qed

lemma decimal_value_snoc: "decimal_value (s @ [c]) = decimal_value s * 10 + digit_val c"
  by (simp add: decimal_value_def)

lemma decimal_value_FormatUint [simp]: "decimal_value (FormatUint n) = n"
proof (induction n rule: FormatUint.induct)
  case (1 n)
  show ?case
  proof (cases "n < 10")
    case True
    then show ?thesis by (simp add: FormatUint.simps [of n] decimal_value_def)
  next
    case False
    with "1.IH" show ?thesis
      by (simp add: FormatUint.simps [of n] decimal_value_snoc)
  qed
qed

lemma ParseUint_FormatUint: "ParseUint b (FormatUint n) = (if n < 2 ^ b then Some n else None)"
  by (simp add: ParseUint_def FormatUint_digits)

lemma ParseUint_bound: "ParseUint b s = Some n \<Longrightarrow> n < 2 ^ b"
  by (auto simp: ParseUint_def split: if_splits)

lemma FormatUint_inj: "FormatUint m = FormatUint n \<Longrightarrow> m = n"
  by (metis decimal_value_FormatUint)

lemma is_digit_not_sign [simp]: "is_digit c \<Longrightarrow> c \<noteq> CHR ''-'' \<and> c \<noteq> CHR ''+''"
  by (auto simp: is_digit_def)

lemma Atoi_digits:
  assumes "s \<noteq> []" and "list_all is_digit s"
  shows "Atoi s = (if decimal_value s < 2 ^ 63 then Some (int (decimal_value s)) else None)"
proof -
  obtain c cs where s: "s = c # cs" using assms(1) by (cases s) auto
  with assms(2) have c: "c \<noteq> CHR ''-''" "c \<noteq> CHR ''+''" using is_digit_not_sign [of c] by auto
  have le: "int n < 2 ^ 63 \<longleftrightarrow> n < 2 ^ 63" for n by simp
  show ?thesis using assms(2) c le [of "decimal_value s"] unfolding s
    by (simp add: Atoi_def Let_def)
qed

lemma Atoi_FormatUint: "Atoi (FormatUint n) = (if n < 2 ^ 63 then Some (int n) else None)"
  by (simp add: Atoi_digits FormatUint_digits)

lemma Atoi_bounds: "Atoi s = Some i \<Longrightarrow> - (2 ^ 63) \<le> i \<and> i < 2 ^ 63"
  by (auto simp: Atoi_def Let_def split: list.splits if_splits)

text \<open>\<open>fmt\<close>'s \<open>%d\<close> of an \<open>int\<close>.\<close>

definition fmt_d :: "int \<Rightarrow> string" where
  "fmt_d i = (if i < 0 then CHR ''-'' # FormatUint (nat (- i)) else FormatUint (nat i))"

lemma hd_FormatUint: "hd (FormatUint n) \<noteq> CHR ''-''"
  using FormatUint_digits [of n] by (cases "FormatUint n") auto

lemma fmt_d_negative: "hd (fmt_d i) = CHR ''-'' \<longleftrightarrow> i < 0"
  by (simp add: fmt_d_def hd_FormatUint)

lemma fmt_d_inj:
  assumes "fmt_d i = fmt_d j"
  shows "i = j"
proof -
  have "i < 0 \<longleftrightarrow> j < 0" using assms fmt_d_negative by metis
  with assms show ?thesis by (auto simp: fmt_d_def split: if_splits dest!: FormatUint_inj)
qed

section \<open>Splitting and cleaning\<close>

text \<open>\<open>strings.Fields\<close>: the maximal runs without white space.\<close>

function fields_from :: "string \<Rightarrow> string \<Rightarrow> string list" where
  "fields_from cur s =
     (case s of
        [] \<Rightarrow> (if cur = [] then [] else [cur])
      | c # cs \<Rightarrow>
          (case strip_any space_encodings s of
             Some r \<Rightarrow> (if cur = [] then [] else [cur]) @ fields_from [] r
           | None \<Rightarrow> fields_from (cur @ [c]) cs))"
  by pat_completeness auto
termination
  by (relation "measure (\<lambda>(cur, s). length s)") (auto dest: strip_any_shorter [OF spaces_nonempty])

declare fields_from.simps [simp del]

definition Fields :: "string \<Rightarrow> string list" where
  "Fields s = fields_from [] s"

lemma fields_from_nonempty: "[] \<notin> set (fields_from cur s)"
proof (induction cur s rule: fields_from.induct)
  case (1 cur s)
  then show ?case
    by (auto simp: fields_from.simps [of cur s] Let_def split: list.splits option.splits)
qed

lemma Fields_nonempty: "[] \<notin> set (Fields s)"
  by (simp add: Fields_def fields_from_nonempty)

lemma fields_from_chars:
  "w \<in> set (fields_from cur s) \<Longrightarrow> set w \<subseteq> set cur \<union> set s"
proof (induction cur s rule: fields_from.induct)
  case (1 cur s)
  show ?case
  proof (cases s)
    case Nil
    then show ?thesis using 1 by (auto simp: fields_from.simps [of cur "[]"] split: if_splits)
  next
    case (Cons c cs)
    show ?thesis
    proof (cases "strip_any space_encodings s")
      case None
      then show ?thesis
        using 1 Cons by (auto simp: fields_from.simps [of cur "c # cs"] Let_def)
    next
      case (Some r)
      then have r: "set r \<subseteq> set s" by (auto dest: strip_any_Some)
      have "w \<in> set (fields_from [] r) \<Longrightarrow> set w \<subseteq> set r"
        using "1.IH"(2) [OF Cons Some] by simp
      with Some r show ?thesis
        using "1.prems" unfolding Cons
        by (auto simp: fields_from.simps [of cur "c # cs"] split: if_splits)
    qed
  qed
qed

lemma Fields_chars: "w \<in> set (Fields s) \<Longrightarrow> set w \<subseteq> set s"
  unfolding Fields_def using fields_from_chars by fastforce

text \<open>
  \<open>strings.ToLower\<close>, as far as it can be seen through \<open>[a-z0-9]\<close>: ASCII letters, and the two
  other code points whose lower case is an ASCII letter, U+0130 (\<open>C4 B0\<close>, to \<open>i\<close>) and the
  Kelvin sign U+212A (\<open>E2 84 AA\<close>, to \<open>k\<close>). Every other non-ASCII rune has a non-ASCII lower
  case; its bytes are kept here, and are no ASCII letter or digit either way.
\<close>

definition lower_byte :: "char \<Rightarrow> char" where
  "lower_byte c =
     (let n = (of_char c :: nat) in if 65 \<le> n \<and> n \<le> 90 then char_of (n + 32) else c)"

fun ToLower :: "string \<Rightarrow> string" where
  "ToLower [] = []"
| "ToLower (c # cs) =
     (if c = CHR 0xC4 \<and> cs \<noteq> [] \<and> hd cs = CHR 0xB0 then CHR ''i'' # ToLower (drop 1 cs)
      else if c = CHR 0xE2 \<and> length cs \<ge> 2 \<and> cs ! 0 = CHR 0x84 \<and> cs ! 1 = CHR 0xAA
      then CHR ''k'' # ToLower (drop 2 cs)
      else lower_byte c # ToLower cs)"

text \<open>
  \<open>utf8.ValidString\<close>: one to four bytes per rune, in the shortest form, no surrogates and nothing above
  U+10FFFF.
\<close>

definition in_bytes :: "nat \<Rightarrow> nat \<Rightarrow> char \<Rightarrow> bool" where
  "in_bytes lo hi c = (lo \<le> (of_char c :: nat) \<and> (of_char c :: nat) \<le> hi)"

definition rune_tail :: "char \<Rightarrow> (char \<Rightarrow> bool) list option" where
  "rune_tail c =
     (let b = (of_char c :: nat); cont = in_bytes 128 191 in
      if b < 128 then Some []
      else if 194 \<le> b \<and> b \<le> 223 then Some [cont]
      else if b = 224 then Some [in_bytes 160 191, cont]
      else if b = 237 then Some [in_bytes 128 159, cont]
      else if 225 \<le> b \<and> b \<le> 239 then Some [cont, cont]
      else if b = 240 then Some [in_bytes 144 191, cont, cont]
      else if 241 \<le> b \<and> b \<le> 243 then Some [cont, cont, cont]
      else if b = 244 then Some [in_bytes 128 143, cont, cont]
      else None)"

fun utf8_from :: "(char \<Rightarrow> bool) list \<Rightarrow> string \<Rightarrow> bool" where
  "utf8_from [] [] = True"
| "utf8_from (t # ts) [] = False"
| "utf8_from [] (c # cs) = (case rune_tail c of None \<Rightarrow> False | Some ts \<Rightarrow> utf8_from ts cs)"
| "utf8_from (t # ts) (c # cs) = (t c \<and> utf8_from ts cs)"

definition ValidString :: "string \<Rightarrow> bool" where
  "ValidString s = utf8_from [] s"

lemma ValidString_ascii: "list_all (\<lambda>c. (of_char c :: nat) < 128) s \<Longrightarrow> ValidString s"
  unfolding ValidString_def by (induction s) (simp_all add: rune_tail_def)

definition is_lower_alnum :: "char \<Rightarrow> bool" where
  "is_lower_alnum c = (is_digit c \<or> 97 \<le> (of_char c :: nat) \<and> (of_char c :: nat) \<le> 122)"

text \<open>\<open>regexp.MustCompile("[^a-z0-9]+").ReplaceAllString(s, " ")\<close>.\<close>

fun replace_runs :: "bool \<Rightarrow> string \<Rightarrow> string" where
  "replace_runs in_run [] = []"
| "replace_runs in_run (c # cs) =
     (if is_lower_alnum c then c # replace_runs False cs
      else if in_run then replace_runs True cs
      else CHR '' '' # replace_runs True cs)"

definition ReplaceNonAlnum :: "string \<Rightarrow> string" where
  "ReplaceNonAlnum s = replace_runs False s"

lemma replace_runs_chars: "c \<in> set (replace_runs b s) \<Longrightarrow> is_lower_alnum c \<or> c = CHR '' ''"
  by (induction b s rule: replace_runs.induct) (auto split: if_splits)

end
