(* ===== verification/SearchService.thy ===== *)
theory SearchService
  imports SearchRank GoStrings
begin

text \<open>
  The core of the search service: \<open>errors.go\<close>, \<open>ports.go\<close> and \<open>service.go\<close> of
  \<open>search-services/search/core\<close>. The ports \<open>DB\<close> and \<open>Words\<close> are values of the model, as in the
  code: a record of functions and a function. Contexts are not modelled; what a cancelled context
  does is an error the port returns.
\<close>

section \<open>Errors and ports\<close>

datatype search_sentinel =
  ErrEmptyPhrase | ErrToLargeLimit | ErrUnavailable | ErrBadArguments | ErrNonePhrase | ErrComicNotFound

fun search_text :: "search_sentinel \<Rightarrow> string" where
  "search_text ErrEmptyPhrase = ''empty phrase''"
| "search_text ErrToLargeLimit = ''too large limit''"
| "search_text ErrUnavailable = ''dependency unavailable''"
| "search_text ErrBadArguments = ''arguments are not acceptable''"
| "search_text ErrNonePhrase = ''this is too philosophical, try something less abstract))''"
| "search_text ErrComicNotFound = ''comic not found''"

type_synonym search_err = "search_sentinel go_error"

record search_db =
  db_Find :: "string list \<Rightarrow> search_err + Comics list"
  db_All :: "search_err + Comics list"
  db_Ping :: "search_err + unit"
  db_GetByID :: "int \<Rightarrow> search_err + Comics"
  db_GetAll :: "int \<Rightarrow> int \<Rightarrow> search_err + Comics list"
  db_Count :: "search_err + int"

type_synonym words_port = "string \<Rightarrow> search_err + string list"

record SearchService =
  svc_db :: search_db
  svc_words :: words_port
  svc_index :: InvertedIndex

definition NewSearchService :: "search_db \<Rightarrow> words_port \<Rightarrow> SearchService" where
  "NewSearchService db words = \<lparr>svc_db = db, svc_words = words, svc_index = NewInvertedIndex\<rparr>"

section \<open>Operations\<close>

definition RebuildIndex :: "SearchService \<Rightarrow> (search_err + unit) \<times> SearchService" where
  "RebuildIndex s =
     (case db_All (svc_db s) of
        Inl err \<Rightarrow> (Inl err, s)
      | Inr comics \<Rightarrow> (Inr (), s\<lparr>svc_index := Build comics (svc_index s)\<rparr>))"

definition Service_Ping :: "SearchService \<Rightarrow> search_err + unit" where
  "Service_Ping s = db_Ping (svc_db s)"

definition Find :: "SearchService \<Rightarrow> string \<Rightarrow> u32 \<Rightarrow> search_err + Comics list" where
  "Find s phrase limit =
     (let phrase = TrimSpace phrase in
      if phrase = [] then Inl (Sentinel ErrEmptyPhrase)
      else let limit = (if limit = 0 then defaultLimit else limit) in
      if limit > 100 then Inl (Sentinel ErrToLargeLimit)
      else case svc_words s phrase of
        Inl err \<Rightarrow> Inl err
      | Inr tokens \<Rightarrow>
          if tokens = [] then Inl (Sentinel ErrNonePhrase)
          else case db_Find (svc_db s) tokens of
            Inl err \<Rightarrow> Inl err
          | Inr comics \<Rightarrow> (case rangComics comics tokens limit of (result, _) \<Rightarrow> Inr result))"

text \<open>
  The two look-ups of \<open>IndexedSearch\<close> take the read lock separately, and the index may be rebuilt
  in between: \<open>idx2\<close> is the index the second one sees, \<open>svc_index s\<close> when nothing intervened.
\<close>

definition IndexedSearch ::
  "SearchService \<Rightarrow> InvertedIndex \<Rightarrow> string \<Rightarrow> u32 \<Rightarrow> search_err + Comics list \<times> u32" where
  "IndexedSearch s idx2 phrase limit =
     (let phrase = TrimSpace phrase in
      if phrase = [] then Inl (Sentinel ErrEmptyPhrase)
      else let limit = (if limit = 0 then defaultLimit else limit) in
      if limit > 100 then Inl (Sentinel ErrToLargeLimit)
      else case svc_words s phrase of
        Inl err \<Rightarrow> Inl err
      | Inr tokens \<Rightarrow>
          if tokens = [] then Inl (Sentinel ErrNonePhrase)
          else let ids = DocsForTokens (svc_index s) tokens in
               if ids = [] then Inr ([], 0)
               else let candidates = DocsByIDs idx2 ids in
                    Inr (rangComics candidates tokens limit))"

definition GetComicByID :: "SearchService \<Rightarrow> int \<Rightarrow> search_err + Comics" where
  "GetComicByID s cid =
     (if cid \<le> 0 then Inl (Sentinel ErrBadArguments) else db_GetByID (svc_db s) cid)"

definition GetAllComics :: "SearchService \<Rightarrow> u32 \<Rightarrow> u32 \<Rightarrow> search_err + Comics list \<times> u32" where
  "GetAllComics s page limit =
     (let page = (if page = 0 then 1 else page);
          limit = (if limit = 0 then defaultLimit else limit) in
      if limit > 100 then Inl (Sentinel ErrToLargeLimit)
      else case db_Count (svc_db s) of
        Inl err \<Rightarrow> Inl err
      | Inr tot \<Rightarrow>
          let offset = uint ((page - 1) * limit) in
          if offset \<ge> tot then Inr ([], uint32 tot)
          else case db_GetAll (svc_db s) offset (uint limit) of
            Inl err \<Rightarrow> Inl err
          | Inr comics \<Rightarrow> Inr (comics, uint32 tot))"

text \<open>\<open>intn\<close> stands for \<open>rand.Intn\<close>, which the Go documentation bounds by its argument.\<close>

definition RandomComic :: "SearchService \<Rightarrow> (int \<Rightarrow> int) \<Rightarrow> search_err + Comics" where
  "RandomComic s intn =
     (case db_Count (svc_db s) of
        Inl err \<Rightarrow> Inl err
      | Inr tot \<Rightarrow>
          if tot = 0 then Inl (Sentinel ErrNonePhrase)
          else let n = intn tot in
            case db_GetAll (svc_db s) n 1 of
              Inl err \<Rightarrow> Inl err
            | Inr comics \<Rightarrow>
                (case comics of [] \<Rightarrow> Inl (Sentinel ErrNonePhrase) | c # _ \<Rightarrow> Inr c))"

section \<open>The DB port as an interface\<close>

text \<open>
  What the service relies on: \<open>db t\<close> is the port over a store \<open>t\<close> whose comics are \<open>rows t\<close>, in a
  store that satisfies \<open>inv\<close>. Selections without \<open>ORDER BY\<close> promise a multiset only.
\<close>

locale comics_store =
  fixes db :: "'t \<Rightarrow> search_db" and rows :: "'t \<Rightarrow> Comics list" and inv :: "'t \<Rightarrow> bool"
  assumes rows_distinct: "inv t \<Longrightarrow> distinct (map ID (rows t))"
    and db_Find: "inv t \<Longrightarrow> \<exists>cs. db_Find (db t) toks = Inr cs \<and>
          mset cs = mset (filter (\<lambda>c. \<exists>x \<in> set toks. x \<in> set (comic_tokens c)) (rows t))"
    and db_All: "inv t \<Longrightarrow> \<exists>cs. db_All (db t) = Inr cs \<and> mset cs = mset (rows t)"
    and db_GetByID: "inv t \<Longrightarrow> int4 i \<Longrightarrow> db_GetByID (db t) i =
          (case List.find (\<lambda>c. ID c = i) (rows t) of
             Some c \<Rightarrow> Inr c | None \<Rightarrow> Inl (Sentinel ErrComicNotFound))"
    and db_GetAll: "inv t \<Longrightarrow> 0 \<le> off \<Longrightarrow> 0 \<le> lim \<Longrightarrow>
          db_GetAll (db t) off lim = Inr (take (nat lim) (drop (nat off) (sort_key ID (rows t))))"
    and db_Count: "inv t \<Longrightarrow> db_Count (db t) = Inr (int (length (rows t)))"
begin

text \<open>A search answers with the ranking of the whole store, cut at the limit.\<close>

lemma find_ranking:
  assumes "inv t" and "db_Find (db t) toks = Inr cs"
  shows "ranking toks cs = ranking toks (rows t)"
    and "length (filter (comic_matches toks) cs) = length (filter (comic_matches toks) (rows t))"
proof -
  obtain cs' where cs': "db_Find (db t) toks = Inr cs'"
    "mset cs' = mset (filter (\<lambda>c. \<exists>x \<in> set toks. x \<in> set (comic_tokens c)) (rows t))"
    using db_Find [OF assms(1)] by blast
  then have "filter_mset (comic_matches toks) (mset cs) =
      filter_mset (comic_matches toks)
        (filter_mset (\<lambda>c. \<exists>x \<in> set toks. x \<in> set (comic_tokens c)) (mset (rows t)))"
    using assms(2) by simp
  also have "\<dots> = filter_mset (comic_matches toks) (mset (rows t))"
    by (auto simp: filter_filter_mset comic_matches_def intro!: filter_mset_cong)
  finally have m: "mset (filter (comic_matches toks) cs) = mset (filter (comic_matches toks) (rows t))"
    by simp
  show "ranking toks cs = ranking toks (rows t)"
    by (rule ranking_cong [OF m rows_distinct [OF assms(1)]])
  show "length (filter (comic_matches toks) cs) = length (filter (comic_matches toks) (rows t))"
    using m by (metis size_mset)
qed

lemma index_ranking:
  assumes "inv t" and "db_All (db t) = Inr cs"
  shows "ranking toks (DocsByIDs (Build cs idx) (DocsForTokens (Build cs idx) toks)) =
           ranking toks (rows t)"
proof -
  have cs: "mset cs = mset (rows t)" using db_All [OF assms(1)] assms(2) by auto
  have d: "distinct (map ID cs)"
    using rows_distinct [OF assms(1)] cs by (metis mset_eq_imp_distinct_iff mset_map)
  let ?cand = "DocsByIDs (Build cs idx) (DocsForTokens (Build cs idx) toks)"
  have "mset (filter (comic_matches toks) ?cand) =
      filter_mset (comic_matches toks) (filter_mset (comic_matches toks) (mset (rows t)))"
    by (simp add: index_candidates(1) [OF d] cs)
  then have "mset (filter (comic_matches toks) ?cand) = mset (filter (comic_matches toks) (rows t))"
    by (simp add: filter_filter_mset)
  then show ?thesis by (rule ranking_cong) (rule rows_distinct [OF assms(1)])
qed

lemma rang_find:
  assumes "inv t" and "db_Find (db t) toks = Inr cs"
  shows "rangComics cs toks limit = rangComics (rows t) toks limit"
  by (simp add: rangComics_eq find_ranking(1) [OF assms])

lemma Find_eq:
  assumes "inv t" and "svc_db s = db t"
  shows "Find s phrase limit =
     (if TrimSpace phrase = [] then Inl (Sentinel ErrEmptyPhrase)
      else if limit > 100 then Inl (Sentinel ErrToLargeLimit)
      else case svc_words s (TrimSpace phrase) of
        Inl err \<Rightarrow> Inl err
      | Inr tokens \<Rightarrow>
          if tokens = [] then Inl (Sentinel ErrNonePhrase)
          else Inr (fst (rangComics (rows t) tokens (if limit = 0 then 10 else limit))))"
proof -
  have "\<exists>cs. db_Find (svc_db s) toks = Inr cs \<and>
      (\<forall>lim. rangComics cs toks lim = rangComics (rows t) toks lim)" for toks
    using db_Find [OF assms(1)] rang_find [OF assms(1)] assms(2) by metis
  then show ?thesis
    by (auto simp: Find_def Let_def defaultLimit_def split: sum.splits prod.splits)
      (metis Inl_Inr_False Inr_inject fst_conv)+
qed

text \<open>After a rebuild the index answers as the database does, with the number of matches.\<close>

lemma IndexedSearch_eq_Find:
  assumes "inv t" and "svc_db s = db t" and "RebuildIndex s0 = (Inr (), s)" and "svc_db s0 = db t"
  shows "IndexedSearch s (svc_index s) phrase limit =
     (case Find s phrase limit of
        Inl err \<Rightarrow> Inl err
      | Inr cs \<Rightarrow> (case svc_words s (TrimSpace phrase) of Inl err \<Rightarrow> Inl err
                  | Inr tokens \<Rightarrow> Inr (cs, uint32 (int (length (filter (comic_matches tokens) (rows t)))))))"
proof -
  obtain cs where cs: "db_All (db t) = Inr cs" and idx: "svc_index s = Build cs (svc_index s0)"
    using assms(3,4) by (auto simp: RebuildIndex_def split: sum.splits)
  have rang: "rangComics (DocsByIDs (svc_index s) (DocsForTokens (svc_index s) toks)) toks lim =
      (fst (rangComics (rows t) toks lim),
       uint32 (int (length (filter (comic_matches toks) (rows t)))))" for toks lim
    using index_ranking [OF assms(1) cs]
    by (auto simp: rangComics_eq idx Let_def length_ranking)
  have none: "DocsForTokens (svc_index s) toks = [] \<Longrightarrow>
      fst (rangComics (rows t) toks lim) = [] \<and> filter (comic_matches toks) (rows t) = []"
    for toks lim
  proof -
    assume "DocsForTokens (svc_index s) toks = []"
    then have "filter (comic_matches toks) cs = []"
      by (metis DocsForTokens_Build idx image_is_empty set_empty)
    moreover have "mset cs = mset (rows t)" using db_All [OF assms(1)] cs by auto
    ultimately have f: "filter (comic_matches toks) (rows t) = []"
      by (metis mset_filter mset_zero_iff)
    then have "ranking toks (rows t) = []" by (metis length_0_conv length_ranking)
    with f show ?thesis by (simp add: rangComics_eq Let_def)
  qed
  show ?thesis
    unfolding Find_eq [OF assms(1,2)] IndexedSearch_def
    by (auto simp: Let_def defaultLimit_def rang none uint32_def split: sum.splits)
qed

text \<open>Pages of the listing: consecutive slices of the store in id order.\<close>

lemma GetAllComics_eq:
  assumes "inv t" and "svc_db s = db t"
  shows "GetAllComics s page limit =
     (let page = (if page = 0 then 1 else page); limit = (if limit = 0 then 10 else limit);
          n = length (rows t); off = uint ((page - 1) * limit) in
      if limit > 100 then Inl (Sentinel ErrToLargeLimit)
      else Inr (take (unat limit) (drop (nat off) (sort_key ID (rows t))), uint32 (int n)))"
proof -
  have slice: "(if int (length (rows t)) \<le> uint w then Inr ([], m)
      else case db_GetAll (svc_db s) (uint w) (uint l) of
             Inl err \<Rightarrow> Inl err | Inr comics \<Rightarrow> Inr (comics, m)) =
      Inr (take (unat l) (drop (nat (uint w)) (sort_key ID (rows t))), m)"
    for w l :: u32 and m :: u32
  proof -
    have "int (length (rows t)) \<le> uint w \<longleftrightarrow> length (rows t) \<le> unat w"
      by (metis of_nat_le_iff uint_nat)
    then show ?thesis
      using db_GetAll [OF assms(1), of "uint w" "uint l"] assms(2) by simp
  qed
  have cnt: "db_Count (svc_db s) = Inr (int (length (rows t)))"
    using db_Count [OF assms(1)] assms(2) by simp
  show ?thesis
    unfolding GetAllComics_def Let_def defaultLimit_def cnt sum.case slice ..
qed

lemma RandomComic_in_store:
  assumes "inv t" and "svc_db s = db t" and "0 \<le> intn (int (length (rows t)))"
    and "intn (int (length (rows t))) < int (length (rows t))"
  shows "RandomComic s intn = Inr (sort_key ID (rows t) ! nat (intn (int (length (rows t)))))"
proof -
  let ?n = "nat (intn (int (length (rows t))))"
  have "?n < length (sort_key ID (rows t))" using assms(3,4) by simp
  then have "take 1 (drop ?n (sort_key ID (rows t))) = [sort_key ID (rows t) ! ?n]"
    by (metis Cons_nth_drop_Suc One_nat_def take0 take_Suc_Cons)
  then show ?thesis
    using db_Count [OF assms(1)] db_GetAll [OF assms(1)] assms(2,3,4)
    by (auto simp: RandomComic_def Let_def)
qed

end

end
