(* ===== verification/ComicsTable.thy ===== *)
theory ComicsTable
  imports Prelude
begin

text \<open>
  The Postgres table \<open>comics\<close> that the update service writes and the search service reads
  (\<open>update/adapters/db/migrations/000001_create_comics.up.sql\<close>). A table is the list of its
  rows in storage order; the statements of the two storage adapters are read as the functions
  their SQL text denotes. A failing statement is the environment's: every operation of an adapter
  takes the driver's error, if there is one, as an argument.
\<close>

record comics_row =
  c_id :: int
  c_img_url :: string
  c_title :: "string list"
  c_alt :: "string list"
  c_words :: "string list"
  c_fetched_at :: int

type_synonym comics_table = "comics_row list"

text \<open>
  What the schema enforces: the primary key, and the 32-bit range of the column \<open>id\<close>
  (\<open>INT\<close>). \<open>NOT NULL\<close> is in the types of the columns.
\<close>

definition table_inv :: "comics_table \<Rightarrow> bool" where
  "table_inv t = (distinct (map c_id t) \<and> list_all (\<lambda>r. int4 (c_id r)) t)"

definition row_of :: "comics_table \<Rightarrow> int \<Rightarrow> comics_row option" where
  "row_of t i = List.find (\<lambda>r. c_id r = i) t"

lemma row_of_Some:
  assumes "distinct (map c_id t)"
  shows "row_of t i = Some r \<longleftrightarrow> r \<in> set t \<and> c_id r = i"
proof
  assume "row_of t i = Some r"
  then show "r \<in> set t \<and> c_id r = i"
    by (auto simp: row_of_def find_Some_iff)
next
  assume r: "r \<in> set t \<and> c_id r = i"
  then have "\<exists>r'. row_of t i = Some r'"
    by (cases "row_of t i") (auto simp: row_of_def find_None_iff)
  then obtain r' where r': "row_of t i = Some r'" by blast
  then have "r' \<in> set t" "c_id r' = i" by (auto simp: row_of_def find_Some_iff)
  with r assms have "r' = r" by (auto simp: distinct_map dest: inj_onD)
  with r' show "row_of t i = Some r" by simp
qed

lemma row_of_None: "row_of t i = None \<longleftrightarrow> i \<notin> c_id ` set t"
  by (auto simp: row_of_def find_None_iff)

lemma row_of_Cons: "row_of (r # t) i = (if c_id r = i then Some r else row_of t i)"
  by (simp add: row_of_def)

lemma row_of_Nil [simp]: "row_of [] i = None"
  by (simp add: row_of_def)

end
