(* ===== verification/SearchStorage.thy ===== *)
theory SearchStorage
  imports SearchService ComicsTable
begin

text \<open>
  The Postgres adapter of the search service, \<open>search-services/search/adapters/db/models.go\<close> and
  \<open>storage.go\<close>: each operation is its SQL statement read over the table, the scan into
  \<open>ComicsRow\<close>, the conversion loop and the error wrapping. \<open>fault\<close> is the error of the driver
  when the statement fails.
\<close>

record ComicsRow =
  row_ID :: int
  row_URL :: string
  row_Title :: "string list"
  row_Alt :: "string list"
  row_Words :: "string list"

text \<open>\<open>SELECT id, img_url, title, alt, words\<close> of one row.\<close>

definition scan_row :: "comics_row \<Rightarrow> ComicsRow" where
  "scan_row r = \<lparr>row_ID = c_id r, row_URL = c_img_url r, row_Title = c_title r, row_Alt = c_alt r,
     row_Words = c_words r\<rparr>"

definition row_to_comics :: "ComicsRow \<Rightarrow> Comics" where
  "row_to_comics r = \<lparr>ID = row_ID r, URL = row_URL r, Title = row_Title r, Alt = row_Alt r,
     Words = row_Words r\<rparr>"

fun rows_to_comics :: "ComicsRow list \<Rightarrow> Comics list" where
  "rows_to_comics [] = []"
| "rows_to_comics (r # rs) = row_to_comics r # rows_to_comics rs"

text \<open>The array operator \<open>&&\<close>: a common element.\<close>

definition sql_overlap :: "string list \<Rightarrow> string list \<Rightarrow> bool" where
  "sql_overlap xs ys = list_ex (\<lambda>x. x \<in> set ys) xs"

definition storage_Find ::
  "string option \<Rightarrow> comics_table \<Rightarrow> string list \<Rightarrow> search_err + Comics list" where
  "storage_Find fault tbl tokens =
     (let rows = map scan_row (filter (\<lambda>r. sql_overlap (c_title r) tokens \<or>
        sql_overlap (c_alt r) tokens \<or> sql_overlap (c_words r) tokens) tbl) in
      case fault of
        Some err \<Rightarrow> Inl (Wrapf ''find comics by tokens'' (Plain err))
      | None \<Rightarrow> Inr (rows_to_comics rows))"

definition storage_All :: "string option \<Rightarrow> comics_table \<Rightarrow> search_err + Comics list" where
  "storage_All fault tbl =
     (let rows = map scan_row tbl in
      case fault of
        Some err \<Rightarrow> Inl (Wrapf ''get all comics'' (Plain err))
      | None \<Rightarrow> Inr (rows_to_comics rows))"

definition storage_Ping :: "string option \<Rightarrow> search_err + unit" where
  "storage_Ping fault = (case fault of Some err \<Rightarrow> Inl (Plain err) | None \<Rightarrow> Inr ())"

text \<open>
  \<open>GetContext\<close> reports \<open>sql.ErrNoRows\<close> for an empty result. The column is of type \<open>INT\<close>: the driver
  refuses to encode an argument that does not fit, and the statement is not sent.
\<close>

definition storage_GetByID :: "string option \<Rightarrow> comics_table \<Rightarrow> int \<Rightarrow> search_err + Comics" where
  "storage_GetByID fault tbl cid =
     (case fault of
        Some err \<Rightarrow> Inl (Wrapf ''get comic by id'' (Plain err))
      | None \<Rightarrow>
          if \<not> int4 cid then Inl (Wrapf ''get comic by id'' (Plain ''unable to encode the argument for int4''))
          else (case map scan_row (filter (\<lambda>r. c_id r = cid) tbl) of
             [] \<Rightarrow> Inl (Sentinel ErrComicNotFound)
           | r # _ \<Rightarrow> Inr (row_to_comics r)))"

text \<open>Postgres rejects a negative \<open>OFFSET\<close> or \<open>LIMIT\<close>.\<close>

definition storage_GetAll ::
  "string option \<Rightarrow> comics_table \<Rightarrow> int \<Rightarrow> int \<Rightarrow> search_err + Comics list" where
  "storage_GetAll fault tbl offset limit =
     (let rows = map scan_row (take (nat limit) (drop (nat offset) (sort_key c_id tbl))) in
      case fault of
        Some err \<Rightarrow> Inl (Wrapf ''list comics'' (Plain err))
      | None \<Rightarrow>
          if offset < 0 \<or> limit < 0
          then Inl (Wrapf ''list comics'' (Plain ''OFFSET and LIMIT must not be negative''))
          else Inr (rows_to_comics rows))"

definition storage_Count :: "string option \<Rightarrow> comics_table \<Rightarrow> search_err + int" where
  "storage_Count fault tbl =
     (case fault of
        Some err \<Rightarrow> Inl (Wrapf ''count comics'' (Plain err))
      | None \<Rightarrow> Inr (int (length tbl)))"

text \<open>The adapter as the port the service holds.\<close>

definition search_storage :: "string option \<Rightarrow> comics_table \<Rightarrow> search_db" where
  "search_storage fault tbl =
     \<lparr>db_Find = storage_Find fault tbl, db_All = storage_All fault tbl, db_Ping = storage_Ping fault,
      db_GetByID = storage_GetByID fault tbl, db_GetAll = storage_GetAll fault tbl,
      db_Count = storage_Count fault tbl\<rparr>"

section \<open>The adapter keeps the port's contract\<close>

definition table_comics :: "comics_table \<Rightarrow> Comics list" where
  "table_comics tbl = map (\<lambda>r. row_to_comics (scan_row r)) tbl"

lemma rows_to_comics_eq: "rows_to_comics rs = map row_to_comics rs"
  by (induction rs) auto

lemma table_comics_fields [simp]:
  "ID (row_to_comics (scan_row r)) = c_id r"
  "URL (row_to_comics (scan_row r)) = c_img_url r"
  "comic_tokens (row_to_comics (scan_row r)) = c_title r @ c_alt r @ c_words r"
  by (simp_all add: row_to_comics_def scan_row_def comic_tokens_def)

lemma map_ID_table_comics [simp]: "map ID (table_comics tbl) = map c_id tbl"
  by (simp add: table_comics_def)

lemma sql_overlap_iff: "sql_overlap xs ys \<longleftrightarrow> (\<exists>x \<in> set ys. x \<in> set xs)"
  by (auto simp: sql_overlap_def list_ex_iff)

lemma storage_Find_eq:
  "storage_Find None tbl toks =
     Inr (filter (\<lambda>c. \<exists>x \<in> set toks. x \<in> set (comic_tokens c)) (table_comics tbl))"
proof -
  have "(sql_overlap (c_title r) toks \<or> sql_overlap (c_alt r) toks \<or> sql_overlap (c_words r) toks) =
      (\<exists>x \<in> set toks. x \<in> set (comic_tokens (row_to_comics (scan_row r))))" for r
    by (auto simp: sql_overlap_iff)
  then show ?thesis
    by (simp add: storage_Find_def rows_to_comics_eq table_comics_def filter_map comp_def)
qed

lemma storage_GetByID_eq:
  "storage_GetByID None tbl i =
     (if \<not> int4 i then Inl (Wrapf ''get comic by id'' (Plain ''unable to encode the argument for int4''))
      else case List.find (\<lambda>c. ID c = i) (table_comics tbl) of
        Some c \<Rightarrow> Inr c | None \<Rightarrow> Inl (Sentinel ErrComicNotFound))"
  by (induction tbl) (auto simp: storage_GetByID_def table_comics_def)

lemma sort_key_map:
  "sort_key f (map g xs) = map g (sort_key (\<lambda>x. f (g x)) xs)"
proof -
  have "insort_key f (g x) (map g ys) = map g (insort_key (\<lambda>x. f (g x)) x ys)" for x ys
    by (induction ys) auto
  then show ?thesis by (induction xs) auto
qed

lemma sort_table_comics:
  "sort_key ID (table_comics tbl) = map (\<lambda>r. row_to_comics (scan_row r)) (sort_key c_id tbl)"
  by (simp add: table_comics_def sort_key_map)

interpretation st: comics_store "search_storage None" table_comics table_inv
proof (unfold_locales, goal_cases)
  case (1 t)
  then show ?case by (simp add: table_inv_def)
next
  case (2 t toks)
  show ?case by (simp add: search_storage_def storage_Find_eq)
next
  case (3 t)
  show ?case by (simp add: search_storage_def storage_All_def rows_to_comics_eq table_comics_def comp_def)
next
  case (4 t i)
  then show ?case by (simp add: search_storage_def storage_GetByID_eq)
next
  case (5 t off lim)
  then show ?case
    by (simp add: search_storage_def storage_GetAll_def rows_to_comics_eq sort_table_comics comp_def
        take_map drop_map)
next
  case (6 t)
  show ?case by (simp add: search_storage_def storage_Count_def table_comics_def)
qed

text \<open>Every fault of the driver reaches the caller, wrapped, and is no sentinel of the package.\<close>

lemma storage_fault:
  "storage_Find (Some e) tbl toks = Inl (Wrapf ''find comics by tokens'' (Plain e))"
  "storage_All (Some e) tbl = Inl (Wrapf ''get all comics'' (Plain e))"
  "storage_GetByID (Some e) tbl i = Inl (Wrapf ''get comic by id'' (Plain e))"
  "storage_GetAll (Some e) tbl off lim = Inl (Wrapf ''list comics'' (Plain e))"
  "storage_Count (Some e) tbl = Inl (Wrapf ''count comics'' (Plain e))"
  by (simp_all add: storage_Find_def storage_All_def storage_GetByID_def storage_GetAll_def
      storage_Count_def)

section \<open>Properties of the service over the table\<close>

definition demo_table :: "comics_table" where
  "demo_table =
     [\<lparr>c_id = 7, c_img_url = ''u7'', c_title = [''cat''], c_alt = [], c_words = [], c_fetched_at = 0\<rparr>,
      \<lparr>c_id = 4, c_img_url = ''u4'', c_title = [], c_alt = [''cat''], c_words = [''dog''], c_fetched_at = 0\<rparr>,
      \<lparr>c_id = 5, c_img_url = ''u5'', c_title = [''cow''], c_alt = [], c_words = [], c_fetched_at = 0\<rparr>]"

definition demo_service :: SearchService where
  "demo_service = NewSearchService (search_storage None demo_table) (\<lambda>p. Inr [''cat''])"

lemma demo_table_inv: "table_inv demo_table"
  by (simp add: table_inv_def demo_table_def int4_def)

lemma demo_service_db: "svc_db demo_service = search_storage None demo_table"
  by (simp add: demo_service_def NewSearchService_def)

lemma Find_on_table:
  assumes "table_inv tbl" and "svc_db s = search_storage None tbl" and "length tbl < 4294967296"
  shows "Find s phrase limit =
    (if TrimSpace phrase = [] then Inl (Sentinel ErrEmptyPhrase)
     else if limit > 100 then Inl (Sentinel ErrToLargeLimit)
     else case svc_words s (TrimSpace phrase) of
       Inl err \<Rightarrow> Inl err
     | Inr tokens \<Rightarrow>
         if tokens = [] then Inl (Sentinel ErrNonePhrase)
         else Inr (take (unat (if limit = 0 then 10 else limit)) (ranking tokens (table_comics tbl))))"
proof -
  have "length (filter (comic_matches toks) (table_comics tbl)) < 4294967296" for toks
    using assms(3) by (metis (no_types, lifting) length_filter_le length_map order.strict_trans1 table_comics_def)
  then show ?thesis
    unfolding st.Find_eq [OF assms(1,2)] by (simp only: rangComics_small(1))
qed

text \<open>\<open>Find\<close> is total and exact: on a working database it fails only for a blank phrase, a limit
  above 100, an error of the words service or a phrase without tokens, in that order of precedence;
  otherwise it returns the first \<open>limit\<close> (10 when zero) of the ranking of the whole table.\<close>

theorem Find_table:
  assumes "table_inv tbl" and "svc_db s = search_storage None tbl" and "length tbl < 4294967296"
  shows "Find s phrase limit =
    (if TrimSpace phrase = [] then Inl (Sentinel ErrEmptyPhrase)
     else if limit > 100 then Inl (Sentinel ErrToLargeLimit)
     else case svc_words s (TrimSpace phrase) of
       Inl err \<Rightarrow> Inl err
     | Inr tokens \<Rightarrow>
         if tokens = [] then Inl (Sentinel ErrNonePhrase)
         else Inr (take (unat (if limit = 0 then 10 else limit)) (ranking tokens (table_comics tbl))))"
  using assms by (rule Find_on_table)

lemma Find_table_witness: "Find demo_service '' cats '' 1 = Inr [row_to_comics (scan_row (hd demo_table))]"
proof -
  have n: "length demo_table < 4294967296" by (simp add: demo_table_def)
  have t: "TrimSpace '' cats '' = ''cats''" by code_simp
  have w: "svc_words demo_service p = Inr [''cat'']" for p
    by (simp add: demo_service_def NewSearchService_def)
  have "take (unat (1 :: u32)) (ranking [''cat''] (table_comics demo_table)) =
      [row_to_comics (scan_row (hd demo_table))]"
    by code_simp
  then show ?thesis
    unfolding Find_table [OF demo_table_inv demo_service_db n] t w by simp
qed

text \<open>C6: After the index was rebuilt from the database, the indexed search returns the comics that
  the search of the database returns, errors included, and the number of all matches as the total.\<close>

theorem IndexedSearch_agrees_with_Find:
  assumes "table_inv tbl" and "svc_db s0 = search_storage None tbl"
    and "RebuildIndex s0 = (Inr (), s)"
  shows "IndexedSearch s (svc_index s) phrase limit =
     (case Find s phrase limit of
        Inl err \<Rightarrow> Inl err
      | Inr cs \<Rightarrow>
          (case svc_words s (TrimSpace phrase) of
             Inl err \<Rightarrow> Inl err
           | Inr tokens \<Rightarrow>
               Inr (cs, uint32 (int (length (filter (comic_matches tokens) (table_comics tbl)))))))"
proof -
  have "svc_db s = search_storage None tbl"
    using assms(2,3) by (auto simp: RebuildIndex_def split: sum.splits)
  then show ?thesis by (rule st.IndexedSearch_eq_Find [OF assms(1) _ assms(3,2)])
qed

lemma IndexedSearch_agrees_with_Find_witness:
  "let s = snd (RebuildIndex demo_service) in
   IndexedSearch s (svc_index s) ''cats'' 1 = Inr ([row_to_comics (scan_row (hd demo_table))], 2)"
proof -
  define s where "s = snd (RebuildIndex demo_service)"
  have r: "RebuildIndex demo_service = (Inr (), s)"
    unfolding s_def demo_service_def NewSearchService_def RebuildIndex_def search_storage_def
    by (simp add: storage_All_def)
  have "svc_words s p = Inr [''cat'']" for p
    unfolding s_def demo_service_def NewSearchService_def RebuildIndex_def
    by (simp split: sum.splits)
  moreover have "Find s ''cats'' 1 = Inr [row_to_comics (scan_row (hd demo_table))]"
    unfolding s_def by code_simp
  moreover have "length (filter (comic_matches [''cat'']) (table_comics demo_table)) = 2"
    by code_simp
  ultimately show ?thesis
    using IndexedSearch_agrees_with_Find [OF demo_table_inv demo_service_db r, of "''cats''" 1]
    by (simp add: s_def uint32_def)
qed

lemma IndexedSearch_result:
  assumes "svc_words s (TrimSpace phrase) = Inr tokens" and "IndexedSearch s idx2 phrase limit = Inr (result, n)"
  obtains "result = []" "n = 0"
  | "(if limit = 0 then 10 else limit) \<le> 100"
      "(result, n) = rangComics (DocsByIDs idx2 (DocsForTokens (svc_index s) tokens)) tokens
         (if limit = 0 then 10 else limit)"
proof -
  let ?lim = "if limit = 0 then 10 else limit"
  have "TrimSpace phrase \<noteq> []" "\<not> ?lim > 100" "tokens \<noteq> []"
    using assms by (auto simp: IndexedSearch_def Let_def defaultLimit_def simp del: not_less split: if_splits)
  then have call: "IndexedSearch s idx2 phrase limit =
    (if DocsForTokens (svc_index s) tokens = [] then Inr ([], 0)
     else Inr (rangComics (DocsByIDs idx2 (DocsForTokens (svc_index s) tokens)) tokens ?lim))"
    by (simp add: IndexedSearch_def Let_def defaultLimit_def assms(1) split: if_splits)
  show thesis
  proof (cases "DocsForTokens (svc_index s) tokens = []")
    case True
    then show ?thesis using that(1) call assms(2) by simp
  next
    case False
    then have "(result, n) = rangComics (DocsByIDs idx2 (DocsForTokens (svc_index s) tokens)) tokens ?lim"
      using call assms(2) by simp
    then show ?thesis by (rule that(2) [OF leI [OF \<open>\<not> ?lim > 100\<close>]])
  qed
qed

text \<open>C35: A rebuild between the two look-ups of \<open>IndexedSearch\<close> is harmless: every comic of the
  answer is a comic of the database the second index was built from, in its current version, and
  matches the query there; the answer has no repetition and at most \<open>limit\<close> comics.\<close>

theorem IndexedSearch_race:
  assumes "distinct (map ID cs2)" and "length cs2 < 4294967296" and "idx2 = Build cs2 idx0"
    and "svc_words s (TrimSpace phrase) = Inr tokens"
    and "IndexedSearch s idx2 phrase limit = Inr (result, n)"
  shows "set result \<subseteq> set (filter (comic_matches tokens) cs2) \<and> distinct result \<and>
    length result \<le> unat (if limit = 0 then 10 else limit)"
  using assms(4,5)
proof (cases rule: IndexedSearch_result)
  case 2
  let ?cand = "DocsByIDs idx2 (DocsForTokens (svc_index s) tokens)"
  let ?lim = "if limit = 0 then 10 else limit"
  have cand: "set ?cand \<subseteq> set cs2" "distinct ?cand"
    using DocsByIDs_Build [OF assms(1)] DocsForTokens_sorted_distinct assms(3) by metis+
  then have len: "length (filter (comic_matches tokens) ?cand) < 4294967296"
    using assms(2) by (metis card_length card_mono distinct_card finite_set length_filter_le order.strict_trans1)
  have "result = take (unat ?lim) (ranking tokens ?cand)"
    using 2(2) rangComics_small(1) [OF len] by (metis fst_conv)
  moreover have "distinct (ranking tokens ?cand)"
    using cand(2) ranking_mset by (metis distinct_filter mset_eq_imp_distinct_iff)
  moreover have "set (ranking tokens ?cand) \<subseteq> set (filter (comic_matches tokens) cs2)"
    using cand(1) by (auto simp: set_ranking)
  ultimately show ?thesis
    by (auto dest: in_set_takeD)
qed auto

lemma IndexedSearch_race_witness:
  "\<exists>result n. IndexedSearch (snd (RebuildIndex demo_service))
       (Build [\<lparr>ID = 7, URL = ''new'', Title = [''cat''], Alt = [], Words = []\<rparr>] NewInvertedIndex)
       ''cats'' 5 = Inr (result, n) \<and> map URL result = [''new''] \<and> length result \<le> 5"
proof -
  let ?cs = "[\<lparr>ID = 7, URL = ''new'', Title = [''cat''], Alt = [], Words = []\<rparr>]"
  let ?s = "snd (RebuildIndex demo_service)"
  let ?call = "IndexedSearch ?s (Build ?cs NewInvertedIndex) ''cats'' 5"
  have w: "svc_words ?s (TrimSpace ''cats'') = Inr [''cat'']"
    by (simp add: demo_service_def NewSearchService_def RebuildIndex_def split: sum.splits)
  have r: "?call = Inr (?cs, 1)" by code_simp
  have "length ?cs < 4294967296" "distinct (map ID ?cs)" by simp_all
  from IndexedSearch_race [OF this(2,1) refl w r] r show ?thesis by simp
qed

text \<open>Pages that do not overflow: the slices of the listing.\<close>

definition page_of :: "SearchService \<Rightarrow> u32 \<Rightarrow> nat \<Rightarrow> Comics list" where
  "page_of s limit p = (case GetAllComics s (of_nat p) limit of Inl _ \<Rightarrow> [] | Inr (cs, _) \<Rightarrow> cs)"

lemma GetAllComics_slice:
  assumes "table_inv tbl" and "svc_db s = search_storage None tbl"
    and "1 \<le> p" and "1 \<le> l" and "l \<le> 100" and "p * l < 4294967296"
  shows "GetAllComics s (of_nat p) (of_nat l) =
    Inr (take l (drop ((p - 1) * l) (sort_key ID (table_comics tbl))), uint32 (int (length tbl)))"
proof -
  have "p \<le> p * l" using assms(4) by simp
  then have p: "p < 4294967296" using assms(6) by linarith
  have l: "unat (of_nat l :: u32) = l" using assms(5) by (simp add: unat_of_nat)
  have p0: "(of_nat p :: u32) \<noteq> 0"
  proof -
    have "unat (of_nat p :: u32) = p" using p by (simp add: unat_of_nat)
    then show ?thesis using assms(3) by force
  qed
  have l0: "(of_nat l :: u32) \<noteq> 0" "(of_nat l :: u32) \<le> 100"
    using l assms(4,5) by (auto simp: word_le_nat_alt)
  have "(of_nat p - 1) * of_nat l = (of_nat ((p - 1) * l) :: u32)"
    using assms(3) by (simp add: of_nat_diff)
  moreover have "(p - 1) * l < 4294967296"
    using assms(6) by (meson diff_le_self mult_le_mono1 order.strict_trans1)
  ultimately have "unat ((of_nat p - 1) * of_nat l :: u32) = (p - 1) * l"
    by (simp only: unat_of_nat) simp
  then have "nat (uint ((of_nat p - 1) * of_nat l :: u32)) = (p - 1) * l"
    by (simp only: unat_eq_nat_uint)
  then show ?thesis
    using p0 l0 l by (simp add: st.GetAllComics_eq [OF assms(1,2)] Let_def not_less table_comics_def)
qed

lemma concat_slices:
  "concat (map (\<lambda>p. take l (drop ((p - 1) * l) xs)) [1..<Suc k]) = take (k * l) xs"
proof (induction k)
  case (Suc k)
  have "[1..<Suc (Suc k)] = [1..<Suc k] @ [Suc k]" by simp
  moreover have "take (Suc k * l) xs = take (k * l) xs @ take l (drop (k * l) xs)"
    by (metis add.commute mult_Suc take_add)
  ultimately show ?case
    using Suc by (simp del: upt_Suc mult_Suc)
qed simp

text \<open>Paging is lossless: for a page size from 1 to 100, the first \<open>k\<close> pages put together are
  the first \<open>k * l\<close> comics in the order of ids, so no comic is shown twice or left out between
  pages, as long as \<open>k * l\<close> fits 32 bits.\<close>

theorem pages_partition:
  assumes "table_inv tbl" and "svc_db s = search_storage None tbl"
    and "1 \<le> l" and "l \<le> 100" and "k * l < 4294967296"
  shows "concat (map (page_of s (of_nat l)) [1..<Suc k]) = take (k * l) (sort_key ID (table_comics tbl))"
proof -
  have "map (page_of s (of_nat l)) [1..<Suc k] =
      map (\<lambda>p. take l (drop ((p - 1) * l) (sort_key ID (table_comics tbl)))) [1..<Suc k]"
  proof (rule map_cong [OF refl])
    fix p assume "p \<in> set [1..<Suc k]"
    then have p: "1 \<le> p" "p \<le> k" by auto
    then have "p * l < 4294967296" using assms(5) by (meson mult_le_mono1 order.strict_trans1)
    from GetAllComics_slice [OF assms(1,2) p(1) assms(3,4) this]
    show "page_of s (of_nat l) p = take l (drop ((p - 1) * l) (sort_key ID (table_comics tbl)))"
      by (simp add: page_of_def)
  qed
  then show ?thesis by (simp only: concat_slices)
qed

lemma pages_partition_witness:
  "concat (map (page_of demo_service 2) [1..<3]) = sort_key ID (table_comics demo_table)"
proof -
  have "[1..<Suc 2] = [1..<3]" "take (2 * 2) (sort_key ID (table_comics demo_table)) = sort_key ID (table_comics demo_table)"
    by (simp_all add: demo_table_def table_comics_def)
  then show ?thesis
    using pages_partition [OF demo_table_inv demo_service_db, of 2 2] by (simp del: upt_Suc)
qed

text \<open>Beyond 32 bits the page offset wraps around: with 64 comics per page, page 67108865 is
  page 1 again, on every database.\<close>

theorem page_offset_wraps:
  "GetAllComics s 67108865 64 = GetAllComics s 1 64"
  by (cases "db_Count (svc_db s)") (simp_all add: GetAllComics_def Let_def)

text \<open>\<open>RandomComic\<close> returns a comic of the table whenever there is one, and every comic can be
  returned; on an empty table it answers with an error that the handler turns into \<open>Internal\<close>.\<close>

theorem RandomComic_any_comic:
  assumes "table_inv tbl" and "svc_db s = search_storage None tbl"
    and "\<And>n. 0 < n \<Longrightarrow> 0 \<le> intn n \<and> intn n < n"
  shows "(if tbl = [] then RandomComic s intn = Inl (Sentinel ErrNonePhrase)
      else \<exists>c \<in> set (table_comics tbl). RandomComic s intn = Inr c) \<and>
    (\<forall>c \<in> set (table_comics tbl). \<exists>pick. RandomComic s pick = Inr c)"
proof (intro conjI ballI)
  let ?n = "int (length (table_comics tbl))"
  have len: "tbl = [] \<longleftrightarrow> ?n = 0" by (simp add: table_comics_def)
  have pick: "RandomComic s f = Inr (sort_key ID (table_comics tbl) ! nat (f ?n))"
    if "0 \<le> f ?n" "f ?n < ?n" for f
    by (rule st.RandomComic_in_store [where t = tbl]) (use assms(1,2) that in auto)
  show "if tbl = [] then RandomComic s intn = Inl (Sentinel ErrNonePhrase)
      else \<exists>c \<in> set (table_comics tbl). RandomComic s intn = Inr c"
  proof (cases "tbl = []")
    case True
    then show ?thesis by (simp add: RandomComic_def assms(2) search_storage_def storage_Count_def)
  next
    case False
    then have i: "0 \<le> intn ?n" "intn ?n < ?n" using assms(3) len by auto
    have "nat (intn ?n) < length (sort_key ID (table_comics tbl))"
      using i by (simp add: nat_less_iff)
    then have "sort_key ID (table_comics tbl) ! nat (intn ?n) \<in> set (sort_key ID (table_comics tbl))"
      by (rule nth_mem)
    then show ?thesis using pick [of intn, OF i] False by (simp only: set_sort if_False) blast
  qed
next
  fix c assume "c \<in> set (table_comics tbl)"
  then have "c \<in> set (sort_key ID (table_comics tbl))" by simp
  then obtain i where i: "i < length (sort_key ID (table_comics tbl))"
    "sort_key ID (table_comics tbl) ! i = c"
    by (metis in_set_conv_nth)
  then show "\<exists>pick. RandomComic s pick = Inr c"
    using st.RandomComic_in_store [OF assms(1,2), of "\<lambda>_. int i"] by auto
qed

lemma RandomComic_any_comic_witness:
  "\<exists>c \<in> set (table_comics demo_table). RandomComic demo_service (\<lambda>n. n - 1) = Inr c"
proof -
  have ne: "demo_table \<noteq> []" by (simp add: demo_table_def)
  have "if demo_table = [] then RandomComic demo_service (\<lambda>n. n - 1) = Inl (Sentinel ErrNonePhrase)
      else \<exists>c \<in> set (table_comics demo_table). RandomComic demo_service (\<lambda>n. n - 1) = Inr c"
    by (rule conjunct1, rule RandomComic_any_comic [OF demo_table_inv demo_service_db]) simp
  then show ?thesis unfolding if_not_P [OF ne] .
qed

end
