(* ===== verification/SearchServer.thy ===== *)
theory SearchServer
  imports SearchStorage
begin

text \<open>
  The other adapters of the search service: the gRPC handlers
  (\<open>search-services/search/adapters/grpc/server.go\<close>), the client of the words service
  (\<open>adapters/words/words.go\<close>), the NATS subscriber (\<open>adapters/broker/subscriber.go\<close>) and the index
  initiator (\<open>adapters/initiator/indexer.go\<close>). A gRPC stub is a function from the request to a
  status or a reply.
\<close>

section \<open>The words client\<close>

definition search_words_Norm :: "(string \<Rightarrow> rpc_status + string list) \<Rightarrow> words_port" where
  "search_words_Norm stub phrase =
     (case stub phrase of
        Inl st \<Rightarrow>
          (if status_code st = ResourceExhausted then Inl (Sentinel ErrBadArguments)
           else if status_code st \<in> {Unavailable, DeadlineExceeded} then Inl (Sentinel ErrUnavailable)
           else Inl (StatusErr st))
      | Inr ws \<Rightarrow> Inr ws)"

section \<open>The handlers\<close>

record ComicReply =
  reply_Id :: u32
  reply_Url :: string

record SearchReply =
  reply_Comics :: "ComicReply list"
  reply_Total :: u32

definition comic_reply :: "Comics \<Rightarrow> ComicReply" where
  "comic_reply c = \<lparr>reply_Id = uint32 (ID c), reply_Url = URL c\<rparr>"

fun comic_replies :: "Comics list \<Rightarrow> ComicReply list" where
  "comic_replies [] = []"
| "comic_replies (c # cs) = comic_reply c # comic_replies cs"

definition search_server_Ping :: "SearchService \<Rightarrow> rpc_status + unit" where
  "search_server_Ping s =
     (case Service_Ping s of
        Inl err \<Rightarrow> Inl (Status Unavailable (error_text search_text err))
      | Inr _ \<Rightarrow> Inr ())"

definition search_server_Find :: "SearchService \<Rightarrow> string \<Rightarrow> u32 \<Rightarrow> rpc_status + SearchReply" where
  "search_server_Find s phrase limit =
     (case Find s phrase limit of
        Inl err \<Rightarrow>
          (if errors_Is err ErrEmptyPhrase \<or> errors_Is err ErrBadArguments \<or> errors_Is err ErrToLargeLimit
           then Inl (Status InvalidArgument (error_text search_text err))
           else if errors_Is err ErrUnavailable
           then Inl (Status Unavailable (error_text search_text err))
           else Inl (Status Internal (error_text search_text err)))
      | Inr comics \<Rightarrow>
          Inr \<lparr>reply_Comics = comic_replies comics, reply_Total = uint32 (int (length comics))\<rparr>)"

definition search_server_IndexedSearch ::
  "SearchService \<Rightarrow> InvertedIndex \<Rightarrow> string \<Rightarrow> u32 \<Rightarrow> rpc_status + SearchReply" where
  "search_server_IndexedSearch s idx2 phrase limit =
     (case IndexedSearch s idx2 phrase limit of
        Inl err \<Rightarrow>
          (if errors_Is err ErrEmptyPhrase \<or> errors_Is err ErrBadArguments \<or> errors_Is err ErrToLargeLimit
           then Inl (Status InvalidArgument (error_text search_text err))
           else if errors_Is err ErrUnavailable
           then Inl (Status Unavailable (error_text search_text err))
           else Inl (Status Internal (error_text search_text err)))
      | Inr (comics, tot) \<Rightarrow>
          Inr \<lparr>reply_Comics = comic_replies comics, reply_Total = tot\<rparr>)"

definition search_server_GetIDComic :: "SearchService \<Rightarrow> u32 \<Rightarrow> rpc_status + ComicReply" where
  "search_server_GetIDComic s cid =
     (case GetComicByID s (uint cid) of
        Inl err \<Rightarrow>
          (if errors_Is err ErrBadArguments
           then Inl (Status InvalidArgument (error_text search_text err))
           else if errors_Is err ErrComicNotFound
           then Inl (Status NotFound (error_text search_text err))
           else Inl (Status Internal (error_text search_text err)))
      | Inr c \<Rightarrow> Inr (comic_reply c))"

definition search_server_GetAllComics ::
  "SearchService \<Rightarrow> u32 \<Rightarrow> u32 \<Rightarrow> rpc_status + SearchReply" where
  "search_server_GetAllComics s page per_page =
     (case GetAllComics s page per_page of
        Inl err \<Rightarrow>
          (if errors_Is err ErrBadArguments \<or> errors_Is err ErrToLargeLimit \<or> errors_Is err ErrEmptyPhrase
           then Inl (Status InvalidArgument (error_text search_text err))
           else if errors_Is err ErrUnavailable
           then Inl (Status Unavailable (error_text search_text err))
           else Inl (Status Internal (error_text search_text err)))
      | Inr (comics, tot) \<Rightarrow>
          Inr \<lparr>reply_Comics = comic_replies comics, reply_Total = tot\<rparr>)"

definition search_server_GetRandomComic ::
  "SearchService \<Rightarrow> (int \<Rightarrow> int) \<Rightarrow> rpc_status + ComicReply" where
  "search_server_GetRandomComic s intn =
     (case RandomComic s intn of
        Inl err \<Rightarrow>
          (if errors_Is err ErrUnavailable
           then Inl (Status Unavailable (error_text search_text err))
           else Inl (Status Internal (error_text search_text err)))
      | Inr c \<Rightarrow> Inr (comic_reply c))"

section \<open>Keeping the index fresh\<close>

text \<open>
  What the goroutines of the subscriber and of the initiator can observe. A rebuild reads the
  database as it is at that moment, so the events that cause one carry the port's current value.
\<close>

datatype sub_event = SubDone | SubClosed | SubMsg string search_db
datatype tick_event = TickDone | Tick search_db

definition rebuild_from :: "search_db \<Rightarrow> SearchService \<Rightarrow> SearchService" where
  "rebuild_from db s = snd (RebuildIndex (s\<lparr>svc_db := db\<rparr>))"

text \<open>
  \<open>Subscriber.Start\<close>: the loop of the goroutine over the events it receives, in the order
  \<open>select\<close> picks them; the flag says that it has returned. A failed rebuild is logged only.
\<close>

fun subscriber_loop :: "sub_event list \<Rightarrow> SearchService \<Rightarrow> bool \<times> SearchService" where
  "subscriber_loop [] s = (False, s)"
| "subscriber_loop (SubDone # es) s = (True, s)"
| "subscriber_loop (SubClosed # es) s = (True, s)"
| "subscriber_loop (SubMsg data db # es) s = subscriber_loop es (rebuild_from db s)"

fun initiator_ticks :: "tick_event list \<Rightarrow> SearchService \<Rightarrow> bool \<times> SearchService" where
  "initiator_ticks [] s = (False, s)"
| "initiator_ticks (TickDone # es) s = (True, s)"
| "initiator_ticks (Tick db # es) s = initiator_ticks es (rebuild_from db s)"

text \<open>\<open>IndexInitiator.loop\<close>: one rebuild at once, then one per tick.\<close>

definition initiator_loop ::
  "search_db \<Rightarrow> tick_event list \<Rightarrow> SearchService \<Rightarrow> bool \<times> SearchService" where
  "initiator_loop db0 es s = initiator_ticks es (rebuild_from db0 s)"

section \<open>Facts\<close>

lemma comic_replies_eq: "comic_replies cs = map comic_reply cs"
  by (induction cs) auto

lemma rebuild_from_index:
  "svc_index (rebuild_from db s) =
     (case db_All db of Inl _ \<Rightarrow> svc_index s | Inr cs \<Rightarrow> Build cs (svc_index s))"
  by (simp add: rebuild_from_def RebuildIndex_def split: sum.splits)

lemma rebuild_from_frame [simp]: "svc_words (rebuild_from db s) = svc_words s"
  by (simp add: rebuild_from_def RebuildIndex_def split: sum.splits)

lemma Build_indep: "Build cs idx = Build cs idx'"
  by (simp add: Build_def split: prod.splits)

text \<open>The database a run of the subscriber read last, if it read one without error.\<close>

fun last_read :: "sub_event list \<Rightarrow> Comics list option" where
  "last_read [] = None"
| "last_read (SubDone # es) = None"
| "last_read (SubClosed # es) = None"
| "last_read (SubMsg data db # es) =
     (case last_read es of
        Some cs \<Rightarrow> Some cs
      | None \<Rightarrow> (case db_All db of Inl _ \<Rightarrow> None | Inr cs \<Rightarrow> Some cs))"

lemma subscriber_loop_index:
  "svc_index (snd (subscriber_loop es s)) =
     (case last_read es of None \<Rightarrow> svc_index s | Some cs \<Rightarrow> Build cs (svc_index s))"
proof (induction es s rule: subscriber_loop.induct)
  case (4 data db es s)
  then show ?case
    by (auto simp: rebuild_from_index Build_indep [of _ "Build _ _" "svc_index s"]
        split: option.splits sum.splits)
qed auto

section \<open>Properties of the handlers and of the subscriber\<close>

text \<open>The index follows the database: after any run of the subscriber, whatever rebuilds failed,
  the index is the one built from the last database that was read without error, and the answers
  of the indexed search are those of the search of that database.\<close>

theorem subscriber_keeps_index:
  "svc_index (snd (subscriber_loop es s)) =
     (case last_read es of None \<Rightarrow> svc_index s | Some cs \<Rightarrow> Build cs NewInvertedIndex)"
  by (simp add: subscriber_loop_index Build_indep [of _ "svc_index s" NewInvertedIndex] split: option.splits)

text \<open>A phrase of stop words only is the client's mistake (\<open>ErrNonePhrase\<close>), but both search
  handlers report it as \<open>Internal\<close>, because no case of their switch names it.\<close>

theorem philosophical_phrase_is_internal:
  assumes "TrimSpace phrase \<noteq> []" and "limit \<le> 100" and "svc_words s (TrimSpace phrase) = Inr []"
  shows "search_server_Find s phrase limit = Inl (Status Internal (search_text ErrNonePhrase)) \<and>
    search_server_IndexedSearch s idx2 phrase limit = Inl (Status Internal (search_text ErrNonePhrase))"
proof -
  have l: "\<not> limit > 100" using assms(2) by simp
  have "Find s phrase limit = Inl (Sentinel ErrNonePhrase)"
    using assms l by (simp add: Find_def Let_def defaultLimit_def)
  moreover have "IndexedSearch s idx2 phrase limit = Inl (Sentinel ErrNonePhrase)"
    using assms l by (simp add: IndexedSearch_def Let_def defaultLimit_def)
  ultimately show ?thesis
    by (simp add: search_server_Find_def search_server_IndexedSearch_def)
qed

lemma philosophical_phrase_is_internal_witness:
  "search_server_Find (NewSearchService (search_storage None []) (\<lambda>p. Inr [])) ''to be'' 5 =
     Inl (Status Internal (search_text ErrNonePhrase))"
proof -
  let ?s = "NewSearchService (search_storage None []) (\<lambda>p. Inr [])"
  have t: "TrimSpace ''to be'' \<noteq> []" by code_simp
  have w: "svc_words ?s (TrimSpace ''to be'') = Inr []" by (simp add: NewSearchService_def)
  have l: "(5 :: u32) \<le> 100" by simp
  show ?thesis using philosophical_phrase_is_internal [OF t l w] by blast
qed

end
