(* ===== verification/UpdateCore.thy ===== *)
theory UpdateCore
  imports ComicsTable GoStrings
begin

text \<open>
  The update service without its worker pool: \<open>search-services/update/core\<close> (errors, models, ports,
  the small operations of \<open>service.go\<close> and the body of a worker), the Postgres adapter
  \<open>adapters/db/storage.go\<close>, the xkcd client \<open>adapters/xkcd/xkcd.go\<close> and the words client
  \<open>adapters/words/words.go\<close>. A slice that may be \<open>nil\<close> is an \<open>option\<close>: \<open>None\<close> is \<open>nil\<close>.
\<close>

section \<open>Errors and models\<close>

datatype update_sentinel =
  Upd_ErrBadArguments | Upd_ErrAlreadyExists | Upd_ErrNotFound | Upd_ErrUnavailable

fun update_text :: "update_sentinel \<Rightarrow> string" where
  "update_text Upd_ErrBadArguments = ''arguments are not acceptable''"
| "update_text Upd_ErrAlreadyExists = ''resource or task already exists''"
| "update_text Upd_ErrNotFound = ''resource is not found''"
| "update_text Upd_ErrUnavailable = ''dependency unavailable''"

type_synonym update_err = "update_sentinel go_error"

datatype ServiceStatus = StatusRunning | StatusIdle

record DBStats =
  WordsTotal :: int
  WordsUnique :: int
  ComicsFetched :: int

record ServiceStats = DBStats +
  ComicsTotal :: int

record UComics =
  u_ID :: int
  u_URL :: string
  u_Title :: "string list option"
  u_Alt :: "string list option"
  u_Words :: "string list option"

record XKCDInfo =
  x_ID :: int
  x_URL :: string
  x_Title :: string
  x_Alt :: string
  x_Description :: string

section \<open>The Postgres adapter (storage.go)\<close>

text \<open>
  The statement \<open>INSERT ... ON CONFLICT (id) DO UPDATE\<close>: its parameters may be SQL \<open>NULL\<close>
  (\<open>None\<close>), which the \<open>NOT NULL\<close> columns refuse, and the id must fit the column.
\<close>

definition sql_upsert ::
  "int \<Rightarrow> int \<Rightarrow> string \<Rightarrow> string list option \<Rightarrow> string list option \<Rightarrow> string list option
     \<Rightarrow> comics_table \<Rightarrow> string + comics_table" where
  "sql_upsert now i url ti al wo tbl =
     (case (ti, al, wo) of
        (Some ti, Some al, Some wo) \<Rightarrow>
          if \<not> int4 i then Inl ''integer out of range''
          else let r = \<lparr>c_id = i, c_img_url = url, c_title = ti, c_alt = al, c_words = wo,
                        c_fetched_at = now\<rparr> in
            Inr (if row_of tbl i = None then tbl @ [r]
                 else map (\<lambda>q. if c_id q = i then r else q) tbl)
      | _ \<Rightarrow> Inl ''null value violates not-null constraint'')"

definition storage_Add ::
  "string option \<Rightarrow> int \<Rightarrow> UComics \<Rightarrow> comics_table \<Rightarrow> (update_err + unit) \<times> comics_table" where
  "storage_Add fault now c tbl =
     (let title = (case u_Title c of None \<Rightarrow> Some [] | t \<Rightarrow> t);
          alt = (case u_Alt c of None \<Rightarrow> Some [] | t \<Rightarrow> t);
          words = (case u_Words c of None \<Rightarrow> Some [] | t \<Rightarrow> t) in
      case fault of
        Some err \<Rightarrow> (Inl (Wrapf ''upsert comics'' (Plain err)), tbl)
      | None \<Rightarrow>
          (case sql_upsert now (u_ID c) (u_URL c) title alt words tbl of
             Inl err \<Rightarrow> (Inl (Wrapf ''upsert comics'' (Plain err)), tbl)
           | Inr tbl' \<Rightarrow> (Inr (), tbl')))"

text \<open>
  \<open>Stats\<close> runs three statements outside a transaction; each one meets its own driver error and
  its own state of the table.
\<close>

definition storage_Stats ::
  "string option \<times> comics_table \<Rightarrow> string option \<times> comics_table \<Rightarrow> string option \<times> comics_table
     \<Rightarrow> update_err + DBStats" where
  "storage_Stats q1 q2 q3 =
     (case q1 of
        (Some err, _) \<Rightarrow> Inl (Plain err)
      | (None, t1) \<Rightarrow>
          let wt = sum_list (map (\<lambda>r. int (length (c_words r))) t1) in
          (case q2 of
             (Some err, _) \<Rightarrow> Inl (Plain err)
           | (None, t2) \<Rightarrow>
               let wu = int (length (remdups (concat (map c_words t2)))) in
               (case q3 of
                  (Some err, _) \<Rightarrow> Inl (Plain err)
                | (None, t3) \<Rightarrow>
                    Inr \<lparr>WordsTotal = wt, WordsUnique = wu, ComicsFetched = int (length t3)\<rparr>)))"

definition storage_IDs :: "string option \<Rightarrow> comics_table \<Rightarrow> update_err + int list" where
  "storage_IDs fault tbl =
     (case fault of
        Some err \<Rightarrow> Inl (Wrapf ''get ids'' (Plain err))
      | None \<Rightarrow> Inr (map c_id tbl))"

definition storage_Drop :: "string option \<Rightarrow> comics_table \<Rightarrow> (update_err + unit) \<times> comics_table" where
  "storage_Drop fault tbl =
     (case fault of Some err \<Rightarrow> (Inl (Plain err), tbl) | None \<Rightarrow> (Inr (), []))"

section \<open>The xkcd client (xkcd.go)\<close>

text \<open>
  An HTTP exchange: the transport's error, or the status code and the outcome of decoding the
  body (the JSON decoder's error text, or the five fields of \<open>res\<close>).
\<close>

record xkcd_res =
  res_Num :: int
  res_Img :: string
  res_Title :: string
  res_Alt :: string
  res_Transcript :: string

type_synonym http_get = "string \<Rightarrow> string + int \<times> (string + xkcd_res)"

definition xkcd_NewClient :: "string \<Rightarrow> update_err + string" where
  "xkcd_NewClient url =
     (if url = [] then Inl (Plain ''empty base url specified'')
      else let url = (if \<not> HasPrefix url ''http://'' \<and> \<not> HasPrefix url ''https://''
                      then ''https://'' @ url else url)
           in Inr (TrimRightChar url CHR ''/''))"

definition xkcd_Get :: "http_get \<Rightarrow> string \<Rightarrow> int \<Rightarrow> update_err + XKCDInfo" where
  "xkcd_Get do_get base i =
     (let u = base @ ''/'' @ fmt_d i @ ''/info.0.json'' in
      case do_get u of
        Inl err \<Rightarrow> Inl (Plain err)
      | Inr (code, body) \<Rightarrow>
          if code = 200 then
            (case body of
               Inl err \<Rightarrow> Inl (Plain err)
             | Inr x \<Rightarrow>
                 let desc = TrimSpace (res_Transcript x) in
                 Inr \<lparr>x_ID = res_Num x, x_URL = res_Img x, x_Title = res_Title x, x_Alt = res_Alt x,
                      x_Description = desc\<rparr>)
          else if code = 404 then Inl (Sentinel Upd_ErrNotFound)
          else Inl (Plain (''xkcd '' @ fmt_d i @ '': http '' @ fmt_d code)))"

definition xkcd_LastID :: "http_get \<Rightarrow> string \<Rightarrow> update_err + int" where
  "xkcd_LastID do_get base =
     (let u = base @ ''/info.0.json'' in
      case do_get u of
        Inl err \<Rightarrow> Inl (Plain err)
      | Inr (code, body) \<Rightarrow>
          if code \<noteq> 200 then Inl (Plain (''xkcd latest: http '' @ fmt_d code))
          else
            (case body of
               Inl err \<Rightarrow> Inl (Plain err)
             | Inr x \<Rightarrow>
                 if res_Num x \<le> 0 then Inl (Plain (''xkcd latest: invalid num '' @ fmt_d (res_Num x)))
                 else Inr (res_Num x)))"

section \<open>The words client (words.go)\<close>

text \<open>A reply without words arrives as a \<open>nil\<close> slice.\<close>

definition update_words_Norm ::
  "(string \<Rightarrow> rpc_status + string list) \<Rightarrow> string \<Rightarrow> update_err + string list option" where
  "update_words_Norm stub phrase =
     (case stub phrase of
        Inl st \<Rightarrow>
          (if status_code st = ResourceExhausted then Inl (Sentinel Upd_ErrBadArguments)
           else if status_code st \<in> {Unavailable, DeadlineExceeded}
           then Inl (Sentinel Upd_ErrUnavailable)
           else Inl (StatusErr st))
      | Inr ws \<Rightarrow> Inr (if ws = [] then None else Some ws))"

section \<open>The service (service.go)\<close>

text \<open>The part of the service that does not change after construction is its concurrency.\<close>

definition NewUpdateService :: "int \<Rightarrow> update_err + int" where
  "NewUpdateService concurrency =
     (if concurrency < 1
      then Inl (Plain (''wrong concurrency specified: '' @ fmt_d concurrency))
      else Inr concurrency)"

definition Update_workers :: "int \<Rightarrow> int" where
  "Update_workers concurrency = (let workers = concurrency in if workers > 64 then 64 else workers)"

text \<open>
  What a worker does with a job: the ports are \<open>get\<close> (xkcd), \<open>norm\<close> (words) and \<open>add\<close> (the
  database); the result is the database after the job.
\<close>

definition worker_job ::
  "(int \<Rightarrow> update_err + XKCDInfo) \<Rightarrow> (string \<Rightarrow> update_err + string list option)
     \<Rightarrow> (UComics \<Rightarrow> 't \<Rightarrow> (update_err + unit) \<times> 't) \<Rightarrow> int \<Rightarrow> 't \<Rightarrow> 't" where
  "worker_job get norm add j t =
     (case get j of
        Inl err \<Rightarrow>
          (if errors_Is err Upd_ErrNotFound
           then snd (add \<lparr>u_ID = j, u_URL = [], u_Title = Some [], u_Alt = Some [], u_Words = Some []\<rparr> t)
           else t)
      | Inr info \<Rightarrow>
          let title = (case norm (x_Title info) of Inl _ \<Rightarrow> Some [] | Inr ws \<Rightarrow> ws);
              alt = (case norm (x_Alt info) of Inl _ \<Rightarrow> Some [] | Inr ws \<Rightarrow> ws);
              words = (case norm (x_Description info) of Inl _ \<Rightarrow> Some [] | Inr ws \<Rightarrow> ws)
          in snd (add \<lparr>u_ID = x_ID info, u_URL = x_URL info, u_Title = title, u_Alt = alt,
                      u_Words = words\<rparr> t))"

definition Update_Stats :: "(update_err + DBStats) \<Rightarrow> (update_err + int) \<Rightarrow> update_err + ServiceStats" where
  "Update_Stats db_stats last_id =
     (case db_stats of
        Inl err \<Rightarrow> Inl err
      | Inr st \<Rightarrow>
          (case last_id of
             Inl err \<Rightarrow> Inl err
           | Inr n \<Rightarrow> Inr (DBStats.extend st (ServiceStats.fields n))))"

definition Update_Status :: "bool \<Rightarrow> ServiceStatus" where
  "Update_Status running = (if running then StatusRunning else StatusIdle)"

text \<open>\<open>Drop\<close> runs between the two accesses to the flag; the flag is False again when it returns.\<close>

definition Update_Drop ::
  "('t \<Rightarrow> (update_err + unit) \<times> 't) \<Rightarrow> bool \<Rightarrow> 't \<Rightarrow> (update_err + unit) \<times> bool \<times> 't" where
  "Update_Drop db_drop running t =
     (if running then (Inl (Sentinel Upd_ErrAlreadyExists), running, t)
      else case db_drop t of (res, t') \<Rightarrow> (res, False, t'))"

section \<open>The database as the updater sees it\<close>

text \<open>What a row holds, without the time of the fetch.\<close>

type_synonym content = "string \<times> string list \<times> string list \<times> string list"

definition slice_list :: "string list option \<Rightarrow> string list" where
  "slice_list x = (case x of None \<Rightarrow> [] | Some ws \<Rightarrow> ws)"

definition content_of :: "UComics \<Rightarrow> content" where
  "content_of c = (u_URL c, slice_list (u_Title c), slice_list (u_Alt c), slice_list (u_Words c))"

definition stored :: "comics_table \<Rightarrow> int \<Rightarrow> content option" where
  "stored tbl i =
     map_option (\<lambda>r. (c_img_url r, c_title r, c_alt r, c_words r)) (row_of tbl i)"

text \<open>
  The contract of the port \<open>DB\<close>: a map from ids to contents, where \<open>add\<close> is an upsert of the ids
  that fit and \<open>ids\<close> lists the keys.
\<close>

locale update_store =
  fixes add :: "UComics \<Rightarrow> 't \<Rightarrow> (update_err + unit) \<times> 't"
    and ids :: "'t \<Rightarrow> update_err + int list"
    and clear :: "'t \<Rightarrow> (update_err + unit) \<times> 't"
    and look :: "'t \<Rightarrow> int \<Rightarrow> content option"
    and inv :: "'t \<Rightarrow> bool"
  assumes inv_add: "inv t \<Longrightarrow> inv (snd (add c t))"
    and look_add: "inv t \<Longrightarrow> look (snd (add c t)) =
          (if int4 (u_ID c) then (look t)(u_ID c \<mapsto> content_of c) else look t)"
    and add_ok: "inv t \<Longrightarrow> fst (add c t) = Inr () \<longleftrightarrow> int4 (u_ID c)"
    and ids_dom: "inv t \<Longrightarrow> \<exists>is. ids t = Inr is \<and> set is = dom (look t)"
    and inv_clear: "inv (snd (clear t))"
    and look_clear: "look (snd (clear t)) = Map.empty"

lemma row_of_append: "row_of (t @ [r]) i = (if row_of t i = None then row_of [r] i else row_of t i)"
  by (induction t) (auto simp: row_of_Cons)

lemma row_of_replace:
  "c_id r = i \<Longrightarrow>
     row_of (map (\<lambda>q. if c_id q = i then r else q) t) k =
       (if k = i then (if row_of t i = None then None else Some r) else row_of t k)"
  by (induction t) (auto simp: row_of_Cons)

lemma sql_upsert_total:
  "int4 i \<Longrightarrow> \<exists>t'. sql_upsert now i url (Some ti) (Some al) (Some wo) t = Inr t' \<and>
     row_of t' = (row_of t)(i \<mapsto> \<lparr>c_id = i, c_img_url = url, c_title = ti, c_alt = al, c_words = wo,
                                    c_fetched_at = now\<rparr>) \<and>
     (table_inv t \<longrightarrow> table_inv t')"
proof -
  assume i: "int4 i"
  let ?r = "\<lparr>c_id = i, c_img_url = url, c_title = ti, c_alt = al, c_words = wo, c_fetched_at = now\<rparr>"
  show ?thesis
  proof (cases "row_of t i")
    case None
    then have "table_inv t \<Longrightarrow> table_inv (t @ [?r])"
      using i by (auto simp: table_inv_def row_of_None)
    with None i show ?thesis
      by (auto simp: sql_upsert_def fun_eq_iff row_of_append row_of_Cons)
  next
    case (Some q)
    let ?t = "map (\<lambda>q. if c_id q = i then ?r else q) t"
    have ids: "map c_id ?t = map c_id t" by auto
    have "list_all (\<lambda>r. int4 (c_id r)) ?t = list_all int4 (map c_id ?t)"
      by (simp add: list.pred_map comp_def)
    also have "\<dots> = list_all (\<lambda>r. int4 (c_id r)) t"
      unfolding ids by (simp add: list.pred_map comp_def)
    finally have "table_inv t \<Longrightarrow> table_inv ?t" unfolding table_inv_def ids by simp
    moreover have "row_of ?t = (row_of t)(i \<mapsto> ?r)"
      using Some by (intro ext) (subst row_of_replace, auto)
    ultimately show ?thesis using Some i by (auto simp: sql_upsert_def Let_def)
  qed
qed

lemma storage_Add_None:
  "storage_Add None now c t =
     (if int4 (u_ID c)
      then (Inr (), projr (sql_upsert now (u_ID c) (u_URL c) (Some (slice_list (u_Title c)))
                      (Some (slice_list (u_Alt c))) (Some (slice_list (u_Words c))) t))
      else (Inl (Wrapf ''upsert comics'' (Plain ''integer out of range'')), t))"
proof -
  have nn: "(case x of None \<Rightarrow> Some [] | Some y \<Rightarrow> Some y) = Some (slice_list x)" for x
    by (simp add: slice_list_def split: option.splits)
  show ?thesis
  proof (cases "int4 (u_ID c)")
    case True
    then show ?thesis
      using sql_upsert_total [OF True, of now "u_URL c" "slice_list (u_Title c)"
          "slice_list (u_Alt c)" "slice_list (u_Words c)" t]
      by (auto simp: storage_Add_def Let_def nn)
  next
    case False
    then show ?thesis by (simp add: storage_Add_def Let_def nn sql_upsert_def)
  qed
qed

lemma storage_Add_effect:
  assumes "table_inv t"
  shows "table_inv (snd (storage_Add None now c t))"
    and "stored (snd (storage_Add None now c t)) =
           (if int4 (u_ID c) then (stored t)(u_ID c \<mapsto> content_of c) else stored t)"
  using assms sql_upsert_total [of "u_ID c" now "u_URL c" "slice_list (u_Title c)"
      "slice_list (u_Alt c)" "slice_list (u_Words c)" t]
  by (auto simp: storage_Add_None stored_def fun_eq_iff content_of_def)

interpretation us: update_store "storage_Add None now" "storage_IDs None" "storage_Drop None" stored
    table_inv for now
proof (unfold_locales, goal_cases)
  case (1 t c)
  then show ?case by (rule storage_Add_effect)
next
  case (2 t c)
  then show ?case by (rule storage_Add_effect)
next
  case (3 t c)
  show ?case by (simp add: storage_Add_None)
next
  case (4 t)
  have "dom (stored t) = c_id ` set t"
    using row_of_None [of t] by (auto simp: stored_def dom_def)
  then show ?case by (simp add: storage_IDs_def)
next
  case (5 t)
  show ?case by (simp add: storage_Drop_def table_inv_def)
next
  case (6 t)
  show ?case by (simp add: storage_Drop_def stored_def fun_eq_iff)
qed

section \<open>Jobs\<close>

text \<open>The comic a job stores, if it stores one.\<close>

definition job_comics ::
  "(int \<Rightarrow> update_err + XKCDInfo) \<Rightarrow> (string \<Rightarrow> update_err + string list option) \<Rightarrow> int \<Rightarrow> UComics option" where
  "job_comics get norm j =
     (case get j of
        Inl err \<Rightarrow>
          (if errors_Is err Upd_ErrNotFound
           then Some \<lparr>u_ID = j, u_URL = [], u_Title = Some [], u_Alt = Some [], u_Words = Some []\<rparr>
           else None)
      | Inr info \<Rightarrow>
          let words_of = (\<lambda>p. case norm p of Inl _ \<Rightarrow> Some [] | Inr ws \<Rightarrow> ws)
          in Some \<lparr>u_ID = x_ID info, u_URL = x_URL info, u_Title = words_of (x_Title info),
                   u_Alt = words_of (x_Alt info), u_Words = words_of (x_Description info)\<rparr>)"

lemma worker_job_eq:
  "worker_job get norm add j t =
     (case job_comics get norm j of None \<Rightarrow> t | Some c \<Rightarrow> snd (add c t))"
  by (simp add: worker_job_def job_comics_def Let_def split: sum.splits)

section \<open>Properties of the adapters\<close>

definition demo_comic :: "int \<Rightarrow> UComics" where
  "demo_comic i = \<lparr>u_ID = i, u_URL = ''u'', u_Title = Some [''cat''], u_Alt = None, u_Words = Some []\<rparr>"

text \<open>\<open>storage.Add\<close> is an upsert that never trips over a missing word list: on a working database
  it succeeds exactly for ids in the range of the column; the row of the id then holds the url and
  the three lists, a \<open>nil\<close> list as the empty one, all other rows are as before and the table keeps
  its key. Adding the same comic again changes nothing a reader sees.\<close>

theorem storage_Add_upsert:
  assumes "table_inv t"
  shows "let (res, t') = storage_Add None now c t in
    table_inv t' \<and>
    (if int4 (u_ID c)
     then res = Inr () \<and> stored t' = (stored t)(u_ID c \<mapsto>
            (u_URL c, slice_list (u_Title c), slice_list (u_Alt c), slice_list (u_Words c)))
     else t' = t \<and> (\<exists>e. res = Inl e \<and> \<not> errors_Is e Upd_ErrNotFound)) \<and>
    stored (snd (storage_Add None now' c t')) = stored t'"
proof -
  obtain res t' where r: "storage_Add None now c t = (res, t')" by fastforce
  note e = storage_Add_effect [OF assms, of now c, unfolded r snd_conv]
  have again: "stored (snd (storage_Add None now' c t')) = stored t'"
    by (simp add: storage_Add_effect(2) [OF e(1)] e(2))
  show ?thesis
  proof (cases "int4 (u_ID c)")
    case True
    then have "res = Inr ()" using r by (simp add: storage_Add_None)
    with True e again show ?thesis unfolding r by (simp add: content_of_def)
  next
    case False
    then have "res = Inl (Wrapf ''upsert comics'' (Plain ''integer out of range''))" "t' = t"
      using r by (simp_all add: storage_Add_None)
    with False e again show ?thesis unfolding r by simp
  qed
qed

lemma storage_Add_upsert_witness:
  "stored (snd (storage_Add None 5 (demo_comic 3) [])) = [3 \<mapsto> (''u'', [''cat''], [], [])]"
proof -
  have inv: "table_inv []" by (simp add: table_inv_def)
  have i: "int4 (u_ID (demo_comic 3))" by (simp add: demo_comic_def int4_def)
  show ?thesis
    using storage_Add_upsert [OF inv, of 5 "demo_comic 3" 6] i
    by (auto simp: case_prod_beta Let_def demo_comic_def slice_list_def stored_def fun_eq_iff)
qed

text \<open>A worker stores at most one row per job: a comic that xkcd does not have becomes a row
  without words, any other failure of xkcd leaves the table alone so that the next update retries,
  and a failure of the words service only leaves the affected list empty.\<close>

theorem worker_job_outcomes:
  assumes "table_inv t" and "int4 j"
  shows "(\<forall>e. get j = Inl e \<longrightarrow> stored (worker_job get norm (storage_Add None now) j t) =
      (if errors_Is e Upd_ErrNotFound then (stored t)(j \<mapsto> ([], [], [], [])) else stored t)) \<and>
    (\<forall>info. get j = Inr info \<longrightarrow> x_ID info = j \<longrightarrow>
      stored (worker_job get norm (storage_Add None now) j t) =
        (stored t)(j \<mapsto> (x_URL info,
           (case norm (x_Title info) of Inl _ \<Rightarrow> [] | Inr ws \<Rightarrow> slice_list ws),
           (case norm (x_Alt info) of Inl _ \<Rightarrow> [] | Inr ws \<Rightarrow> slice_list ws),
           (case norm (x_Description info) of Inl _ \<Rightarrow> [] | Inr ws \<Rightarrow> slice_list ws))))"
  using assms storage_Add_effect(2) [OF assms(1), of now]
  by (auto simp: worker_job_def Let_def content_of_def slice_list_def split: sum.splits)

lemma worker_job_outcomes_witness:
  "stored (worker_job (\<lambda>i. Inl (Sentinel Upd_ErrNotFound)) (\<lambda>p. Inr None) (storage_Add None 0) 404 []) 404 =
     Some ([], [], [], [])"
proof -
  have "table_inv []" "int4 404" by (simp_all add: table_inv_def int4_def)
  from worker_job_outcomes [OF this, of "\<lambda>i. Inl (Sentinel Upd_ErrNotFound)" "\<lambda>p. Inr None" 0]
  show ?thesis by simp
qed

end
