(* ===== verification/UpdateWorkers.thy ===== *)
theory UpdateWorkers
  imports UpdateCore
begin

text \<open>
  The worker pool of \<open>Service.Update\<close> (\<open>search-services/update/core/service.go\<close>) as a step
  relation: the producer loop, the buffered channel \<open>jobs\<close> and the workers interleave freely, and
  the context may be cancelled at any moment. Workers are identical goroutines, so the state counts
  the idle and the exited ones and lists the jobs of the others. A job has one visible effect, the
  upsert, so running it is one step; the outcomes of the xkcd and words calls are the functions
  \<open>get\<close> and \<open>norm\<close> of the configuration.
\<close>

section \<open>States and steps\<close>

record 't upd_cfg =
  cfg_get :: "int \<Rightarrow> update_err + XKCDInfo"
  cfg_norm :: "string \<Rightarrow> update_err + string list option"
  cfg_add :: "UComics \<Rightarrow> 't \<Rightarrow> (update_err + unit) \<times> 't"
  cfg_latest :: int
  cfg_have :: "int list"
  cfg_workers :: nat

datatype producer_state =
  Sending | Draining "update_err option" | Returned "update_err option"

record 't upd_state =
  nextId :: int
  jobs :: "int list"
  closed :: bool
  idle :: nat
  inflight :: "int list"
  exited :: nat
  store :: 't
  cancelled :: bool
  producer :: producer_state

definition ctx_err :: update_err where
  "ctx_err = Plain ''context canceled''"

definition upd_init :: "'t upd_cfg \<Rightarrow> 't \<Rightarrow> 't upd_state" where
  "upd_init cfg t =
     \<lparr>nextId = 1, jobs = [], closed = False, idle = cfg_workers cfg, inflight = [], exited = 0,
      store = t, cancelled = False, producer = Sending\<rparr>"

definition run_job :: "'t upd_cfg \<Rightarrow> int \<Rightarrow> 't \<Rightarrow> 't" where
  "run_job cfg = worker_job (cfg_get cfg) (cfg_norm cfg) (cfg_add cfg)"

inductive upd_step :: "'t upd_cfg \<Rightarrow> 't upd_state \<Rightarrow> 't upd_state \<Rightarrow> bool" for cfg where
  p_skip: "producer s = Sending \<Longrightarrow> nextId s \<le> cfg_latest cfg \<Longrightarrow> nextId s \<in> set (cfg_have cfg) \<Longrightarrow>
    upd_step cfg s (s\<lparr>nextId := nextId s + 1\<rparr>)"
| p_send: "producer s = Sending \<Longrightarrow> nextId s \<le> cfg_latest cfg \<Longrightarrow> nextId s \<notin> set (cfg_have cfg) \<Longrightarrow>
    length (jobs s) < cfg_workers cfg * 2 \<Longrightarrow>
    upd_step cfg s (s\<lparr>jobs := jobs s @ [nextId s], nextId := nextId s + 1\<rparr>)"
| p_cancel: "producer s = Sending \<Longrightarrow> nextId s \<le> cfg_latest cfg \<Longrightarrow> nextId s \<notin> set (cfg_have cfg) \<Longrightarrow>
    cancelled s \<Longrightarrow>
    upd_step cfg s (s\<lparr>closed := True, producer := Draining (Some ctx_err)\<rparr>)"
| p_close: "producer s = Sending \<Longrightarrow> cfg_latest cfg < nextId s \<Longrightarrow>
    upd_step cfg s (s\<lparr>closed := True, producer := Draining None\<rparr>)"
| p_return: "producer s = Draining r \<Longrightarrow> idle s = 0 \<Longrightarrow> inflight s = [] \<Longrightarrow>
    upd_step cfg s (s\<lparr>producer := Returned r\<rparr>)"
| w_take: "0 < idle s \<Longrightarrow> jobs s = j # js \<Longrightarrow>
    upd_step cfg s (s\<lparr>idle := idle s - 1, jobs := js, inflight := j # inflight s\<rparr>)"
| w_closed: "0 < idle s \<Longrightarrow> jobs s = [] \<Longrightarrow> closed s \<Longrightarrow>
    upd_step cfg s (s\<lparr>idle := idle s - 1, exited := exited s + 1\<rparr>)"
| w_done: "0 < idle s \<Longrightarrow> cancelled s \<Longrightarrow>
    upd_step cfg s (s\<lparr>idle := idle s - 1, exited := exited s + 1\<rparr>)"
| w_work: "j \<in> set (inflight s) \<Longrightarrow>
    upd_step cfg s (s\<lparr>inflight := remove1 j (inflight s), idle := idle s + 1,
      store := run_job cfg j (store s)\<rparr>)"
| w_abort: "j \<in> set (inflight s) \<Longrightarrow> cancelled s \<Longrightarrow>
    upd_step cfg s (s\<lparr>inflight := remove1 j (inflight s), idle := idle s + 1\<rparr>)"
| cancel: "\<not> cancelled s \<Longrightarrow> upd_step cfg s (s\<lparr>cancelled := True\<rparr>)"

definition upd_reach :: "'t upd_cfg \<Rightarrow> 't \<Rightarrow> 't upd_state \<Rightarrow> bool" where
  "upd_reach cfg t s = (upd_step cfg)\<^sup>*\<^sup>* (upd_init cfg t) s"

definition returned :: "'t upd_state \<Rightarrow> bool" where
  "returned s = (case producer s of Returned _ \<Rightarrow> True | _ \<Rightarrow> False)"

text \<open>The ids an update has to fetch.\<close>

definition missing :: "'t upd_cfg \<Rightarrow> int list" where
  "missing cfg = filter (\<lambda>i. i \<notin> set (cfg_have cfg)) [1..cfg_latest cfg]"

text \<open>The reference: one worker, the jobs in order.\<close>

definition sequential_update :: "'t upd_cfg \<Rightarrow> 't \<Rightarrow> 't" where
  "sequential_update cfg t = fold (run_job cfg) (missing cfg) t"

section \<open>Termination\<close>

text \<open>
  Every step, cancellation included, decreases a measure: an id not yet sent weighs 3, a queued job
  2, a busy worker 2, an idle one 1.
\<close>

definition upd_measure :: "'t upd_cfg \<Rightarrow> 't upd_state \<Rightarrow> nat" where
  "upd_measure cfg s =
     3 * nat (cfg_latest cfg + 1 - nextId s) + 2 * length (jobs s) + idle s
     + 2 * length (inflight s)
     + (case producer s of Sending \<Rightarrow> 2 | Draining _ \<Rightarrow> 1 | Returned _ \<Rightarrow> 0)
     + (if cancelled s then 0 else 1)"

lemma length_remove1_Suc: "j \<in> set xs \<Longrightarrow> length xs = Suc (length (remove1 j xs))"
  by (induction xs) auto

lemma upd_step_measure: "upd_step cfg s s' \<Longrightarrow> upd_measure cfg s' < upd_measure cfg s"
  by (induction rule: upd_step.induct) (auto simp: upd_measure_def dest: length_remove1_Suc)

lemma upd_step_wf: "wfp (\<lambda>s' s. upd_step cfg s s')"
  by (rule wfp_if_convertible_to_nat [where f = "upd_measure cfg"]) (rule upd_step_measure)

section \<open>The invariant of the pool\<close>

definition upd_wf :: "'t upd_cfg \<Rightarrow> 't upd_state \<Rightarrow> bool" where
  "upd_wf cfg s =
     (1 \<le> nextId s \<and> (nextId s \<le> cfg_latest cfg + 1 \<or> nextId s = 1) \<and>
      distinct (jobs s @ inflight s) \<and>
      set (jobs s @ inflight s) \<subseteq> {i \<in> set (missing cfg). i < nextId s} \<and>
      length (jobs s) \<le> cfg_workers cfg * 2 \<and>
      idle s + length (inflight s) + exited s = cfg_workers cfg \<and>
      closed s = (producer s \<noteq> Sending) \<and>
      (producer s \<in> {Draining None, Returned None} \<longrightarrow> cfg_latest cfg < nextId s) \<and>
      (\<forall>e. producer s \<in> {Draining (Some e), Returned (Some e)} \<longrightarrow> cancelled s \<and> e = ctx_err \<and> nextId s \<le> cfg_latest cfg) \<and>
      (returned s \<longrightarrow> idle s = 0 \<and> inflight s = []) \<and>
      (0 < exited s \<and> \<not> cancelled s \<longrightarrow> closed s \<and> jobs s = []))"

lemma set_missing: "set (missing cfg) = {i. 1 \<le> i \<and> i \<le> cfg_latest cfg \<and> i \<notin> set (cfg_have cfg)}"
  by (auto simp: missing_def)

lemma distinct_missing [simp]: "distinct (missing cfg)"
  by (simp add: missing_def)

lemma upd_wf_init: "upd_wf cfg (upd_init cfg t)"
  by (simp add: upd_wf_def upd_init_def returned_def)

lemma upd_wf_step: "upd_step cfg s s' \<Longrightarrow> upd_wf cfg s \<Longrightarrow> upd_wf cfg s'"
proof (induction rule: upd_step.induct)
  case (w_work j s)
  then show ?case
    using length_remove1_Suc [OF w_work.hyps]
    by (auto simp: upd_wf_def returned_def notin_set_remove1 dest: notin_set_remove1 split: producer_state.splits)
next
  case (w_abort j s)
  then show ?case
    using length_remove1_Suc [OF w_abort.hyps(1)]
    by (auto simp: upd_wf_def returned_def dest: notin_set_remove1 split: producer_state.splits)
qed (auto simp: upd_wf_def returned_def set_missing split: producer_state.splits)

lemma upd_wf_reach: "upd_reach cfg t s \<Longrightarrow> upd_wf cfg s"
  unfolding upd_reach_def
  by (induction rule: rtranclp_induct) (auto intro: upd_wf_init upd_wf_step)

text \<open>No state before the return is stuck: there is always a step that is not a cancellation.\<close>

lemma step_exI:
  "upd_step cfg s s' \<Longrightarrow> cancelled s' = cancelled s \<Longrightarrow>
     \<exists>s'. upd_step cfg s s' \<and> cancelled s' = cancelled s"
  by blast

lemma producer_progress:
  assumes "producer s = Sending" and "cancelled s \<or> length (jobs s) < cfg_workers cfg * 2"
  shows "\<exists>s'. upd_step cfg s s' \<and> cancelled s' = cancelled s"
proof -
  consider (close) "cfg_latest cfg < nextId s"
    | (skip) "nextId s \<le> cfg_latest cfg" "nextId s \<in> set (cfg_have cfg)"
    | (send) "nextId s \<le> cfg_latest cfg" "nextId s \<notin> set (cfg_have cfg)"
        "length (jobs s) < cfg_workers cfg * 2"
    | (cancel) "nextId s \<le> cfg_latest cfg" "nextId s \<notin> set (cfg_have cfg)" "cancelled s"
    using assms(2) by linarith
  then show ?thesis
  proof cases
    case close
    then show ?thesis by (rule step_exI [OF upd_step.p_close [OF assms(1)]]) simp
  next
    case skip
    then show ?thesis by (rule step_exI [OF upd_step.p_skip [OF assms(1)]]) simp
  next
    case send
    then show ?thesis by (rule step_exI [OF upd_step.p_send [OF assms(1)]]) simp
  next
    case cancel
    then show ?thesis by (rule step_exI [OF upd_step.p_cancel [OF assms(1)]]) simp
  qed
qed

lemma upd_progress:
  assumes "upd_wf cfg s" and "0 < cfg_workers cfg" and "\<not> returned s"
  shows "\<exists>s'. upd_step cfg s s' \<and> cancelled s' = cancelled s"
proof -
  consider (busy) j where "j \<in> set (inflight s)" | (take) j js where "0 < idle s" "jobs s = j # js"
    | (exit) "0 < idle s" "jobs s = []" "closed s" | (gone) "idle s = 0" "inflight s = []"
    | (starved) "0 < idle s" "jobs s = []" "\<not> closed s"
    by (cases "inflight s"; cases "jobs s") auto
  then show ?thesis
  proof cases
    case busy
    then show ?thesis by (rule step_exI [OF upd_step.w_work]) simp
  next
    case take
    then show ?thesis by (rule step_exI [OF upd_step.w_take]) simp
  next
    case exit
    then show ?thesis by (rule step_exI [OF upd_step.w_closed]) simp
  next
    case gone
    show ?thesis
    proof (cases "producer s")
      case Sending
      with gone assms have "cancelled s" by (auto simp: upd_wf_def)
      with Sending show ?thesis by (blast intro: producer_progress)
    next
      case (Draining r)
      then show ?thesis using gone by (rule step_exI [OF upd_step.p_return]) simp
    next
      case (Returned r)
      with assms(3) show ?thesis by (simp add: returned_def)
    qed
  next
    case starved
    then have "producer s = Sending" using assms(1) by (auto simp: upd_wf_def)
    then show ?thesis using starved assms(2) by (intro producer_progress) auto
  qed
qed

section \<open>What a run stores\<close>

text \<open>What the job of id \<open>i\<close> puts into the store, if anything.\<close>

definition job_row :: "'t upd_cfg \<Rightarrow> int \<Rightarrow> content option" where
  "job_row cfg i =
     (case job_comics (cfg_get cfg) (cfg_norm cfg) i of
        None \<Rightarrow> None
      | Some c \<Rightarrow> if int4 (u_ID c) then Some (content_of c) else None)"

text \<open>xkcd answers a request for \<open>i\<close> with the comic numbered \<open>i\<close>.\<close>

definition answers_own_id :: "'t upd_cfg \<Rightarrow> bool" where
  "answers_own_id cfg =
     list_all (\<lambda>i. case cfg_get cfg i of Inl _ \<Rightarrow> True | Inr info \<Rightarrow> x_ID info = i) (missing cfg)"

definition jobs_done :: "'t upd_cfg \<Rightarrow> 't upd_state \<Rightarrow> int set" where
  "jobs_done cfg s = {i \<in> set (missing cfg). i < nextId s} - set (jobs s @ inflight s)"

definition override :: "'t upd_cfg \<Rightarrow> int set \<Rightarrow> (int \<Rightarrow> content option) \<Rightarrow> int \<Rightarrow> content option" where
  "override cfg D m i = (if i \<in> D \<and> job_row cfg i \<noteq> None then job_row cfg i else m i)"

lemma override_insert:
  "override cfg (insert j D) m =
     (case job_row cfg j of None \<Rightarrow> override cfg D m | Some r \<Rightarrow> (override cfg D m)(j \<mapsto> r))"
  by (auto simp: override_def fun_eq_iff split: option.splits)

lemma override_empty [simp]: "override cfg {} m = m"
  by (simp add: override_def fun_eq_iff)

lemma job_comics_ID:
  assumes "answers_own_id cfg" and "i \<in> set (missing cfg)"
    and "job_comics (cfg_get cfg) (cfg_norm cfg) i = Some c"
  shows "u_ID c = i"
  using assms
  by (auto simp: answers_own_id_def list_all_iff job_comics_def Let_def split: sum.splits if_splits)


context update_store
begin

lemma look_run_job:
  assumes "cfg_add cfg = add" and "answers_own_id cfg" and "j \<in> set (missing cfg)" and "inv t"
  shows "inv (run_job cfg j t)"
    and "look (run_job cfg j t) =
           (case job_row cfg j of None \<Rightarrow> look t | Some r \<Rightarrow> (look t)(j \<mapsto> r))"
  using assms job_comics_ID [OF assms(2,3)] inv_add look_add
  by (auto simp: run_job_def worker_job_eq job_row_def split: option.splits)

lemma look_sequential:
  assumes "cfg_add cfg = add" and "answers_own_id cfg" and "inv t"
  shows "inv (sequential_update cfg t)"
    and "look (sequential_update cfg t) = override cfg (set (missing cfg)) (look t)"
proof -
  have "inv (fold (run_job cfg) is t) \<and>
      look (fold (run_job cfg) is t) = override cfg (set is) (look t)"
    if "set is \<subseteq> set (missing cfg)" for "is"
    using that
  proof (induction "is" rule: rev_induct)
    case (snoc j "is")
    then have "inv (fold (run_job cfg) is t)" "j \<in> set (missing cfg)" by auto
    note step = look_run_job [OF assms(1,2) this(2,1)]
    with snoc show ?case by (auto simp: override_insert split: option.splits)
  qed (simp add: assms(3))
  then show "inv (sequential_update cfg t)"
    and "look (sequential_update cfg t) = override cfg (set (missing cfg)) (look t)"
    by (auto simp: sequential_update_def)
qed

end

text \<open>
  At every moment the store is the initial one overridden with the jobs that are done; after a
  cancellation some of those may have been lost.
\<close>

definition content_inv ::
  "('t \<Rightarrow> int \<Rightarrow> content option) \<Rightarrow> ('t \<Rightarrow> bool) \<Rightarrow> 't upd_cfg \<Rightarrow> 't \<Rightarrow> 't upd_state \<Rightarrow> bool" where
  "content_inv look ok cfg t s =
     (ok (store s) \<and>
      (\<exists>D \<subseteq> jobs_done cfg s. look (store s) = override cfg D (look t) \<and>
         (\<not> cancelled s \<longrightarrow> D = jobs_done cfg s)))"

lemma upd_step_effect:
  assumes "upd_step cfg s s'" and "upd_wf cfg s"
  shows "jobs_done cfg s' = jobs_done cfg s \<and> store s' = store s \<and> (cancelled s \<longrightarrow> cancelled s') \<or>
    (\<exists>j \<in> set (missing cfg). jobs_done cfg s' = insert j (jobs_done cfg s) \<and>
       cancelled s' = cancelled s \<and>
       (store s' = run_job cfg j (store s) \<or> cancelled s \<and> store s' = store s))"
  using assms
proof (induction rule: upd_step.induct)
  case (w_work j s)
  then have "j \<in> set (missing cfg)" "j < nextId s" "j \<notin> set (jobs s)" "distinct (inflight s)"
    by (auto simp: upd_wf_def)
  then have "jobs_done cfg (s\<lparr>inflight := remove1 j (inflight s), idle := idle s + 1,
      store := run_job cfg j (store s)\<rparr>) = insert j (jobs_done cfg s)"
    by (auto simp: jobs_done_def)
  with \<open>j \<in> set (missing cfg)\<close> show ?case by auto
next
  case (w_abort j s)
  then have "j \<in> set (missing cfg)" "j < nextId s" "j \<notin> set (jobs s)" "distinct (inflight s)"
    by (auto simp: upd_wf_def)
  then have "jobs_done cfg (s\<lparr>inflight := remove1 j (inflight s), idle := idle s + 1\<rparr>) =
      insert j (jobs_done cfg s)"
    by (auto simp: jobs_done_def)
  with \<open>j \<in> set (missing cfg)\<close> w_abort.hyps show ?case by auto
next
  case (p_skip s)
  then have "{i \<in> set (missing cfg). i < nextId s + 1} = {i \<in> set (missing cfg). i < nextId s}"
    using order_le_less by (auto simp: set_missing)
  then show ?case by (simp add: jobs_done_def)
next
  case (p_send s)
  then have "{i \<in> set (missing cfg). i < nextId s + 1} - insert (nextId s) A =
      {i \<in> set (missing cfg). i < nextId s} - A" for A
    by auto
  then show ?case by (simp add: jobs_done_def)
next
  case (w_take s j js)
  have "insert j (set js \<union> set (inflight s)) = set js \<union> insert j (set (inflight s))" by auto
  with w_take show ?case by (simp add: jobs_done_def)
qed (simp_all add: jobs_done_def)

context update_store
begin

lemma content_inv_step:
  assumes "cfg_add cfg = add" and "answers_own_id cfg"
    and "upd_step cfg s s'" and "upd_wf cfg s" and "content_inv look inv cfg t s"
  shows "content_inv look inv cfg t s'"
proof -
  obtain D where D: "D \<subseteq> jobs_done cfg s" "look (store s) = override cfg D (look t)"
    "\<not> cancelled s \<longrightarrow> D = jobs_done cfg s" and i: "inv (store s)"
    using assms(5) by (auto simp: content_inv_def)
  consider (same) "jobs_done cfg s' = jobs_done cfg s" "store s' = store s" "cancelled s \<longrightarrow> cancelled s'"
    | (work) j where "j \<in> set (missing cfg)" "jobs_done cfg s' = insert j (jobs_done cfg s)"
        "cancelled s' = cancelled s" "store s' = run_job cfg j (store s)"
    | (lost) j where "jobs_done cfg s' = insert j (jobs_done cfg s)" "cancelled s'" "cancelled s"
        "store s' = store s"
    using upd_step_effect [OF assms(3,4)] by blast
  then show ?thesis
  proof cases
    case same
    with D i show ?thesis unfolding content_inv_def by metis
  next
    case work
    note step = look_run_job [OF assms(1,2) work(1) i]
    have "look (store s') = override cfg (insert j D) (look t)"
      unfolding work(4) step(2) override_insert D(2) ..
    moreover have "insert j D \<subseteq> jobs_done cfg s'" using D(1) work(2) by auto
    moreover have "\<not> cancelled s' \<longrightarrow> insert j D = jobs_done cfg s'" using D(3) work(2,3) by simp
    ultimately show ?thesis using step(1) work(4) unfolding content_inv_def by metis
  next
    case lost
    with D i show ?thesis unfolding content_inv_def by (metis subset_insertI2)
  qed
qed

lemma content_inv_reach:
  assumes "cfg_add cfg = add" and "answers_own_id cfg" and "inv t" and "upd_reach cfg t s"
  shows "content_inv look inv cfg t s"
  using assms(4) unfolding upd_reach_def
proof (induction rule: rtranclp_induct)
  case base
  have "content_inv look inv cfg t (upd_init cfg t)"
    unfolding content_inv_def
    by (intro conjI exI [of _ "{}"]) (auto simp: upd_init_def assms(3) jobs_done_def set_missing)
  then show ?case .
next
  case (step s s')
  then have "upd_wf cfg s" by (auto simp: upd_reach_def intro: upd_wf_reach)
  then show ?case by (rule content_inv_step [OF assms(1,2) step.hyps(2) _ step.IH])
qed

text \<open>A run that returns without a cancellation has done every job.\<close>

lemma jobs_done_all:
  assumes "upd_wf cfg s" and "0 < cfg_workers cfg" and "producer s = Returned None" and "\<not> cancelled s"
  shows "jobs_done cfg s = set (missing cfg)"
proof -
  have s: "idle s = 0" "inflight s = []" "cfg_latest cfg < nextId s"
    using assms(1,3) by (auto simp: upd_wf_def returned_def)
  then have "0 < exited s" using assms(1,2) by (simp add: upd_wf_def)
  then have "jobs s = []" using assms(1,4) by (simp add: upd_wf_def)
  with s show ?thesis by (auto simp: jobs_done_def set_missing)
qed

lemma complete_run:
  assumes "cfg_add cfg = add" and "answers_own_id cfg" and "inv t" and "upd_reach cfg t s"
    and "0 < cfg_workers cfg" and "producer s = Returned None" and "\<not> cancelled s"
  shows "look (store s) = look (sequential_update cfg t)"
  using content_inv_reach [OF assms(1-4)] assms(7)
    jobs_done_all [OF upd_wf_reach [OF assms(4)] assms(5-7)]
  by (auto simp: content_inv_def look_sequential [OF assms(1-3)])

lemma run_frame:
  assumes "cfg_add cfg = add" and "answers_own_id cfg" and "inv t" and "upd_reach cfg t s"
  shows "look (store s) i = look t i \<or> i \<in> set (missing cfg) \<and> look (store s) i = job_row cfg i"
  using content_inv_reach [OF assms]
  by (fastforce simp: content_inv_def override_def jobs_done_def split: if_splits)

end

section \<open>Properties of the pool\<close>

text \<open>A configuration to apply them to: two workers, three comics, one of them already stored.\<close>

definition demo_cfg :: "comics_table upd_cfg" where
  "demo_cfg =
     \<lparr>cfg_get = (\<lambda>i. Inr \<lparr>x_ID = i, x_URL = ''u'', x_Title = ''cat'', x_Alt = [], x_Description = []\<rparr>),
      cfg_norm = (\<lambda>p. Inr (Some [p])), cfg_add = storage_Add None 0, cfg_latest = 3, cfg_have = [2],
      cfg_workers = 2\<rparr>"

definition demo_before :: comics_table where
  "demo_before = [\<lparr>c_id = 2, c_img_url = [], c_title = [], c_alt = [], c_words = [], c_fetched_at = 0\<rparr>]"

lemma demo_missing: "missing demo_cfg = [1, 3]"
  by (simp add: missing_def demo_cfg_def upto.simps)

lemma demo_cfg_ok:
  "cfg_add demo_cfg = storage_Add None 0" "answers_own_id demo_cfg" "table_inv demo_before"
  "0 < cfg_workers demo_cfg"
  by (simp_all add: answers_own_id_def demo_missing)
    (simp_all add: demo_cfg_def table_inv_def demo_before_def int4_def)

text \<open>One complete schedule of it.\<close>

definition demo_final :: "comics_table upd_state" where
  "demo_final =
     \<lparr>nextId = 4, jobs = [], closed = True, idle = 0, inflight = [], exited = 2,
      store = run_job demo_cfg 3 (run_job demo_cfg 1 demo_before), cancelled = False,
      producer = Returned None\<rparr>"

lemma upd_reach_step: "upd_reach cfg t s \<Longrightarrow> upd_step cfg s s' \<Longrightarrow> upd_reach cfg t s'"
  unfolding upd_reach_def by (rule rtranclp.rtrancl_into_rtrancl)

definition demo_state ::
  "int \<Rightarrow> int list \<Rightarrow> nat \<Rightarrow> int list \<Rightarrow> nat \<Rightarrow> comics_table \<Rightarrow> producer_state \<Rightarrow> comics_table upd_state" where
  "demo_state n js i busy ex st p =
     \<lparr>nextId = n, jobs = js, closed = (p \<noteq> Sending), idle = i, inflight = busy, exited = ex, store = st,
      cancelled = False, producer = p\<rparr>"

definition demo_working :: "comics_table upd_state" where
  "demo_working = demo_state 4 [] 1 [3] 0 (run_job demo_cfg 1 demo_before) (Draining None)"

lemma demo_half: "upd_reach demo_cfg demo_before demo_working"
proof -
  let ?R = "upd_reach demo_cfg demo_before"
  note s = demo_state_def demo_cfg_def upd_init_def
  have "?R (upd_init demo_cfg demo_before)" by (simp add: upd_reach_def)
  then have "?R (demo_state 1 [] 2 [] 0 demo_before Sending)" by (simp add: s)
  from upd_reach_step [OF this upd_step.p_send]
  have "?R (demo_state 2 [1] 2 [] 0 demo_before Sending)" by (simp add: s)
  from upd_reach_step [OF this upd_step.p_skip]
  have "?R (demo_state 3 [1] 2 [] 0 demo_before Sending)" by (simp add: s)
  from upd_reach_step [OF this upd_step.p_send]
  have "?R (demo_state 4 [1, 3] 2 [] 0 demo_before Sending)" by (simp add: s)
  from upd_reach_step [OF this upd_step.p_close]
  have "?R (demo_state 4 [1, 3] 2 [] 0 demo_before (Draining None))" by (simp add: s)
  from upd_reach_step [OF this upd_step.w_take, of 1 "[3]"]
  have "?R (demo_state 4 [3] 1 [1] 0 demo_before (Draining None))" by (simp add: s)
  from upd_reach_step [OF this upd_step.w_take, of 3 "[]"]
  have "?R (demo_state 4 [] 0 [3, 1] 0 demo_before (Draining None))" by (simp add: s)
  from upd_reach_step [OF this upd_step.w_work, of 1]
  show ?thesis by (simp add: demo_working_def demo_state_def)
qed

lemma demo_run: "upd_reach demo_cfg demo_before demo_final"
proof -
  let ?R = "upd_reach demo_cfg demo_before"
  let ?t3 = "run_job demo_cfg 3 (run_job demo_cfg 1 demo_before)"
  have "?R (demo_state 4 [] 1 [3] 0 (run_job demo_cfg 1 demo_before) (Draining None))"
    using demo_half by (simp only: demo_working_def)
  from upd_reach_step [OF this upd_step.w_work, of 3]
  have "?R (demo_state 4 [] 2 [] 0 ?t3 (Draining None))" by (simp add: demo_state_def numeral_2_eq_2)
  from upd_reach_step [OF this upd_step.w_closed]
  have "?R (demo_state 4 [] 1 [] 1 ?t3 (Draining None))" by (simp add: demo_state_def)
  from upd_reach_step [OF this upd_step.w_closed]
  have "?R (demo_state 4 [] 0 [] 2 ?t3 (Draining None))" by (simp add: demo_state_def numeral_2_eq_2)
  from upd_reach_step [OF this upd_step.p_return]
  have "?R (demo_state 4 [] 0 [] 2 ?t3 (Returned None))" by (simp add: demo_state_def)
  then show ?thesis by (simp add: demo_state_def demo_final_def)
qed

text \<open>C16: \<open>Update\<close> always returns: there is no infinite run of the producer, the workers and a
  cancellation, from any state and for any number of comics, and as long as it has not returned,
  some goroutine can move without waiting for a cancellation.\<close>

theorem Update_terminates:
  assumes "0 < cfg_workers cfg"
  shows "wfp (\<lambda>s' s. upd_step cfg s s') \<and>
    (\<forall>t s. upd_reach cfg t s \<and> \<not> returned s \<longrightarrow> (\<exists>s'. upd_step cfg s s' \<and> cancelled s' = cancelled s))"
  using upd_step_wf upd_progress [OF upd_wf_reach assms] by blast

lemma Update_terminates_witness:
  "\<exists>s'. upd_step demo_cfg (upd_init demo_cfg []) s' \<and> \<not> cancelled s'"
proof -
  have "upd_reach demo_cfg [] (upd_init demo_cfg [])" "\<not> returned (upd_init demo_cfg [])"
    "\<not> cancelled (upd_init demo_cfg [])"
    by (simp_all add: upd_reach_def returned_def upd_init_def)
  then show ?thesis using Update_terminates [OF demo_cfg_ok(4)] by blast
qed

text \<open>C1: The concurrent update is the sequential one: however the workers interleave, a run that
  returns without error and without a cancellation leaves the database with the contents that
  fetching the missing comics one after another gives.\<close>

theorem Update_equals_sequential:
  assumes "cfg_add cfg = storage_Add None now" and "answers_own_id cfg" and "table_inv t"
    and "upd_reach cfg t s" and "0 < cfg_workers cfg" and "producer s = Returned None"
    and "\<not> cancelled s"
  shows "stored (store s) = stored (sequential_update cfg t) \<and> table_inv (store s)"
  using us.complete_run [OF assms] us.content_inv_reach [OF assms(1-4)] by (simp add: content_inv_def)

lemma Update_equals_sequential_witness:
  "stored (store demo_final) = stored (sequential_update demo_cfg demo_before)"
proof -
  have "producer demo_final = Returned None" "\<not> cancelled demo_final"
    by (simp_all add: demo_final_def)
  from Update_equals_sequential [OF demo_cfg_ok(1-3) demo_run demo_cfg_ok(4) this]
  show ?thesis by blast
qed

text \<open>C20: An update never touches a comic it already has: at every moment, cancelled or not, the
  content of an id is the one from before the update, or the id was missing and has the content
  its own job fetched.\<close>

theorem Update_frame:
  assumes "cfg_add cfg = storage_Add None now" and "answers_own_id cfg" and "table_inv t"
    and "upd_reach cfg t s"
  shows "stored (store s) i = stored t i \<or> i \<in> set (missing cfg) \<and> stored (store s) i = job_row cfg i"
  by (rule us.run_frame [OF assms])

lemma Update_frame_witness: "stored (store demo_final) 2 = stored demo_before 2"
  using Update_frame [OF demo_cfg_ok(1-3) demo_run, of 2] by (simp add: demo_missing)

lemma jobs_done_mono:
  assumes "upd_reach cfg t s" and "(upd_step cfg)\<^sup>*\<^sup>* s s'"
  shows "jobs_done cfg s \<subseteq> jobs_done cfg s'"
  using assms(2)
proof (induction rule: rtranclp_induct)
  case (step u v)
  have "upd_reach cfg t u" using assms(1) step.hyps(1) by (simp add: upd_reach_def)
  then show ?case using step.IH upd_step_effect [OF step.hyps(2) upd_wf_reach] by blast
qed simp

text \<open>C38: The bounds of the pool: at every moment of an update the channel holds no more than twice as many
  jobs as there are workers, and each worker is idle, works on one job, or is gone, so that no more comics
  than workers are fetched at a time. Every id in the pool is one of the missing ids, and in one place
  only; an id that has left the pool is never in it again, so no comic is fetched twice.\<close>

theorem Update_pool_bounds:
  assumes "upd_reach cfg t s" and "(upd_step cfg)\<^sup>*\<^sup>* s s'"
  shows "length (jobs s) \<le> 2 * cfg_workers cfg \<and>
    idle s + length (inflight s) + exited s = cfg_workers cfg \<and>
    distinct (jobs s @ inflight s) \<and> set (jobs s @ inflight s) \<subseteq> set (missing cfg) \<and>
    jobs_done cfg s \<inter> set (jobs s' @ inflight s') = {}"
  using upd_wf_reach [OF assms(1)] jobs_done_mono [OF assms] by (auto simp: upd_wf_def jobs_done_def)

lemma Update_pool_bounds_witness:
  "length (jobs demo_working) \<le> 4 \<and> set (jobs demo_working @ inflight demo_working) \<subseteq> {1, 3} \<and>
   1 \<notin> set (jobs (demo_working\<lparr>cancelled := True\<rparr>) @ inflight (demo_working\<lparr>cancelled := True\<rparr>))"
proof -
  have "\<not> cancelled demo_working" by (simp add: demo_working_def demo_state_def)
  then have "(upd_step demo_cfg)\<^sup>*\<^sup>* demo_working (demo_working\<lparr>cancelled := True\<rparr>)"
    by (intro r_into_rtranclp upd_step.cancel)
  from Update_pool_bounds [OF demo_half this] show ?thesis
    by (simp add: demo_missing jobs_done_def) (simp add: demo_cfg_def demo_working_def demo_state_def)
qed

text \<open>C18: After an update in which every fetch gave a row, and which was not cancelled, no id up to
  the latest comic is missing: the next update has nothing to do.\<close>

theorem Update_completes:
  assumes "cfg_add cfg = storage_Add None now" and "answers_own_id cfg" and "table_inv t"
    and "upd_reach cfg t s" and "0 < cfg_workers cfg" and "producer s = Returned None"
    and "\<not> cancelled s" and "storage_IDs None t = Inr (cfg_have cfg)"
    and "\<And>i. i \<in> set (missing cfg) \<Longrightarrow> job_row cfg i \<noteq> None"
    and "storage_IDs None (store s) = Inr have'"
  shows "missing (cfg\<lparr>cfg_have := have'\<rparr>) = []"
proof -
  have dom: "dom (stored u) = set is" if "storage_IDs None u = Inr is" for u "is"
    using that row_of_None [of u] by (auto simp: storage_IDs_def stored_def dom_def)
  have "stored (store s) = override cfg (set (missing cfg)) (stored t)"
    using us.complete_run [OF assms(1-7)] us.look_sequential(2) [OF assms(1-3)] by simp
  moreover have "dom (override cfg (set (missing cfg)) m) = set (missing cfg) \<union> dom m" for m
    using assms(9) unfolding override_def dom_def by (intro set_eqI) (metis (mono_tags, lifting) Un_iff mem_Collect_eq)
  ultimately have "dom (stored (store s)) = set (missing cfg) \<union> dom (stored t)" by simp
  then have "set have' = set (missing cfg) \<union> set (cfg_have cfg)"
    using dom [OF assms(10)] dom [OF assms(8)] by simp
  then show ?thesis by (auto simp: missing_def filter_empty_conv)
qed

lemma Update_completes_witness:
  "missing (demo_cfg\<lparr>cfg_have := map c_id (store demo_final)\<rparr>) = []"
proof (rule Update_completes [OF demo_cfg_ok(1-3) demo_run demo_cfg_ok(4)])
  show "job_row demo_cfg i \<noteq> None" if "i \<in> set (missing demo_cfg)" for i
    using that by (auto simp: demo_missing)
      (auto simp: job_row_def job_comics_def demo_cfg_def int4_def content_of_def)
qed (simp_all add: demo_final_def storage_IDs_def demo_cfg_def demo_before_def)

end
