(* ===== verification/UpdateServer.thy ===== *)
theory UpdateServer
  imports UpdateWorkers
begin

text \<open>
  \<open>Service.Update\<close> as a whole (\<open>search-services/update/core/service.go\<close>), the flag \<open>running\<close> under
  concurrent calls, the gRPC handlers (\<open>adapters/grpc/server.go\<close>) and the NATS publisher
  (\<open>adapters/broker/publisher.go\<close>).
\<close>

section \<open>Update from call to return\<close>

text \<open>
  Everything before the pool starts: the flag, the last id, the ids already stored. \<open>Inl\<close> is an
  early return, \<open>Inr\<close> the configuration the pool runs with.
\<close>

definition Update_begin ::
  "(int \<Rightarrow> update_err + XKCDInfo) \<Rightarrow> (string \<Rightarrow> update_err + string list option)
     \<Rightarrow> (UComics \<Rightarrow> 't \<Rightarrow> (update_err + unit) \<times> 't) \<Rightarrow> int
     \<Rightarrow> bool \<Rightarrow> update_err + int \<Rightarrow> update_err + int list \<Rightarrow> update_err + 't upd_cfg" where
  "Update_begin get norm add concurrency running last_id db_ids =
     (if running then Inl (Sentinel Upd_ErrAlreadyExists)
      else case last_id of
        Inl err \<Rightarrow> Inl err
      | Inr latest \<Rightarrow>
          (case db_ids of
             Inl err \<Rightarrow> Inl err
           | Inr have_ids \<Rightarrow>
               Inr \<lparr>cfg_get = get, cfg_norm = norm, cfg_add = add, cfg_latest = latest,
                    cfg_have = have_ids, cfg_workers = nat (Update_workers concurrency)\<rparr>))"

text \<open>
  A call of \<open>Update\<close> on store \<open>t\<close> can return \<open>res\<close> and leave store \<open>t'\<close>: the argument \<open>start\<close> is what
  \<open>Update_begin\<close> gave, and \<open>pool\<close> the state in which the pool returned, if it was started.
\<close>

inductive Update_call ::
  "update_err + 't upd_cfg \<Rightarrow> 't \<Rightarrow> 't upd_state option \<Rightarrow> update_err + unit \<Rightarrow> 't \<Rightarrow> bool" where
  early: "Update_call (Inl err) t None (Inl err) t"
| finished: "upd_reach cfg t s \<Longrightarrow> producer s = Returned None \<Longrightarrow>
    Update_call (Inr cfg) t (Some s) (Inr ()) (store s)"
| interrupted: "upd_reach cfg t s \<Longrightarrow> producer s = Returned (Some err) \<Longrightarrow>
    Update_call (Inr cfg) t (Some s) (Inl err) (store s)"

inductive_cases Update_call_early: "Update_call (Inl err) t pool res t'"
inductive_cases Update_call_pool: "Update_call (Inr cfg) t pool res t'"

text \<open>What the state of the pool says of the result, and of the jobs.\<close>

lemma pool_result:
  assumes "Update_call (Inr cfg) t pool res t'"
  shows "\<exists>s. pool = Some s \<and> upd_reach cfg t s \<and> t' = store s \<and> returned s \<and>
    res = (if nextId s \<le> cfg_latest cfg then Inl ctx_err else Inr ()) \<and>
    (nextId s \<le> cfg_latest cfg \<longrightarrow> cancelled s) \<and>
    (0 < cfg_workers cfg \<and> \<not> cancelled s \<longrightarrow> jobs_done cfg s = set (missing cfg))"
proof -
  obtain s r where s: "pool = Some s" "upd_reach cfg t s" "t' = store s" "producer s = Returned r"
    "res = (case r of None \<Rightarrow> Inr () | Some e \<Rightarrow> Inl e)"
    using assms by (auto elim!: Update_call_pool)
  note wf = upd_wf_reach [OF s(2)]
  have ret: "returned s" using s(4) by (simp add: returned_def)
  then have idle: "idle s = 0" "inflight s = []" using wf by (simp_all add: upd_wf_def)
  have "producer s \<in> {Draining None, Returned None} \<longrightarrow> cfg_latest cfg < nextId s"
    using wf unfolding upd_wf_def by (elim conjE) assumption
  moreover have "\<forall>e. producer s \<in> {Draining (Some e), Returned (Some e)} \<longrightarrow>
      cancelled s \<and> e = ctx_err \<and> nextId s \<le> cfg_latest cfg"
    using wf unfolding upd_wf_def by (elim conjE) assumption
  ultimately have sent: "r = None \<Longrightarrow> cfg_latest cfg < nextId s"
    "r = Some e \<Longrightarrow> cancelled s \<and> e = ctx_err \<and> nextId s \<le> cfg_latest cfg" for e
    using s(4) by simp_all
  have worked: "jobs_done cfg s = set (missing cfg)" if "0 < cfg_workers cfg" "\<not> cancelled s"
  proof -
    have "exited s = cfg_workers cfg" using wf idle by (simp add: upd_wf_def)
    then have "jobs s = []" using wf that by (simp add: upd_wf_def)
    moreover have "cfg_latest cfg < nextId s"
      using sent s(4) that(2) by (cases r) simp_all
    ultimately show ?thesis using idle by (auto simp: jobs_done_def set_missing)
  qed
  have "res = (if nextId s \<le> cfg_latest cfg then Inl ctx_err else Inr ()) \<and> (nextId s \<le> cfg_latest cfg \<longrightarrow> cancelled s)"
    using sent s(4,5) by (cases r) auto
  with s(1-3) ret worked show ?thesis by (intro exI [of _ s] conjI) simp_all
qed

section \<open>The running flag\<close>

text \<open>
  Any number of goroutines call \<open>Update\<close> and \<open>Drop\<close>. A call that wins \<open>CompareAndSwap\<close> works until its
  deferred \<open>Store(false)\<close>; the others return \<open>ErrAlreadyExists\<close> at once.
\<close>

datatype svc_call = CallUpdate | CallDrop

record flag_state =
  running :: bool
  working :: "svc_call list"
  rejected :: "svc_call list"

definition flag_init :: flag_state where
  "flag_init = \<lparr>running = False, working = [], rejected = []\<rparr>"

inductive flag_step :: "flag_state \<Rightarrow> flag_state \<Rightarrow> bool" where
  win: "\<not> running s \<Longrightarrow> flag_step s (s\<lparr>running := True, working := c # working s\<rparr>)"
| lose: "running s \<Longrightarrow> flag_step s (s\<lparr>rejected := c # rejected s\<rparr>)"
| leave: "c \<in> set (working s) \<Longrightarrow>
    flag_step s (s\<lparr>running := False, working := remove1 c (working s)\<rparr>)"

definition flag_reach :: "flag_state \<Rightarrow> bool" where
  "flag_reach s = flag_step\<^sup>*\<^sup>* flag_init s"

definition flag_inv :: "flag_state \<Rightarrow> bool" where
  "flag_inv s = (length (working s) = (if running s then 1 else 0))"

lemma flag_inv_step: "flag_step s s' \<Longrightarrow> flag_inv s \<Longrightarrow> flag_inv s'"
proof (induction rule: flag_step.induct)
  case (leave c s)
  then have "length (working s) = Suc (length (remove1 c (working s)))"
    by (simp add: length_remove1_Suc)
  with leave show ?case by (auto simp: flag_inv_def split: if_splits)
qed (auto simp: flag_inv_def)

lemma flag_inv_reach: "flag_reach s \<Longrightarrow> flag_inv s"
  unfolding flag_reach_def
  by (induction rule: rtranclp_induct) (auto simp: flag_inv_def flag_init_def dest: flag_inv_step)

section \<open>The publisher (publisher.go)\<close>

text \<open>
  \<open>NotifyDBUpdated\<close> with the outcomes of the two NATS calls; the result is the messages handed to
  the connection, as subject and data. A failed flush is logged only.
\<close>

definition NotifyDBUpdated ::
  "string \<Rightarrow> string option \<Rightarrow> string option \<Rightarrow> (string \<times> string) list" where
  "NotifyDBUpdated subject publish_err flush_err =
     (case publish_err of
        Some err \<Rightarrow> []
      | None \<Rightarrow> [(subject, ''XKCD DB has been updated'')])"

section \<open>The gRPC handlers (server.go)\<close>

datatype status_pb = STATUS_UNSPECIFIED | STATUS_IDLE | STATUS_RUNNING

record StatsReply =
  pb_WordsTotal :: int
  pb_WordsUnique :: int
  pb_ComicsFetched :: int
  pb_ComicsTotal :: int

definition update_server_Ping :: "rpc_status + unit" where
  "update_server_Ping = Inr ()"

definition update_server_Status :: "ServiceStatus \<Rightarrow> rpc_status + status_pb" where
  "update_server_Status st =
     Inr (case st of StatusRunning \<Rightarrow> STATUS_RUNNING | StatusIdle \<Rightarrow> STATUS_IDLE)"

text \<open>
  The handlers of \<open>Update\<close> and \<open>Drop\<close>: the reply and whether the notifier is called. \<open>notifier\<close> says
  that one is configured.
\<close>

definition update_server_Update :: "bool \<Rightarrow> update_err + unit \<Rightarrow> (rpc_status + unit) \<times> bool" where
  "update_server_Update notifier res =
     (case res of
        Inl err \<Rightarrow>
          (if errors_Is err Upd_ErrAlreadyExists
           then (Inl (Status AlreadyExists ''update already running''), False)
           else (Inl (Status Internal (error_text update_text err)), False))
      | Inr _ \<Rightarrow> (Inr (), notifier))"

definition update_server_Stats :: "update_err + ServiceStats \<Rightarrow> rpc_status + StatsReply" where
  "update_server_Stats res =
     (case res of
        Inl err \<Rightarrow> Inl (Status Internal (error_text update_text err))
      | Inr st \<Rightarrow>
          Inr \<lparr>pb_WordsTotal = WordsTotal st, pb_WordsUnique = WordsUnique st,
               pb_ComicsFetched = ComicsFetched st, pb_ComicsTotal = ComicsTotal st\<rparr>)"

definition update_server_Drop :: "bool \<Rightarrow> update_err + unit \<Rightarrow> (rpc_status + unit) \<times> bool" where
  "update_server_Drop notifier res =
     (case res of
        Inl err \<Rightarrow> (Inl (Status Internal (error_text update_text err)), False)
      | Inr _ \<Rightarrow> (Inr (), notifier))"

section \<open>Properties\<close>

text \<open>C29: Updates and drops exclude each other: however many calls arrive, at most one of them works
  on the database at a time, and the flag is set exactly while one does.\<close>

theorem one_writer_at_a_time:
  assumes "flag_reach s"
  shows "length (working s) \<le> 1 \<and> (running s \<longleftrightarrow> working s \<noteq> [])"
  using flag_inv_reach [OF assms] by (auto simp: flag_inv_def split: if_splits)

lemma one_writer_at_a_time_witness:
  "length (working \<lparr>running = True, working = [CallUpdate], rejected = [CallDrop]\<rparr>) \<le> 1"
proof -
  have "flag_step\<^sup>*\<^sup>* flag_init \<lparr>running = True, working = [CallUpdate], rejected = []\<rparr>"
    using flag_step.win [of flag_init CallUpdate] by (simp add: flag_init_def r_into_rtranclp)
  moreover have "flag_step \<lparr>running = True, working = [CallUpdate], rejected = []\<rparr>
      \<lparr>running = True, working = [CallUpdate], rejected = [CallDrop]\<rparr>"
    using flag_step.lose [of "\<lparr>running = True, working = [CallUpdate], rejected = []\<rparr>" CallDrop] by simp
  ultimately have "flag_reach \<lparr>running = True, working = [CallUpdate], rejected = [CallDrop]\<rparr>"
    unfolding flag_reach_def by (rule rtranclp.rtrancl_into_rtrancl)
  from one_writer_at_a_time [OF this] show ?thesis by blast
qed

text \<open>C21: The outcomes of a call of \<open>Update\<close>: it is refused with \<open>ErrAlreadyExists\<close> while another one
  runs, it hands on the errors of the two calls it makes first, leaving the database alone, and
  otherwise the pool runs until all its workers have gone. Then the call returns the error of the context
  exactly when some id was not handed to the workers any more, which only a cancellation brings about, and
  succeeds otherwise, even when it was cancelled after the last id; without a cancellation every missing
  comic has been worked on.\<close>

theorem Update_outcomes:
  assumes "Update_call (Update_begin get norm add concurrency busy last_id db_ids) t pool res t'"
  shows "if busy then res = Inl (Sentinel Upd_ErrAlreadyExists) \<and> t' = t \<and> pool = None
    else case last_id of
      Inl err \<Rightarrow> res = Inl err \<and> t' = t \<and> pool = None
    | Inr latest \<Rightarrow>
        (case db_ids of
           Inl err \<Rightarrow> res = Inl err \<and> t' = t \<and> pool = None
         | Inr have_ids \<Rightarrow>
             (\<exists>cfg s. Update_begin get norm add concurrency busy last_id db_ids = Inr cfg \<and> pool = Some s \<and>
                t' = store s \<and> idle s = 0 \<and> inflight s = [] \<and>
                res = (if nextId s \<le> latest then Inl ctx_err else Inr ()) \<and>
                (nextId s \<le> latest \<longrightarrow> cancelled s) \<and>
                (1 \<le> concurrency \<and> \<not> cancelled s \<longrightarrow> jobs_done cfg s = {i. 1 \<le> i \<and> i \<le> latest \<and> i \<notin> set have_ids})))"
proof (cases "Update_begin get norm add concurrency busy last_id db_ids")
  case (Inl err)
  with assms have "res = Inl err" "t' = t" "pool = None" by (auto elim: Update_call_early)
  with Inl show ?thesis by (auto simp: Update_begin_def split: if_splits sum.splits)
next
  case (Inr cfg)
  then obtain latest have_ids where ok: "\<not> busy" "last_id = Inr latest" "db_ids = Inr have_ids"
    and cfg: "cfg_latest cfg = latest" "cfg_have cfg = have_ids" "1 \<le> concurrency \<longrightarrow> 0 < cfg_workers cfg"
    by (auto simp: Update_begin_def Update_workers_def split: if_splits sum.splits)
  from pool_result [OF assms [unfolded Inr]] obtain s where
    s: "pool = Some s" "upd_reach cfg t s" "t' = store s" "returned s"
      "res = (if nextId s \<le> latest then Inl ctx_err else Inr ())" "nextId s \<le> latest \<longrightarrow> cancelled s"
      "1 \<le> concurrency \<and> \<not> cancelled s \<longrightarrow> jobs_done cfg s = set (missing cfg)"
    unfolding cfg(1) using cfg(3) by blast
  have "idle s = 0" "inflight s = []" using upd_wf_reach [OF s(2)] s(4) by (simp_all add: upd_wf_def)
  with ok Inr s(1,3,5-7) show ?thesis by (simp add: set_missing cfg)
qed

text \<open>Two examples: an empty database, and a cancellation before the first id is sent.\<close>

definition slow_get :: "int \<Rightarrow> update_err + XKCDInfo" where
  "slow_get i = Inl (Plain [])"

definition slow_cfg :: "comics_table upd_cfg" where
  "slow_cfg = \<lparr>cfg_get = slow_get, cfg_norm = (\<lambda>p. Inr None), cfg_add = storage_Add None 0, cfg_latest = 3,
     cfg_have = [], cfg_workers = 1\<rparr>"

lemma Update_outcomes_witness:
  "(\<forall>pool t'. \<not> Update_call (Update_begin slow_get (\<lambda>p. Inr None) (storage_Add None 0) 1 True (Inr 3) (Inr []))
     ([] :: comics_table) pool (Inr ()) t') \<and>
   (\<exists>s. Update_call (Update_begin slow_get (\<lambda>p. Inr None) (storage_Add None 0) 1 False (Inr 3) (Inr []))
     [] (Some s) (Inl ctx_err) [] \<and> cancelled s)"
proof
  show "\<forall>pool t'. \<not> Update_call (Update_begin slow_get (\<lambda>p. Inr None) (storage_Add None 0) 1 True (Inr 3) (Inr []))
     ([] :: comics_table) pool (Inr ()) t'"
    using Update_outcomes [of slow_get "\<lambda>p. Inr None" "storage_Add None 0" 1 True "Inr 3" "Inr []" "[]" _ "Inr ()"]
    by auto
  let ?S = "\<lambda>i x c p. \<lparr>nextId = 1, jobs = [], closed = c, idle = i, inflight = [], exited = x, store = [],
      cancelled = True, producer = p\<rparr>"
  let ?s = "?S 0 1 True (Returned (Some ctx_err))"
  have "upd_reach slow_cfg [] (?S 1 0 False Sending)"
    using upd_reach_step [OF _ upd_step.cancel, of slow_cfg "[]" "upd_init slow_cfg []"]
    by (simp add: upd_reach_def upd_init_def slow_cfg_def)
  from upd_reach_step [OF this upd_step.p_cancel]
  have "upd_reach slow_cfg [] (?S 1 0 True (Draining (Some ctx_err)))" by (simp add: slow_cfg_def)
  from upd_reach_step [OF this upd_step.w_done]
  have "upd_reach slow_cfg [] (?S 0 1 True (Draining (Some ctx_err)))" by simp
  from upd_reach_step [OF this upd_step.p_return] have r: "upd_reach slow_cfg [] ?s" by simp
  have "Update_begin slow_get (\<lambda>p. Inr None) (storage_Add None 0) 1 False (Inr 3) (Inr []) = Inr slow_cfg"
    by (simp add: Update_begin_def slow_cfg_def Update_workers_def)
  with Update_call.interrupted [OF r] show "\<exists>s. Update_call (Update_begin slow_get (\<lambda>p. Inr None) (storage_Add None 0) 1
      False (Inr 3) (Inr [])) [] (Some s) (Inl ctx_err) [] \<and> cancelled s"
    by (intro exI [of _ ?s]) simp
qed

text \<open>Subscribers hear of every change that succeeded and of nothing else: the handlers of
  \<open>Update\<close> and \<open>Drop\<close> notify exactly when they answer without error. A busy service answers
  \<open>AlreadyExists\<close> to an update, but \<open>Internal\<close> to a drop.\<close>

theorem notify_on_success:
  "(snd (update_server_Update notifier res) \<longleftrightarrow> notifier \<and> fst (update_server_Update notifier res) = Inr ()) \<and>
   (snd (update_server_Drop notifier res) \<longleftrightarrow> notifier \<and> fst (update_server_Drop notifier res) = Inr ()) \<and>
   fst (update_server_Update notifier (Inl (Sentinel Upd_ErrAlreadyExists))) =
     Inl (Status AlreadyExists ''update already running'') \<and>
   fst (update_server_Drop notifier (fst (Update_Drop db_drop True t))) =
     Inl (Status Internal (update_text Upd_ErrAlreadyExists))"
  by (auto simp: update_server_Update_def update_server_Drop_def Update_Drop_def split: sum.splits)

end
