(* ===== verification/IndexFreshness.thy ===== *)
theory IndexFreshness
  imports SearchServer UpdateServer
begin

text \<open>
  How the index of the search service follows the database of the update service
  (\<open>update/adapters/grpc/server.go\<close>, \<open>update/adapters/broker/publisher.go\<close>,
  \<open>search/adapters/broker/subscriber.go\<close>, \<open>search/adapters/initiator/indexer.go\<close> and
  \<open>Service.RebuildIndex\<close> of \<open>search/core/service.go\<close>): a labelled step relation over the table, the
  flag, the messages and the two goroutines that rebuild, from the start of the search service on. A
  rebuild reads the table first and replaces the index later, so both goroutines have a state in
  between. Whatever can go wrong on the way is a step of its own.
\<close>

section \<open>States and steps\<close>

text \<open>\<open>unpublished\<close> counts the handlers whose call succeeded and that have not notified yet; \<open>queue\<close> is the
  length of the subscriber's channel. \<open>loaded\<close> and \<open>ticked\<close> are what the subscriber and the initiator
  have read for a rebuild in progress.\<close>

record sync_state =
  sy_table :: comics_table
  sy_index :: InvertedIndex
  sy_running :: bool
  unpublished :: nat
  queue :: nat
  loaded :: "Comics list option"
  ticked :: "Comics list option"

text \<open>The channel of \<open>Subscriber.Start\<close> holds ten messages; NATS discards what a full one cannot take.\<close>

definition channel_size :: nat where
  "channel_size = 10"

definition deliver :: "string option \<Rightarrow> string option \<Rightarrow> nat \<Rightarrow> nat" where
  "deliver publish_err flush_err q =
     min channel_size (q + length (NotifyDBUpdated ''xkcd.db.updated'' publish_err flush_err))"

text \<open>\<open>RebuildIndex\<close> in two halves; the first fails with the database, and the index stays as it is.\<close>

definition rebuild_read :: "string option \<Rightarrow> comics_table \<Rightarrow> Comics list option" where
  "rebuild_read fault t = (case db_All (search_storage fault t) of Inl _ \<Rightarrow> None | Inr cs \<Rightarrow> Some cs)"

datatype rebuilder = BySubscriber | ByInitiator

datatype sync_event =
    UpdateBegins | ComicStored | UpdateEnds | UpdateFailed | DropCalled
  | Published | PublishFailed | MessageLost
  | TableRead rebuilder | ReadFailed rebuilder | IndexReplaced rebuilder

text \<open>
  The handler of an update that ends with an error, for example because it was cancelled after it had
  stored comics, notifies nobody. A message is lost when \<open>Publish\<close> fails, which is only logged, or on
  its way: NATS delivers at most once. The initiator rebuilds when the service starts and at every
  tick, that is at any moment.
\<close>

inductive sync_step :: "sync_event \<Rightarrow> sync_state \<Rightarrow> sync_state \<Rightarrow> bool" where
  update_begins: "\<not> sy_running s \<Longrightarrow> sync_step UpdateBegins s (s\<lparr>sy_running := True\<rparr>)"
| comic_stored: "sy_running s \<Longrightarrow>
    sync_step ComicStored s (s\<lparr>sy_table := snd (storage_Add None now c (sy_table s))\<rparr>)"
| update_ends: "sy_running s \<Longrightarrow> snd (update_server_Update True (Inr ())) \<Longrightarrow>
    sync_step UpdateEnds s (s\<lparr>sy_running := False, unpublished := unpublished s + 1\<rparr>)"
| update_failed: "sy_running s \<Longrightarrow> \<not> snd (update_server_Update True (Inl err)) \<Longrightarrow>
    sync_step UpdateFailed s (s\<lparr>sy_running := False\<rparr>)"
| dropped: "Update_Drop (storage_Drop None) (sy_running s) (sy_table s) = (res, r, t) \<Longrightarrow>
    sync_step DropCalled s (s\<lparr>sy_running := r, sy_table := t,
      unpublished := unpublished s + (if snd (update_server_Drop True res) then 1 else 0)\<rparr>)"
| published: "0 < unpublished s \<Longrightarrow>
    sync_step Published s (s\<lparr>unpublished := unpublished s - 1, queue := deliver None flush_err (queue s)\<rparr>)"
| publish_failed: "0 < unpublished s \<Longrightarrow>
    sync_step PublishFailed s
      (s\<lparr>unpublished := unpublished s - 1, queue := deliver (Some err) flush_err (queue s)\<rparr>)"
| message_lost: "0 < unpublished s \<Longrightarrow> sync_step MessageLost s (s\<lparr>unpublished := unpublished s - 1\<rparr>)"
| message_taken: "0 < queue s \<Longrightarrow> loaded s = None \<Longrightarrow> rebuild_read fault (sy_table s) = Some cs \<Longrightarrow>
    sync_step (TableRead BySubscriber) s (s\<lparr>queue := queue s - 1, loaded := Some cs\<rparr>)"
| message_wasted: "0 < queue s \<Longrightarrow> loaded s = None \<Longrightarrow> rebuild_read fault (sy_table s) = None \<Longrightarrow>
    sync_step (ReadFailed BySubscriber) s (s\<lparr>queue := queue s - 1\<rparr>)"
| index_replaced: "loaded s = Some cs \<Longrightarrow>
    sync_step (IndexReplaced BySubscriber) s (s\<lparr>loaded := None, sy_index := Build cs (sy_index s)\<rparr>)"
| tick_taken: "ticked s = None \<Longrightarrow> rebuild_read fault (sy_table s) = Some cs \<Longrightarrow>
    sync_step (TableRead ByInitiator) s (s\<lparr>ticked := Some cs\<rparr>)"
| tick_wasted: "ticked s = None \<Longrightarrow> rebuild_read fault (sy_table s) = None \<Longrightarrow>
    sync_step (ReadFailed ByInitiator) s s"
| tick_replaced: "ticked s = Some cs \<Longrightarrow>
    sync_step (IndexReplaced ByInitiator) s (s\<lparr>ticked := None, sy_index := Build cs (sy_index s)\<rparr>)"

text \<open>The search service has just started, with an empty index.\<close>

definition sync_start :: "comics_table \<Rightarrow> sync_state" where
  "sync_start t =
     \<lparr>sy_table = t, sy_index = NewInvertedIndex, sy_running = False, unpublished = 0, queue = 0,
      loaded = None, ticked = None\<rparr>"

text \<open>A run, with what has happened in it.\<close>

inductive sync_run :: "comics_table \<Rightarrow> sync_event list \<Rightarrow> sync_state \<Rightarrow> bool" for t where
  run_start: "sync_run t [] (sync_start t)"
| run_step: "sync_run t es s \<Longrightarrow> sync_step e s s' \<Longrightarrow> sync_run t (es @ [e]) s'"

inductive_cases tick_read_cases: "sync_step (TableRead ByInitiator) s s'"
inductive_cases tick_replaced_cases: "sync_step (IndexReplaced ByInitiator) s s'"

text \<open>Nothing is under way: no update, no message, no rebuild.\<close>

definition quiet :: "sync_state \<Rightarrow> bool" where
  "quiet s = (\<not> sy_running s \<and> unpublished s = 0 \<and> queue s = 0 \<and> loaded s = None \<and> ticked s = None)"

definition fresh :: "sync_state \<Rightarrow> bool" where
  "fresh s = (sy_index s = Build (table_comics (sy_table s)) NewInvertedIndex)"

section \<open>What may have gone wrong\<close>

text \<open>
  A monitor of the events: the rebuild that read the table last, whether it has replaced the index, and
  whether all is well since then. It is not, when news of a change was lost after that read, or when the
  index that this rebuild had made was replaced by one whose rebuild had read the table earlier.
\<close>

fun watch :: "sync_event \<Rightarrow> bool \<times> rebuilder \<times> bool \<Rightarrow> bool \<times> rebuilder \<times> bool" where
  "watch (TableRead r) m = (True, r, False)"
| "watch (IndexReplaced r) (ok, l, fin) = (if r = l then (ok, l, True) else (ok \<and> \<not> fin, l, fin))"
| "watch (ReadFailed BySubscriber) (ok, m) = (False, m)"
| "watch UpdateFailed (ok, m) = (False, m)"
| "watch PublishFailed (ok, m) = (False, m)"
| "watch MessageLost (ok, m) = (False, m)"
| "watch e m = m"

definition watched :: "sync_event list \<Rightarrow> bool \<times> rebuilder \<times> bool" where
  "watched es = fold watch es (False, ByInitiator, True)"

definition undisturbed :: "sync_event list \<Rightarrow> bool" where
  "undisturbed es = fst (watched es)"

definition accident :: "sync_event \<Rightarrow> bool" where
  "accident e = (e \<in> {UpdateFailed, PublishFailed, MessageLost, ReadFailed BySubscriber})"

lemma watched_snoc [simp]: "watched (es @ [e]) = watch e (watched es)"
  by (simp add: watched_def)

section \<open>The invariant\<close>

lemma rebuild_read_eq [simp]:
  "rebuild_read None t = Some (table_comics t)" "rebuild_read (Some err) t = None"
  by (simp_all add: rebuild_read_def search_storage_def storage_All_def rows_to_comics_eq table_comics_def comp_def)

lemma rebuild_read_Some [simp]: "rebuild_read fault t = Some cs \<longleftrightarrow> fault = None \<and> cs = table_comics t"
  by (cases fault) auto

lemma rebuild_halves:
  "rebuild_from (search_storage None t) s =
     s\<lparr>svc_db := search_storage None t, svc_index := Build (the (rebuild_read None t)) (svc_index s)\<rparr>"
  by (simp add: rebuild_from_def RebuildIndex_def search_storage_def storage_All_def rows_to_comics_eq
      table_comics_def comp_def)

lemma deliver_eq:
  "deliver None flush_err q = min channel_size (q + 1)" "deliver (Some err) flush_err q = min channel_size q"
  by (simp_all add: deliver_def NotifyDBUpdated_def)

lemma drop_cases:
  assumes "Update_Drop (storage_Drop None) run t = (res, r, t')"
  shows "run \<and> r \<and> t' = t \<and> \<not> snd (update_server_Drop True res) \<or>
    \<not> run \<and> \<not> r \<and> t' = [] \<and> snd (update_server_Drop True res)"
  using assms by (cases run) (auto simp: Update_Drop_def storage_Drop_def update_server_Drop_def)

text \<open>Unless something went wrong, news of the last change is still on its way, or the last rebuild has it.\<close>

definition progress :: "rebuilder \<Rightarrow> sync_state \<Rightarrow> Comics list option" where
  "progress r s = (case r of BySubscriber \<Rightarrow> loaded s | ByInitiator \<Rightarrow> ticked s)"

fun sync_inv :: "sync_state \<Rightarrow> bool \<times> rebuilder \<times> bool \<Rightarrow> bool" where
  "sync_inv s (ok, l, fin) =
     (table_inv (sy_table s) \<and> fin = (progress l s = None) \<and>
      (ok \<longrightarrow> sy_running s \<or> 0 < unpublished s \<or> 0 < queue s \<or>
        (case progress l s of Some cs \<Rightarrow> cs = table_comics (sy_table s) | None \<Rightarrow> fresh s)))"

lemma progress_simps [simp]:
  "progress BySubscriber s = loaded s" "progress ByInitiator s = ticked s"
  by (simp_all add: progress_def)

lemma sync_inv_step:
  assumes "sync_step e s s'" and "sync_inv s m"
  shows "sync_inv s' (watch e m)"
proof -
  obtain ok l fin where m: "m = (ok, l, fin)" by (cases m) auto
  show ?thesis
    using assms unfolding m
  proof (induction rule: sync_step.induct)
    case (dropped s res r t)
    then show ?case
      using drop_cases [OF dropped.hyps] by (cases l) (auto simp: table_inv_def fresh_def)
  next
    case (comic_stored s now c)
    then show ?case by (cases l) (simp_all add: storage_Add_effect)
  next
    case (published s ferr)
    then show ?case by (cases l) (auto simp: deliver_eq channel_size_def fresh_def)
  next
    case (index_replaced s cs)
    then show ?case
      using Build_indep [of cs "sy_index s" NewInvertedIndex] by (cases l) (auto simp: fresh_def split: option.splits)
  next
    case (tick_replaced s cs)
    then show ?case
      using Build_indep [of cs "sy_index s" NewInvertedIndex] by (cases l) (auto simp: fresh_def split: option.splits)
  qed (cases l; auto simp: fresh_def split: option.splits)+
qed

lemma sync_inv_run:
  assumes "sync_run t es s" and "table_inv t"
  shows "sync_inv s (watched es)"
  using assms
  by (induction rule: sync_run.induct) (auto simp: watched_def sync_start_def dest: sync_inv_step)

lemma tick_cures:
  assumes "sync_step (TableRead ByInitiator) s s1" and "sync_step (IndexReplaced ByInitiator) s1 s2"
  shows "sy_table s2 = sy_table s \<and> fresh s2"
  using assms Build_indep [of "table_comics (sy_table s)" "sy_index s" NewInvertedIndex]
  by (auto simp: fresh_def elim!: tick_read_cases tick_replaced_cases)

section \<open>Properties\<close>

text \<open>C8: Once nothing is under way, the index is the one of the table, so the indexed search returns what the
  search of the table returns, in every run of updates, drops, the publisher, the subscriber and the
  initiator, with any failures: unless, after the rebuild that read the table last, an update failed, a
  message was lost or could not be followed, or an older rebuild replaced the index (\<open>undisturbed\<close>). That the
  channel overflows, that the table changes during a rebuild and that both goroutines rebuild at the same
  time does no harm. And whatever has happened, the next tick that reads the table and replaces the index
  makes it fresh again.\<close>

theorem quiet_index_is_fresh:
  assumes "table_inv t" and "sync_run t es s" and "quiet s"
    and "svc_db svc = search_storage None (sy_table s)" and "svc_index svc = sy_index s"
  shows "(undisturbed es \<longrightarrow> fresh s \<and>
      map_sum id fst (IndexedSearch svc (sy_index s) phrase limit) = Find svc phrase limit) \<and>
    (\<forall>s1 s2. sync_step (TableRead ByInitiator) s s1 \<and> sync_step (IndexReplaced ByInitiator) s1 s2 \<longrightarrow>
      sy_table s2 = sy_table s \<and> fresh s2)"
proof (intro conjI impI)
  obtain ok l fin where m: "watched es = (ok, l, fin)" by (cases "watched es") auto
  have inv: "sync_inv s (ok, l, fin)" using sync_inv_run [OF assms(2,1)] by (simp only: m)
  assume "undisturbed es"
  then have idx: "fresh s"
    using inv assms(3) by (cases l) (simp_all add: undisturbed_def m quiet_def)
  then show "fresh s" .
  have tbl: "table_inv (sy_table s)" using inv by simp
  have "RebuildIndex svc = (Inr (), svc)"
    using idx assms(4,5) Build_indep [of _ "sy_index s" NewInvertedIndex]
    by (simp add: fresh_def RebuildIndex_def search_storage_def storage_All_def rows_to_comics_eq table_comics_def comp_def)
  from st.IndexedSearch_eq_Find [OF tbl assms(4) this assms(4), of phrase limit] idx assms(5)
  show "map_sum id fst (IndexedSearch svc (sy_index s) phrase limit) = Find svc phrase limit"
    by (cases "svc_words svc (TrimSpace phrase)")
      (auto simp: fresh_def Find_def Let_def split: sum.splits)
qed (use tick_cures in blast)

text \<open>For the examples: an update of an empty table, while the initiator has built the first index.\<close>

definition news :: comics_table where
  "news = snd (storage_Add None 5 (demo_comic 1) [])"

abbreviation sync_at where
  "sync_at tbl idx run unp q ld tk \<equiv> \<lparr>sy_table = tbl, sy_index = idx, sy_running = run, unpublished = unp,
     queue = q, loaded = ld, ticked = tk\<rparr>"

definition no_index :: InvertedIndex where
  "no_index = Build [] NewInvertedIndex"

definition started :: "sync_event list" where
  "started = [TableRead ByInitiator, IndexReplaced ByInitiator]"

lemma run_started: "sync_run [] started (sync_at [] no_index False 0 0 None None)"
  using run_step [OF run_step [OF run_start tick_taken [where fault = None]] tick_replaced, of "[]"]
  by (simp add: sync_start_def table_comics_def started_def no_index_def)

lemma run_stored:
  assumes "sync_run [] es (sync_at [] no_index False 0 0 None tk)"
  shows "sync_run [] (es @ [UpdateBegins, ComicStored]) (sync_at news no_index True 0 0 None tk)"
  using run_step [OF run_step [OF assms update_begins] comic_stored [where now = 5 and c = "demo_comic 1"]]
  by (simp add: news_def)

lemma run_announced:
  assumes "sync_run [] es (sync_at [] no_index False 0 0 None tk)"
  shows "sync_run [] (es @ [UpdateBegins, ComicStored, UpdateEnds]) (sync_at news no_index False 1 0 None tk)"
    and "sync_run [] (es @ [UpdateBegins, ComicStored, UpdateEnds, Published]) (sync_at news no_index False 0 1 None tk)"
proof -
  show 1: "sync_run [] (es @ [UpdateBegins, ComicStored, UpdateEnds]) (sync_at news no_index False 1 0 None tk)"
    using run_step [OF run_stored [OF assms] update_ends] by (simp add: update_server_Update_def)
  show "sync_run [] (es @ [UpdateBegins, ComicStored, UpdateEnds, Published]) (sync_at news no_index False 0 1 None tk)"
    using run_step [OF 1 published [where flush_err = None]]
    by (simp add: deliver_eq channel_size_def)
qed

lemma quiet_index_is_fresh_witness:
  "\<exists>es s. sync_run [] es s \<and> quiet s \<and> sy_table s = news \<and> undisturbed es \<and> fresh s"
proof -
  let ?es = "started @ [UpdateBegins, ComicStored, UpdateEnds, Published, TableRead BySubscriber, IndexReplaced BySubscriber]"
  let ?s = "sync_at news (Build (table_comics news) no_index) False 0 0 None None"
  have r: "sync_run [] ?es ?s"
    using run_step [OF run_step [OF run_announced(2) [OF run_started] message_taken [where fault = None]] index_replaced]
    by simp
  have i: "table_inv []" and q: "quiet ?s" and u: "undisturbed ?es"
    by (simp_all add: table_inv_def quiet_def undisturbed_def watched_def started_def)
  let ?svc = "\<lparr>svc_db = search_storage None news, svc_words = (\<lambda>p. Inr []), svc_index = sy_index ?s\<rparr>"
  from quiet_index_is_fresh [OF i r q, of ?svc "[]" 1] u have "fresh ?s" by simp
  with r q u show ?thesis by (intro exI [of _ ?es] exI [of _ ?s]) simp
qed

text \<open>C32: Each of the exceptions is real. After an update that failed half way, a message that could not be
  published, one that NATS lost, or one that the subscriber could not follow because the database did not
  answer, and, without any accident, when the initiator has read the table before an update and replaces
  the index after the subscriber, the system comes to rest with an index that lacks the comic of the
  update, and stays so until the next tick or the next change. In the first four cases the initiator does
  nothing but its build at the start.\<close>

theorem stale_index_at_rest:
  assumes "case a of None \<Rightarrow> True | Some e \<Rightarrow> accident e"
  shows "\<exists>es s. sync_run [] es s \<and> {e \<in> set es. accident e} = set_option a \<and>
    (a \<noteq> None \<longrightarrow> count_list es (TableRead ByInitiator) = 1) \<and> quiet s \<and> table_inv (sy_table s) \<and>
    map ID (table_comics (sy_table s)) = [1] \<and> sy_index s = Build [] NewInvertedIndex \<and>
    DocsForTokens (sy_index s) toks = []"
proof -
  let ?stale = "\<lambda>idx. sync_at news idx False 0 0 None None"
  let ?told = "started @ [UpdateBegins, ComicStored, UpdateEnds]"
  note told = run_announced [OF run_started]
  have "\<exists>es idx. sync_run [] es (?stale idx) \<and> {e \<in> set es. accident e} = set_option a \<and>
      (a \<noteq> None \<longrightarrow> count_list es (TableRead ByInitiator) = 1) \<and> idx = no_index"
  proof (cases a)
    case None
    let ?es = "(started @ [TableRead ByInitiator]) @ [UpdateBegins, ComicStored, UpdateEnds, Published]"
    let ?new = "Build (table_comics news) no_index"
    have "sync_run [] (started @ [TableRead ByInitiator]) (sync_at [] no_index False 0 0 None (Some []))"
      using run_step [OF run_started tick_taken [where fault = None]] by (simp add: table_comics_def)
    from run_step [OF run_announced(2) [OF this] message_taken [where fault = None]]
    have "sync_run [] (?es @ [TableRead BySubscriber]) (sync_at news no_index False 0 0 (Some (table_comics news)) (Some []))"
      by simp
    from run_step [OF run_step [OF this index_replaced] tick_replaced]
    have "sync_run [] (?es @ [TableRead BySubscriber, IndexReplaced BySubscriber, IndexReplaced ByInitiator])
        (?stale (Build [] ?new))" by simp
    moreover have "Build [] ?new = no_index" unfolding no_index_def by (rule Build_indep)
    moreover have "{e \<in> set (?es @ [TableRead BySubscriber, IndexReplaced BySubscriber, IndexReplaced ByInitiator]).
        accident e} = {}" by (auto simp: accident_def started_def)
    ultimately show ?thesis using None by (metis option.set(1))
  next
    case (Some e)
    then have "e \<in> {UpdateFailed, PublishFailed, MessageLost, ReadFailed BySubscriber}"
      using assms by (simp add: accident_def)
    then have "\<exists>es. sync_run [] (es @ [e]) (?stale no_index) \<and>
        es \<in> {started @ [UpdateBegins, ComicStored], ?told, ?told @ [Published]}"
    proof (elim insertE emptyE)
      assume "e = UpdateFailed"
      then show ?thesis
        using run_step [OF run_stored [OF run_started] update_failed [where err = ctx_err]]
        by (intro exI [of _ "started @ [UpdateBegins, ComicStored]"]) (simp add: update_server_Update_def ctx_err_def)
    next
      assume "e = PublishFailed"
      then show ?thesis
        using run_step [OF told(1) publish_failed [where err = "[]"]]
        by (intro exI [of _ ?told]) (simp add: deliver_eq channel_size_def)
    next
      assume "e = MessageLost"
      then show ?thesis
        using run_step [OF told(1) message_lost] by (intro exI [of _ ?told]) simp
    next
      assume "e = ReadFailed BySubscriber"
      then show ?thesis
        using run_step [OF told(2) message_wasted [where fault = "Some []"]]
        by (intro exI [of _ "?told @ [Published]"]) simp
    qed
    then obtain es where es: "sync_run [] (es @ [e]) (?stale no_index)"
      "es \<in> {started @ [UpdateBegins, ComicStored], ?told, ?told @ [Published]}" by blast
    then have "{e' \<in> set (es @ [e]). accident e'} = {e}" "count_list (es @ [e]) (TableRead ByInitiator) = 1"
      using assms Some by (auto simp: accident_def started_def)
    with es(1) Some show ?thesis by (metis option.set(2))
  qed
  then obtain es idx where r: "sync_run [] es (?stale idx)" "{e \<in> set es. accident e} = set_option a"
    "a \<noteq> None \<longrightarrow> count_list es (TableRead ByInitiator) = 1" "idx = no_index" by blast
  have tbl: "table_inv news" "map ID (table_comics news) = [1]" by (code_simp, code_simp)
  have "DocsForTokens no_index toks = []"
    using DocsForTokens_Build [of "[]" NewInvertedIndex toks] by (simp add: no_index_def)
  with r tbl show ?thesis
    by (intro exI [of _ es] exI [of _ "?stale idx"]) (simp add: quiet_def no_index_def)
qed

lemma stale_index_at_rest_witness:
  "\<exists>es s. sync_run [] es s \<and> MessageLost \<in> set es \<and> quiet s \<and> map ID (table_comics (sy_table s)) = [1] \<and>
     DocsForTokens (sy_index s) [''cat''] = []"
proof -
  have "case Some MessageLost of None \<Rightarrow> True | Some e \<Rightarrow> accident e" by (simp add: accident_def)
  from stale_index_at_rest [OF this, of "[''cat'']"] obtain es s where
    r: "sync_run [] es s" "{e \<in> set es. accident e} = {MessageLost}" "quiet s"
      "map ID (table_comics (sy_table s)) = [1]" "DocsForTokens (sy_index s) [''cat''] = []"
    by auto
  have "MessageLost \<in> set es" using r(2) by blast
  then show ?thesis by (intro exI [of _ es] exI [of _ s] conjI r)
qed

end
