(* ===== verification/GoJson.thy ===== *)
theory GoJson
  imports GoStrings
begin

text \<open>
  The JSON that the API reads: what \<open>json.NewDecoder(r.Body).Decode(&v)\<close> does to a struct of strings
  and 64-bit integers. A body is the first JSON value in it, or \<open>None\<close> when the text is no JSON. A
  number is \<open>JInt\<close> when it is written as an integer.
\<close>

datatype json =
    JNull
  | JBool bool
  | JInt int
  | JNumber string
  | JString string
  | JArray "json list"
  | JObject "(string \<times> json) list"

text \<open>
  Field names match case-insensitively; besides the ASCII letters, two characters fold into ASCII: the
  long s (bytes C5 BF) and the Kelvin sign (bytes E2 84 AA).
\<close>

fun fold_name :: "string \<Rightarrow> string" where
  "fold_name [] = []"
| "fold_name (c # cs) =
     (case (c, cs) of
        (CHR 0xC5, CHR 0xBF # cs') \<Rightarrow> CHR ''s'' # fold_name cs'
      | (CHR 0xE2, CHR 0x84 # CHR 0xAA # cs') \<Rightarrow> CHR ''k'' # fold_name cs'
      | _ \<Rightarrow> lower_byte c # fold_name cs)"

definition field_matches :: "string \<Rightarrow> string \<Rightarrow> bool" where
  "field_matches name key = (fold_name key = fold_name name)"

text \<open>
  The values of a field in an object, last one first; \<open>null\<close> leaves a field as it is.
\<close>

definition field_values :: "string \<Rightarrow> (string \<times> json) list \<Rightarrow> json list" where
  "field_values name kvs = rev (map snd (filter (\<lambda>(k, v). field_matches name k \<and> v \<noteq> JNull) kvs))"

definition is_string :: "json \<Rightarrow> bool" where
  "is_string v = (case v of JString _ \<Rightarrow> True | _ \<Rightarrow> False)"

definition is_int64 :: "json \<Rightarrow> bool" where
  "is_int64 v =
     (case v of JInt i \<Rightarrow> - 9223372036854775808 \<le> i \<and> i \<le> 9223372036854775807 | _ \<Rightarrow> False)"

text \<open>A field of the wrong type is an error of the whole decoding (\<open>None\<close>); a missing one is zero.\<close>

definition string_field :: "string \<Rightarrow> (string \<times> json) list \<Rightarrow> string option" where
  "string_field name kvs =
     (let vs = field_values name kvs in
      if \<not> list_all is_string vs then None
      else case vs of JString x # _ \<Rightarrow> Some x | _ \<Rightarrow> Some [])"

definition int64_field :: "string \<Rightarrow> (string \<times> json) list \<Rightarrow> int option" where
  "int64_field name kvs =
     (let vs = field_values name kvs in
      if \<not> list_all is_int64 vs then None
      else case vs of JInt i # _ \<Rightarrow> Some i | _ \<Rightarrow> Some 0)"

text \<open>The members of the value a struct is read from: an object, or nothing for \<open>null\<close>.\<close>

definition struct_members :: "json option \<Rightarrow> (string \<times> json) list option" where
  "struct_members body =
     (case body of Some (JObject kvs) \<Rightarrow> Some kvs | Some JNull \<Rightarrow> Some [] | _ \<Rightarrow> None)"

lemma string_field_single:
  "string_field n [(n, JString x)] = Some x"
  by (simp add: string_field_def field_values_def field_matches_def is_string_def)

end
