(* ===== verification/Postgres.thy ===== *)
theory Postgres
  imports Prelude
begin

text \<open>
  What the Postgres adapters rely on: the errors of the driver, and a transaction at the default
  isolation level (read committed). A transaction is the committed database, which other clients
  may change meanwhile, its own pending writes, and the flag that says that a statement failed:
  Postgres then refuses every further statement of the transaction with SQLSTATE 25P02 until it is
  rolled back.
\<close>

section \<open>Errors of the driver\<close>

datatype sql_error = PgError (pg_code: string) (pg_message: string) | DriverError (drv_message: string)

fun sql_error_text :: "sql_error \<Rightarrow> string" where
  "sql_error_text (PgError c m) = ''ERROR: '' @ m @ '' (SQLSTATE '' @ c @ '')''"
| "sql_error_text (DriverError m) = m"

text \<open>\<open>errors.As(err, &pgErr) && pgErr.Code == "23505"\<close>.\<close>

definition isUniqueViolation :: "sql_error \<Rightarrow> bool" where
  "isUniqueViolation err =
     (case err of PgError c _ \<Rightarrow> c = ''23505'' | DriverError _ \<Rightarrow> False)"

definition unique_violation :: sql_error where
  "unique_violation = PgError ''23505'' ''duplicate key value violates unique constraint''"

text \<open>No text of Postgres has a NUL byte.\<close>

definition pg_text :: "string \<Rightarrow> bool" where
  "pg_text s = (CHR 0x00 \<notin> set s)"

definition invalid_text :: sql_error where
  "invalid_text = PgError ''22021'' ''invalid byte sequence for encoding UTF8: 0x00''"

definition tx_aborted_error :: sql_error where
  "tx_aborted_error =
     PgError ''25P02'' ''current transaction is aborted, commands ignored until end of transaction block''"

lemma unique_violation_code [simp]:
  "isUniqueViolation unique_violation" "\<not> isUniqueViolation tx_aborted_error" "\<not> isUniqueViolation invalid_text"
  by (simp_all add: isUniqueViolation_def unique_violation_def tx_aborted_error_def invalid_text_def)

section \<open>Transactions\<close>

record 'd tx =
  tx_base :: 'd
  tx_pend :: "'d \<Rightarrow> 'd"
  tx_failed :: bool

definition tx_view :: "'d tx \<Rightarrow> 'd" where
  "tx_view x = tx_pend x (tx_base x)"

definition tx_begin :: "'d \<Rightarrow> 'd tx" where
  "tx_begin d = \<lparr>tx_base = d, tx_pend = (\<lambda>d. d), tx_failed = False\<rparr>"

text \<open>Another client commits.\<close>

definition tx_others :: "('d \<Rightarrow> 'd) \<Rightarrow> 'd tx \<Rightarrow> 'd tx" where
  "tx_others other x = x\<lparr>tx_base := other (tx_base x)\<rparr>"

text \<open>
  At any moment between two statements others commit; what would break a key together with the rows
  that the transaction has written waits for its end.
\<close>

definition tx_meanwhile :: "('d \<Rightarrow> bool) \<Rightarrow> ('d \<Rightarrow> 'd) \<Rightarrow> 'd tx \<Rightarrow> 'd tx" where
  "tx_meanwhile fits other x = (let y = tx_others other x in if fits (tx_view y) then y else x)"

text \<open>
  A statement reads the view; if it succeeds it has a result, a write of the transaction and an
  effect that is no part of the transaction (a sequence keeps its value after a rollback).
\<close>

type_synonym ('d, 'a) stmt = "'d \<Rightarrow> sql_error + 'a \<times> ('d \<Rightarrow> 'd) \<times> ('d \<Rightarrow> 'd)"

definition tx_run :: "sql_error option \<Rightarrow> ('d, 'a) stmt \<Rightarrow> 'd tx \<Rightarrow> (sql_error + 'a) \<times> 'd tx" where
  "tx_run fault stmt x =
     (if tx_failed x then (Inl tx_aborted_error, x)
      else case fault of
        Some e \<Rightarrow> (Inl e, x\<lparr>tx_failed := True\<rparr>)
      | None \<Rightarrow>
          (case stmt (tx_view x) of
             Inl e \<Rightarrow> (Inl e, x\<lparr>tx_failed := True\<rparr>)
           | Inr (a, w, b) \<Rightarrow> (Inr a, x\<lparr>tx_base := b (tx_base x), tx_pend := (\<lambda>d. w (tx_pend x d))\<rparr>)))"

definition tx_commit :: "sql_error option \<Rightarrow> 'd tx \<Rightarrow> (sql_error + unit) \<times> 'd" where
  "tx_commit fault x =
     (case fault of
        Some e \<Rightarrow> (Inl e, tx_base x)
      | None \<Rightarrow>
          if tx_failed x then (Inl (DriverError ''commit unexpectedly resulted in rollback''), tx_base x)
          else (Inr (), tx_view x))"

definition tx_rollback :: "'d tx \<Rightarrow> 'd" where
  "tx_rollback x = tx_base x"

text \<open>After a failed statement nothing of the transaction can succeed any more.\<close>

lemma tx_run_failed [simp]: "tx_failed x \<Longrightarrow> tx_run fault stmt x = (Inl tx_aborted_error, x)"
  by (simp add: tx_run_def)

lemma tx_run_Inl_failed: "tx_run fault stmt x = (Inl e, x') \<Longrightarrow> tx_failed x' \<and> tx_base x' = tx_base x"
  by (auto simp: tx_run_def split: if_splits option.splits sum.splits prod.splits)

lemma tx_begin_view [simp]:
  "tx_view (tx_begin d) = d" "\<not> tx_failed (tx_begin d)" "tx_base (tx_begin d) = d"
  by (simp_all add: tx_view_def tx_begin_def)

lemma tx_meanwhile_id [simp]: "tx_meanwhile fits (\<lambda>d. d) x = x"
  by (simp add: tx_meanwhile_def tx_others_def)

lemma tx_meanwhile_parts [simp]:
  "tx_pend (tx_meanwhile fits other x) = tx_pend x" "tx_failed (tx_meanwhile fits other x) = tx_failed x"
  by (simp_all add: tx_meanwhile_def tx_others_def Let_def)

lemma tx_meanwhile_base: "tx_base (tx_meanwhile fits other x) \<in> {tx_base x, other (tx_base x)}"
  by (simp add: tx_meanwhile_def tx_others_def Let_def)

lemma tx_meanwhile_fits: "fits (tx_view x) \<Longrightarrow> fits (tx_view (tx_meanwhile fits other x))"
  by (simp add: tx_meanwhile_def Let_def)

text \<open>The two ways a statement goes.\<close>

lemma tx_run_cases:
  assumes "tx_run fault stmt x = (r, y)"
  obtains (fails) e where "r = Inl e" "tx_failed y" "tx_base y = tx_base x"
  | (works) a w b where "\<not> tx_failed x" "stmt (tx_view x) = Inr (a, w, b)" "r = Inr a"
      "y = x\<lparr>tx_base := b (tx_base x), tx_pend := (\<lambda>d. w (tx_pend x d))\<rparr>"
  using assms by (auto simp: tx_run_def split: if_splits option.splits sum.splits prod.splits)

end
