(* ===== verification/Favorites.thy ===== *)
theory Favorites
  imports Postgres
begin

text \<open>
  The favorites service: \<open>search-services/favorites/core\<close>, the Postgres adapter
  \<open>adapters/db/storage.go\<close> over the table \<open>favorites\<close>
  (\<open>migrations/000001_create_favorites.up.sql\<close>) and the gRPC handlers \<open>adapters/grpc/server.go\<close>.
\<close>

section \<open>Errors, models, table\<close>

datatype fav_sentinel = Fav_ErrAlreadyExists | Fav_ErrNotFound | Fav_ErrInvalidArgs

fun fav_text :: "fav_sentinel \<Rightarrow> string" where
  "fav_text Fav_ErrAlreadyExists = ''favorite already exists''"
| "fav_text Fav_ErrNotFound = ''favorite not found''"
| "fav_text Fav_ErrInvalidArgs = ''invalid args''"

type_synonym fav_err = "fav_sentinel go_error"

text \<open>Times are counted in microseconds since the epoch, the resolution of \<open>TIMESTAMPTZ\<close>.\<close>

record Favorite =
  fav_ComicID :: i32
  fav_CreatedAt :: int

record fav_row =
  f_user :: int
  f_comic :: int
  f_created :: int

type_synonym fav_table = "fav_row list"

text \<open>
  The primary key \<open>(user_id, comic_id)\<close>; the column \<open>comic_id\<close> is a \<open>BIGINT\<close>, but the service
  writes \<open>int32\<close> values only, which the scan of \<open>List\<close> needs.
\<close>

definition fav_key :: "fav_row \<Rightarrow> int \<times> int" where
  "fav_key r = (f_user r, f_comic r)"

definition fav_inv :: "fav_table \<Rightarrow> bool" where
  "fav_inv t = (distinct (map fav_key t) \<and> list_all (\<lambda>r. int4 (f_comic r)) t)"

definition has_favorite :: "fav_table \<Rightarrow> u32 \<Rightarrow> i32 \<Rightarrow> bool" where
  "has_favorite t uid cid = ((uint uid, sint cid) \<in> fav_key ` set t)"

section \<open>The Postgres adapter (storage.go)\<close>

text \<open>The \<open>INSERT\<close>, with the key constraint of the table; \<open>fault\<close> is any other failure.\<close>

definition fav_insert :: "sql_error option \<Rightarrow> int \<Rightarrow> int \<Rightarrow> int \<Rightarrow> fav_table \<Rightarrow> sql_error + fav_table" where
  "fav_insert fault now uid cid t =
     (case fault of
        Some e \<Rightarrow> Inl e
      | None \<Rightarrow>
          if (uid, cid) \<in> fav_key ` set t
          then Inl unique_violation
          else Inr (t @ [\<lparr>f_user = uid, f_comic = cid, f_created = now\<rparr>]))"

definition fav_storage_Add ::
  "sql_error option \<Rightarrow> int \<Rightarrow> u32 \<Rightarrow> i32 \<Rightarrow> fav_table \<Rightarrow> (fav_err + unit) \<times> fav_table" where
  "fav_storage_Add fault now uid cid t =
     (case fav_insert fault now (uint uid) (sint cid) t of
        Inr t' \<Rightarrow> (Inr (), t')
      | Inl err \<Rightarrow>
          if isUniqueViolation err then (Inl (Sentinel Fav_ErrAlreadyExists), t)
          else (Inl (Wrapf ''insert favorite'' (Plain (sql_error_text err))), t))"

definition fav_storage_Delete ::
  "sql_error option \<Rightarrow> u32 \<Rightarrow> i32 \<Rightarrow> fav_table \<Rightarrow> (fav_err + unit) \<times> fav_table" where
  "fav_storage_Delete fault uid cid t =
     (case fault of
        Some err \<Rightarrow> (Inl (Wrapf ''delete favorite'' (Plain (sql_error_text err))), t)
      | None \<Rightarrow>
          let t' = filter (\<lambda>r. \<not> (f_user r = uint uid \<and> f_comic r = sint cid)) t;
              aff = length t - length t' in
          if aff = 0 then (Inl (Sentinel Fav_ErrNotFound), t') else (Inr (), t'))"

text \<open>
  \<open>ORDER BY created_at DESC\<close>; rows with equal times come in the order of the table here, which SQL
  leaves open.
\<close>

fun fav_items :: "fav_row list \<Rightarrow> Favorite list" where
  "fav_items [] = []"
| "fav_items (r # rs) = \<lparr>fav_ComicID = int32 (f_comic r), fav_CreatedAt = f_created r\<rparr> # fav_items rs"

definition fav_storage_List :: "sql_error option \<Rightarrow> u32 \<Rightarrow> fav_table \<Rightarrow> fav_err + Favorite list" where
  "fav_storage_List fault uid t =
     (case fault of
        Some err \<Rightarrow> Inl (Wrapf ''select favorites'' (Plain (sql_error_text err)))
      | None \<Rightarrow>
          let rows = sort_key (\<lambda>r. - f_created r) (filter (\<lambda>r. f_user r = uint uid) t) in
          if list_all (\<lambda>r. int4 (f_comic r)) rows then Inr (fav_items rows)
          else Inl (Wrapf ''select favorites'' (Plain ''value is out of range for int32'')))"

definition fav_storage_Ping :: "sql_error option \<Rightarrow> fav_err + unit" where
  "fav_storage_Ping fault =
     (case fault of Some err \<Rightarrow> Inl (Plain (sql_error_text err)) | None \<Rightarrow> Inr ())"

section \<open>The service (service.go)\<close>

record 't fav_db =
  fdb_Add :: "u32 \<Rightarrow> i32 \<Rightarrow> 't \<Rightarrow> (fav_err + unit) \<times> 't"
  fdb_Delete :: "u32 \<Rightarrow> i32 \<Rightarrow> 't \<Rightarrow> (fav_err + unit) \<times> 't"
  fdb_List :: "u32 \<Rightarrow> 't \<Rightarrow> fav_err + Favorite list"
  fdb_Ping :: "fav_err + unit"

definition fav_storage :: "sql_error option \<Rightarrow> int \<Rightarrow> fav_table fav_db" where
  "fav_storage fault now =
     \<lparr>fdb_Add = fav_storage_Add fault now, fdb_Delete = fav_storage_Delete fault,
      fdb_List = fav_storage_List fault, fdb_Ping = fav_storage_Ping fault\<rparr>"

definition Fav_Add :: "'t fav_db \<Rightarrow> u32 \<Rightarrow> i32 \<Rightarrow> 't \<Rightarrow> (fav_err + unit) \<times> 't" where
  "Fav_Add db uid cid t =
     (if uid = 0 \<or> sint cid \<le> 0 then (Inl (Sentinel Fav_ErrInvalidArgs), t)
      else fdb_Add db uid cid t)"

definition Fav_Delete :: "'t fav_db \<Rightarrow> u32 \<Rightarrow> i32 \<Rightarrow> 't \<Rightarrow> (fav_err + unit) \<times> 't" where
  "Fav_Delete db uid cid t =
     (if uid = 0 \<or> sint cid \<le> 0 then (Inl (Sentinel Fav_ErrInvalidArgs), t)
      else fdb_Delete db uid cid t)"

definition Fav_List :: "'t fav_db \<Rightarrow> u32 \<Rightarrow> 't \<Rightarrow> fav_err + Favorite list" where
  "Fav_List db uid t =
     (if uid = 0 then Inl (Sentinel Fav_ErrInvalidArgs) else fdb_List db uid t)"

definition Fav_Ping :: "'t fav_db \<Rightarrow> fav_err + unit" where
  "Fav_Ping db = fdb_Ping db"

section \<open>The gRPC handlers (server.go)\<close>

record FavoriteItem =
  item_ComicId :: i32
  item_CreatedAtUnix :: int

definition fav_server_Add :: "'t fav_db \<Rightarrow> u32 \<Rightarrow> i32 \<Rightarrow> 't \<Rightarrow> (rpc_status + unit) \<times> 't" where
  "fav_server_Add db uid cid t =
     (case Fav_Add db uid cid t of
        (Inl err, t') \<Rightarrow>
          (if errors_Is err Fav_ErrInvalidArgs
           then (Inl (Status InvalidArgument (error_text fav_text err)), t')
           else if errors_Is err Fav_ErrAlreadyExists
           then (Inl (Status AlreadyExists (error_text fav_text err)), t')
           else (Inl (Status Internal ''internal error''), t'))
      | (Inr _, t') \<Rightarrow> (Inr (), t'))"

definition fav_server_Delete :: "'t fav_db \<Rightarrow> u32 \<Rightarrow> i32 \<Rightarrow> 't \<Rightarrow> (rpc_status + unit) \<times> 't" where
  "fav_server_Delete db uid cid t =
     (case Fav_Delete db uid cid t of
        (Inl err, t') \<Rightarrow>
          (if errors_Is err Fav_ErrInvalidArgs
           then (Inl (Status InvalidArgument (error_text fav_text err)), t')
           else if errors_Is err Fav_ErrNotFound
           then (Inl (Status NotFound (error_text fav_text err)), t')
           else (Inl (Status Internal ''internal error''), t'))
      | (Inr _, t') \<Rightarrow> (Inr (), t'))"

text \<open>\<open>Time.Unix()\<close>: whole seconds, rounded down.\<close>

fun fav_reply_items :: "Favorite list \<Rightarrow> FavoriteItem list" where
  "fav_reply_items [] = []"
| "fav_reply_items (it # its) =
     \<lparr>item_ComicId = fav_ComicID it, item_CreatedAtUnix = fav_CreatedAt it div 1000000\<rparr> # fav_reply_items its"

definition fav_server_List :: "'t fav_db \<Rightarrow> u32 \<Rightarrow> 't \<Rightarrow> rpc_status + FavoriteItem list" where
  "fav_server_List db uid t =
     (case Fav_List db uid t of
        Inl err \<Rightarrow>
          (if errors_Is err Fav_ErrInvalidArgs
           then Inl (Status InvalidArgument (error_text fav_text err))
           else Inl (Status Internal ''internal error''))
      | Inr items \<Rightarrow> Inr (fav_reply_items items))"

definition fav_server_Ping :: "'t fav_db \<Rightarrow> rpc_status + unit" where
  "fav_server_Ping db =
     (case Fav_Ping db of
        Inl err \<Rightarrow> Inl (Status Unavailable (error_text fav_text err))
      | Inr _ \<Rightarrow> Inr ())"

section \<open>The contract of the port\<close>

text \<open>
  What the service relies on: \<open>favs t\<close> is the set of pairs a store holds. An insert adds an absent
  pair and reports a present one, a delete removes a present pair and reports an absent one, and a
  listing shows exactly the comics of its user.
\<close>

locale fav_store =
  fixes db :: "'t fav_db" and favs :: "'t \<Rightarrow> (u32 \<times> i32) set" and inv :: "'t \<Rightarrow> bool"
  assumes add_new: "inv t \<Longrightarrow> (u, c) \<notin> favs t \<Longrightarrow> fst (fdb_Add db u c t) = Inr ()"
    and add_dup: "inv t \<Longrightarrow> (u, c) \<in> favs t \<Longrightarrow> fst (fdb_Add db u c t) = Inl (Sentinel Fav_ErrAlreadyExists)"
    and favs_add: "inv t \<Longrightarrow> favs (snd (fdb_Add db u c t)) = insert (u, c) (favs t)"
    and inv_add: "inv t \<Longrightarrow> inv (snd (fdb_Add db u c t))"
    and delete_old: "inv t \<Longrightarrow> (u, c) \<in> favs t \<Longrightarrow> fst (fdb_Delete db u c t) = Inr ()"
    and delete_none: "inv t \<Longrightarrow> (u, c) \<notin> favs t \<Longrightarrow>
      fst (fdb_Delete db u c t) = Inl (Sentinel Fav_ErrNotFound)"
    and favs_delete: "inv t \<Longrightarrow> favs (snd (fdb_Delete db u c t)) = favs t - {(u, c)}"
    and inv_delete: "inv t \<Longrightarrow> inv (snd (fdb_Delete db u c t))"
    and list_favs: "inv t \<Longrightarrow> \<exists>its. fdb_List db u t = Inr its \<and> distinct (map fav_ComicID its) \<and>
      set (map fav_ComicID its) = {c. (u, c) \<in> favs t}"
begin

definition valid :: "u32 \<Rightarrow> i32 \<Rightarrow> bool" where
  "valid u c = (u \<noteq> 0 \<and> 0 < sint c)"

lemma server_Add:
  assumes "inv t"
  shows "fav_server_Add db u c t =
    (if \<not> valid u c then (Inl (Status InvalidArgument ''invalid args''), t)
     else (if (u, c) \<in> favs t then Inl (Status AlreadyExists ''favorite already exists'') else Inr (),
           snd (fdb_Add db u c t)))"
  using add_new [OF assms, of u c] add_dup [OF assms, of u c]
  by (cases "fdb_Add db u c t") (auto simp: fav_server_Add_def Fav_Add_def valid_def)

lemma server_Delete:
  assumes "inv t"
  shows "fav_server_Delete db u c t =
    (if \<not> valid u c then (Inl (Status InvalidArgument ''invalid args''), t)
     else (if (u, c) \<in> favs t then Inr () else Inl (Status NotFound ''favorite not found''),
           snd (fdb_Delete db u c t)))"
  using delete_old [OF assms, of u c] delete_none [OF assms, of u c]
  by (cases "fdb_Delete db u c t") (auto simp: fav_server_Delete_def Fav_Delete_def valid_def)

lemma server_Add_favs:
  "inv t \<Longrightarrow> favs (snd (fav_server_Add db u c t)) = (if valid u c then insert (u, c) (favs t) else favs t)"
  "inv t \<Longrightarrow> inv (snd (fav_server_Add db u c t))"
  by (simp_all add: server_Add favs_add inv_add)

lemma server_Delete_favs:
  "inv t \<Longrightarrow> favs (snd (fav_server_Delete db u c t)) = (if valid u c then favs t - {(u, c)} else favs t)"
  "inv t \<Longrightarrow> inv (snd (fav_server_Delete db u c t))"
  by (simp_all add: server_Delete favs_delete inv_delete)

lemma reply_items_ids: "map item_ComicId (fav_reply_items its) = map fav_ComicID its"
  by (induction its) auto

lemma server_List:
  assumes "inv t" and "u \<noteq> 0"
  obtains its where "fav_server_List db u t = Inr its" and "distinct (map item_ComicId its)"
    and "set (map item_ComicId its) = {c. (u, c) \<in> favs t}"
proof -
  obtain its where "fdb_List db u t = Inr its" "distinct (map fav_ComicID its)"
    "set (map fav_ComicID its) = {c. (u, c) \<in> favs t}"
    using list_favs [OF assms(1)] by blast
  then show ?thesis
    using that [of "fav_reply_items its"] assms(2)
    by (simp only: fav_server_List_def Fav_List_def reply_items_ids if_False sum.case)
qed

end

section \<open>The table keeps the contract\<close>

definition table_favs :: "fav_table \<Rightarrow> (u32 \<times> i32) set" where
  "table_favs t = {(u, c). has_favorite t u c}"

lemma fav_items_eq:
  "fav_items rs = map (\<lambda>r. \<lparr>fav_ComicID = int32 (f_comic r), fav_CreatedAt = f_created r\<rparr>) rs"
  by (induction rs) auto

lemma in_table_favs: "(u, c) \<in> table_favs t \<longleftrightarrow> (uint u, sint c) \<in> fav_key ` set t"
  by (simp add: table_favs_def has_favorite_def)

lemma fav_storage_Add_None:
  "fav_storage_Add None now u c t =
    (if (u, c) \<in> table_favs t then (Inl (Sentinel Fav_ErrAlreadyExists), t)
     else (Inr (), t @ [\<lparr>f_user = uint u, f_comic = sint c, f_created = now\<rparr>]))"
  by (simp add: fav_storage_Add_def fav_insert_def in_table_favs)

lemma fav_storage_Delete_None:
  "fav_storage_Delete None u c t =
    (if (u, c) \<in> table_favs t then Inr () else Inl (Sentinel Fav_ErrNotFound),
     filter (\<lambda>r. fav_key r \<noteq> (uint u, sint c)) t)"
proof -
  let ?P = "\<lambda>r. fav_key r \<noteq> (uint u, sint c)"
  have P: "filter (\<lambda>r. \<not> (f_user r = uint u \<and> f_comic r = sint c)) t = filter ?P t"
    by (simp add: fav_key_def)
  have "length t - length (filter ?P t) = length (filter (\<lambda>r. \<not> ?P r) t)"
    using sum_length_filter_compl [of ?P t] by linarith
  then have "length t - length (filter ?P t) = 0 \<longleftrightarrow> (u, c) \<notin> table_favs t"
    by (auto simp: in_table_favs filter_empty_conv image_iff)
  then show ?thesis
    unfolding fav_storage_Delete_def Let_def option.case P by auto
qed

lemma fav_storage_List_None:
  assumes "fav_inv t"
  shows "fav_storage_List None u t =
    Inr (fav_items (sort_key (\<lambda>r. - f_created r) (filter (\<lambda>r. f_user r = uint u) t)))"
  using assms by (auto simp: fav_storage_List_def fav_inv_def list_all_iff Let_def)

lemma fav_storage_List_ids:
  assumes "fav_inv t"
  shows "\<exists>its. fav_storage_List None u t = Inr its \<and> distinct (map fav_ComicID its) \<and>
    set (map fav_ComicID its) = {c. (u, c) \<in> table_favs t}"
proof -
  let ?rs = "sort_key (\<lambda>r. - f_created r) (filter (\<lambda>r. f_user r = uint u) t)"
  have rows: "r \<in> set ?rs \<longleftrightarrow> r \<in> set t \<and> f_user r = uint u" for r by simp
  have int4: "int4 (f_comic r)" if "r \<in> set t" for r
    using that assms by (simp add: fav_inv_def list_all_iff)
  have key_inj: "inj_on fav_key (set t)" and "distinct t"
    using assms by (auto simp: fav_inv_def distinct_map)
  have "inj_on (\<lambda>r. int32 (f_comic r)) (set ?rs)"
  proof (rule inj_onI)
    fix a b assume a: "a \<in> set ?rs" "b \<in> set ?rs" "int32 (f_comic a) = int32 (f_comic b)"
    then have "f_comic a = f_comic b"
      using int4 [of a] int4 [of b] by (metis rows sint_int32)
    with a have "fav_key a = fav_key b" "a \<in> set t" "b \<in> set t" by (simp_all add: fav_key_def)
    then show "a = b" using key_inj by (simp add: inj_on_eq_iff)
  qed
  then have "distinct (map (\<lambda>r. int32 (f_comic r)) ?rs)"
    using \<open>distinct t\<close> by (simp add: distinct_map)
  moreover have "set (map (\<lambda>r. int32 (f_comic r)) ?rs) = {c. (u, c) \<in> table_favs t}"
  proof (intro set_eqI iffI)
    fix c assume "c \<in> set (map (\<lambda>r. int32 (f_comic r)) ?rs)"
    then obtain r where r: "r \<in> set t" "f_user r = uint u" "c = int32 (f_comic r)" by auto
    then have "fav_key r = (uint u, sint c)" using int4 by (simp add: fav_key_def)
    with r(1) show "c \<in> {c. (u, c) \<in> table_favs t}"
      by (metis (no_types, lifting) in_table_favs imageI mem_Collect_eq)
  next
    fix c assume "c \<in> {c. (u, c) \<in> table_favs t}"
    then obtain r where "r \<in> set t" "f_user r = uint u" "f_comic r = sint c"
      by (auto simp: in_table_favs fav_key_def)
    then show "c \<in> set (map (\<lambda>r. int32 (f_comic r)) ?rs)" by force
  qed
  ultimately show ?thesis
    by (simp add: fav_storage_List_None [OF assms] fav_items_eq comp_def image_image)
qed

lemma table_favs_append:
  "table_favs (t @ [\<lparr>f_user = uint u, f_comic = sint c, f_created = now\<rparr>]) = insert (u, c) (table_favs t)"
  by (auto simp: in_table_favs fav_key_def sint_eq_i32 uint_eq_u32)

lemma table_favs_filter:
  "table_favs (filter (\<lambda>r. fav_key r \<noteq> (uint u, sint c)) t) = table_favs t - {(u, c)}"
proof (intro set_eqI)
  fix p show "p \<in> table_favs (filter (\<lambda>r. fav_key r \<noteq> (uint u, sint c)) t) \<longleftrightarrow> p \<in> table_favs t - {(u, c)}"
  proof (cases p)
    case (Pair a b)
    have "(uint a, sint b) = (uint u, sint c) \<longleftrightarrow> (a, b) = (u, c)"
      by (simp add: sint_eq_i32 uint_eq_u32)
    then show ?thesis unfolding Pair
      by (cases "(a, b) = (u, c)") (auto simp: in_table_favs image_iff simp del: prod.inject)
  qed
qed

lemma fav_inv_append:
  "fav_inv t \<Longrightarrow> (u, c) \<notin> table_favs t \<Longrightarrow>
   fav_inv (t @ [\<lparr>f_user = uint u, f_comic = sint c, f_created = now\<rparr>])"
  by (auto simp: fav_inv_def in_table_favs fav_key_def)

lemma fav_inv_filter: "fav_inv t \<Longrightarrow> fav_inv (filter P t)"
  by (auto simp: fav_inv_def distinct_map_filter list_all_iff)

interpretation fs: fav_store "fav_storage None now" table_favs fav_inv for now
proof (unfold_locales, goal_cases)
  case (9 t u)
  then show ?case by (simp add: fav_storage_def fav_storage_List_ids del: set_map)
qed (simp_all add: fav_storage_def fav_storage_Add_None fav_storage_Delete_None table_favs_append
    table_favs_filter fav_inv_append fav_inv_filter insert_absorb)

text \<open>The newest favorites come first.\<close>

lemma fav_storage_List_newest_first:
  assumes "fav_storage_List None u t = Inr its"
  shows "sorted (map (\<lambda>it. - fav_CreatedAt it) its)"
proof -
  let ?rs = "sort_key (\<lambda>r. - f_created r) (filter (\<lambda>r. f_user r = uint u) t)"
  have "its = fav_items ?rs"
    using assms by (simp add: fav_storage_List_def Let_def split: if_splits)
  moreover have "sorted (map (\<lambda>r. - f_created r) ?rs)" by (rule sorted_sort_key)
  ultimately show ?thesis by (simp add: fav_items_eq comp_def)
qed

section \<open>Properties\<close>

text \<open>\<open>Add\<close> answers exactly: invalid ids are refused without touching the table, a favorite that is
  there is reported as \<open>AlreadyExists\<close>, and otherwise it is stored; in every case the table afterwards
  holds the favorites it held and, for valid ids, the new one.\<close>

theorem favorite_add:
  assumes "fav_inv t"
  shows "let (r, t') = fav_server_Add (fav_storage None now) u c t in
    fav_inv t' \<and>
    (if u = 0 \<or> sint c \<le> 0 then r = Inl (Status InvalidArgument ''invalid args'') \<and> t' = t
     else (r = (if (u, c) \<in> table_favs t
              then Inl (Status AlreadyExists ''favorite already exists'') else Inr ())) \<and>
          table_favs t' = insert (u, c) (table_favs t))"
  using fs.server_Add [OF assms, of now u c] fs.server_Add_favs [OF assms, of now u c]
  by (auto simp: case_prod_beta fs.valid_def not_less)

lemma favorite_add_witness:
  "fst (fav_server_Add (fav_storage None 9) 1 5 [\<lparr>f_user = 1, f_comic = 5, f_created = 3\<rparr>]) =
     Inl (Status AlreadyExists ''favorite already exists'')"
proof -
  have inv: "fav_inv [\<lparr>f_user = 1, f_comic = 5, f_created = 3\<rparr>]" by (simp add: fav_inv_def int4_def)
  have "(1, 5) \<in> table_favs [\<lparr>f_user = 1, f_comic = 5, f_created = 3\<rparr>]"
    by (simp add: in_table_favs fav_key_def)
  then show ?thesis using favorite_add [OF inv, of 9 1 5] by (auto simp: case_prod_beta Let_def)
qed

text \<open>\<open>Delete\<close> answers exactly: it removes a favorite that is there and reports \<open>NotFound\<close> for one
  that is not, and no other favorite of any user is affected.\<close>

theorem favorite_delete:
  assumes "fav_inv t"
  shows "let (r, t') = fav_server_Delete (fav_storage None now) u c t in
    fav_inv t' \<and>
    (if u = 0 \<or> sint c \<le> 0 then r = Inl (Status InvalidArgument ''invalid args'') \<and> t' = t
     else (r = (if (u, c) \<in> table_favs t then Inr ()
              else Inl (Status NotFound ''favorite not found''))) \<and>
          table_favs t' = table_favs t - {(u, c)})"
  using fs.server_Delete [OF assms, of now u c] fs.server_Delete_favs [OF assms, of now u c]
  by (auto simp: case_prod_beta fs.valid_def not_less)

lemma favorite_delete_witness:
  "table_favs (snd (fav_server_Delete (fav_storage None 9) 1 5 [\<lparr>f_user = 1, f_comic = 5, f_created = 3\<rparr>])) = {}"
proof -
  have inv: "fav_inv [\<lparr>f_user = 1, f_comic = 5, f_created = 3\<rparr>]" by (simp add: fav_inv_def int4_def)
  have "table_favs [\<lparr>f_user = 1, f_comic = 5, f_created = 3\<rparr>] \<subseteq> {(1, 5)}"
    using sint_eq_i32 [of _ 5] uint_eq_u32 [of _ 1] by (auto simp: in_table_favs fav_key_def)
  then show ?thesis using favorite_delete [OF inv, of 9 1 5] by (auto simp: case_prod_beta Let_def)
qed

text \<open>A history of requests, each with the time it is served at.\<close>

datatype fav_request = ReqAdd u32 i32 | ReqDelete u32 i32

fun fav_serve :: "int \<times> fav_request \<Rightarrow> fav_table \<Rightarrow> fav_table" where
  "fav_serve (now, ReqAdd u c) t = snd (fav_server_Add (fav_storage None now) u c t)"
| "fav_serve (now, ReqDelete u c) t = snd (fav_server_Delete (fav_storage None now) u c t)"

fun fav_spec :: "int \<times> fav_request \<Rightarrow> (u32 \<times> i32) set \<Rightarrow> (u32 \<times> i32) set" where
  "fav_spec (now, ReqAdd u c) F = (if u \<noteq> 0 \<and> 0 < sint c then insert (u, c) F else F)"
| "fav_spec (now, ReqDelete u c) F = (if u \<noteq> 0 \<and> 0 < sint c then F - {(u, c)} else F)"

lemma fav_serve_spec:
  "fav_inv t \<Longrightarrow> fav_inv (fav_serve q t) \<and> table_favs (fav_serve q t) = fav_spec q (table_favs t)"
  by (cases "(q, t)" rule: fav_serve.cases)
    (simp_all add: fs.server_Add_favs fs.server_Delete_favs fs.valid_def)

lemma fav_history:
  "fav_inv t \<Longrightarrow> fav_inv (fold fav_serve qs t) \<and> table_favs (fold fav_serve qs t) = fold fav_spec qs (table_favs t)"
  by (induction qs arbitrary: t) (simp_all add: fav_serve_spec)

lemma reply_items_sorted:
  assumes "sorted (map (\<lambda>it. - fav_CreatedAt it) xs)"
  shows "sorted (map (\<lambda>it. - item_CreatedAtUnix it) (fav_reply_items xs))"
proof -
  have "map (\<lambda>it. - item_CreatedAtUnix it) (fav_reply_items xs) =
      map (\<lambda>it. - (fav_CreatedAt it div 1000000)) xs"
    by (induction xs) auto
  moreover have "sorted_wrt (\<lambda>x y. - (fav_CreatedAt x div 1000000) \<le> - (fav_CreatedAt y div 1000000)) xs"
    using assms unfolding sorted_map by (rule sorted_wrt_mono_rel [rotated]) (simp add: zdiv_mono1)
  ultimately show ?thesis by (simp only: sorted_map)
qed

text \<open>C9: The service refines a set of pairs: after any history of requests, \<open>List\<close> shows each user
  exactly the comics added and not removed since, each once, the newest first.\<close>

theorem favorites_refine_set:
  assumes "u \<noteq> 0"
  shows "\<exists>its. fav_server_List (fav_storage None now) u (fold fav_serve qs []) = Inr its \<and>
    distinct (map item_ComicId its) \<and>
    set (map item_ComicId its) = {c. (u, c) \<in> fold fav_spec qs {}} \<and>
    sorted (map (\<lambda>it. - item_CreatedAtUnix it) its)"
proof -
  let ?t = "fold fav_serve qs []"
  have "fav_inv []" "table_favs [] = {}"
    by (simp_all add: fav_inv_def table_favs_def has_favorite_def)
  from fav_history [OF this(1), of qs] this(2)
  have t: "fav_inv ?t" "table_favs ?t = fold fav_spec qs {}" by simp_all
  obtain its where its: "fav_server_List (fav_storage None now) u ?t = Inr its"
    "distinct (map item_ComicId its)" "set (map item_ComicId its) = {c. (u, c) \<in> table_favs ?t}"
    by (rule fs.server_List [OF t(1) assms])
  obtain fs where fs: "fav_storage_List None u ?t = Inr fs" "its = fav_reply_items fs"
    using its(1) assms unfolding fav_server_List_def Fav_List_def fav_storage_def if_not_P [OF assms]
    by (cases "fav_storage_List None u ?t") (simp_all split: if_splits)
  have "sorted (map (\<lambda>it. - item_CreatedAtUnix it) its)"
    unfolding fs(2) by (rule reply_items_sorted [OF fav_storage_List_newest_first [OF fs(1)]])
  with its(1) its(2) its(3) [unfolded t(2)] show ?thesis by blast
qed

lemma favorites_refine_set_witness:
  "\<exists>its. fav_server_List (fav_storage None 0) 1
      (fold fav_serve [(1, ReqAdd 1 5), (2, ReqAdd 1 7), (3, ReqDelete 1 5)] []) = Inr its \<and>
    set (map item_ComicId its) = {7}"
  using favorites_refine_set [of 1 0 "[(1, ReqAdd 1 5), (2, ReqAdd 1 7), (3, ReqDelete 1 5)]"]
  by auto

end
