(* ===== verification/AuthStorage.thy ===== *)
theory AuthStorage
  imports Postgres
begin

text \<open>
  The data of the auth service (\<open>search-services/auth/core/errors.go\<close>, \<open>models.go\<close>) and its
  Postgres adapter \<open>adapters/db/storage.go\<close> over the tables \<open>users\<close>, \<open>user_comicshub\<close> and
  \<open>user_telegram\<close> of \<open>migrations/000001_create_init.up.sql\<close>. An adapter operation takes the
  errors of the driver and \<open>other\<close>, what the other clients commit, as functions of the statement's
  position, and the time \<open>now\<close>. A failed commit has not happened. The texts come through gRPC, so they
  are UTF-8; emails have passed the service's check and hashes are those of bcrypt, but the names of a
  Telegram profile may have NUL bytes, which Postgres refuses.
\<close>

section \<open>Errors and models\<close>

datatype auth_sentinel =
  Auth_ErrUserAlreadyExists | Auth_ErrInvalidCredentials | Auth_ErrInvalidEmail | Auth_ErrNotFound

fun auth_text :: "auth_sentinel \<Rightarrow> string" where
  "auth_text Auth_ErrUserAlreadyExists = ''user already exists''"
| "auth_text Auth_ErrInvalidCredentials = ''invalid credentials''"
| "auth_text Auth_ErrInvalidEmail = ''invalid email format''"
| "auth_text Auth_ErrNotFound = ''not found''"

type_synonym auth_err = "auth_sentinel go_error"

record User =
  user_ID :: int
  user_CreatedAt :: int

record TelegramProfile =
  TgID :: int
  Username :: string
  FirstName :: string
  LastName :: string

record ComicsHubProfile =
  Email :: string
  PasswordHash :: string

section \<open>The tables\<close>

record hub_row =
  h_user :: int
  h_email :: string
  h_hash :: string

record tg_row =
  t_user :: int
  t_tg :: int
  t_username :: string
  t_first :: string
  t_last :: string
  t_updated :: int

text \<open>\<open>auth_seq\<close> is the next value of the sequence behind \<open>users.id\<close>.\<close>

record auth_db =
  auth_seq :: int
  auth_users :: "User list"
  auth_hub :: "hub_row list"
  auth_tg :: "tg_row list"

definition auth_empty :: auth_db where
  "auth_empty = \<lparr>auth_seq = 1, auth_users = [], auth_hub = [], auth_tg = []\<rparr>"

text \<open>
  The constraints of the schema, the sequence ahead of all ids, and what the transactions of the
  adapter are there for: every user has an account.
\<close>

definition auth_inv :: "auth_db \<Rightarrow> bool" where
  "auth_inv d =
     (1 \<le> auth_seq d \<and>
      distinct (map user_ID (auth_users d)) \<and> list_all (\<lambda>u. 1 \<le> user_ID u \<and> user_ID u < auth_seq d) (auth_users d) \<and>
      distinct (map h_email (auth_hub d)) \<and> distinct (map h_user (auth_hub d)) \<and>
      distinct (map t_tg (auth_tg d)) \<and> distinct (map t_user (auth_tg d)) \<and>
      set (map user_ID (auth_users d)) = set (map h_user (auth_hub d)) \<union> set (map t_user (auth_tg d)))"

text \<open>The keys and the references alone.\<close>

definition keys_ok :: "auth_db \<Rightarrow> bool" where
  "keys_ok d =
     (distinct (map user_ID (auth_users d)) \<and>
      distinct (map h_email (auth_hub d)) \<and> distinct (map h_user (auth_hub d)) \<and>
      distinct (map t_tg (auth_tg d)) \<and> distinct (map t_user (auth_tg d)) \<and>
      set (map h_user (auth_hub d)) \<union> set (map t_user (auth_tg d)) \<subseteq> set (map user_ID (auth_users d)))"

abbreviation meanwhile :: "(auth_db \<Rightarrow> auth_db) \<Rightarrow> auth_db tx \<Rightarrow> auth_db tx" where
  "meanwhile \<equiv> tx_meanwhile keys_ok"

section \<open>The statements\<close>

definition names_ok :: "TelegramProfile \<Rightarrow> bool" where
  "names_ok p = (pg_text (Username p) \<and> pg_text (FirstName p) \<and> pg_text (LastName p))"

definition ins_user :: "int \<Rightarrow> (auth_db, User) stmt" where
  "ins_user now d =
     (if auth_seq d > 9223372036854775807
      then Inl (PgError ''2200H'' ''nextval: reached maximum value of sequence'')
      else let u = \<lparr>user_ID = auth_seq d, user_CreatedAt = now\<rparr>
           in Inr (u, \<lambda>d. d\<lparr>auth_users := auth_users d @ [u]\<rparr>, \<lambda>d. d\<lparr>auth_seq := auth_seq d + 1\<rparr>))"

definition ins_hub :: "int \<Rightarrow> ComicsHubProfile \<Rightarrow> (auth_db, unit) stmt" where
  "ins_hub uid p d =
     (if uid \<in> h_user ` set (auth_hub d) \<or> Email p \<in> h_email ` set (auth_hub d) then Inl unique_violation
      else if uid \<notin> user_ID ` set (auth_users d)
      then Inl (PgError ''23503'' ''violates foreign key constraint'')
      else Inr ((), \<lambda>d. d\<lparr>auth_hub := auth_hub d @
             [\<lparr>h_user = uid, h_email = Email p, h_hash = PasswordHash p\<rparr>]\<rparr>, \<lambda>d. d))"

definition sel_tg :: "int \<Rightarrow> (auth_db, int option) stmt" where
  "sel_tg tid d =
     Inr (map_option t_user (List.find (\<lambda>r. t_tg r = tid) (auth_tg d)), \<lambda>d. d, \<lambda>d. d)"

definition upd_tg :: "int \<Rightarrow> TelegramProfile \<Rightarrow> (auth_db, unit) stmt" where
  "upd_tg now p d =
     (if \<not> names_ok p then Inl invalid_text
      else Inr ((), \<lambda>d. d\<lparr>auth_tg := map (\<lambda>r. if t_tg r = TgID p
            then r\<lparr>t_username := Username p, t_first := FirstName p, t_last := LastName p,
                   t_updated := now\<rparr> else r) (auth_tg d)\<rparr>, \<lambda>d. d))"

definition ins_tg :: "int \<Rightarrow> int \<Rightarrow> TelegramProfile \<Rightarrow> (auth_db, unit) stmt" where
  "ins_tg now uid p d =
     (if \<not> names_ok p then Inl invalid_text
      else if uid \<in> t_user ` set (auth_tg d) \<or> TgID p \<in> t_tg ` set (auth_tg d) then Inl unique_violation
      else if uid \<notin> user_ID ` set (auth_users d)
      then Inl (PgError ''23503'' ''violates foreign key constraint'')
      else Inr ((), \<lambda>d. d\<lparr>auth_tg := auth_tg d @
             [\<lparr>t_user = uid, t_tg = TgID p, t_username = Username p, t_first = FirstName p,
               t_last = LastName p, t_updated = now\<rparr>]\<rparr>, \<lambda>d. d))"

definition sel_user :: "int \<Rightarrow> (auth_db, User option) stmt" where
  "sel_user uid d = Inr (List.find (\<lambda>u. user_ID u = uid) (auth_users d), \<lambda>d. d, \<lambda>d. d)"

section \<open>The operations of the adapter\<close>

definition wrap_sql :: "string \<Rightarrow> sql_error \<Rightarrow> auth_err" where
  "wrap_sql what e = Wrapf what (Plain (sql_error_text e))"

definition auth_storage_Ping :: "sql_error option \<Rightarrow> auth_err + unit" where
  "auth_storage_Ping fault =
     (case fault of Some e \<Rightarrow> Inl (Plain (sql_error_text e)) | None \<Rightarrow> Inr ())"

definition CreateComicshubUser ::
  "(nat \<Rightarrow> sql_error option) \<Rightarrow> int \<Rightarrow> (nat \<Rightarrow> auth_db \<Rightarrow> auth_db) \<Rightarrow> ComicsHubProfile \<Rightarrow> auth_db
     \<Rightarrow> (auth_err + User) \<times> auth_db" where
  "CreateComicshubUser faults now other p d =
     (case faults 0 of
        Some e \<Rightarrow> (Inl (wrap_sql ''begin tx'' e), d)
      | None \<Rightarrow>
     (case tx_run (faults 1) (ins_user now) (meanwhile (other 1) (tx_begin d)) of
        (Inl e, x) \<Rightarrow> (Inl (wrap_sql ''insert users'' e), tx_rollback x)
      | (Inr u, x) \<Rightarrow>
     (case tx_run (faults 2) (ins_hub (user_ID u) p) (meanwhile (other 2) x) of
        (Inl e, x) \<Rightarrow>
          if isUniqueViolation e then (Inl (Sentinel Auth_ErrUserAlreadyExists), tx_rollback x)
          else (Inl (wrap_sql ''insert user_comicshub'' e), tx_rollback x)
      | (Inr _, x) \<Rightarrow>
     (case tx_commit (faults 3) (meanwhile (other 3) x) of
        (Inl e, d) \<Rightarrow> (Inl (wrap_sql ''commit tx'' e), d)
      | (Inr _, d) \<Rightarrow> (Inr u, d)))))"

definition GetComicshubByEmail ::
  "sql_error option \<Rightarrow> string \<Rightarrow> auth_db \<Rightarrow> auth_err + User \<times> string" where
  "GetComicshubByEmail fault email d =
     (case fault of
        Some e \<Rightarrow> Inl (wrap_sql ''select user_comicshub user by email'' e)
      | None \<Rightarrow>
          (case List.find (\<lambda>c. h_email c = email \<and> h_user c \<in> user_ID ` set (auth_users d)) (auth_hub d) of
             None \<Rightarrow> Inl (Sentinel Auth_ErrNotFound)
           | Some c \<Rightarrow>
               (case List.find (\<lambda>u. user_ID u = h_user c) (auth_users d) of
                  None \<Rightarrow> Inl (Sentinel Auth_ErrNotFound)
                | Some u \<Rightarrow> Inr (u, h_hash c))))"

text \<open>The helpers \<open>updateProfile\<close> and \<open>loadUser\<close> and the commit that follows them.\<close>

definition updateProfile ::
  "sql_error option \<Rightarrow> int \<Rightarrow> TelegramProfile \<Rightarrow> auth_db tx \<Rightarrow> (auth_err + unit) \<times> auth_db tx" where
  "updateProfile fault now p x =
     (case tx_run fault (upd_tg now p) x of
        (Inl e, x) \<Rightarrow> (Inl (wrap_sql ''update user_telegram'' e), x)
      | (Inr _, x) \<Rightarrow> (Inr (), x))"

definition loadUser :: "sql_error option \<Rightarrow> int \<Rightarrow> auth_db tx \<Rightarrow> (auth_err + User) \<times> auth_db tx" where
  "loadUser fault uid x =
     (case tx_run fault (sel_user uid) x of
        (Inl e, x) \<Rightarrow> (Inl (wrap_sql ''load users'' e), x)
      | (Inr None, x) \<Rightarrow> (Inl (Wrapf ''load users'' (Plain ''sql: no rows in result set'')), x)
      | (Inr (Some u), x) \<Rightarrow> (Inr u, x))"

definition tg_existing ::
  "(nat \<Rightarrow> sql_error option) \<Rightarrow> int \<Rightarrow> (nat \<Rightarrow> auth_db \<Rightarrow> auth_db) \<Rightarrow> TelegramProfile \<Rightarrow> int \<Rightarrow> auth_db tx
     \<Rightarrow> (auth_err + User) \<times> auth_db" where
  "tg_existing faults now other p uid x =
     (case updateProfile (faults 0) now p (meanwhile (other 0) x) of
        (Inl e, x) \<Rightarrow> (Inl e, tx_rollback x)
      | (Inr _, x) \<Rightarrow>
     (case loadUser (faults 1) uid (meanwhile (other 1) x) of
        (Inl e, x) \<Rightarrow> (Inl e, tx_rollback x)
      | (Inr u, x) \<Rightarrow>
     (case tx_commit (faults 2) (meanwhile (other 2) x) of
        (Inl e, d) \<Rightarrow> (Inl (wrap_sql ''commit tx'' e), d)
      | (Inr _, d) \<Rightarrow> (Inr u, d))))"

definition UpsertTelegramUser ::
  "(nat \<Rightarrow> sql_error option) \<Rightarrow> int \<Rightarrow> (nat \<Rightarrow> auth_db \<Rightarrow> auth_db) \<Rightarrow> TelegramProfile \<Rightarrow> auth_db
     \<Rightarrow> (auth_err + User) \<times> auth_db" where
  "UpsertTelegramUser faults now other p d =
     (case faults 0 of
        Some e \<Rightarrow> (Inl (wrap_sql ''begin tx'' e), d)
      | None \<Rightarrow>
     (case tx_run (faults 1) (sel_tg (TgID p)) (meanwhile (other 1) (tx_begin d)) of
        (Inl e, x) \<Rightarrow> (Inl (wrap_sql ''select user_telegram'' e), tx_rollback x)
      | (Inr (Some uid), x) \<Rightarrow> tg_existing (\<lambda>k. faults (2 + k)) now (\<lambda>k. other (2 + k)) p uid x
      | (Inr None, x) \<Rightarrow>
     (case tx_run (faults 5) (ins_user now) (meanwhile (other 5) x) of
        (Inl e, x) \<Rightarrow> (Inl (wrap_sql ''insert users'' e), tx_rollback x)
      | (Inr u, x) \<Rightarrow>
     (case tx_run (faults 6) (ins_tg now (user_ID u) p) (meanwhile (other 6) x) of
        (Inl e, x) \<Rightarrow>
          if isUniqueViolation e then
            (case tx_run (faults 7) (sel_tg (TgID p)) (meanwhile (other 7) x) of
               (Inl e, x) \<Rightarrow> (Inl (wrap_sql ''reload user_telegram after conflict'' e), tx_rollback x)
             | (Inr None, x) \<Rightarrow>
                 (Inl (Wrapf ''reload user_telegram after conflict'' (Plain ''sql: no rows in result set'')),
                  tx_rollback x)
             | (Inr (Some uid), x) \<Rightarrow> tg_existing (\<lambda>k. faults (8 + k)) now (\<lambda>k. other (8 + k)) p uid x)
          else (Inl (wrap_sql ''insert user_telegram'' e), tx_rollback x)
      | (Inr _, x) \<Rightarrow>
     (case tx_commit (faults 11) (meanwhile (other 11) x) of
        (Inl e, d) \<Rightarrow> (Inl (wrap_sql ''commit tx'' e), d)
      | (Inr _, d) \<Rightarrow> (Inr u, d))))))"

section \<open>What the operations do on a working connection\<close>

abbreviation no_faults :: "nat \<Rightarrow> sql_error option" where
  "no_faults \<equiv> \<lambda>_. None"

abbreviation alone :: "nat \<Rightarrow> 'd \<Rightarrow> 'd" where
  "alone \<equiv> \<lambda>_ d. d"

text \<open>
  What the transactions of the other clients may do to a database: keep its constraints, and draw
  ids from the sequence.
\<close>

definition others_ok :: "(nat \<Rightarrow> auth_db \<Rightarrow> auth_db) \<Rightarrow> bool" where
  "others_ok other = (\<forall>k d. auth_inv d \<longrightarrow> auth_inv (other k d) \<and> auth_seq d \<le> auth_seq (other k d))"

text \<open>A database that only the other clients have made of \<open>d\<close>, apart from one id that may have been drawn.\<close>

inductive others_made :: "(nat \<Rightarrow> auth_db \<Rightarrow> auth_db) \<Rightarrow> auth_db \<Rightarrow> nat \<Rightarrow> bool \<Rightarrow> auth_db \<Rightarrow> bool" for other d where
  made_start: "others_made other d 0 False d"
| made_commit: "others_made other d n b d' \<Longrightarrow> n \<le> k \<Longrightarrow> others_made other d (Suc k) b (other k d')"
| made_taken: "others_made other d n False d' \<Longrightarrow> others_made other d n True (d'\<lparr>auth_seq := auth_seq d' + 1\<rparr>)"

lemma tx_run_ok: "\<not> tx_failed x \<Longrightarrow> tx_run None stmt x =
    (case stmt (tx_view x) of
       Inl e \<Rightarrow> (Inl e, x\<lparr>tx_failed := True\<rparr>)
     | Inr (a, w, b) \<Rightarrow> (Inr a, x\<lparr>tx_base := b (tx_base x), tx_pend := (\<lambda>d. w (tx_pend x d))\<rparr>))"
  by (simp add: tx_run_def)

lemma auth_inv_parts:
  assumes "auth_inv d"
  shows "distinct (map user_ID (auth_users d))" "distinct (map h_email (auth_hub d))"
    "distinct (map h_user (auth_hub d))" "distinct (map t_tg (auth_tg d))" "distinct (map t_user (auth_tg d))"
    "1 \<le> auth_seq d"
    "user_ID ` set (auth_users d) = h_user ` set (auth_hub d) \<union> t_user ` set (auth_tg d)"
    "i \<in> user_ID ` set (auth_users d) \<Longrightarrow> 1 \<le> i \<and> i < auth_seq d"
proof -
  show "i \<in> user_ID ` set (auth_users d) \<Longrightarrow> 1 \<le> i \<and> i < auth_seq d"
    using assms unfolding auth_inv_def list_all_iff by blast
qed (use assms in \<open>simp_all add: auth_inv_def\<close>)

definition new_user :: "int \<Rightarrow> auth_db \<Rightarrow> User" where
  "new_user now d = \<lparr>user_ID = auth_seq d, user_CreatedAt = now\<rparr>"

definition add_hub :: "User \<Rightarrow> ComicsHubProfile \<Rightarrow> auth_db \<Rightarrow> auth_db" where
  "add_hub u p d = d\<lparr>auth_users := auth_users d @ [u], auth_hub := auth_hub d @
     [\<lparr>h_user = user_ID u, h_email = Email p, h_hash = PasswordHash p\<rparr>]\<rparr>"

definition add_tg :: "int \<Rightarrow> User \<Rightarrow> TelegramProfile \<Rightarrow> auth_db \<Rightarrow> auth_db" where
  "add_tg now u p d = d\<lparr>auth_users := auth_users d @ [u], auth_tg := auth_tg d @
     [\<lparr>t_user = user_ID u, t_tg = TgID p, t_username = Username p, t_first = FirstName p,
       t_last = LastName p, t_updated = now\<rparr>]\<rparr>"

definition set_profile :: "int \<Rightarrow> TelegramProfile \<Rightarrow> auth_db \<Rightarrow> auth_db" where
  "set_profile now p d = d\<lparr>auth_tg := map (\<lambda>r. if t_tg r = TgID p
      then r\<lparr>t_username := Username p, t_first := FirstName p, t_last := LastName p, t_updated := now\<rparr>
      else r) (auth_tg d)\<rparr>"

text \<open>The sequence moves on when an id is taken, whatever becomes of the transaction.\<close>

definition take_id :: "auth_db \<Rightarrow> auth_db" where
  "take_id d = d\<lparr>auth_seq := auth_seq d + 1\<rparr>"

lemma auth_inv_take_id: "auth_inv d \<Longrightarrow> auth_inv (take_id d)"
  by (auto simp: auth_inv_def take_id_def list_all_iff)

lemma set_profile_keys [simp]:
  "map t_tg (auth_tg (set_profile now p d)) = map t_tg (auth_tg d)"
  "map t_user (auth_tg (set_profile now p d)) = map t_user (auth_tg d)"
  "auth_users (set_profile now p d) = auth_users d" "auth_hub (set_profile now p d) = auth_hub d"
  "auth_seq (set_profile now p d) = auth_seq d"
  by (auto simp: set_profile_def)

lemma auth_inv_set_profile: "auth_inv d \<Longrightarrow> auth_inv (set_profile now p d)"
  unfolding auth_inv_def set_profile_keys .

lemma auth_inv_add_hub:
  assumes "auth_inv d" and "user_ID u \<notin> user_ID ` set (auth_users d)" and "1 \<le> user_ID u"
    and "user_ID u < auth_seq d" and "Email p \<notin> h_email ` set (auth_hub d)"
  shows "auth_inv (add_hub u p d)"
  using assms auth_inv_parts(7) [OF assms(1)] by (auto simp: auth_inv_def add_hub_def)

lemma auth_inv_add_tg:
  assumes "auth_inv d" and "user_ID u \<notin> user_ID ` set (auth_users d)" and "1 \<le> user_ID u"
    and "user_ID u < auth_seq d" and "TgID p \<notin> t_tg ` set (auth_tg d)"
  shows "auth_inv (add_tg now u p d)"
  using assms auth_inv_parts(7) [OF assms(1)] by (auto simp: auth_inv_def add_tg_def)

section \<open>Transactions among others\<close>

lemma others_ok_alone [simp]: "others_ok alone"
  by (simp add: others_ok_def)

text \<open>The committed database while a transaction is open: that of the others, with the sequence ahead of the start.\<close>

definition base_ok :: "(nat \<Rightarrow> auth_db \<Rightarrow> auth_db) \<Rightarrow> auth_db \<Rightarrow> nat \<Rightarrow> bool \<Rightarrow> auth_db tx \<Rightarrow> bool" where
  "base_ok other d n b x = (\<exists>m \<le> n. others_made other d m b (tx_base x) \<and> auth_inv (tx_base x))"

lemma base_ok_rollback: "base_ok other d n b x \<Longrightarrow> \<exists>m. others_made other d m b (tx_rollback x) \<and> auth_inv (tx_rollback x)"
  by (auto simp: base_ok_def tx_rollback_def)

lemma base_ok_begin: "auth_inv d \<Longrightarrow> base_ok other d n False (tx_begin d)"
  by (auto simp: base_ok_def intro!: exI [of _ 0] made_start)

lemma base_ok_meanwhile:
  assumes "base_ok other d n b x" and "n \<le> k" and "others_ok other"
  shows "base_ok other d (Suc k) b (meanwhile (other k) x)"
    and "auth_seq (tx_base x) \<le> auth_seq (tx_base (meanwhile (other k) x))"
proof -
  obtain m where m: "m \<le> n" "others_made other d m b (tx_base x)" "auth_inv (tx_base x)"
    using assms(1) by (auto simp: base_ok_def)
  have o: "auth_inv (other k (tx_base x))" "auth_seq (tx_base x) \<le> auth_seq (other k (tx_base x))"
    using assms(3) m(3) by (simp_all add: others_ok_def)
  have "others_made other d (Suc k) b (other k (tx_base x))" using made_commit [OF m(2)] m(1) assms(2) by simp
  moreover have "m \<le> Suc k" using m(1) assms(2) by simp
  ultimately show "base_ok other d (Suc k) b (meanwhile (other k) x)"
    using tx_meanwhile_base [of keys_ok "other k" x] m o(1) unfolding base_ok_def by auto
  show "auth_seq (tx_base x) \<le> auth_seq (tx_base (meanwhile (other k) x))"
    using tx_meanwhile_base [of keys_ok "other k" x] o(2) by auto
qed

lemma base_ok_same: "base_ok other d n b x \<Longrightarrow> tx_base y = tx_base x \<Longrightarrow> base_ok other d n b y"
  by (simp add: base_ok_def)

lemma base_ok_mono: "base_ok other d n b x \<Longrightarrow> n \<le> m \<Longrightarrow> base_ok other d m b x"
  unfolding base_ok_def by (meson order.trans)

lemma base_ok_take:
  "base_ok other d n False x \<Longrightarrow> tx_base y = take_id (tx_base x) \<Longrightarrow> base_ok other d n True y"
  using made_taken auth_inv_take_id unfolding base_ok_def take_id_def by metis

lemma auth_inv_keys: "auth_inv d \<Longrightarrow> keys_ok d"
  by (auto simp: auth_inv_def keys_ok_def)

lemma keys_add_hub:
  assumes "auth_inv b" and "keys_ok (add_hub u p b)" and "1 \<le> user_ID u" and "user_ID u < auth_seq b"
  shows "auth_inv (add_hub u p b)"
  using assms by (auto simp: auth_inv_def keys_ok_def add_hub_def)

lemma keys_add_tg:
  assumes "auth_inv b" and "keys_ok (add_tg now u p b)" and "1 \<le> user_ID u" and "user_ID u < auth_seq b"
  shows "auth_inv (add_tg now u p b)"
  using assms by (auto simp: auth_inv_def keys_ok_def add_tg_def)

text \<open>The statement that makes the user, in a transaction that has written nothing yet.\<close>

lemma ins_user_among:
  assumes "tx_run fault (ins_user now) x = (r, y)" and "base_ok other d n False x" and "tx_pend x = (\<lambda>d. d)"
  obtains (no_user) e where "r = Inl e" "base_ok other d n False y"
  | (user) u where "r = Inr u" "base_ok other d n True y" "\<not> tx_failed y"
      "tx_pend y = (\<lambda>d. d\<lparr>auth_users := auth_users d @ [u]\<rparr>)" "1 \<le> user_ID u" "user_ID u < auth_seq (tx_base y)"
      "keys_ok (tx_view y)" "u = new_user now (tx_base x)"
  using assms(1)
proof (cases rule: tx_run_cases)
  case (fails e)
  then show thesis using no_user base_ok_same [OF assms(2)] by blast
next
  case (works a w b)
  have v: "tx_view x = tx_base x" using assms(3) by (simp add: tx_view_def)
  have inv: "auth_inv (tx_base x)" using assms(2) by (auto simp: base_ok_def)
  from works(2) have a: "a = new_user now (tx_base x)" and w: "w = (\<lambda>d. d\<lparr>auth_users := auth_users d @ [a]\<rparr>)"
    and b: "b = take_id"
    by (auto simp: v ins_user_def Let_def new_user_def take_id_def fun_eq_iff split: if_splits)
  have base: "tx_base y = take_id (tx_base x)" and pend: "tx_pend y = w" and f: "\<not> tx_failed y"
    using works(1,4) assms(3) b by simp_all
  have "user_ID a \<notin> user_ID ` set (auth_users (tx_base x))"
    using auth_inv_parts(8) [OF inv] by (fastforce simp: a new_user_def)
  then have "keys_ok (tx_view y)"
    using auth_inv_keys [OF inv] by (auto simp: tx_view_def base pend w keys_ok_def take_id_def)
  moreover have "1 \<le> user_ID a" "user_ID a < auth_seq (tx_base y)"
    using auth_inv_parts(6) [OF inv] by (simp_all add: a new_user_def base take_id_def)
  ultimately show thesis
    using user works(3) base_ok_take [OF assms(2) base] f pend w a by blast
qed

text \<open>The statement that gives the user its account, and the commit.\<close>

lemma account_committed:
  assumes "base_ok other d n True x" and "n \<le> k" and "others_ok other" and "\<not> tx_failed x"
    and "keys_ok (tx_view x)" and "1 \<le> user_ID u" and "user_ID u < auth_seq (tx_base x)"
    and "\<And>b. auth_inv b \<Longrightarrow> keys_ok (tx_pend x b) \<Longrightarrow> user_ID u < auth_seq b \<Longrightarrow> auth_inv (tx_pend x b)"
    and "tx_commit fault (meanwhile (other k) x) = (r, d')"
  shows "auth_inv d' \<and> (\<forall>e. r = Inl e \<longrightarrow> (\<exists>m b. others_made other d m b d'))"
proof -
  let ?y = "meanwhile (other k) x"
  note b = base_ok_meanwhile [OF assms(1,2,3)]
  have inv: "auth_inv (tx_base ?y)" using b(1) by (auto simp: base_ok_def)
  have "auth_inv (tx_view ?y)"
    using assms(8) [OF inv] tx_meanwhile_fits [of keys_ok x "other k", OF assms(5)] b(2) assms(7) by (simp add: tx_view_def)
  then show ?thesis
    using assms(4,9) b(1) inv by (auto simp: tx_commit_def base_ok_def split: option.splits if_splits)
qed

lemma rolled_back:
  assumes "base_ok other d n b x"
  shows "auth_inv (tx_rollback x) \<and> (\<exists>m b. others_made other d m b (tx_rollback x))"
  using base_ok_rollback [OF assms] by blast

lemma made_by_nobody: "auth_inv d \<Longrightarrow> auth_inv d \<and> (\<forall>e. r = Inl e \<longrightarrow> (\<exists>m b. others_made other d m b d))"
  using made_start by blast

subsection \<open>Accounts of ComicsHub\<close>

lemma ins_hub_among:
  assumes "tx_run fault (ins_hub (user_ID u) p) x = (Inr a, y)" and "keys_ok (tx_view x)"
    and "tx_pend x = (\<lambda>d. d\<lparr>auth_users := auth_users d @ [u]\<rparr>)"
  shows "tx_base y = tx_base x" and "\<not> tx_failed y" and "tx_pend y = add_hub u p" and "keys_ok (tx_view y)"
proof -
  have "tx_base y = tx_base x \<and> \<not> tx_failed y \<and> tx_pend y = add_hub u p \<and> keys_ok (tx_view y)"
    using assms(1)
  proof (cases rule: tx_run_cases)
  case (works a w b)
  have v: "tx_view x = (tx_base x)\<lparr>auth_users := auth_users (tx_base x) @ [u]\<rparr>" using assms(3) by (simp add: tx_view_def)
  have new: "user_ID u \<notin> h_user ` set (auth_hub (tx_base x))" "Email p \<notin> h_email ` set (auth_hub (tx_base x))"
    and w: "w = (\<lambda>d. d\<lparr>auth_hub := auth_hub d @ [\<lparr>h_user = user_ID u, h_email = Email p, h_hash = PasswordHash p\<rparr>]\<rparr>)"
    and b: "b = (\<lambda>d. d)"
    using works(2) by (auto simp: v ins_hub_def split: if_splits)
  have pend: "tx_pend y = add_hub u p" and base: "tx_base y = tx_base x" and f: "\<not> tx_failed y"
    using works(1,4) assms(3) w b by (simp_all add: add_hub_def fun_eq_iff)
  have vy: "tx_view y = add_hub u p (tx_base x)" by (simp add: tx_view_def pend base)
  have k: "keys_ok (tx_view y)"
    using assms(2) new unfolding v vy by (auto simp: keys_ok_def add_hub_def)
  show ?thesis using pend base f k by simp
  qed simp_all
  then show "tx_base y = tx_base x" and "\<not> tx_failed y" and "tx_pend y = add_hub u p" and "keys_ok (tx_view y)"
    by simp_all
qed

lemma CreateComicshubUser_among:
  assumes "auth_inv d" and "others_ok other" and "CreateComicshubUser faults now other p d = (r, d')"
  shows "auth_inv d' \<and> (\<forall>e. r = Inl e \<longrightarrow> (\<exists>m b. others_made other d m b d'))"
proof (cases "faults 0")
  case (Some e)
  then show ?thesis using assms(3) made_by_nobody [OF assms(1)] by (simp add: CreateComicshubUser_def)
next
  case None
  note create = assms(3) [unfolded CreateComicshubUser_def None option.case]
  let ?x1 = "meanwhile (other 1) (tx_begin d)"
  have b1: "base_ok other d 2 False ?x1"
    using base_ok_meanwhile(1) [OF base_ok_begin [OF assms(1), of other 1] order_refl assms(2)] by (simp add: numeral_2_eq_2)
  have p1: "tx_pend ?x1 = (\<lambda>d. d)" by (simp add: tx_begin_def)
  obtain r1 x2 where r1: "tx_run (faults 1) (ins_user now) ?x1 = (r1, x2)" by fastforce
  from r1 b1 p1 show ?thesis
  proof (cases rule: ins_user_among)
    case (no_user e)
    then show ?thesis using create r1 rolled_back [OF no_user(2)] by auto
  next
    case (user u)
    let ?x3 = "meanwhile (other 2) x2"
    note b3 = base_ok_meanwhile [OF user(2) order_refl assms(2)]
    have k3: "keys_ok (tx_view ?x3)" by (rule tx_meanwhile_fits [of keys_ok, OF user(7)])
    have p3: "tx_pend ?x3 = (\<lambda>d. d\<lparr>auth_users := auth_users d @ [u]\<rparr>)" using user(4) by simp
    obtain r2 x4 where r2: "tx_run (faults 2) (ins_hub (user_ID u) p) ?x3 = (r2, x4)" by fastforce
    show ?thesis
    proof (cases r2)
      case (Inl e)
      then have "base_ok other d 3 True x4"
        using tx_run_Inl_failed [OF r2 [unfolded Inl]] base_ok_same [OF b3(1)] by simp
      from rolled_back [OF this] show ?thesis using create r1 user(1) r2 Inl by (auto split: if_splits)
    next
      case (Inr a)
      note h = ins_hub_among [OF r2 [unfolded Inr] k3 p3]
      have b4: "base_ok other d 3 True x4" using base_ok_same [OF b3(1) h(1)] by simp
      have seq: "user_ID u < auth_seq (tx_base x4)" using user(6) b3(2) h(1) by simp
      obtain r3 d3 where r3: "tx_commit (faults 3) (meanwhile (other 3) x4) = (r3, d3)" by fastforce
      have "auth_inv d3 \<and> (\<forall>e. r3 = Inl e \<longrightarrow> (\<exists>m b. others_made other d m b d3))"
        by (rule account_committed [OF b4 order_refl assms(2) h(2,4) user(5) seq _ r3])
          (use keys_add_hub user(5) h(3) in auto)
      then show ?thesis using create r1 user(1) r2 Inr r3 by (auto split: sum.splits)
    qed
  qed
qed

lemma CreateComicshubUser_ok:
  assumes "auth_inv d" and "auth_seq d \<le> 9223372036854775807"
  shows "CreateComicshubUser no_faults now alone p d =
    (if Email p \<in> h_email ` set (auth_hub d)
     then (Inl (Sentinel Auth_ErrUserAlreadyExists), take_id d)
     else (Inr (new_user now d), add_hub (new_user now d) p (take_id d)))"
proof -
  have "auth_seq d \<notin> user_ID ` set (auth_users d)" using auth_inv_parts(8) [OF assms(1)] by fastforce
  then have "auth_seq d \<notin> h_user ` set (auth_hub d)" using auth_inv_parts(7) [OF assms(1)] by auto
  then show ?thesis
    using assms(2)
    by (simp add: CreateComicshubUser_def tx_run_def ins_user_def ins_hub_def tx_begin_def tx_view_def tx_rollback_def
        tx_commit_def Let_def new_user_def add_hub_def take_id_def)
qed

subsection \<open>Telegram users\<close>

lemma run_sel_tg:
  "tx_run None (sel_tg tid) (tx_begin d) =
     (Inr (map_option t_user (List.find (\<lambda>r. t_tg r = tid) (auth_tg d))), tx_begin d)"
  by (simp add: tx_run_def sel_tg_def tx_begin_def tx_view_def)

lemma tg_existing_ok:
  assumes "names_ok p"
  shows "tg_existing no_faults now alone p uid (tx_begin d) =
    (case List.find (\<lambda>u. user_ID u = uid) (auth_users d) of
       None \<Rightarrow> (Inl (Wrapf ''load users'' (Plain ''sql: no rows in result set'')), d)
     | Some u \<Rightarrow> (Inr u, set_profile now p d))"
  using assms
  by (simp add: tg_existing_def updateProfile_def loadUser_def tx_run_def upd_tg_def sel_user_def tx_begin_def tx_view_def
      tx_rollback_def tx_commit_def set_profile_def split: option.splits)

text \<open>A statement that only reads, and one that updates the profile.\<close>

lemma sel_tg_among:
  assumes "tx_run fault (sel_tg tid) x = (r, y)" and "base_ok other d n b x"
  shows "base_ok other d n b y" and "r = Inr a \<Longrightarrow> tx_pend y = tx_pend x"
proof -
  have "base_ok other d n b y \<and> (\<forall>a. r = Inr a \<longrightarrow> tx_pend y = tx_pend x)"
    using assms(1) by (cases rule: tx_run_cases) (use assms(2) in \<open>auto simp: sel_tg_def base_ok_def\<close>)
  then show "base_ok other d n b y" and "r = Inr a \<Longrightarrow> tx_pend y = tx_pend x" by simp_all
qed

lemma loadUser_among:
  assumes "loadUser fault uid x = (r, y)"
  shows "tx_base y = tx_base x" and "r = Inr u \<Longrightarrow> tx_pend y = tx_pend x \<and> \<not> tx_failed y"
  using assms
  by (auto simp: loadUser_def tx_run_def sel_user_def split: if_splits option.splits sum.splits)

lemma updateProfile_among:
  assumes "updateProfile fault now p x = (r, y)" and "tx_pend x = (\<lambda>d. d)"
  shows "tx_base y = tx_base x" and "r = Inr a \<Longrightarrow> tx_pend y = set_profile now p \<and> \<not> tx_failed y"
  using assms
  by (auto simp: updateProfile_def tx_run_def upd_tg_def set_profile_def fun_eq_iff split: if_splits option.splits sum.splits)

lemma others_made_shift:
  assumes "n \<le> m" and "base_ok other d n b x" and "others_ok other" and "m \<le> k"
  shows "base_ok other d (Suc k) b (meanwhile (other k) x)"
  using base_ok_meanwhile(1) [OF assms(2) order.trans [OF assms(1,4)] assms(3)] .

lemma tg_existing_among:
  assumes "base_ok other d n b x" and "n \<le> i" and "others_ok other" and "tx_pend x = (\<lambda>d. d)"
    and "tg_existing faults now (\<lambda>k. other (i + k)) p uid x = (r, d')"
  shows "auth_inv d' \<and> (\<forall>e. r = Inl e \<longrightarrow> (\<exists>m b. others_made other d m b d'))"
proof -
  note run = assms(5) [unfolded tg_existing_def]
  let ?x0 = "meanwhile (other (i + 0)) x"
  have b0: "base_ok other d (Suc i) b ?x0" using base_ok_meanwhile(1) [OF assms(1,2,3)] by simp
  have p0: "tx_pend ?x0 = (\<lambda>d. d)" using assms(4) by simp
  obtain r0 x1 where r0: "updateProfile (faults 0) now p ?x0 = (r0, x1)" by fastforce
  note u = updateProfile_among [OF r0 p0]
  have b1: "base_ok other d (Suc i) b x1" by (rule base_ok_same [OF b0 u(1)])
  let ?x2 = "meanwhile (other (i + 1)) x1"
  have b2: "base_ok other d (i + 2) b ?x2" using base_ok_meanwhile(1) [OF b1 _ assms(3), of "i + 1"] by simp
  obtain r1 x3 where r1: "loadUser (faults 1) uid ?x2 = (r1, x3)" by fastforce
  note l = loadUser_among [OF r1]
  have b3: "base_ok other d (i + 2) b x3" by (rule base_ok_same [OF b2 l(1)])
  let ?x4 = "meanwhile (other (i + 2)) x3"
  have b4: "base_ok other d (i + 3) b ?x4" using base_ok_meanwhile(1) [OF b3 _ assms(3), of "i + 2"] by (simp add: numeral_3_eq_3)
  show ?thesis
  proof (cases r0)
    case (Inl e)
    then show ?thesis using run r0 rolled_back [OF b1] by auto
  next
    case r0': (Inr a)
    show ?thesis
    proof (cases r1)
      case (Inl e)
      then show ?thesis using run r0 r0' r1 rolled_back [OF b3] by auto
    next
      case (Inr v)
      have p4: "tx_pend ?x4 = set_profile now p" using u(2) [OF r0'] l(2) [OF Inr] by simp
      have inv: "auth_inv (tx_base ?x4)" using b4 by (auto simp: base_ok_def)
      have "tx_view ?x4 = set_profile now p (tx_base ?x4)" by (simp only: tx_view_def p4)
      then have view: "auth_inv (tx_view ?x4)" by (simp only: auth_inv_set_profile [OF inv])
      obtain r2 d2 where r2: "tx_commit (faults 2) ?x4 = (r2, d2)" by fastforce
      then have "auth_inv d2 \<and> (\<forall>e. r2 = Inl e \<longrightarrow> (\<exists>m b. others_made other d m b d2))"
        using view inv b4 by (auto simp: tx_commit_def base_ok_def split: option.splits if_splits)
      then show ?thesis using run r0 r0' r1 Inr r2 by (auto split: sum.splits)
    qed
  qed
qed

definition tg_known :: "auth_db \<Rightarrow> int \<Rightarrow> int option" where
  "tg_known d tid = map_option t_user (List.find (\<lambda>r. t_tg r = tid) (auth_tg d))"

lemma tg_known_None: "tg_known d tid = None \<longleftrightarrow> tid \<notin> t_tg ` set (auth_tg d)"
  by (auto simp: tg_known_def find_None_iff)

lemma ins_tg_among:
  assumes "tx_run fault (ins_tg now (user_ID u) p) x = (Inr a, y)" and "keys_ok (tx_view x)"
    and "tx_pend x = (\<lambda>d. d\<lparr>auth_users := auth_users d @ [u]\<rparr>)"
  shows "tx_base y = tx_base x" and "\<not> tx_failed y" and "tx_pend y = add_tg now u p" and "keys_ok (tx_view y)"
    and "tg_known (tx_base x) (TgID p) = None"
proof -
  have "tx_base y = tx_base x \<and> \<not> tx_failed y \<and> tx_pend y = add_tg now u p \<and> keys_ok (tx_view y) \<and>
    tg_known (tx_base x) (TgID p) = None"
    using assms(1)
  proof (cases rule: tx_run_cases)
  case (works a w b)
  have v: "tx_view x = (tx_base x)\<lparr>auth_users := auth_users (tx_base x) @ [u]\<rparr>" using assms(3) by (simp add: tx_view_def)
  have new: "user_ID u \<notin> t_user ` set (auth_tg (tx_base x))" "TgID p \<notin> t_tg ` set (auth_tg (tx_base x))"
    and w: "w = (\<lambda>d. d\<lparr>auth_tg := auth_tg d @ [\<lparr>t_user = user_ID u, t_tg = TgID p, t_username = Username p,
      t_first = FirstName p, t_last = LastName p, t_updated = now\<rparr>]\<rparr>)"
    and b: "b = (\<lambda>d. d)"
    using works(2) by (auto simp: v ins_tg_def split: if_splits)
  have pend: "tx_pend y = add_tg now u p" and base: "tx_base y = tx_base x" and f: "\<not> tx_failed y"
    using works(1,4) assms(3) w b by (simp_all add: add_tg_def fun_eq_iff)
  have vy: "tx_view y = add_tg now u p (tx_base x)" by (simp add: tx_view_def pend base)
  have k: "keys_ok (tx_view y)"
    using assms(2) new unfolding v vy by (auto simp: keys_ok_def add_tg_def)
  have "tg_known (tx_base x) (TgID p) = None" using new(2) by (simp add: tg_known_None)
  then show ?thesis using pend base f k by simp
  qed simp_all
  then show "tx_base y = tx_base x" and "\<not> tx_failed y" and "tx_pend y = add_tg now u p" and "keys_ok (tx_view y)"
    and "tg_known (tx_base x) (TgID p) = None" by simp_all
qed

text \<open>An insert that fails fails for good, whatever the code does next.\<close>

definition tg_conflict ::
  "(nat \<Rightarrow> sql_error option) \<Rightarrow> int \<Rightarrow> (nat \<Rightarrow> auth_db \<Rightarrow> auth_db) \<Rightarrow> TelegramProfile \<Rightarrow> sql_error \<Rightarrow> auth_db tx
     \<Rightarrow> (auth_err + User) \<times> auth_db" where
  "tg_conflict faults now other p e x =
     (if isUniqueViolation e then
        (case tx_run (faults 7) (sel_tg (TgID p)) (meanwhile (other 7) x) of
           (Inl e, x) \<Rightarrow> (Inl (wrap_sql ''reload user_telegram after conflict'' e), tx_rollback x)
         | (Inr None, x) \<Rightarrow>
             (Inl (Wrapf ''reload user_telegram after conflict'' (Plain ''sql: no rows in result set'')),
              tx_rollback x)
         | (Inr (Some uid), x) \<Rightarrow> tg_existing (\<lambda>k. faults (8 + k)) now (\<lambda>k. other (8 + k)) p uid x)
      else (Inl (wrap_sql ''insert user_telegram'' e), tx_rollback x))"

lemma tg_conflict_failed:
  assumes "tx_failed x"
  shows "\<exists>err. tg_conflict faults now other p e x = (Inl err, tx_rollback (if isUniqueViolation e then meanwhile (other 7) x else x))"
  using assms by (simp add: tg_conflict_def)

lemma Upsert_unfold:
  "UpsertTelegramUser faults now other p d =
     (case faults 0 of
        Some e \<Rightarrow> (Inl (wrap_sql ''begin tx'' e), d)
      | None \<Rightarrow>
     (case tx_run (faults 1) (sel_tg (TgID p)) (meanwhile (other 1) (tx_begin d)) of
        (Inl e, x) \<Rightarrow> (Inl (wrap_sql ''select user_telegram'' e), tx_rollback x)
      | (Inr (Some uid), x) \<Rightarrow> tg_existing (\<lambda>k. faults (2 + k)) now (\<lambda>k. other (2 + k)) p uid x
      | (Inr None, x) \<Rightarrow>
     (case tx_run (faults 5) (ins_user now) (meanwhile (other 5) x) of
        (Inl e, x) \<Rightarrow> (Inl (wrap_sql ''insert users'' e), tx_rollback x)
      | (Inr u, x) \<Rightarrow>
     (case tx_run (faults 6) (ins_tg now (user_ID u) p) (meanwhile (other 6) x) of
        (Inl e, x) \<Rightarrow> tg_conflict faults now other p e x
      | (Inr _, x) \<Rightarrow>
     (case tx_commit (faults 11) (meanwhile (other 11) x) of
        (Inl e, d) \<Rightarrow> (Inl (wrap_sql ''commit tx'' e), d)
      | (Inr _, d) \<Rightarrow> (Inr u, d))))))"
  by (simp only: UpsertTelegramUser_def tg_conflict_def)

lemma UpsertTelegramUser_among:
  assumes "auth_inv d" and "others_ok other" and "UpsertTelegramUser faults now other p d = (r, d')"
  shows "auth_inv d' \<and> (\<forall>e. r = Inl e \<longrightarrow> (\<exists>m b. others_made other d m b d'))"
proof (cases "faults 0")
  case (Some e)
  then show ?thesis using assms(3) made_by_nobody [OF assms(1)] by (simp add: Upsert_unfold)
next
  case None
  note run = assms(3) [unfolded Upsert_unfold None option.case]
  let ?x1 = "meanwhile (other 1) (tx_begin d)"
  have b1: "base_ok other d 2 False ?x1"
    using base_ok_meanwhile(1) [OF base_ok_begin [OF assms(1), of other 1] order_refl assms(2)] by (simp add: numeral_2_eq_2)
  obtain r1 x2 where r1: "tx_run (faults 1) (sel_tg (TgID p)) ?x1 = (r1, x2)" by fastforce
  have b2: "base_ok other d 2 False x2" by (rule sel_tg_among(1) [OF r1 b1])
  have p2: "tx_pend x2 = (\<lambda>d. d)" if "r1 = Inr a" for a
    using sel_tg_among(2) [OF r1 b1 that] by (simp add: tx_begin_def)
  consider (e) e where "r1 = Inl e" | (known) uid where "r1 = Inr (Some uid)" | (new) "r1 = Inr None"
    by (metis old.sum.exhaust option.exhaust)
  then show ?thesis
  proof cases
    case e
    then show ?thesis using run r1 rolled_back [OF b2] by auto
  next
    case known
    then have "tg_existing (\<lambda>k. faults (2 + k)) now (\<lambda>k. other (2 + k)) p uid x2 = (r, d')" using run r1 by simp
    from tg_existing_among [OF b2 order_refl assms(2) p2 [OF known] this] show ?thesis .
  next
    case new
    let ?x5 = "meanwhile (other 5) x2"
    have b5: "base_ok other d 6 False ?x5" using base_ok_meanwhile(1) [OF b2 _ assms(2), of 5] by simp
    have p5: "tx_pend ?x5 = (\<lambda>d. d)" using p2 [OF new] by simp
    obtain r5 x6 where r5: "tx_run (faults 5) (ins_user now) ?x5 = (r5, x6)" by fastforce
    from r5 b5 p5 show ?thesis
    proof (cases rule: ins_user_among)
      case (no_user e)
      then show ?thesis using run r1 new r5 rolled_back [OF no_user(2)] by auto
    next
      case (user u)
      let ?x7 = "meanwhile (other 6) x6"
      note b7 = base_ok_meanwhile [OF user(2) order_refl assms(2)]
      have k7: "keys_ok (tx_view ?x7)" by (rule tx_meanwhile_fits [of keys_ok, OF user(7)])
      have p7: "tx_pend ?x7 = (\<lambda>d. d\<lparr>auth_users := auth_users d @ [u]\<rparr>)" using user(4) by simp
      obtain r6 x8 where r6: "tx_run (faults 6) (ins_tg now (user_ID u) p) ?x7 = (r6, x8)" by fastforce
      show ?thesis
      proof (cases r6)
        case (Inl e)
        then have x8: "base_ok other d 7 True x8" "tx_failed x8"
          using tx_run_Inl_failed [OF r6 [unfolded Inl]] base_ok_same [OF b7(1)] by simp_all
        have "base_ok other d 8 True (if isUniqueViolation e then meanwhile (other 7) x8 else x8)"
          using base_ok_meanwhile(1) [OF x8(1) order_refl assms(2)] base_ok_mono [OF x8(1), of 8] by simp
        from rolled_back [OF this] tg_conflict_failed [OF x8(2), of faults now other p e] show ?thesis
          using run r1 new r5 user(1) r6 Inl by auto
      next
        case (Inr a)
        note h = ins_tg_among [OF r6 [unfolded Inr] k7 p7]
        have b8: "base_ok other d 7 True x8" using base_ok_same [OF b7(1) h(1)] by simp
        have seq: "user_ID u < auth_seq (tx_base x8)" using user(6) b7(2) h(1) by simp
        obtain r9 d9 where r9: "tx_commit (faults 11) (meanwhile (other 11) x8) = (r9, d9)" by fastforce
        have "auth_inv d9 \<and> (\<forall>e. r9 = Inl e \<longrightarrow> (\<exists>m b. others_made other d m b d9))"
          by (rule account_committed [OF b8 _ assms(2) h(2,4) user(5) seq _ r9])
            (use keys_add_tg user(5) h(3) in auto)
        then show ?thesis using run r1 new r5 user(1) r6 Inr r9 by (auto split: sum.splits)
      qed
    qed
  qed
qed

text \<open>The chat that another client has inserted between the look-up and the insert.\<close>

lemma meanwhile_begin: "auth_inv (other d) \<Longrightarrow> meanwhile other (tx_begin d) = tx_begin (other d)"
  by (simp add: tx_meanwhile_def tx_others_def tx_begin_def tx_view_def auth_inv_keys)

lemma Upsert_race:
  assumes "auth_inv d" and "others_ok other" and "tg_known (other 1 d) (TgID p) = None"
    and "e = other 5 (other 1 d)" and "f = other 6 (e\<lparr>auth_seq := auth_seq e + 1\<rparr>)"
    and "auth_seq e \<notin> user_ID ` set (auth_users f)" and "tg_known f (TgID p) = Some uid"
  shows "\<exists>err. fst (UpsertTelegramUser faults now other p d) = Inl err"
proof (cases "faults 0")
  case None
  have inv: "auth_inv (other 1 d)" "auth_inv e" "auth_inv f"
    using assms(1,2,4,5) auth_inv_take_id [of e] by (simp_all add: others_ok_def take_id_def)
  have x1: "meanwhile (other 1) (tx_begin d) = tx_begin (other 1 d)" by (rule meanwhile_begin) (rule inv(1))
  have x5: "meanwhile (other 5) (tx_begin (other 1 d)) = tx_begin e"
    unfolding assms(4) by (rule meanwhile_begin) (use inv(2) assms(4) in simp)
  have find: "List.find (\<lambda>r. t_tg r = TgID p) (auth_tg (other 1 d)) = None" using assms(3) by (simp add: tg_known_def)
  show ?thesis
  proof (cases "faults 1 = None")
    case True
    obtain r5 x6 where r5: "tx_run (faults 5) (ins_user now) (tx_begin e) = (r5, x6)" by fastforce
    show ?thesis
    proof (cases r5)
      case (Inl err)
      then show ?thesis using None True x1 x5 r5 by (simp add: Upsert_unfold run_sel_tg find del: One_nat_def)
    next
      case (Inr u)
      from r5 have u: "u = new_user now e" and x6: "tx_base x6 = e\<lparr>auth_seq := auth_seq e + 1\<rparr>" "\<not> tx_failed x6"
        "tx_pend x6 = (\<lambda>d. d\<lparr>auth_users := auth_users d @ [u]\<rparr>)"
        unfolding Inr
        by (auto simp: tx_run_def ins_user_def tx_begin_def tx_view_def Let_def new_user_def split: option.splits if_splits)
      have view: "tx_view (tx_others (other 6) x6) = f\<lparr>auth_users := auth_users f @ [u]\<rparr>"
        by (simp add: tx_view_def tx_others_def x6 assms(5))
      have "keys_ok (f\<lparr>auth_users := auth_users f @ [u]\<rparr>)"
        using auth_inv_keys [OF inv(3)] assms(6) by (auto simp: keys_ok_def u new_user_def)
      then have v7: "tx_view (meanwhile (other 6) x6) = f\<lparr>auth_users := auth_users f @ [u]\<rparr>"
        by (simp add: tx_meanwhile_def view)
      have "TgID p \<in> t_tg ` set (auth_tg f)" using assms(7) tg_known_None [of f "TgID p"] by auto
      then obtain err where "ins_tg now (user_ID u) p (f\<lparr>auth_users := auth_users f @ [u]\<rparr>) = Inl err"
        by (cases "names_ok p") (simp_all add: ins_tg_def)
      then have "\<exists>err x8. tx_run (faults 6) (ins_tg now (user_ID u) p) (meanwhile (other 6) x6) = (Inl err, x8) \<and> tx_failed x8"
        using x6(2) by (cases "faults 6") (simp_all add: tx_run_def v7)
      then obtain err x8 where "tx_run (faults 6) (ins_tg now (user_ID u) p) (meanwhile (other 6) x6) = (Inl err, x8)" "tx_failed x8"
        by blast
      with tg_conflict_failed [of x8 faults now other p err] show ?thesis
        using None True x1 x5 r5 Inr by (auto simp: Upsert_unfold run_sel_tg find simp del: One_nat_def)
    qed
  qed (use None x1 in \<open>auto simp: Upsert_unfold tx_run_def simp del: One_nat_def\<close>)
qed (simp add: Upsert_unfold)

section \<open>The contract of the port\<close>

text \<open>
  What the service relies on when it is alone with a working store: \<open>accounts\<close> maps an email to the
  id and the hash of its account, \<open>chats\<close> a Telegram id to the id of its user, and \<open>room\<close> says that
  the next user still gets a 32-bit id.
\<close>

locale account_store =
  fixes storable :: "TelegramProfile \<Rightarrow> bool"
    and create :: "ComicsHubProfile \<Rightarrow> 'd \<Rightarrow> (auth_err + User) \<times> 'd"
    and get :: "string \<Rightarrow> 'd \<Rightarrow> auth_err + User \<times> string"
    and upsert :: "TelegramProfile \<Rightarrow> 'd \<Rightarrow> (auth_err + User) \<times> 'd"
    and accounts :: "'d \<Rightarrow> string \<Rightarrow> (int \<times> string) option"
    and chats :: "'d \<Rightarrow> int \<Rightarrow> int option"
    and inv :: "'d \<Rightarrow> bool" and room :: "'d \<Rightarrow> bool"
  assumes create_new: "inv d \<Longrightarrow> room d \<Longrightarrow> accounts d (Email p) = None \<Longrightarrow>
      \<exists>u d'. create p d = (Inr u, d') \<and> inv d' \<and> chats d' = chats d \<and>
        accounts d' = (accounts d)(Email p \<mapsto> (user_ID u, PasswordHash p)) \<and>
        0 < user_ID u \<and> user_ID u \<le> 4294967295"
    and create_dup: "inv d \<Longrightarrow> room d \<Longrightarrow> accounts d (Email p) \<noteq> None \<Longrightarrow>
      \<exists>d'. create p d = (Inl (Sentinel Auth_ErrUserAlreadyExists), d') \<and> inv d' \<and> chats d' = chats d \<and>
        accounts d' = accounts d"
    and get_some: "inv d \<Longrightarrow> accounts d e = Some (i, h) \<Longrightarrow> \<exists>u. get e d = Inr (u, h) \<and> user_ID u = i"
    and get_none: "inv d \<Longrightarrow> accounts d e = None \<Longrightarrow> get e d = Inl (Sentinel Auth_ErrNotFound)"
    and upsert_known: "inv d \<Longrightarrow> storable t \<Longrightarrow> chats d (TgID t) = Some i \<Longrightarrow>
      \<exists>u d'. upsert t d = (Inr u, d') \<and> user_ID u = i \<and> inv d' \<and> chats d' = chats d \<and> accounts d' = accounts d"
    and upsert_new: "inv d \<Longrightarrow> room d \<Longrightarrow> storable t \<Longrightarrow> chats d (TgID t) = None \<Longrightarrow>
      \<exists>u d'. upsert t d = (Inr u, d') \<and> inv d' \<and> accounts d' = accounts d \<and>
        chats d' = (chats d)(TgID t \<mapsto> user_ID u) \<and> 0 < user_ID u \<and> user_ID u \<le> 4294967295 \<and>
        user_ID u \<notin> ran (chats d)"
    and chat_ids: "inv d \<Longrightarrow> room d \<Longrightarrow> chats d c = Some i \<Longrightarrow> 0 < i \<and> i \<le> 4294967295"
begin

lemma create_get:
  assumes "inv d" "room d" "accounts d (Email p) = None"
  shows "\<exists>u d' v. create p d = (Inr u, d') \<and> inv d' \<and> accounts d' (Email p) = Some (user_ID u, PasswordHash p) \<and>
    get (Email p) d' = Inr (v, PasswordHash p) \<and> user_ID v = user_ID u \<and>
    0 < user_ID u \<and> user_ID u \<le> 4294967295"
  using create_new [OF assms] get_some by (metis fun_upd_same)

end

definition auth_accounts :: "auth_db \<Rightarrow> string \<Rightarrow> (int \<times> string) option" where
  "auth_accounts d e = map_option (\<lambda>c. (h_user c, h_hash c)) (List.find (\<lambda>c. h_email c = e) (auth_hub d))"

definition auth_room :: "auth_db \<Rightarrow> bool" where
  "auth_room d = (auth_seq d \<le> 4294967295)"

lemma find_append: "List.find P (xs @ ys) = (case List.find P xs of None \<Rightarrow> List.find P ys | Some x \<Rightarrow> Some x)"
  by (induction xs) auto

lemma auth_accounts_None: "auth_accounts d e = None \<longleftrightarrow> e \<notin> h_email ` set (auth_hub d)"
  by (auto simp: auth_accounts_def find_None_iff)

lemma abstraction_effects:
  "auth_accounts (take_id d) = auth_accounts d" "tg_known (take_id d) = tg_known d"
  "auth_accounts (set_profile now t d) = auth_accounts d"
  "auth_accounts (add_tg now u t d) = auth_accounts d"
  "tg_known (add_hub u p d) = tg_known d"
  "auth_accounts d (Email p) = None \<Longrightarrow>
     auth_accounts (add_hub u p d) = (auth_accounts d)(Email p \<mapsto> (user_ID u, PasswordHash p))"
  "tg_known d (TgID t) = None \<Longrightarrow> tg_known (add_tg now u t d) = (tg_known d)(TgID t \<mapsto> user_ID u)"
  by (auto simp: auth_accounts_def tg_known_def take_id_def add_tg_def add_hub_def find_append fun_eq_iff
      split: option.splits)

lemma tg_known_set_profile: "tg_known (set_profile now t d) = tg_known d"
proof
  fix i
  have "map_option t_user (List.find (\<lambda>r. t_tg r = i) (map (\<lambda>r. if t_tg r = TgID t
      then r\<lparr>t_username := Username t, t_first := FirstName t, t_last := LastName t, t_updated := now\<rparr>
      else r) rs)) = map_option t_user (List.find (\<lambda>r. t_tg r = i) rs)" for rs
    by (induction rs) auto
  then show "tg_known (set_profile now t d) i = tg_known d i"
    by (simp add: tg_known_def set_profile_def)
qed

lemma find_user:
  assumes "i \<in> user_ID ` set (auth_users d)"
  shows "\<exists>u. List.find (\<lambda>u. user_ID u = i) (auth_users d) = Some u \<and> user_ID u = i"
  using assms by (cases "List.find (\<lambda>u. user_ID u = i) (auth_users d)") (auto simp: find_None_iff find_Some_iff)

lemma GetComicshubByEmail_ok:
  assumes "auth_inv d"
  shows "(auth_accounts d e = Some (i, h) \<longrightarrow> (\<exists>u. GetComicshubByEmail None e d = Inr (u, h) \<and> user_ID u = i)) \<and>
    (auth_accounts d e = None \<longrightarrow> GetComicshubByEmail None e d = Inl (Sentinel Auth_ErrNotFound))"
proof -
  have "h_user c \<in> user_ID ` set (auth_users d)" if "c \<in> set (auth_hub d)" for c
    using that auth_inv_parts(7) [OF assms] by auto
  then have f: "List.find (\<lambda>c. h_email c = e \<and> h_user c \<in> user_ID ` set (auth_users d)) (auth_hub d) =
      List.find (\<lambda>c. h_email c = e) (auth_hub d)"
    by (intro find_cong) auto
  show ?thesis
  proof (cases "List.find (\<lambda>c. h_email c = e) (auth_hub d)")
    case (Some c)
    then have "h_user c \<in> user_ID ` set (auth_users d)"
      using auth_inv_parts(7) [OF assms] by (auto simp: find_Some_iff)
    from find_user [OF this] Some show ?thesis
      by (auto simp: GetComicshubByEmail_def f auth_accounts_def)
  qed (simp add: GetComicshubByEmail_def f auth_accounts_def)
qed

lemma new_user_fresh:
  assumes "auth_inv d"
  shows "user_ID (new_user now d) \<notin> user_ID ` set (auth_users d)"
    and "1 \<le> user_ID (new_user now d)" and "auth_seq d = user_ID (new_user now d)"
  using auth_inv_parts(6,8) [OF assms] by (auto simp: new_user_def dest: auth_inv_parts(8) [OF assms, OF imageI])

lemma UpsertTelegramUser_ok:
  assumes "auth_inv d" and "names_ok p"
  shows "UpsertTelegramUser no_faults now alone p d =
    (case tg_known d (TgID p) of
       Some uid \<Rightarrow> (Inr (the (List.find (\<lambda>u. user_ID u = uid) (auth_users d))), set_profile now p d)
     | None \<Rightarrow>
         if auth_seq d \<le> 9223372036854775807 then (Inr (new_user now d), add_tg now (new_user now d) p (take_id d))
         else (Inl (wrap_sql ''insert users'' (PgError ''2200H'' ''nextval: reached maximum value of sequence'')), d))"
proof (cases "tg_known d (TgID p)")
  case (Some uid)
  then have "uid \<in> user_ID ` set (auth_users d)"
    using auth_inv_parts(7) [OF assms(1)] by (auto simp: tg_known_def find_Some_iff)
  from find_user [OF this] Some show ?thesis
    by (auto simp: UpsertTelegramUser_def run_sel_tg tg_known_def tg_existing_ok [OF assms(2)])
next
  case None
  have find: "List.find (\<lambda>r. t_tg r = TgID p) (auth_tg d) = None" using None by (simp add: tg_known_def)
  have new: "TgID p \<notin> t_tg ` set (auth_tg d)" using None by (simp add: tg_known_None)
  note u = new_user_fresh [OF assms(1), of now]
  have fk: "user_ID (new_user now d) \<notin> t_user ` set (auth_tg d)" using u(1) auth_inv_parts(7) [OF assms(1)] by auto
  show ?thesis
    using None assms(2) new fk
    by (simp add: UpsertTelegramUser_def find tx_run_def sel_tg_def ins_user_def ins_tg_def tx_begin_def tx_view_def
        tx_rollback_def tx_commit_def Let_def new_user_def add_tg_def take_id_def)
qed

interpretation acc: account_store names_ok "CreateComicshubUser no_faults now alone" "GetComicshubByEmail None"
    "UpsertTelegramUser no_faults now alone" auth_accounts tg_known auth_inv auth_room for now
proof (unfold_locales, goal_cases)
  case (1 d p)
  then have "auth_seq d \<le> 9223372036854775807" by (simp add: auth_room_def)
  with 1 show ?case
    using new_user_fresh [OF 1(1)] auth_inv_take_id [OF 1(1)]
      auth_inv_add_hub [of "take_id d" "new_user now d" p]
    by (simp add: CreateComicshubUser_ok auth_accounts_None [symmetric] abstraction_effects)
      (simp add: take_id_def auth_room_def auth_accounts_None [symmetric])
next
  case (2 d p)
  then have "auth_seq d \<le> 9223372036854775807" by (simp add: auth_room_def)
  with 2 show ?case
    using auth_inv_take_id [OF 2(1)]
    by (auto simp: CreateComicshubUser_ok auth_accounts_None [symmetric] abstraction_effects)
next
  case (3 d e i h)
  then show ?case using GetComicshubByEmail_ok by blast
next
  case (4 d e)
  then show ?case using GetComicshubByEmail_ok by blast
next
  case (5 d t i)
  then have "i \<in> user_ID ` set (auth_users d)"
    using auth_inv_parts(7) [OF 5(1)] 5(3) by (auto simp: tg_known_def find_Some_iff)
  from find_user [OF this] obtain u where
    u: "List.find (\<lambda>u. user_ID u = i) (auth_users d) = Some u" "user_ID u = i" by blast
  then have "UpsertTelegramUser no_faults now alone t d = (Inr u, set_profile now t d)"
    using 5(2,3) UpsertTelegramUser_ok [OF 5(1,2), of now] by simp
  with u(2) show ?case
    by (simp add: auth_inv_set_profile [OF 5(1)] tg_known_set_profile abstraction_effects)
next
  case (6 d t)
  have room: "auth_seq d \<le> 9223372036854775807" using 6(2) by (simp add: auth_room_def)
  note u = new_user_fresh [OF 6(1), of now]
  have ran: "user_ID (new_user now d) \<notin> ran (tg_known d)"
  proof
    assume "user_ID (new_user now d) \<in> ran (tg_known d)"
    then obtain r where "r \<in> set (auth_tg d)" "t_user r = user_ID (new_user now d)"
      using find_SomeD by (fastforce simp: ran_def tg_known_def)
    then have "user_ID (new_user now d) \<in> t_user ` set (auth_tg d)" by (metis imageI)
    with u(1) auth_inv_parts(7) [OF 6(1)] show False by auto
  qed
  have "auth_inv (add_tg now (new_user now d) t (take_id d))"
    using u 6(4) auth_inv_take_id [OF 6(1)]
    by (intro auth_inv_add_tg) (simp_all add: take_id_def tg_known_None)
  moreover have "0 < user_ID (new_user now d)" "user_ID (new_user now d) \<le> 4294967295"
    using u(2,3) 6(2) by (simp_all add: auth_room_def)
  moreover have "UpsertTelegramUser no_faults now alone t d =
      (Inr (new_user now d), add_tg now (new_user now d) t (take_id d))"
    using UpsertTelegramUser_ok [OF 6(1,3), of now] room 6(4) by simp
  ultimately show ?case
    using ran 6(4) by (simp add: abstraction_effects)
next
  case (7 d c i)
  then have "i \<in> t_user ` set (auth_tg d)" unfolding tg_known_def using find_SomeD by fastforce
  then have "i \<in> user_ID ` set (auth_users d)" using auth_inv_parts(7) [OF 7(1)] by auto
  from auth_inv_parts(8) [OF 7(1) this] 7(2) show ?case by (simp add: auth_room_def)
qed

end
