(* ===== verification/GoRegexp.thy ===== *)
theory GoRegexp
  imports Main
begin

text \<open>
  The part of Go's \<open>regexp\<close> that the repository uses to accept or reject a whole text: character
  classes, concatenation, alternation and repetition, anchored on both sides. The syntax is a
  datatype, its meaning a language, and the matcher works by derivatives, so that it is executable;
  \<open>rx_matches_iff\<close> says that it decides the language. Texts are byte strings: all classes of the
  source are sets of ASCII characters, which no byte of a longer encoding belongs to.
\<close>

datatype rx =
    RxNone
  | RxEmpty
  | RxClass "char \<Rightarrow> bool"
  | RxCat rx rx
  | RxAlt rx rx
  | RxStar rx

inductive rx_lang :: "rx \<Rightarrow> string \<Rightarrow> bool" where
  rx_empty: "rx_lang RxEmpty []"
| rx_class: "P c \<Longrightarrow> rx_lang (RxClass P) [c]"
| rx_cat: "rx_lang r u \<Longrightarrow> rx_lang s v \<Longrightarrow> rx_lang (RxCat r s) (u @ v)"
| rx_alt1: "rx_lang r u \<Longrightarrow> rx_lang (RxAlt r s) u"
| rx_alt2: "rx_lang s u \<Longrightarrow> rx_lang (RxAlt r s) u"
| rx_star0: "rx_lang (RxStar r) []"
| rx_star1: "rx_lang r u \<Longrightarrow> rx_lang (RxStar r) v \<Longrightarrow> rx_lang (RxStar r) (u @ v)"

inductive_cases rx_none_E: "rx_lang RxNone u"
inductive_cases rx_empty_E: "rx_lang RxEmpty u"
inductive_cases rx_class_E: "rx_lang (RxClass P) u"
inductive_cases rx_cat_E: "rx_lang (RxCat r s) u"
inductive_cases rx_alt_E: "rx_lang (RxAlt r s) u"
inductive_cases rx_star_E: "rx_lang (RxStar r) u"

lemma rx_lang_basic [simp]:
  "\<not> rx_lang RxNone u"
  "rx_lang RxEmpty u \<longleftrightarrow> u = []"
  "rx_lang (RxClass P) u \<longleftrightarrow> (\<exists>c. u = [c] \<and> P c)"
  "rx_lang (RxAlt r s) u \<longleftrightarrow> rx_lang r u \<or> rx_lang s u"
  by (auto elim: rx_none_E rx_empty_E rx_class_E rx_alt_E intro: rx_lang.intros)

lemma rx_lang_cat: "rx_lang (RxCat r s) w \<longleftrightarrow> (\<exists>u v. w = u @ v \<and> rx_lang r u \<and> rx_lang s v)"
proof
  assume "rx_lang (RxCat r s) w"
  then show "\<exists>u v. w = u @ v \<and> rx_lang r u \<and> rx_lang s v"
    by (rule rx_cat_E) blast
qed (auto intro: rx_lang.intros)

lemma rx_lang_class_cat:
  "rx_lang (RxCat (RxClass P) s) w \<longleftrightarrow> (\<exists>c v. w = c # v \<and> P c \<and> rx_lang s v)"
proof
  assume "rx_lang (RxCat (RxClass P) s) w"
  then show "\<exists>c v. w = c # v \<and> P c \<and> rx_lang s v" unfolding rx_lang_cat by auto
next
  assume "\<exists>c v. w = c # v \<and> P c \<and> rx_lang s v"
  then obtain c v where "w = [c] @ v" "rx_lang (RxClass P) [c]" "rx_lang s v" by auto
  then show "rx_lang (RxCat (RxClass P) s) w" unfolding rx_lang_cat by blast
qed

section \<open>The matcher\<close>

fun nullable :: "rx \<Rightarrow> bool" where
  "nullable RxNone = False"
| "nullable RxEmpty = True"
| "nullable (RxClass P) = False"
| "nullable (RxCat r s) = (nullable r \<and> nullable s)"
| "nullable (RxAlt r s) = (nullable r \<or> nullable s)"
| "nullable (RxStar r) = True"

fun deriv :: "char \<Rightarrow> rx \<Rightarrow> rx" where
  "deriv c RxNone = RxNone"
| "deriv c RxEmpty = RxNone"
| "deriv c (RxClass P) = (if P c then RxEmpty else RxNone)"
| "deriv c (RxCat r s) =
     (if nullable r then RxAlt (RxCat (deriv c r) s) (deriv c s) else RxCat (deriv c r) s)"
| "deriv c (RxAlt r s) = RxAlt (deriv c r) (deriv c s)"
| "deriv c (RxStar r) = RxCat (deriv c r) (RxStar r)"

definition rx_matches :: "rx \<Rightarrow> string \<Rightarrow> bool" where
  "rx_matches r w = nullable (fold deriv w r)"

lemma nullable_iff: "nullable r \<longleftrightarrow> rx_lang r []"
  by (induction r) (auto simp: rx_lang_cat intro: rx_star0)

lemma rx_star_Cons:
  "rx_lang (RxStar r) (c # w) \<longleftrightarrow> (\<exists>u v. w = u @ v \<and> rx_lang r (c # u) \<and> rx_lang (RxStar r) v)"
proof
  have "rx_lang q x \<Longrightarrow> q = RxStar r \<Longrightarrow> x = c # w \<Longrightarrow>
      \<exists>u v. w = u @ v \<and> rx_lang r (c # u) \<and> rx_lang (RxStar r) v" for q x
  proof (induction rule: rx_lang.induct)
    case (rx_star1 r' u v)
    then show ?case by (cases u) auto
  qed auto
  then show "rx_lang (RxStar r) (c # w) \<Longrightarrow>
      \<exists>u v. w = u @ v \<and> rx_lang r (c # u) \<and> rx_lang (RxStar r) v" by blast
next
  assume "\<exists>u v. w = u @ v \<and> rx_lang r (c # u) \<and> rx_lang (RxStar r) v"
  then obtain u v where "w = u @ v" "rx_lang r (c # u)" "rx_lang (RxStar r) v" by blast
  then show "rx_lang (RxStar r) (c # w)"
    using rx_lang.rx_star1 [of r "c # u" v] by simp
qed

lemma deriv_iff: "rx_lang (deriv c r) w \<longleftrightarrow> rx_lang r (c # w)"
proof (induction r arbitrary: w)
  case (RxCat r s)
  have "rx_lang (RxCat r s) (c # w) \<longleftrightarrow>
      (\<exists>u v. w = u @ v \<and> rx_lang r (c # u) \<and> rx_lang s v) \<or> rx_lang r [] \<and> rx_lang s (c # w)"
    by (auto simp: rx_lang_cat Cons_eq_append_conv)
  then show ?case using RxCat by (auto simp: rx_lang_cat nullable_iff)
next
  case (RxStar r)
  then show ?case by (simp add: rx_lang_cat rx_star_Cons)
qed auto

theorem rx_matches_iff: "rx_matches r w \<longleftrightarrow> rx_lang r w"
  unfolding rx_matches_def
  by (induction w arbitrary: r) (simp_all add: nullable_iff deriv_iff)

section \<open>Repetitions\<close>

text \<open>\<open>r+\<close> and \<open>r{2,}\<close>.\<close>

definition rx_plus :: "rx \<Rightarrow> rx" where
  "rx_plus r = RxCat r (RxStar r)"

definition rx_from2 :: "rx \<Rightarrow> rx" where
  "rx_from2 r = RxCat r (RxCat r (RxStar r))"

lemma rx_star_class: "rx_lang (RxStar (RxClass P)) w \<longleftrightarrow> list_all P w"
  by (induction w) (auto simp: rx_star0 rx_star_Cons)

lemma rx_plus_class: "rx_lang (rx_plus (RxClass P)) w \<longleftrightarrow> w \<noteq> [] \<and> list_all P w"
  by (cases w) (auto simp: rx_plus_def rx_lang_class_cat rx_star_class)

lemma rx_from2_class: "rx_lang (rx_from2 (RxClass P)) w \<longleftrightarrow> 2 \<le> length w \<and> list_all P w"
  by (cases w rule: remdups_adj.cases)
    (auto simp: rx_from2_def rx_lang_class_cat rx_star_class)

end
