(* ===== verification/Jwt.thy ===== *)
theory Jwt
  imports Prelude
begin

text \<open>
  What the repository uses of \<open>github.com/golang-jwt/jwt/v5\<close>, which is not part of it: signing a set of
  claims, and parsing with a key function that accepts some algorithms. The library is a parameter,
  a record of two functions. Times are nanoseconds; a numeric date of a token is in whole seconds.
\<close>

text \<open>The claims of the tokens: \<open>user_id\<close> is missing from the superuser's.\<close>

record claims =
  cl_UserID :: "u32 option"
  cl_Subject :: string
  cl_IssuedAt :: int
  cl_ExpiresAt :: int

text \<open>\<open>jwt_parse lib accepts key now token\<close>: the claims of a valid token.\<close>

record jwt_lib =
  jwt_sign :: "string \<Rightarrow> string \<Rightarrow> claims \<Rightarrow> string + string"
  jwt_parse :: "(string \<Rightarrow> bool) \<Rightarrow> string \<Rightarrow> int \<Rightarrow> string \<Rightarrow> claims option"

definition NewNumericDate :: "int \<Rightarrow> int" where
  "NewNumericDate t = t div 1000000000"

definition is_hs256 :: "string \<Rightarrow> bool" where
  "is_hs256 alg = (alg = ''HS256'')"

text \<open>\<open>*jwt.SigningMethodHMAC\<close>.\<close>

definition is_hmac :: "string \<Rightarrow> bool" where
  "is_hmac alg = (alg = ''HS256'' \<or> alg = ''HS384'' \<or> alg = ''HS512'')"

text \<open>
  The documented behaviour for one token: what was signed with a key is read back with the same key
  until it expires, and rejected with any other key, an algorithm that is not accepted, or later.
\<close>

definition jwt_faithful :: "jwt_lib \<Rightarrow> string \<Rightarrow> string \<Rightarrow> claims \<Rightarrow> string \<Rightarrow> bool" where
  "jwt_faithful lib alg key c tok =
     (jwt_sign lib alg key c = Inr tok \<and>
      (\<forall>accepts key' now. jwt_parse lib accepts key' now tok =
         (if accepts alg \<and> key' = key \<and> now < cl_ExpiresAt c * 1000000000 then Some c else None)))"

lemma jwt_faithful_parse:
  "jwt_faithful lib alg key c tok \<Longrightarrow> jwt_parse lib accepts key' now tok =
     (if accepts alg \<and> key' = key \<and> now < cl_ExpiresAt c * 1000000000 then Some c else None)"
  by (simp add: jwt_faithful_def)

end
