(* ===== verification/AuthService.thy ===== *)
theory AuthService
  imports AuthStorage GoRegexp GoStrings Jwt
begin

text \<open>
  The auth service: \<open>search-services/auth/core/service.go\<close> and \<open>ports.go\<close>, and the gRPC handlers
  \<open>adapters/grpc/server.go\<close>. bcrypt and the JWT library are not part of the repository and are
  parameters; the clock is an argument.
\<close>

section \<open>Emails\<close>

definition is_letter :: "char \<Rightarrow> bool" where
  "is_letter c = (let n = of_char c :: nat in 65 \<le> n \<and> n \<le> 90 \<or> 97 \<le> n \<and> n \<le> 122)"

definition local_char :: "char \<Rightarrow> bool" where
  "local_char c = (is_letter c \<or> is_digit c \<or> c \<in> {CHR ''.'', CHR ''_'', CHR ''%'', CHR ''+'', CHR ''-''})"

definition domain_char :: "char \<Rightarrow> bool" where
  "domain_char c = (is_letter c \<or> is_digit c \<or> c \<in> {CHR ''.'', CHR ''-''})"

text \<open>The pattern of \<open>emailRe\<close>: a local part, the sign @, a domain, a dot, two letters or more.\<close>

definition emailRe :: rx where
  "emailRe =
     RxCat (rx_plus (RxClass local_char))
       (RxCat (RxClass (\<lambda>c. c = CHR ''@''))
         (RxCat (rx_plus (RxClass domain_char))
           (RxCat (RxClass (\<lambda>c. c = CHR ''.''))
             (rx_from2 (RxClass is_letter)))))"

definition validateEmail :: "string \<Rightarrow> auth_err + unit" where
  "validateEmail email =
     (if \<not> rx_matches emailRe email then Inl (Sentinel Auth_ErrInvalidEmail) else Inr ())"

section \<open>The service\<close>

record bcrypt_lib =
  bcrypt_generate :: "string \<Rightarrow> string + string"
  bcrypt_matches :: "string \<Rightarrow> string \<Rightarrow> bool"

record 'd auth_port =
  ap_Create :: "ComicsHubProfile \<Rightarrow> 'd \<Rightarrow> (auth_err + User) \<times> 'd"
  ap_Get :: "string \<Rightarrow> 'd \<Rightarrow> auth_err + User \<times> string"
  ap_Upsert :: "TelegramProfile \<Rightarrow> 'd \<Rightarrow> (auth_err + User) \<times> 'd"
  ap_Ping :: "auth_err + unit"

record 'd auth_service =
  as_db :: "'d auth_port"
  as_bcrypt :: bcrypt_lib
  as_jwt :: jwt_lib
  as_secret :: string
  as_ttl :: int

definition NewAuthService ::
  "'d auth_port \<Rightarrow> bcrypt_lib \<Rightarrow> jwt_lib \<Rightarrow> string \<Rightarrow> int \<Rightarrow> auth_err + 'd auth_service" where
  "NewAuthService db bc jw secret ttl =
     (if secret = [] then Inl (Plain ''empty jwt secret'')
      else if ttl \<le> 0 then Inl (Plain ''token ttl must be positive'')
      else Inr \<lparr>as_db = db, as_bcrypt = bc, as_jwt = jw, as_secret = secret, as_ttl = ttl\<rparr>)"

definition user_claims :: "int \<Rightarrow> int \<Rightarrow> u32 \<Rightarrow> claims" where
  "user_claims ttl now uid =
     \<lparr>cl_UserID = Some uid, cl_Subject = FormatUint (unat uid), cl_IssuedAt = NewNumericDate now,
      cl_ExpiresAt = NewNumericDate (now + ttl)\<rparr>"

definition generateToken :: "'d auth_service \<Rightarrow> int \<Rightarrow> int \<Rightarrow> auth_err + string" where
  "generateToken s now userID =
     (if userID \<le> 0 then Inl (Plain (''bad user id: '' @ fmt_d userID))
      else if userID > 4294967295
      then Inl (Plain (''user id too large for uint32 claim: '' @ fmt_d userID))
      else let uid = uint32 userID in
        (case jwt_sign (as_jwt s) ''HS256'' (as_secret s) (user_claims (as_ttl s) now uid) of
           Inl e \<Rightarrow> Inl (Plain e)
         | Inr t \<Rightarrow> Inr t))"

definition Auth_Register ::
  "'d auth_service \<Rightarrow> int \<Rightarrow> string \<Rightarrow> string \<Rightarrow> 'd \<Rightarrow> (auth_err + string) \<times> 'd" where
  "Auth_Register s now email password d =
     (if email = [] \<or> password = [] then (Inl (Plain ''email and password must not be empty''), d)
      else case validateEmail email of
        Inl err \<Rightarrow> (Inl (Sentinel Auth_ErrInvalidEmail), d)
      | Inr _ \<Rightarrow>
     (case bcrypt_generate (as_bcrypt s) password of
        Inl err \<Rightarrow> (Inl (Wrapf ''failed to hash password'' (Plain err)), d)
      | Inr hash \<Rightarrow>
     (case ap_Create (as_db s) \<lparr>Email = email, PasswordHash = hash\<rparr> d of
        (Inl err, d) \<Rightarrow>
          if errors_Is err Auth_ErrUserAlreadyExists then (Inl (Sentinel Auth_ErrUserAlreadyExists), d)
          else (Inl (Wrapf ''failed to create user'' err), d)
      | (Inr u, d) \<Rightarrow>
     (case generateToken s now (user_ID u) of
        Inl err \<Rightarrow> (Inl (Wrapf ''failed to generate token'' err), d)
      | Inr token \<Rightarrow> (Inr token, d)))))"

definition Auth_Login :: "'d auth_service \<Rightarrow> int \<Rightarrow> string \<Rightarrow> string \<Rightarrow> 'd \<Rightarrow> auth_err + string" where
  "Auth_Login s now email password d =
     (if email = [] \<or> password = [] then Inl (Sentinel Auth_ErrInvalidCredentials)
      else case validateEmail email of
        Inl err \<Rightarrow> Inl (Sentinel Auth_ErrInvalidEmail)
      | Inr _ \<Rightarrow>
     (case ap_Get (as_db s) email d of
        Inl err \<Rightarrow> Inl (Sentinel Auth_ErrInvalidCredentials)
      | Inr (u, hash) \<Rightarrow>
          if \<not> bcrypt_matches (as_bcrypt s) hash password then Inl (Sentinel Auth_ErrInvalidCredentials)
          else
     (case generateToken s now (user_ID u) of
        Inl err \<Rightarrow> Inl (Wrapf ''failed to generate token'' err)
      | Inr token \<Rightarrow> Inr token)))"

definition Auth_BotLoginTelegram ::
  "'d auth_service \<Rightarrow> int \<Rightarrow> TelegramProfile \<Rightarrow> 'd \<Rightarrow> (auth_err + string) \<times> 'd" where
  "Auth_BotLoginTelegram s now t d =
     (if TgID t \<le> 0 then (Inl (Plain ''tg_id is required''), d)
      else case ap_Upsert (as_db s) t d of
        (Inl err, d) \<Rightarrow> (Inl err, d)
      | (Inr u, d) \<Rightarrow> (generateToken s now (user_ID u), d))"

definition Auth_Ping :: "'d auth_service \<Rightarrow> auth_err + unit" where
  "Auth_Ping s = ap_Ping (as_db s)"

section \<open>The gRPC handlers\<close>

definition auth_server_Register ::
  "'d auth_service \<Rightarrow> int \<Rightarrow> string \<Rightarrow> string \<Rightarrow> 'd \<Rightarrow> (rpc_status + string) \<times> 'd" where
  "auth_server_Register s now email password d =
     (if email = [] \<or> password = []
      then (Inl (Status InvalidArgument ''email and password are required''), d)
      else case Auth_Register s now email password d of
        (Inl err, d) \<Rightarrow>
          if errors_Is err Auth_ErrUserAlreadyExists
          then (Inl (Status AlreadyExists (error_text auth_text err)), d)
          else if errors_Is err Auth_ErrInvalidEmail
          then (Inl (Status InvalidArgument (error_text auth_text err)), d)
          else (Inl (Status Internal ''internal error''), d)
      | (Inr token, d) \<Rightarrow> (Inr token, d))"

definition auth_server_Login ::
  "'d auth_service \<Rightarrow> int \<Rightarrow> string \<Rightarrow> string \<Rightarrow> 'd \<Rightarrow> rpc_status + string" where
  "auth_server_Login s now email password d =
     (if email = [] \<or> password = []
      then Inl (Status InvalidArgument ''email and password are required'')
      else case Auth_Login s now email password d of
        Inl err \<Rightarrow>
          if errors_Is err Auth_ErrInvalidCredentials
          then Inl (Status Unauthenticated (error_text auth_text err))
          else if errors_Is err Auth_ErrInvalidEmail
          then Inl (Status InvalidArgument (error_text auth_text err))
          else Inl (Status Internal ''internal error'')
      | Inr token \<Rightarrow> Inr token)"

text \<open>A request without a user is \<open>None\<close>.\<close>

definition auth_server_BotLoginTelegram ::
  "'d auth_service \<Rightarrow> int \<Rightarrow> TelegramProfile option \<Rightarrow> 'd \<Rightarrow> (rpc_status + string) \<times> 'd" where
  "auth_server_BotLoginTelegram s now req d =
     (case req of
        None \<Rightarrow> (Inl (Status InvalidArgument ''tg_id is required''), d)
      | Some u \<Rightarrow>
          if TgID u \<le> 0 then (Inl (Status InvalidArgument ''tg_id is required''), d)
          else case Auth_BotLoginTelegram s now u d of
            (Inl err, d) \<Rightarrow> (Inl (Status Internal ''internal error''), d)
          | (Inr token, d) \<Rightarrow> (Inr token, d))"

definition auth_server_Ping :: "'d auth_service \<Rightarrow> rpc_status + unit" where
  "auth_server_Ping s =
     (case Auth_Ping s of
        Inl err \<Rightarrow> Inl (Status Unavailable (error_text auth_text err))
      | Inr _ \<Rightarrow> Inr ())"

section \<open>Facts\<close>

definition auth_storage ::
  "(nat \<Rightarrow> sql_error option) \<Rightarrow> int \<Rightarrow> (nat \<Rightarrow> auth_db \<Rightarrow> auth_db) \<Rightarrow> sql_error option \<Rightarrow> auth_db auth_port" where
  "auth_storage faults now other fault =
     \<lparr>ap_Create = CreateComicshubUser faults now other, ap_Get = GetComicshubByEmail fault,
      ap_Upsert = UpsertTelegramUser faults now other, ap_Ping = auth_storage_Ping fault\<rparr>"

lemma validateEmail_ok_nonempty: "validateEmail e = Inr () \<Longrightarrow> e \<noteq> []"
  by (auto simp: validateEmail_def rx_matches_def emailRe_def rx_plus_def split: if_splits)

lemma generateToken_ok:
  "0 < i \<Longrightarrow> i \<le> 4294967295 \<Longrightarrow>
   jwt_sign (as_jwt s) ''HS256'' (as_secret s) (user_claims (as_ttl s) now (uint32 i)) = Inr tok \<Longrightarrow>
   generateToken s now i = Inr tok"
  by (simp add: generateToken_def)

text \<open>The token a service issues to a user at a time.\<close>

definition token_of :: "'d auth_service \<Rightarrow> int \<Rightarrow> int \<Rightarrow> string \<Rightarrow> bool" where
  "token_of s now i tok =
     (jwt_sign (as_jwt s) ''HS256'' (as_secret s) (user_claims (as_ttl s) now (uint32 i)) = Inr tok)"

context account_store
begin

lemma register_new:
  assumes "inv d" and "room d" and "accounts d email = None" and "ap_Create (as_db s) = create"
    and "validateEmail email = Inr ()" and "password \<noteq> []"
    and "bcrypt_generate (as_bcrypt s) password = Inr h"
    and sign: "\<And>c. \<exists>tok. jwt_sign (as_jwt s) ''HS256'' (as_secret s) c = Inr tok"
  shows "\<exists>i tok d'. auth_server_Register s now email password d = (Inr tok, d') \<and> inv d' \<and>
    accounts d' = (accounts d)(email \<mapsto> (i, h)) \<and> 0 < i \<and> i \<le> 4294967295 \<and> token_of s now i tok"
proof -
  obtain u d' where u: "create \<lparr>Email = email, PasswordHash = h\<rparr> d = (Inr u, d')" "inv d'"
    "accounts d' = (accounts d)(email \<mapsto> (user_ID u, h))" "0 < user_ID u" "user_ID u \<le> 4294967295"
    using create_new [OF assms(1,2), of "\<lparr>Email = email, PasswordHash = h\<rparr>"] assms(3) by auto
  obtain tok where "token_of s now (user_ID u) tok" unfolding token_of_def using sign by blast
  with u have "auth_server_Register s now email password d = (Inr tok, d')"
    using assms(4-7) validateEmail_ok_nonempty [OF assms(5)]
    by (simp add: auth_server_Register_def Auth_Register_def generateToken_ok [OF u(4,5)] token_of_def)
  with u \<open>token_of s now (user_ID u) tok\<close> show ?thesis by blast
qed

lemma register_dup:
  assumes "inv d" and "room d" and "accounts d email \<noteq> None" and "ap_Create (as_db s) = create"
    and "validateEmail email = Inr ()" and "password \<noteq> []"
    and "bcrypt_generate (as_bcrypt s) password = Inr h"
  shows "fst (auth_server_Register s now email password d) = Inl (Status AlreadyExists ''user already exists'')"
proof -
  obtain d' where "create \<lparr>Email = email, PasswordHash = h\<rparr> d = (Inl (Sentinel Auth_ErrUserAlreadyExists), d')"
    using create_dup [OF assms(1,2), of "\<lparr>Email = email, PasswordHash = h\<rparr>"] assms(3) by auto
  then show ?thesis
    using assms(4-7) validateEmail_ok_nonempty [OF assms(5)]
    by (simp add: auth_server_Register_def Auth_Register_def)
qed

lemma login_known:
  assumes "inv d" and "accounts d email = Some (i, h)" and "0 < i" and "i \<le> 4294967295"
    and "ap_Get (as_db s) = get" and "validateEmail email = Inr ()" and "password \<noteq> []"
    and sign: "\<And>c. \<exists>tok. jwt_sign (as_jwt s) ''HS256'' (as_secret s) c = Inr tok"
  shows "if bcrypt_matches (as_bcrypt s) h password
    then \<exists>tok. auth_server_Login s now email password d = Inr tok \<and> token_of s now i tok
    else auth_server_Login s now email password d = Inl (Status Unauthenticated ''invalid credentials'')"
proof -
  obtain u where u: "get email d = Inr (u, h)" "user_ID u = i" using get_some [OF assms(1,2)] by blast
  obtain tok where tok: "token_of s now i tok" unfolding token_of_def using sign by blast
  show ?thesis
    using u tok assms(5-7) validateEmail_ok_nonempty [OF assms(6)]
    by (auto simp: auth_server_Login_def Auth_Login_def generateToken_ok [OF assms(3,4)] token_of_def)
qed

lemma login_unknown:
  assumes "inv d" and "accounts d email = None" and "ap_Get (as_db s) = get"
    and "validateEmail email = Inr ()" and "password \<noteq> []"
  shows "auth_server_Login s now email password d = Inl (Status Unauthenticated ''invalid credentials'')"
  using get_none [OF assms(1,2)] assms(3-5) validateEmail_ok_nonempty [OF assms(4)]
  by (simp add: auth_server_Login_def Auth_Login_def)

lemma telegram_login:
  assumes "inv d" and "ap_Upsert (as_db s) = upsert" and "0 < TgID t" and "storable t"
    and "room d \<or> (\<exists>i. chats d (TgID t) = Some i \<and> 0 < i \<and> i \<le> 4294967295)"
    and sign: "\<And>c. \<exists>tok. jwt_sign (as_jwt s) ''HS256'' (as_secret s) c = Inr tok"
  shows "\<exists>i tok d'. auth_server_BotLoginTelegram s now (Some t) d = (Inr tok, d') \<and> inv d' \<and>
    chats d' = (chats d)(TgID t \<mapsto> i) \<and> (\<forall>j. chats d (TgID t) = Some j \<longrightarrow> j = i) \<and>
    accounts d' = accounts d \<and> 0 < i \<and> i \<le> 4294967295 \<and> token_of s now i tok"
proof -
  obtain u d' where u: "upsert t d = (Inr u, d')" "inv d'" "accounts d' = accounts d"
    "chats d' = (chats d)(TgID t \<mapsto> user_ID u)" "\<forall>j. chats d (TgID t) = Some j \<longrightarrow> j = user_ID u"
    "0 < user_ID u" "user_ID u \<le> 4294967295"
  proof (cases "chats d (TgID t)")
    case None
    then have "room d" using assms(5) by auto
    from upsert_new [OF assms(1) this assms(4) None] None that show ?thesis by auto
  next
    case (Some i)
    then have "0 < i \<and> i \<le> 4294967295" using assms(5) chat_ids [OF assms(1)] by auto
    with upsert_known [OF assms(1,4) Some] Some that show ?thesis by (auto simp: fun_upd_idem)
  qed
  obtain tok where tok: "token_of s now (user_ID u) tok" unfolding token_of_def using sign by blast
  then have "auth_server_BotLoginTelegram s now (Some t) d = (Inr tok, d')"
    using assms(2,3) u
    by (simp add: auth_server_BotLoginTelegram_def Auth_BotLoginTelegram_def
        generateToken_ok [OF u(6,7)] token_of_def)
  with u tok show ?thesis by blast
qed

end

section \<open>Properties\<close>

definition demo_jwt :: jwt_lib where
  "demo_jwt = \<lparr>jwt_sign = (\<lambda>alg key c. Inr (key @ FormatUint (case cl_UserID c of None \<Rightarrow> 0 | Some u \<Rightarrow> unat u))),
     jwt_parse = (\<lambda>accepts key now tok. None)\<rparr>"

definition demo_bcrypt :: bcrypt_lib where
  "demo_bcrypt = \<lparr>bcrypt_generate = (\<lambda>p. Inr (''h'' @ p)), bcrypt_matches = (\<lambda>h p. h = ''h'' @ p)\<rparr>"

definition demo_auth :: "auth_db auth_service" where
  "demo_auth = \<lparr>as_db = auth_storage no_faults 7 alone None, as_bcrypt = demo_bcrypt, as_jwt = demo_jwt,
     as_secret = ''s'', as_ttl = 3600000000000\<rparr>"

lemma demo_auth_sign: "\<exists>tok. jwt_sign (as_jwt demo_auth) ''HS256'' (as_secret demo_auth) c = Inr tok"
  by (simp add: demo_auth_def demo_jwt_def)

lemma auth_empty_inv: "auth_inv auth_empty"
  by (simp add: auth_inv_def auth_empty_def)

text \<open>C31: The pattern for emails accepts exactly the texts made of a non-empty local part, the sign @, a
  non-empty domain part, a dot and a tail of at least two letters, each part of its own characters;
  the matcher by derivatives decides it.\<close>

theorem validateEmail_exact:
  "validateEmail e = Inr () \<longleftrightarrow>
     (\<exists>l d t. e = l @ ''@'' @ d @ ''.'' @ t \<and> l \<noteq> [] \<and> list_all local_char l \<and>
        d \<noteq> [] \<and> list_all domain_char d \<and> 2 \<le> length t \<and> list_all is_letter t)"
proof -
  let ?parts = "\<lambda>l d t. e = l @ ''@'' @ d @ ''.'' @ t \<and> l \<noteq> [] \<and> list_all local_char l \<and>
      d \<noteq> [] \<and> list_all domain_char d \<and> 2 \<le> length t \<and> list_all is_letter t"
  have lang: "validateEmail e = Inr () \<longleftrightarrow> rx_lang emailRe e"
    by (simp add: validateEmail_def rx_matches_iff)
  note parts = emailRe_def rx_lang_cat [of "rx_plus _"] rx_lang_class_cat rx_plus_class rx_from2_class
  show ?thesis unfolding lang
  proof
    assume "rx_lang emailRe e"
    then have "\<exists>l v. e = l @ v \<and> (l \<noteq> [] \<and> list_all local_char l) \<and>
        (\<exists>c w. v = c # w \<and> c = CHR ''@'' \<and> (\<exists>d x. w = d @ x \<and> (d \<noteq> [] \<and> list_all domain_char d) \<and>
          (\<exists>c t. x = c # t \<and> c = CHR ''.'' \<and> 2 \<le> length t \<and> list_all is_letter t)))"
      unfolding parts .
    then obtain l v d w t where "e = l @ v" "l \<noteq> []" "list_all local_char l" "v = CHR ''@'' # w"
      "w = d @ CHR ''.'' # t" "d \<noteq> []" "list_all domain_char d" "2 \<le> length t" "list_all is_letter t"
      by (elim exE conjE) simp
    then have "?parts l d t" by simp
    then show "\<exists>l d t. ?parts l d t" by blast
  next
    assume "\<exists>l d t. ?parts l d t"
    then obtain l d t where "?parts l d t" by blast
    then have e: "e = l @ [CHR ''@''] @ d @ [CHR ''.''] @ t" and "rx_lang (rx_plus (RxClass local_char)) l"
      "rx_lang (rx_plus (RxClass domain_char)) d" "rx_lang (rx_from2 (RxClass is_letter)) t"
      by (simp_all add: rx_plus_class rx_from2_class)
    then show "rx_lang emailRe e"
      unfolding emailRe_def e by (intro rx_lang.rx_cat) simp_all
  qed
qed

text \<open>C12: Registering and logging in fit together: on a working database, a new email with a valid
  format gets a token for a fresh non-zero user id; logging in with the same password gives a token
  for the same id, with another password it is refused as \<open>Unauthenticated\<close>, and registering the
  email again is refused as \<open>AlreadyExists\<close>. The hypotheses on bcrypt and on signing are their
  documented behaviour for these passwords.\<close>

theorem register_then_login:
  assumes "as_db s = auth_storage no_faults now alone None"
    and "auth_inv d" and "auth_seq d < 4294967295" and "email \<notin> h_email ` set (auth_hub d)"
    and "validateEmail email = Inr ()" and "password \<noteq> []" and "wrong \<noteq> []"
    and "bcrypt_generate (as_bcrypt s) password = Inr h" and "bcrypt_matches (as_bcrypt s) h password"
    and "\<not> bcrypt_matches (as_bcrypt s) h wrong"
    and sign: "\<And>c. \<exists>tok. jwt_sign (as_jwt s) ''HS256'' (as_secret s) c = Inr tok"
  shows "\<exists>i tok tok2 d'. 0 < i \<and> i \<le> 4294967295 \<and>
    auth_server_Register s t1 email password d = (Inr tok, d') \<and> token_of s t1 i tok \<and> auth_inv d' \<and>
    auth_server_Login s t2 email password d' = Inr tok2 \<and> token_of s t2 i tok2 \<and>
    auth_server_Login s t2 email wrong d' = Inl (Status Unauthenticated ''invalid credentials'') \<and>
    fst (auth_server_Register s t2 email password d') = Inl (Status AlreadyExists ''user already exists'')"
proof -
  have ports: "ap_Create (as_db s) = CreateComicshubUser no_faults now alone"
    "ap_Get (as_db s) = GetComicshubByEmail None"
    using assms(1) by (simp_all add: auth_storage_def)
  have room: "auth_room d" using assms(3) by (simp add: auth_room_def)
  have new: "auth_accounts d email = None" using assms(4) by (simp add: auth_accounts_None)
  obtain i tok d' where r: "auth_server_Register s t1 email password d = (Inr tok, d')" "auth_inv d'"
    "auth_accounts d' = (auth_accounts d)(email \<mapsto> (i, h))" "0 < i" "i \<le> 4294967295" "token_of s t1 i tok"
    using acc.register_new [OF assms(2) room new ports(1) assms(5,6,8) sign] by blast
  have "auth_server_Register s t1 email password d =
      (Inr tok, add_hub (new_user now d) \<lparr>Email = email, PasswordHash = h\<rparr> (take_id d))"
    using r(1) assms(3,4) room ports(1) assms(5,6,8) validateEmail_ok_nonempty [OF assms(5)]
    by (auto simp: auth_server_Register_def Auth_Register_def CreateComicshubUser_ok [OF assms(2)]
        auth_room_def take_id_def split: if_splits sum.splits)
  then have room': "auth_room d'"
    using r(1) assms(3) by (simp add: auth_room_def add_hub_def take_id_def)
  have acc: "auth_accounts d' email = Some (i, h)" using r(3) by simp
  note login = acc.login_known [OF r(2) acc r(4,5) ports(2) assms(5) _ sign, of _ t2]
  show ?thesis
    using r login [OF assms(6)] login [OF assms(7)] assms(9,10)
      acc.register_dup [OF r(2) room' _ ports(1) assms(5,6,8), of t2] acc
    by auto
qed

lemma register_then_login_witness:
  "auth_server_Login demo_auth 0 ''a@b.io'' ''pw'' (snd (auth_server_Register demo_auth 0 ''a@b.io'' ''pw'' auth_empty))
     = Inr ''s1'' \<and>
   auth_server_Login demo_auth 0 ''a@b.io'' ''no'' (snd (auth_server_Register demo_auth 0 ''a@b.io'' ''pw'' auth_empty))
     = Inl (Status Unauthenticated ''invalid credentials'')"
proof -
  have e: "validateEmail ''a@b.io'' = Inr ()" by code_simp
  have db: "as_db demo_auth = auth_storage no_faults 7 alone None" by (simp add: demo_auth_def)
  have h: "bcrypt_generate (as_bcrypt demo_auth) ''pw'' = Inr ''hpw''"
    "bcrypt_matches (as_bcrypt demo_auth) ''hpw'' ''pw''" "\<not> bcrypt_matches (as_bcrypt demo_auth) ''hpw'' ''no''"
    by (simp_all add: demo_auth_def demo_bcrypt_def)
  have ne: "''pw'' \<noteq> []" "''no'' \<noteq> []" by simp_all
  have fresh: "auth_seq auth_empty < 4294967295" "''a@b.io'' \<notin> h_email ` set (auth_hub auth_empty)"
    by (simp_all add: auth_empty_def)
  obtain i tok tok2 d' where
    r: "auth_server_Register demo_auth 0 ''a@b.io'' ''pw'' auth_empty = (Inr tok, d')"
      "auth_server_Login demo_auth 0 ''a@b.io'' ''pw'' d' = Inr tok2"
      "auth_server_Login demo_auth 0 ''a@b.io'' ''no'' d' = Inl (Status Unauthenticated ''invalid credentials'')"
    using register_then_login [OF db auth_empty_inv fresh e ne h demo_auth_sign, of 0 0] by blast
  have "auth_server_Login demo_auth 0 ''a@b.io'' ''pw''
      (snd (auth_server_Register demo_auth 0 ''a@b.io'' ''pw'' auth_empty)) = Inr ''s1''"
    by code_simp
  with r show ?thesis by simp
qed

text \<open>A Telegram chat keeps its user: two logins of the same chat, the second with a changed
  profile, give tokens for the same non-zero user id, and no account of another kind is touched.\<close>

theorem telegram_login_stable:
  assumes "as_db s = auth_storage no_faults now alone None"
    and "auth_inv d" and "auth_room d" and "0 < TgID p" and "TgID q = TgID p"
    and "names_ok p" and "names_ok q"
    and sign: "\<And>c. \<exists>tok. jwt_sign (as_jwt s) ''HS256'' (as_secret s) c = Inr tok"
  shows "\<exists>i tok tok2 d1 d2. 0 < i \<and> i \<le> 4294967295 \<and>
    auth_server_BotLoginTelegram s t1 (Some p) d = (Inr tok, d1) \<and> token_of s t1 i tok \<and>
    auth_server_BotLoginTelegram s t2 (Some q) d1 = (Inr tok2, d2) \<and> token_of s t2 i tok2 \<and>
    auth_inv d2 \<and> tg_known d2 = (tg_known d)(TgID p \<mapsto> i) \<and> auth_accounts d2 = auth_accounts d"
proof -
  have port: "ap_Upsert (as_db s) = UpsertTelegramUser no_faults now alone"
    using assms(1) by (simp add: auth_storage_def)
  obtain i tok d1 where 1: "auth_server_BotLoginTelegram s t1 (Some p) d = (Inr tok, d1)" "auth_inv d1"
    "tg_known d1 = (tg_known d)(TgID p \<mapsto> i)" "auth_accounts d1 = auth_accounts d" "0 < i" "i \<le> 4294967295"
    "token_of s t1 i tok"
    using acc.telegram_login [OF assms(2) port assms(4,6) _ sign] assms(3) by blast
  have "tg_known d1 (TgID q) = Some i" "0 < TgID q" using 1(3) assms(4,5) by simp_all
  then obtain tok2 d2 where 2: "auth_server_BotLoginTelegram s t2 (Some q) d1 = (Inr tok2, d2)" "auth_inv d2"
    "tg_known d2 = tg_known d1" "auth_accounts d2 = auth_accounts d1" "token_of s t2 i tok2"
    using acc.telegram_login [OF 1(2) port _ assms(7) _ sign, of t2] 1(5,6) by (metis fun_upd_triv)
  show ?thesis using 1 2 by auto
qed

lemma telegram_login_stable_witness:
  "\<exists>i tok d1 d2. auth_server_BotLoginTelegram demo_auth 0
       (Some \<lparr>TgID = 42, Username = ''u'', FirstName = [], LastName = []\<rparr>) auth_empty = (Inr tok, d1) \<and>
     tg_known d2 = [42 \<mapsto> i]"
proof -
  let ?p = "\<lparr>TgID = 42, Username = ''u'', FirstName = [], LastName = []\<rparr>"
  let ?q = "\<lparr>TgID = 42, Username = ''v'', FirstName = ''V'', LastName = []\<rparr>"
  have db: "as_db demo_auth = auth_storage no_faults 7 alone None" by (simp add: demo_auth_def)
  have room: "auth_room auth_empty" and tg: "0 < TgID ?p" "TgID ?q = TgID ?p"
    and names: "names_ok ?p" "names_ok ?q"
    by (simp_all add: auth_room_def auth_empty_def names_ok_def pg_text_def)
  have "tg_known auth_empty = Map.empty" by (simp add: tg_known_def auth_empty_def fun_eq_iff)
  then show ?thesis
    using telegram_login_stable [OF db auth_empty_inv room tg names demo_auth_sign, of 0 0] by auto
qed

text \<open>C13: The transactions are atomic: whatever statement fails and whatever other clients commit before any of
  the statements, the constraints hold afterwards, and among them that every user has an account; and a
  call that reports an error has changed nothing itself: the database is what the others have made of it,
  apart from one id that may have been drawn from the sequence.\<close>

theorem auth_transactions_atomic:
  assumes "auth_inv d" and "others_ok other"
  shows "auth_inv (snd (CreateComicshubUser faults now other p d)) \<and>
    auth_inv (snd (UpsertTelegramUser faults now other t d)) \<and>
    (\<forall>e. fst (CreateComicshubUser faults now other p d) = Inl e \<longrightarrow>
       (\<exists>n drawn. others_made other d n drawn (snd (CreateComicshubUser faults now other p d)))) \<and>
    (\<forall>e. fst (UpsertTelegramUser faults now other t d) = Inl e \<longrightarrow>
       (\<exists>n drawn. others_made other d n drawn (snd (UpsertTelegramUser faults now other t d))))"
  using CreateComicshubUser_among [OF assms prod.collapse [symmetric]]
    UpsertTelegramUser_among [OF assms prod.collapse [symmetric]] by blast

text \<open>For the examples: another client that logs in the chat 42 before the fifth statement.\<close>

definition other_login :: "nat \<Rightarrow> auth_db \<Rightarrow> auth_db" where
  "other_login k d = (if k = 5 then snd (UpsertTelegramUser no_faults 0 alone
     \<lparr>TgID = 42, Username = ''u'', FirstName = [], LastName = []\<rparr> d) else d)"

lemma others_made_seq: "others_made other d n b d' \<Longrightarrow> others_ok other \<Longrightarrow> auth_inv d \<Longrightarrow>
  auth_inv d' \<and> auth_seq d \<le> auth_seq d'"
  by (induction rule: others_made.induct)
    (auto simp: others_ok_def dest: auth_inv_take_id [unfolded take_id_def] intro: order.trans)

lemma Upsert_alone_seq: "auth_seq d \<le> auth_seq (snd (UpsertTelegramUser no_faults now alone p d))"
  if "auth_inv d"
proof (cases "names_ok p")
  case True
  then show ?thesis
    by (simp add: UpsertTelegramUser_ok [OF that] set_profile_def add_tg_def take_id_def split: option.split)
next
  case False
  obtain r d' where u: "UpsertTelegramUser no_faults now alone p d = (r, d')" by fastforce
  have "\<exists>e. r = Inl e"
    using u False
    by (auto simp: UpsertTelegramUser_def tg_existing_def updateProfile_def tx_run_def upd_tg_def ins_tg_def
        split: if_splits option.splits sum.splits prod.splits)
  then show ?thesis
    using UpsertTelegramUser_among [OF that others_ok_alone u] others_made_seq [OF _ others_ok_alone that] u by auto
qed

lemma other_login_ok: "others_ok other_login"
proof -
  have "auth_inv (snd (UpsertTelegramUser no_faults now alone p d))" if "auth_inv d" for now p d
    using UpsertTelegramUser_among [OF that others_ok_alone prod.collapse [symmetric]] by blast
  then show ?thesis using Upsert_alone_seq by (simp add: others_ok_def other_login_def)
qed

lemma auth_transactions_atomic_witness:
  "auth_inv (snd (CreateComicshubUser (\<lambda>k. if k = 3 then Some (DriverError ''lost'') else None) 0 other_login
     \<lparr>Email = ''a@b.io'', PasswordHash = ''h''\<rparr> auth_empty))"
  using auth_transactions_atomic [OF auth_empty_inv other_login_ok] by blast

text \<open>C33: The recovery from a race does not recover: when another request inserts the same chat after
  the look-up, and so is there when the insert is made, the unique violation has aborted the transaction,
  the statements of the recovery are refused, and the caller gets an error, the handler \<open>Internal\<close>,
  although the user exists. This is so whatever else the others commit.\<close>

theorem telegram_race_not_recovered:
  assumes "auth_inv d" and "others_ok other" and "tg_known (other 1 d) (TgID p) = None"
    and "e = other 5 (other 1 d)" and "f = other 6 (e\<lparr>auth_seq := auth_seq e + 1\<rparr>)"
    and "auth_seq e \<notin> user_ID ` set (auth_users f)" and "tg_known f (TgID p) = Some uid"
    and "0 < TgID p" and "as_db s = auth_storage faults now other fault"
  shows "(\<exists>err. fst (UpsertTelegramUser faults now other p d) = Inl err) \<and>
    fst (auth_server_BotLoginTelegram s t (Some p) d) = Inl (Status Internal ''internal error'')"
proof -
  obtain err d' where r: "UpsertTelegramUser faults now other p d = (Inl err, d')"
    using Upsert_race [OF assms(1-7), of faults now] by (metis prod.collapse)
  then show ?thesis
    using assms(8,9)
    by (simp add: auth_server_BotLoginTelegram_def Auth_BotLoginTelegram_def auth_storage_def)
qed

lemma telegram_race_not_recovered_witness:
  "fst (auth_server_BotLoginTelegram (demo_auth\<lparr>as_db := auth_storage no_faults 0 other_login None\<rparr>) 0
     (Some \<lparr>TgID = 42, Username = ''w'', FirstName = [], LastName = []\<rparr>) auth_empty)
   = Inl (Status Internal ''internal error'')"
proof -
  let ?p = "\<lparr>TgID = 42, Username = ''w'', FirstName = [], LastName = []\<rparr>"
  let ?e = "other_login 5 (other_login 1 auth_empty)"
  let ?f = "other_login 6 (?e\<lparr>auth_seq := auth_seq ?e + 1\<rparr>)"
  have none: "tg_known (other_login 1 auth_empty) (TgID ?p) = None"
    by (simp add: tg_known_def auth_empty_def other_login_def)
  have some: "tg_known ?f (TgID ?p) = Some 1" and new: "auth_seq ?e \<notin> user_ID ` set (auth_users ?f)"
    by (code_simp, code_simp)
  have pos: "0 < TgID ?p" by simp
  have db: "as_db (demo_auth\<lparr>as_db := auth_storage no_faults 0 other_login None\<rparr>) =
      auth_storage no_faults 0 other_login None" by simp
  from telegram_race_not_recovered [OF auth_empty_inv other_login_ok none refl refl new some pos db] show ?thesis
    by blast
qed

text \<open>C30: A token is issued exactly for the user ids from 1 to \<open>2 ^ 32 - 1\<close>, and then its claims name the
  user without loss: \<open>user_id\<close> is the id, the subject its decimal text, which reads back as the id,
  and the token expires after it was issued.\<close>

theorem token_names_user:
  assumes "\<And>c. \<exists>tok. jwt_sign (as_jwt s) ''HS256'' (as_secret s) c = Inr tok"
    and "1000000000 \<le> as_ttl s"
  shows "((\<exists>tok. generateToken s now i = Inr tok) \<longleftrightarrow> 1 \<le> i \<and> i \<le> 4294967295) \<and>
    (\<forall>tok. generateToken s now i = Inr tok \<longrightarrow>
       (\<exists>c. jwt_sign (as_jwt s) ''HS256'' (as_secret s) c = Inr tok \<and>
          (\<exists>u. cl_UserID c = Some u \<and> uint u = i \<and> u \<noteq> 0) \<and>
          ParseUint 32 (cl_Subject c) = Some (nat i) \<and> cl_IssuedAt c < cl_ExpiresAt c))"
proof -
  let ?c = "user_claims (as_ttl s) now (uint32 i)"
  have issued: "(\<exists>tok. generateToken s now i = Inr tok) \<longleftrightarrow> 1 \<le> i \<and> i \<le> 4294967295"
    using assms(1) [of ?c] by (auto simp: generateToken_def Let_def split: sum.splits)
  have claims: "(\<exists>u. cl_UserID ?c = Some u \<and> uint u = i \<and> u \<noteq> 0) \<and>
      ParseUint 32 (cl_Subject ?c) = Some (nat i) \<and> cl_IssuedAt ?c < cl_ExpiresAt ?c"
    if "1 \<le> i" "i \<le> 4294967295"
  proof -
    have u: "uint (uint32 i) = i" using that by (intro uint_uint32) simp_all
    then have "unat (uint32 i) = nat i" by (metis unat_eq_nat_uint)
    moreover have "uint32 i \<noteq> 0" using u that by (metis not_one_le_zero unsigned_0)
    moreover have "now div 1000000000 < (now + as_ttl s) div 1000000000"
      using assms(2) div_add_self2 [of 1000000000 now] zdiv_mono1 [of "now + 1000000000" "now + as_ttl s" 1000000000]
      by simp
    ultimately show ?thesis
      using u that by (simp add: user_claims_def ParseUint_FormatUint NewNumericDate_def)
  qed
  show ?thesis
  proof (intro conjI allI impI)
    fix tok assume tok: "generateToken s now i = Inr tok"
    then have i: "1 \<le> i" "i \<le> 4294967295" using issued by auto
    then have "jwt_sign (as_jwt s) ''HS256'' (as_secret s) ?c = Inr tok"
      using tok by (simp add: generateToken_def split: sum.splits)
    with claims [OF i] show "\<exists>c. jwt_sign (as_jwt s) ''HS256'' (as_secret s) c = Inr tok \<and>
          (\<exists>u. cl_UserID c = Some u \<and> uint u = i \<and> u \<noteq> 0) \<and>
          ParseUint 32 (cl_Subject c) = Some (nat i) \<and> cl_IssuedAt c < cl_ExpiresAt c" by blast
  qed (rule issued)
qed

lemma token_names_user_witness:
  "(\<exists>tok. generateToken demo_auth 0 5 = Inr tok) \<and> \<not> (\<exists>tok. generateToken demo_auth 0 4294967296 = Inr tok)"
  using token_names_user [OF demo_auth_sign, of 0 5] token_names_user [OF demo_auth_sign, of 0 4294967296]
  by (simp add: demo_auth_def)

end
