(* ===== verification/ApiCore.thy ===== *)
theory ApiCore
  imports GoJson SearchServer UpdateServer Favorites AuthService
begin

text \<open>
  The vocabulary of the API gateway: \<open>search-services/api/core\<close> (errors, models, ports), the payloads
  (\<open>adapters/rest/payloads.go\<close>), responses (\<open>pkg/res/res.go\<close>) and what a handler reads of a request.
  The world behind the gateway is a state \<open>'s\<close> that the ports read and change.
\<close>

section \<open>Errors\<close>

datatype api_sentinel =
    Api_ErrBadArguments | Api_ErrAlreadyExists | Api_ErrUnavailable | Api_ErrInvalidCredentials
  | Api_ErrInvalidEmail | Api_ErrNotFound

fun api_text :: "api_sentinel \<Rightarrow> string" where
  "api_text Api_ErrBadArguments = ''arguments are not acceptable''"
| "api_text Api_ErrAlreadyExists = ''resource or task already exists''"
| "api_text Api_ErrUnavailable = ''dependency unavailable''"
| "api_text Api_ErrInvalidCredentials = ''invalid credentials''"
| "api_text Api_ErrInvalidEmail = ''invalid email format''"
| "api_text Api_ErrNotFound = ''not found''"

type_synonym api_err = "api_sentinel go_error"

section \<open>Models\<close>

datatype UpdateStatus = StatusUpdateUnknown | StatusUpdateIdle | StatusUpdateRunning

fun update_status_text :: "UpdateStatus \<Rightarrow> string" where
  "update_status_text StatusUpdateUnknown = ''unknown''"
| "update_status_text StatusUpdateIdle = ''idle''"
| "update_status_text StatusUpdateRunning = ''running''"

record UpdateStats =
  us_WordsTotal :: int
  us_WordsUnique :: int
  us_ComicsFetched :: int
  us_ComicsTotal :: int

record SearchComic =
  sc_ID :: int
  sc_URL :: string

record SearchResult =
  sr_Comics :: "SearchComic list"
  sr_Total :: int

record ApiFavorite =
  af_ComicID :: i32
  af_CreatedAtUnix :: int

section \<open>Ports\<close>

record 's Searcher =
  se_Find :: "string \<Rightarrow> u32 \<Rightarrow> 's \<Rightarrow> api_err + SearchResult"
  se_IndexedSearch :: "string \<Rightarrow> u32 \<Rightarrow> 's \<Rightarrow> api_err + SearchResult"
  se_Ping :: "'s \<Rightarrow> api_err + unit"
  se_GetComic :: "int \<Rightarrow> 's \<Rightarrow> api_err + SearchComic"
  se_RandomComic :: "'s \<Rightarrow> api_err + SearchComic"
  se_ListComics :: "u32 \<Rightarrow> u32 \<Rightarrow> 's \<Rightarrow> api_err + SearchResult"

record 's Updater =
  up_Update :: "'s \<Rightarrow> (api_err + unit) \<times> 's"
  up_Stats :: "'s \<Rightarrow> api_err + UpdateStats"
  up_Status :: "'s \<Rightarrow> api_err + UpdateStatus"
  up_Drop :: "'s \<Rightarrow> (api_err + unit) \<times> 's"
  up_Ping :: "'s \<Rightarrow> api_err + unit"

record 's AuthPort =
  au_Register :: "string \<Rightarrow> string \<Rightarrow> 's \<Rightarrow> (api_err + string) \<times> 's"
  au_Login :: "string \<Rightarrow> string \<Rightarrow> 's \<Rightarrow> api_err + string"
  au_BotLoginTelegram :: "TelegramProfile \<Rightarrow> 's \<Rightarrow> (api_err + string) \<times> 's"
  au_Ping :: "'s \<Rightarrow> api_err + unit"

record 's FavoritesPort =
  fv_Add :: "u32 \<Rightarrow> i32 \<Rightarrow> 's \<Rightarrow> (api_err + unit) \<times> 's"
  fv_Delete :: "u32 \<Rightarrow> i32 \<Rightarrow> 's \<Rightarrow> (api_err + unit) \<times> 's"
  fv_List :: "u32 \<Rightarrow> 's \<Rightarrow> api_err + ApiFavorite list"
  fv_Ping :: "'s \<Rightarrow> api_err + unit"

section \<open>Requests and responses\<close>

text \<open>
  What handlers read of a request: \<open>Query().Get\<close> and \<open>PathValue\<close> give the empty string for a name that
  is absent; \<open>rq_user\<close> is the value \<open>RequireUser\<close> puts into the context.
\<close>

record http_request =
  rq_method :: string
  rq_path :: "string list"
  rq_query :: "string \<Rightarrow> string"
  rq_pathvalue :: "string \<Rightarrow> string"
  rq_authorization :: string
  rq_body :: "json option"
  rq_user :: "u32 option"

record comicResponse =
  cr_id :: int
  cr_url :: string

record favoriteItemResponse =
  fi_comic_id :: i32
  fi_created_at_unix :: int

text \<open>The replies of the ping handler are a map; its JSON lists the keys in order.\<close>

datatype payload =
    pingResponse "string \<Rightarrow> string option"
  | errorResponse string
  | updateStatusResponse string
  | updateStatsResponse int int int int
  | comicPayload comicResponse
  | searchResponse "comicResponse list" int
  | tokenResponse string
  | favoritesListResponse "favoriteItemResponse list"

datatype http_body = NoBody | PlainText string | JsonBody payload

record http_response =
  hr_code :: int
  hr_body :: http_body

definition res_Json :: "payload \<Rightarrow> int \<Rightarrow> http_response" where
  "res_Json data code = \<lparr>hr_code = code, hr_body = JsonBody data\<rparr>"

definition WriteHeader :: "int \<Rightarrow> http_response" where
  "WriteHeader code = \<lparr>hr_code = code, hr_body = NoBody\<rparr>"

text \<open>\<open>http.Error\<close> ends the text with a newline.\<close>

definition http_Error :: "string \<Rightarrow> int \<Rightarrow> http_response" where
  "http_Error msg code = \<lparr>hr_code = code, hr_body = PlainText (msg @ [CHR 0x0A])\<rparr>"

type_synonym 's handler = "http_request \<Rightarrow> 's \<Rightarrow> http_response \<times> 's"

text \<open>A handler that only reads.\<close>

definition reads :: "(http_request \<Rightarrow> 's \<Rightarrow> http_response) \<Rightarrow> 's handler" where
  "reads h rq s = (h rq s, s)"

lemma reads_state [simp]: "snd (reads h rq s) = s"
  by (simp add: reads_def)

lemma res_Json_code [simp]: "hr_code (res_Json data code) = code"
  by (simp add: res_Json_def)

end
