(* ===== verification/ApiClients.thy ===== *)
theory ApiClients
  imports ApiCore
begin

text \<open>
  The gRPC clients of the API gateway: \<open>search-services/api/adapters/search\<close>, \<open>update\<close>, \<open>auth\<close>,
  \<open>favorites\<close> and \<open>words\<close>. A stub maps a request and the world to a status or a reply; a client
  translates requests, replies and status codes.
\<close>

definition unavailable_code :: "code \<Rightarrow> bool" where
  "unavailable_code c = (c = Unavailable \<or> c = DeadlineExceeded \<or> c = Canceled)"

text \<open>The last two cases of every switch over a status code.\<close>

definition other_status :: "rpc_status \<Rightarrow> api_err" where
  "other_status st =
     (if unavailable_code (status_code st) then Sentinel Api_ErrUnavailable else StatusErr st)"

text \<open>\<open>Ping\<close> of the clients of search, auth, favorites, update and words.\<close>

definition api_search_Ping :: "('s \<Rightarrow> rpc_status + unit) \<Rightarrow> 's \<Rightarrow> api_err + unit" where
  "api_search_Ping stub s = (case stub s of Inl st \<Rightarrow> Inl (other_status st) | Inr _ \<Rightarrow> Inr ())"

definition api_auth_Ping :: "('s \<Rightarrow> rpc_status + unit) \<Rightarrow> 's \<Rightarrow> api_err + unit" where
  "api_auth_Ping stub s = (case stub s of Inl st \<Rightarrow> Inl (other_status st) | Inr _ \<Rightarrow> Inr ())"

definition api_favorites_Ping :: "('s \<Rightarrow> rpc_status + unit) \<Rightarrow> 's \<Rightarrow> api_err + unit" where
  "api_favorites_Ping stub s = (case stub s of Inl st \<Rightarrow> Inl (other_status st) | Inr _ \<Rightarrow> Inr ())"

definition api_update_Ping :: "('s \<Rightarrow> rpc_status + unit) \<Rightarrow> 's \<Rightarrow> api_err + unit" where
  "api_update_Ping stub s = (case stub s of Inl st \<Rightarrow> Inl (other_status st) | Inr _ \<Rightarrow> Inr ())"

definition api_words_Ping :: "('s \<Rightarrow> rpc_status + unit) \<Rightarrow> 's \<Rightarrow> api_err + unit" where
  "api_words_Ping stub s = (case stub s of Inl st \<Rightarrow> Inl (other_status st) | Inr _ \<Rightarrow> Inr ())"

section \<open>search\<close>

record 's search_stub =
  ss_Ping :: "'s \<Rightarrow> rpc_status + unit"
  ss_Find :: "string \<Rightarrow> u32 \<Rightarrow> 's \<Rightarrow> rpc_status + SearchReply"
  ss_IndexedSearch :: "string \<Rightarrow> u32 \<Rightarrow> 's \<Rightarrow> rpc_status + SearchReply"
  ss_GetIDComic :: "u32 \<Rightarrow> 's \<Rightarrow> rpc_status + ComicReply"
  ss_GetRandomComic :: "'s \<Rightarrow> rpc_status + ComicReply"
  ss_GetAllComics :: "u32 \<Rightarrow> u32 \<Rightarrow> 's \<Rightarrow> rpc_status + SearchReply"

fun search_comics :: "ComicReply list \<Rightarrow> SearchComic list" where
  "search_comics [] = []"
| "search_comics (cr # crs) = \<lparr>sc_ID = uint (reply_Id cr), sc_URL = reply_Url cr\<rparr> # search_comics crs"

definition api_search_Find :: "'s search_stub \<Rightarrow> string \<Rightarrow> u32 \<Rightarrow> 's \<Rightarrow> api_err + SearchResult" where
  "api_search_Find stub phrase limit s =
     (case ss_Find stub phrase limit s of
        Inl st \<Rightarrow>
          (if status_code st = InvalidArgument then Inl (Sentinel Api_ErrBadArguments)
           else Inl (other_status st))
      | Inr r \<Rightarrow>
          Inr \<lparr>sr_Comics = search_comics (reply_Comics r), sr_Total = uint (reply_Total r)\<rparr>)"

definition api_search_IndexedSearch ::
  "'s search_stub \<Rightarrow> string \<Rightarrow> u32 \<Rightarrow> 's \<Rightarrow> api_err + SearchResult" where
  "api_search_IndexedSearch stub phrase limit s =
     (case ss_IndexedSearch stub phrase limit s of
        Inl st \<Rightarrow>
          (if status_code st = InvalidArgument then Inl (Sentinel Api_ErrBadArguments)
           else Inl (other_status st))
      | Inr r \<Rightarrow>
          Inr \<lparr>sr_Comics = search_comics (reply_Comics r), sr_Total = uint (reply_Total r)\<rparr>)"

definition api_search_GetComic :: "'s search_stub \<Rightarrow> int \<Rightarrow> 's \<Rightarrow> api_err + SearchComic" where
  "api_search_GetComic stub cid s =
     (case ss_GetIDComic stub (uint32 cid) s of
        Inl st \<Rightarrow>
          (if status_code st = NotFound then Inl (Sentinel Api_ErrBadArguments)
           else Inl (other_status st))
      | Inr r \<Rightarrow> Inr \<lparr>sc_ID = uint (reply_Id r), sc_URL = reply_Url r\<rparr>)"

definition api_search_RandomComic :: "'s search_stub \<Rightarrow> 's \<Rightarrow> api_err + SearchComic" where
  "api_search_RandomComic stub s =
     (case ss_GetRandomComic stub s of
        Inl st \<Rightarrow> Inl (other_status st)
      | Inr r \<Rightarrow> Inr \<lparr>sc_ID = uint (reply_Id r), sc_URL = reply_Url r\<rparr>)"

definition api_search_ListComics :: "'s search_stub \<Rightarrow> u32 \<Rightarrow> u32 \<Rightarrow> 's \<Rightarrow> api_err + SearchResult" where
  "api_search_ListComics stub page limit s =
     (case ss_GetAllComics stub page limit s of
        Inl st \<Rightarrow>
          (if status_code st = InvalidArgument then Inl (Sentinel Api_ErrBadArguments)
           else Inl (other_status st))
      | Inr r \<Rightarrow>
          Inr \<lparr>sr_Comics = search_comics (reply_Comics r), sr_Total = uint (reply_Total r)\<rparr>)"

definition search_client :: "'s search_stub \<Rightarrow> 's Searcher" where
  "search_client stub =
     \<lparr>se_Find = api_search_Find stub, se_IndexedSearch = api_search_IndexedSearch stub,
      se_Ping = api_search_Ping (ss_Ping stub), se_GetComic = api_search_GetComic stub,
      se_RandomComic = api_search_RandomComic stub, se_ListComics = api_search_ListComics stub\<rparr>"

section \<open>update\<close>

record 's update_stub =
  ut_Ping :: "'s \<Rightarrow> rpc_status + unit"
  ut_Status :: "'s \<Rightarrow> rpc_status + status_pb"
  ut_Stats :: "'s \<Rightarrow> rpc_status + StatsReply"
  ut_Update :: "'s \<Rightarrow> (rpc_status + unit) \<times> 's"
  ut_Drop :: "'s \<Rightarrow> (rpc_status + unit) \<times> 's"

text \<open>The client returns \<open>StatusUpdateUnknown\<close> beside an error, which its caller ignores.\<close>

definition api_update_Status :: "'s update_stub \<Rightarrow> 's \<Rightarrow> api_err + UpdateStatus" where
  "api_update_Status stub s =
     (case ut_Status stub s of
        Inl st \<Rightarrow> Inl (other_status st)
      | Inr r \<Rightarrow>
          (case r of
             STATUS_IDLE \<Rightarrow> Inr StatusUpdateIdle
           | STATUS_RUNNING \<Rightarrow> Inr StatusUpdateRunning
           | STATUS_UNSPECIFIED \<Rightarrow> Inr StatusUpdateUnknown))"

definition api_update_Stats :: "'s update_stub \<Rightarrow> 's \<Rightarrow> api_err + UpdateStats" where
  "api_update_Stats stub s =
     (case ut_Stats stub s of
        Inl st \<Rightarrow> Inl (other_status st)
      | Inr r \<Rightarrow>
          Inr \<lparr>us_WordsTotal = pb_WordsTotal r, us_WordsUnique = pb_WordsUnique r,
               us_ComicsFetched = pb_ComicsFetched r, us_ComicsTotal = pb_ComicsTotal r\<rparr>)"

definition api_update_Update :: "'s update_stub \<Rightarrow> 's \<Rightarrow> (api_err + unit) \<times> 's" where
  "api_update_Update stub s =
     (case ut_Update stub s of
        (Inl st, s) \<Rightarrow>
          (if status_code st = AlreadyExists then (Inl (Sentinel Api_ErrAlreadyExists), s)
           else (Inl (other_status st), s))
      | (Inr _, s) \<Rightarrow> (Inr (), s))"

definition api_update_Drop :: "'s update_stub \<Rightarrow> 's \<Rightarrow> (api_err + unit) \<times> 's" where
  "api_update_Drop stub s =
     (case ut_Drop stub s of
        (Inl st, s) \<Rightarrow> (Inl (other_status st), s)
      | (Inr _, s) \<Rightarrow> (Inr (), s))"

definition update_client :: "'s update_stub \<Rightarrow> 's Updater" where
  "update_client stub =
     \<lparr>up_Update = api_update_Update stub, up_Stats = api_update_Stats stub,
      up_Status = api_update_Status stub, up_Drop = api_update_Drop stub,
      up_Ping = api_update_Ping (ut_Ping stub)\<rparr>"

section \<open>auth\<close>

record 's auth_stub =
  at_Ping :: "'s \<Rightarrow> rpc_status + unit"
  at_Register :: "string \<Rightarrow> string \<Rightarrow> 's \<Rightarrow> (rpc_status + string) \<times> 's"
  at_Login :: "string \<Rightarrow> string \<Rightarrow> 's \<Rightarrow> rpc_status + string"
  at_BotLoginTelegram :: "TelegramProfile option \<Rightarrow> 's \<Rightarrow> (rpc_status + string) \<times> 's"

definition api_auth_Register ::
  "'s auth_stub \<Rightarrow> string \<Rightarrow> string \<Rightarrow> 's \<Rightarrow> (api_err + string) \<times> 's" where
  "api_auth_Register stub email password s =
     (case at_Register stub email password s of
        (Inl st, s) \<Rightarrow>
          (if status_code st = InvalidArgument then (Inl (Sentinel Api_ErrInvalidEmail), s)
           else if status_code st = AlreadyExists then (Inl (Sentinel Api_ErrAlreadyExists), s)
           else (Inl (other_status st), s))
      | (Inr token, s) \<Rightarrow> (Inr token, s))"

definition api_auth_Login :: "'s auth_stub \<Rightarrow> string \<Rightarrow> string \<Rightarrow> 's \<Rightarrow> api_err + string" where
  "api_auth_Login stub email password s =
     (case at_Login stub email password s of
        Inl st \<Rightarrow>
          (if status_code st = InvalidArgument then Inl (Sentinel Api_ErrInvalidEmail)
           else if status_code st = Unauthenticated then Inl (Sentinel Api_ErrInvalidCredentials)
           else Inl (other_status st))
      | Inr token \<Rightarrow> Inr token)"

definition api_auth_BotLoginTelegram ::
  "'s auth_stub \<Rightarrow> TelegramProfile \<Rightarrow> 's \<Rightarrow> (api_err + string) \<times> 's" where
  "api_auth_BotLoginTelegram stub tg s =
     (case at_BotLoginTelegram stub (Some tg) s of
        (Inl st, s) \<Rightarrow>
          (if status_code st = InvalidArgument then (Inl (Sentinel Api_ErrBadArguments), s)
           else (Inl (other_status st), s))
      | (Inr token, s) \<Rightarrow> (Inr token, s))"

definition auth_client :: "'s auth_stub \<Rightarrow> 's AuthPort" where
  "auth_client stub =
     \<lparr>au_Register = api_auth_Register stub, au_Login = api_auth_Login stub,
      au_BotLoginTelegram = api_auth_BotLoginTelegram stub, au_Ping = api_auth_Ping (at_Ping stub)\<rparr>"

section \<open>favorites\<close>

record 's favorites_stub =
  ft_Ping :: "'s \<Rightarrow> rpc_status + unit"
  ft_Add :: "u32 \<Rightarrow> i32 \<Rightarrow> 's \<Rightarrow> (rpc_status + unit) \<times> 's"
  ft_Delete :: "u32 \<Rightarrow> i32 \<Rightarrow> 's \<Rightarrow> (rpc_status + unit) \<times> 's"
  ft_List :: "u32 \<Rightarrow> 's \<Rightarrow> rpc_status + FavoriteItem list"

definition api_favorites_Add ::
  "'s favorites_stub \<Rightarrow> u32 \<Rightarrow> i32 \<Rightarrow> 's \<Rightarrow> (api_err + unit) \<times> 's" where
  "api_favorites_Add stub uid cid s =
     (case ft_Add stub uid cid s of
        (Inl st, s) \<Rightarrow>
          (if status_code st = InvalidArgument then (Inl (Sentinel Api_ErrBadArguments), s)
           else if status_code st = AlreadyExists then (Inl (Sentinel Api_ErrAlreadyExists), s)
           else (Inl (other_status st), s))
      | (Inr _, s) \<Rightarrow> (Inr (), s))"

definition api_favorites_Delete ::
  "'s favorites_stub \<Rightarrow> u32 \<Rightarrow> i32 \<Rightarrow> 's \<Rightarrow> (api_err + unit) \<times> 's" where
  "api_favorites_Delete stub uid cid s =
     (case ft_Delete stub uid cid s of
        (Inl st, s) \<Rightarrow>
          (if status_code st = InvalidArgument then (Inl (Sentinel Api_ErrBadArguments), s)
           else if status_code st = NotFound then (Inl (Sentinel Api_ErrNotFound), s)
           else (Inl (other_status st), s))
      | (Inr _, s) \<Rightarrow> (Inr (), s))"

fun api_favorite_items :: "FavoriteItem list \<Rightarrow> ApiFavorite list" where
  "api_favorite_items [] = []"
| "api_favorite_items (it # its) =
     \<lparr>af_ComicID = item_ComicId it, af_CreatedAtUnix = item_CreatedAtUnix it\<rparr> # api_favorite_items its"

definition api_favorites_List :: "'s favorites_stub \<Rightarrow> u32 \<Rightarrow> 's \<Rightarrow> api_err + ApiFavorite list" where
  "api_favorites_List stub uid s =
     (case ft_List stub uid s of
        Inl st \<Rightarrow>
          (if status_code st = InvalidArgument then Inl (Sentinel Api_ErrBadArguments)
           else Inl (other_status st))
      | Inr items \<Rightarrow> Inr (api_favorite_items items))"

definition favorites_client :: "'s favorites_stub \<Rightarrow> 's FavoritesPort" where
  "favorites_client stub =
     \<lparr>fv_Add = api_favorites_Add stub, fv_Delete = api_favorites_Delete stub,
      fv_List = api_favorites_List stub, fv_Ping = api_favorites_Ping (ft_Ping stub)\<rparr>"

section \<open>words\<close>

definition api_words_Norm :: "(string \<Rightarrow> rpc_status + string list) \<Rightarrow> string \<Rightarrow> api_err + string list" where
  "api_words_Norm stub phrase =
     (case stub phrase of
        Inl st \<Rightarrow>
          (if status_code st = ResourceExhausted then Inl (Sentinel Api_ErrBadArguments)
           else Inl (other_status st))
      | Inr ws \<Rightarrow> Inr ws)"

section \<open>Facts\<close>

lemma other_status_Is [err_simps]:
  "errors_Is (other_status st) e \<longleftrightarrow> e = Api_ErrUnavailable \<and> unavailable_code (status_code st)"
  by (auto simp: other_status_def)

lemma search_comics_eq:
  "search_comics crs = map (\<lambda>cr. \<lparr>sc_ID = uint (reply_Id cr), sc_URL = reply_Url cr\<rparr>) crs"
  by (induction crs) auto

lemma api_favorite_items_eq:
  "api_favorite_items its =
     map (\<lambda>it. \<lparr>af_ComicID = item_ComicId it, af_CreatedAtUnix = item_CreatedAtUnix it\<rparr>) its"
  by (induction its) auto

end
