(* ===== verification/ApiMiddleware.thy ===== *)
theory ApiMiddleware
  imports ApiCore
begin

text \<open>
  The middleware of the API gateway, \<open>search-services/api/adapters/rest/middleware\<close>: \<open>auth.go\<close>,
  \<open>jwt.go\<close>, \<open>user_auth.go\<close> and \<open>limits.go\<close>. The clock is the argument \<open>now\<close> (nanoseconds).
\<close>

section \<open>Tokens of the superuser (jwt.go)\<close>

definition superuserSubject :: string where
  "superuserSubject = ''superuser''"

definition jwtSecret :: string where
  "jwtSecret = ''123''"

definition GenerateSuperuserToken :: "jwt_lib \<Rightarrow> int \<Rightarrow> int \<Rightarrow> string + string" where
  "GenerateSuperuserToken lib ttl now =
     jwt_sign lib ''HS256'' jwtSecret
       \<lparr>cl_UserID = None, cl_Subject = superuserSubject, cl_IssuedAt = NewNumericDate now,
        cl_ExpiresAt = NewNumericDate (now + ttl)\<rparr>"

definition jwt_superuser_parse :: "jwt_lib \<Rightarrow> int \<Rightarrow> string \<Rightarrow> claims option" where
  "jwt_superuser_parse lib now tok = jwt_parse lib is_hmac jwtSecret now tok"

definition IsSuperuserToken :: "jwt_lib \<Rightarrow> int \<Rightarrow> string \<Rightarrow> bool" where
  "IsSuperuserToken lib now tok =
     (case jwt_superuser_parse lib now tok of
        None \<Rightarrow> False
      | Some c \<Rightarrow> cl_Subject c = superuserSubject)"

section \<open>Login and protection of the superuser's routes (auth.go)\<close>

definition writeUnauthed :: http_response where
  "writeUnauthed = \<lparr>hr_code = 401, hr_body = PlainText ''unauthorized''\<rparr>"

definition NewLoginHandler :: "jwt_lib \<Rightarrow> string \<Rightarrow> string \<Rightarrow> int \<Rightarrow> int \<Rightarrow> http_request \<Rightarrow> http_response" where
  "NewLoginHandler lib adminUser adminPassword ttl now rq =
     (if rq_method rq \<noteq> ''POST'' then http_Error ''method not allowed'' 405
      else case struct_members (rq_body rq) of
        None \<Rightarrow> http_Error ''bad request'' 400
      | Some kvs \<Rightarrow>
     (case (string_field ''name'' kvs, string_field ''password'' kvs) of
        (Some name, Some password) \<Rightarrow>
          if name \<noteq> adminUser \<or> password \<noteq> adminPassword then writeUnauthed
          else (case GenerateSuperuserToken lib ttl now of
                  Inl err \<Rightarrow> http_Error ''internal error'' 500
                | Inr token \<Rightarrow> \<lparr>hr_code = 200, hr_body = PlainText token\<rparr>)
      | _ \<Rightarrow> http_Error ''bad request'' 400))"

definition RequireSuperuser :: "jwt_lib \<Rightarrow> int \<Rightarrow> 's handler \<Rightarrow> 's handler" where
  "RequireSuperuser lib now nxt rq s =
     (let authHeader = TrimSpace (rq_authorization rq) in
      if authHeader = [] then (writeUnauthed, s)
      else if \<not> HasPrefix authHeader ''Token '' then (writeUnauthed, s)
      else let tokenStr = TrimSpace (TrimPrefix authHeader ''Token '') in
      if tokenStr = [] then (writeUnauthed, s)
      else if \<not> IsSuperuserToken lib now tokenStr then (writeUnauthed, s)
      else nxt rq s)"

section \<open>Users (user_auth.go)\<close>

definition readToken :: "http_request \<Rightarrow> string option" where
  "readToken rq =
     (let authHeader = TrimSpace (rq_authorization rq) in
      if authHeader = [] then None
      else if \<not> HasPrefix authHeader ''Token '' then None
      else let tokenStr = TrimSpace (TrimPrefix authHeader ''Token '') in
      if tokenStr = [] then None else Some tokenStr)"

definition user_unauthorized :: http_response where
  "user_unauthorized = \<lparr>hr_code = 401, hr_body = PlainText ''unauthorized''\<rparr>"

text \<open>The claim \<open>user_id\<close> is zero when the token has none.\<close>

definition RequireUser :: "jwt_lib \<Rightarrow> string \<Rightarrow> int \<Rightarrow> 's handler \<Rightarrow> 's handler" where
  "RequireUser lib secret now nxt rq s =
     (case readToken rq of
        None \<Rightarrow> (user_unauthorized, s)
      | Some tok \<Rightarrow>
     (case jwt_parse lib is_hs256 secret now tok of
        None \<Rightarrow> (user_unauthorized, s)
      | Some c \<Rightarrow>
          let uid = (case cl_UserID c of None \<Rightarrow> 0 | Some u \<Rightarrow> u) in
          if uid = 0 then (user_unauthorized, s)
          else nxt (rq\<lparr>rq_user := Some uid\<rparr>) s))"

definition UserIDFromContext :: "http_request \<Rightarrow> u32 option" where
  "UserIDFromContext rq = rq_user rq"

section \<open>Limits (limits.go)\<close>

text \<open>\<open>held\<close> is the number of slots of the semaphore taken when the request arrives.\<close>

definition WithConcurrencyLimit :: "int \<Rightarrow> int \<Rightarrow> 's handler \<Rightarrow> 's handler" where
  "WithConcurrencyLimit max_conc held nxt rq s =
     (if max_conc \<le> 0 then nxt rq s
      else if held < max_conc then nxt rq s
      else (http_Error ''service unavailable'' 503, s))"

text \<open>\<open>waited\<close> says that \<open>Wait\<close> returned without error; otherwise nothing is written, which the server
  completes to an empty reply with status 200.\<close>

definition WithRateLimit :: "int \<Rightarrow> bool \<Rightarrow> 's handler \<Rightarrow> 's handler" where
  "WithRateLimit rps waited nxt rq s =
     (if rps \<le> 0 then nxt rq s
      else if \<not> waited then (WriteHeader 200, s)
      else nxt rq s)"

text \<open>The semaphore while many requests are served.\<close>

record limit_state =
  sem :: int
  serving :: "nat list"
  refused :: "nat list"

definition limit_init :: limit_state where
  "limit_init = \<lparr>sem = 0, serving = [], refused = []\<rparr>"

inductive limit_step :: "int \<Rightarrow> limit_state \<Rightarrow> limit_state \<Rightarrow> bool" for max_conc where
  enter: "sem s < max_conc \<Longrightarrow> limit_step max_conc s (s\<lparr>sem := sem s + 1, serving := r # serving s\<rparr>)"
| refuse: "max_conc \<le> sem s \<Longrightarrow> limit_step max_conc s (s\<lparr>refused := r # refused s\<rparr>)"
| finish: "r \<in> set (serving s) \<Longrightarrow>
    limit_step max_conc s (s\<lparr>sem := sem s - 1, serving := remove1 r (serving s)\<rparr>)"

definition limit_reach :: "int \<Rightarrow> limit_state \<Rightarrow> bool" where
  "limit_reach max_conc s = (limit_step max_conc)\<^sup>*\<^sup>* limit_init s"

section \<open>Facts\<close>

lemma limit_inv_reach:
  "limit_reach max_conc s \<Longrightarrow> 0 < max_conc \<Longrightarrow> sem s = int (length (serving s)) \<and> sem s \<le> max_conc"
  unfolding limit_reach_def
proof (induction rule: rtranclp_induct)
  case base
  then show ?case by (simp add: limit_init_def)
next
  case (step s s')
  from step.hyps(2) step.IH step.prems show ?case
  proof (induction rule: limit_step.induct)
    case (finish r s)
    then show ?case using length_remove1_Suc [OF finish.hyps] by simp
  qed auto
qed

text \<open>Reading the token of a header.\<close>

lemma RequireSuperuser_readToken:
  "RequireSuperuser lib now nxt rq s =
     (case readToken rq of
        None \<Rightarrow> (writeUnauthed, s)
      | Some tok \<Rightarrow> if IsSuperuserToken lib now tok then nxt rq s else (writeUnauthed, s))"
  by (simp add: RequireSuperuser_def readToken_def Let_def)

section \<open>The token of a header\<close>

lemma trim_with_Nil: "trim_with es s = [] \<Longrightarrow> s = [] \<or> (\<exists>e \<in> set es. \<exists>q. s = q @ e)"
proof (induction es s rule: trim_with.induct)
  case (1 es s)
  show ?case
  proof (cases "[] \<in> set es \<or> strip_any es s = None")
    case True
    then have "s = []"
      using 1(2) by (cases "[] \<in> set es") (simp_all add: trim_with.simps [of es s])
    then show ?thesis by simp
  next
    case False
    then obtain r where r: "strip_any es s = Some r" by auto
    then obtain e where e: "e \<in> set es" "s = e @ r" by (auto dest: strip_any_Some)
    have "trim_with es r = []" using 1(2) False r by (simp add: trim_with.simps [of es s])
    then have "r = [] \<or> (\<exists>e \<in> set es. \<exists>q. r = q @ e)" using 1(1) False r by blast
    then show ?thesis
    proof
      assume "\<exists>e \<in> set es. \<exists>q. r = q @ e"
      then obtain e' q where "e' \<in> set es" "r = q @ e'" by blast
      with e show ?thesis by (metis append_assoc)
    qed (use e in auto)
  qed
qed

lemma ends_with_space_iff: "ends_with_space s \<longleftrightarrow> (\<exists>e \<in> set space_encodings. \<exists>q. s = q @ e)"
proof -
  have "(rev s = rev e @ r) = (s = rev r @ e)" for e r :: string
    by (metis rev_append rev_rev_ident)
  then show ?thesis
    unfolding ends_with_space_def by (auto simp: strip_any_None) (metis rev_rev_ident)+
qed

lemma TrimSpace_empty: "TrimSpace s = [] \<Longrightarrow> s = [] \<or> ends_with_space s"
proof -
  assume t: "TrimSpace s = []"
  let ?l = "TrimLeftSpace s"
  have "ends_with_space ?l" if "?l \<noteq> []"
  proof (rule ccontr)
    assume "\<not> ends_with_space ?l"
    then have "TrimRightSpace ?l = ?l"
      by (simp add: ends_with_space_def TrimRightSpace_def trim_with_None)
    with t that show False by (simp add: TrimSpace_def)
  qed
  moreover have "ends_with_space s" if "ends_with_space ?l"
    using that trim_with_suffix [of s space_encodings]
    unfolding ends_with_space_iff TrimLeftSpace_def by (metis append_assoc)
  moreover have "s = [] \<or> ends_with_space s" if "?l = []"
    using trim_with_Nil [of space_encodings s] that by (auto simp: ends_with_space_iff TrimLeftSpace_def)
  ultimately show ?thesis by blast
qed

text \<open>The scheme of the header, and that no encoding of white space straddles it.\<close>

lemma token_scheme_end:
  assumes "ends_with_space (''Token '' @ t)"
  shows "t = [] \<or> ends_with_space t"
proof -
  obtain e q where e: "e \<in> set space_encodings" "''Token '' @ t = q @ e"
    using assms by (auto simp: ends_with_space_iff)
  from e(2) consider u where "q = ''Token '' @ u" "t = u @ e" | u where "u @ t = e" "''Token '' = q @ u"
    using append_eq_append_conv2 [of "''Token ''" t q e] by blast
  then show ?thesis
  proof cases
    case 1
    then show ?thesis using e(1) by (auto simp: ends_with_space_iff)
  next
    case 2
    show ?thesis
    proof (cases "u = []")
      case True
      then show ?thesis using 2 e(1) by (auto simp: ends_with_space_iff)
    next
      case False
      then have "last u = CHR '' ''" using 2(2) by (metis last_appendR last_ConsR last_ConsL list.distinct(1))
      then have "CHR '' '' \<in> set e" using 2(1) False by (metis Un_iff last_in_set set_append)
      then have "e = [CHR '' '']" using e(1) by (auto simp: space_encodings_def)
      then show ?thesis using 2(1) False by (cases u) auto
    qed
  qed
qed

lemma readToken_eq:
  "readToken rq =
     (let h = TrimSpace (rq_authorization rq) in
      if HasPrefix h ''Token '' then Some (TrimSpace (TrimPrefix h ''Token '')) else None)"
proof -
  let ?h = "TrimSpace (rq_authorization rq)"
  have "TrimSpace (TrimPrefix ?h ''Token '') \<noteq> []" if p: "HasPrefix ?h ''Token ''"
  proof
    obtain r where r: "?h = ''Token '' @ r" using p by (auto simp: HasPrefix_iff)
    assume "TrimSpace (TrimPrefix ?h ''Token '') = []"
    then have "TrimSpace r = []" unfolding r TrimPrefix_append .
    then have "r = [] \<or> ends_with_space r" by (rule TrimSpace_empty)
    moreover have "ends_with_space (''Token '' @ r)" if "ends_with_space r"
      using that unfolding ends_with_space_iff by (metis append_assoc)
    moreover have "ends_with_space (''Token '' @ [])" by code_simp
    ultimately have "ends_with_space ?h" using r by metis
    then show False using TrimSpace_no_trailing by blast
  qed
  moreover have "?h \<noteq> []" if "HasPrefix ?h ''Token ''" using that by (auto simp: HasPrefix_iff)
  ultimately show ?thesis by (auto simp: readToken_def Let_def)
qed

lemma readToken_header:
  assumes "rq_authorization rq = ''Token '' @ tok" and "TrimSpace tok = tok" and "tok \<noteq> []"
  shows "readToken rq = Some tok"
proof -
  have "\<not> ends_with_space tok" using assms(2) TrimSpace_no_trailing by metis
  then have "\<not> ends_with_space (''Token '' @ tok)" using token_scheme_end assms(3) by blast
  moreover have "\<not> starts_with_space (''Token '' @ tok)"
    by (simp add: starts_with_space_def space_encodings_def)
  ultimately have "TrimSpace (''Token '' @ tok) = ''Token '' @ tok" by (rule TrimSpace_id [rotated])
  moreover have "HasPrefix (''Token '' @ tok) ''Token ''" "TrimPrefix (''Token '' @ tok) ''Token '' = tok"
    by (rule HasPrefix_append, rule TrimPrefix_append)
  ultimately show ?thesis using assms by (simp add: readToken_eq Let_def)
qed

section \<open>Properties\<close>

lemma superuser_subject_no_number: "FormatUint n \<noteq> superuserSubject"
proof -
  have "list_all is_digit (FormatUint n)" by (rule FormatUint_digits)
  then show ?thesis by (auto simp: superuserSubject_def is_digit_def)
qed

text \<open>A library for the examples: one token, issued for given claims.\<close>

definition one_token_lib :: "string \<Rightarrow> claims \<Rightarrow> jwt_lib" where
  "one_token_lib key c =
     \<lparr>jwt_sign = (\<lambda>alg k d. if alg = ''HS256'' \<and> k = key \<and> d = c then Inr ''t0.t1.t2'' else Inl ''no''),
      jwt_parse = (\<lambda>accepts k now tok. if tok = ''t0.t1.t2'' \<and> accepts ''HS256'' \<and> k = key \<and>
         now < cl_ExpiresAt c * 1000000000 then Some c else None)\<rparr>"

lemma one_token_faithful: "jwt_faithful (one_token_lib key c) ''HS256'' key c ''t0.t1.t2''"
  by (simp add: jwt_faithful_def one_token_lib_def)

definition token_request :: "string \<Rightarrow> http_request" where
  "token_request tok = \<lparr>rq_method = ''GET'', rq_path = [], rq_query = (\<lambda>_. []), rq_pathvalue = (\<lambda>_. []),
     rq_authorization = ''Token '' @ tok, rq_body = None, rq_user = None\<rparr>"

text \<open>C26: The two kinds of tokens are not interchangeable, even when both services use the same secret:
  a token of the superuser opens the superuser's routes until it expires and no user route, and the
  token of a user opens the user routes of an API with its secret until it expires, under its own
  user id, and never a route of the superuser.\<close>

theorem tokens_not_interchangeable:
  assumes "jwt_faithful lib ''HS256'' key c tok" and "rq_authorization rq = ''Token '' @ tok"
    and "TrimSpace tok = tok" and "tok \<noteq> []"
  shows "(c = \<lparr>cl_UserID = None, cl_Subject = superuserSubject, cl_IssuedAt = i, cl_ExpiresAt = e\<rparr> \<longrightarrow>
      RequireUser lib secret now nxt rq s = (user_unauthorized, s) \<and>
      RequireSuperuser lib now nxt rq s =
        (if key = jwtSecret \<and> now < e * 1000000000 then nxt rq s else (writeUnauthed, s))) \<and>
    (c = user_claims ttl t u \<longrightarrow>
      RequireSuperuser lib now nxt rq s = (writeUnauthed, s) \<and>
      RequireUser lib secret now nxt rq s =
        (if key = secret \<and> now < NewNumericDate (t + ttl) * 1000000000 \<and> u \<noteq> 0
         then nxt (rq\<lparr>rq_user := Some u\<rparr>) s else (user_unauthorized, s)))"
proof -
  note tok = readToken_header [OF assms(2-4)]
  note parse = jwt_faithful_parse [OF assms(1)]
  have user: "RequireUser lib secret now nxt rq s =
      (if key = secret \<and> now < cl_ExpiresAt c * 1000000000 \<and> cl_UserID c \<noteq> None \<and> cl_UserID c \<noteq> Some 0
       then nxt (rq\<lparr>rq_user := cl_UserID c\<rparr>) s else (user_unauthorized, s))"
    by (cases "cl_UserID c") (auto simp: RequireUser_def tok parse is_hs256_def Let_def)
  have super: "RequireSuperuser lib now nxt rq s =
      (if key = jwtSecret \<and> now < cl_ExpiresAt c * 1000000000 \<and> cl_Subject c = superuserSubject
       then nxt rq s else (writeUnauthed, s))"
    by (auto simp: RequireSuperuser_readToken tok IsSuperuserToken_def jwt_superuser_parse_def parse is_hmac_def)
  show ?thesis
    unfolding user super using superuser_subject_no_number by (auto simp: user_claims_def)
qed

lemma tokens_not_interchangeable_witness:
  "RequireSuperuser (one_token_lib ''123'' (user_claims 3600000000000 0 7)) 5
     (reads (\<lambda>rq s. WriteHeader 200)) (token_request ''t0.t1.t2'') () = (writeUnauthed, ())"
proof -
  let ?c = "user_claims 3600000000000 0 7"
  have h: "rq_authorization (token_request ''t0.t1.t2'') = ''Token '' @ ''t0.t1.t2''" "''t0.t1.t2'' \<noteq> []"
    by (simp_all add: token_request_def)
  have t: "TrimSpace ''t0.t1.t2'' = ''t0.t1.t2''" by code_simp
  from tokens_not_interchangeable [where ttl = 3600000000000 and t = 0 and u = 7 and now = 5 and s = "()"
      and nxt = "reads (\<lambda>rq s. WriteHeader 200)" and secret = "[]" and i = 0 and e = 0,
      OF one_token_faithful [of "''123''" ?c] h(1) t h(2)]
  show ?thesis by simp
qed

text \<open>The header is read exactly: a token is found if and only if the trimmed header starts with
  \<open>Token \<close> and a blank, it is the trimmed rest, and it is never empty (the last check of \<open>readToken\<close>
  cannot fail).\<close>

theorem readToken_exact:
  "readToken rq =
     (let h = TrimSpace (rq_authorization rq) in
      if HasPrefix h ''Token '' then Some (TrimSpace (TrimPrefix h ''Token '')) else None) \<and>
   readToken rq \<noteq> Some []"
proof
  show "readToken rq \<noteq> Some []" by (auto simp: readToken_def Let_def)
qed (rule readToken_eq)

text \<open>C37: At most \<open>SearchConcurrency\<close> searches run at a time: in every history of requests the number of
  requests being served is the number of slots taken and never above the limit, and a request is
  refused only when all slots are taken.\<close>

theorem search_concurrency_bounded:
  assumes "0 < max_conc" and "limit_reach max_conc s"
  shows "int (length (serving s)) \<le> max_conc \<and> sem s = int (length (serving s)) \<and>
    (WithConcurrencyLimit max_conc (sem s) nxt rq w = (http_Error ''service unavailable'' 503, w) \<or>
     WithConcurrencyLimit max_conc (sem s) nxt rq w = nxt rq w) \<and>
    (WithConcurrencyLimit max_conc (sem s) nxt rq w = nxt rq w \<or> int (length (serving s)) = max_conc)"
  using limit_inv_reach [OF assms(2,1)] assms(1) by (auto simp: WithConcurrencyLimit_def)

lemma search_concurrency_bounded_witness:
  "int (length (serving \<lparr>sem = 1, serving = [4], refused = [5]\<rparr>)) \<le> 1"
proof -
  have "(limit_step 1)\<^sup>*\<^sup>* limit_init \<lparr>sem = 1, serving = [4], refused = []\<rparr>"
    using limit_step.enter [of limit_init 1 4] by (simp add: limit_init_def r_into_rtranclp)
  moreover have "limit_step 1 \<lparr>sem = 1, serving = [4], refused = []\<rparr> \<lparr>sem = 1, serving = [4], refused = [5]\<rparr>"
    using limit_step.refuse [of 1 "\<lparr>sem = 1, serving = [4], refused = []\<rparr>" 5] by simp
  ultimately have "limit_reach 1 \<lparr>sem = 1, serving = [4], refused = [5]\<rparr>"
    unfolding limit_reach_def by (rule rtranclp.rtrancl_into_rtrancl)
  then show ?thesis
    using search_concurrency_bounded [of 1 "\<lparr>sem = 1, serving = [4], refused = [5]\<rparr>"
      "reads (\<lambda>rq s. WriteHeader 200)" "token_request []" "()"] by simp
qed

end
