(* ===== verification/ApiHandlers.thy ===== *)
theory ApiHandlers
  imports ApiClients ApiMiddleware
begin

text \<open>
  The HTTP handlers of \<open>search-services/api/adapters/rest/api.go\<close>, one definition each, in the order of
  the file. Logging, the timeouts of contexts and the closing of bodies are left out; a timeout shows
  as an error of a port.
\<close>

definition NewPingHandler :: "(string \<times> ('s \<Rightarrow> api_err + unit)) list \<Rightarrow> 's handler" where
  "NewPingHandler pingers = reads (\<lambda>rq s.
     res_Json (pingResponse (map_of (map (\<lambda>(name, ping).
       (name, case ping s of Inl err \<Rightarrow> ''unavailable'' | Inr _ \<Rightarrow> ''ok'')) pingers))) 200)"

section \<open>Update handlers\<close>

definition NewUpdateHandler :: "'s Updater \<Rightarrow> 's handler" where
  "NewUpdateHandler updater rq s =
     (case up_Update updater s of
        (Inl err, s) \<Rightarrow>
          (if errors_Is err Api_ErrAlreadyExists
           then res_Json (updateStatusResponse ''already running'') 202
           else if errors_Is err Api_ErrUnavailable
           then res_Json (errorResponse ''dependency unavailable'') 503
           else res_Json (errorResponse ''internal error'') 500, s)
      | (Inr _, s) \<Rightarrow> (res_Json (updateStatusResponse ''started'') 200, s))"

definition NewUpdateStatsHandler :: "'s Updater \<Rightarrow> 's handler" where
  "NewUpdateStatsHandler updater = reads (\<lambda>rq s.
     case up_Stats updater s of
       Inl err \<Rightarrow>
         if errors_Is err Api_ErrUnavailable then res_Json (errorResponse ''dependency unavailable'') 503
         else res_Json (errorResponse ''internal error'') 500
     | Inr st \<Rightarrow>
         res_Json (updateStatsResponse (us_WordsTotal st) (us_WordsUnique st) (us_ComicsFetched st)
           (us_ComicsTotal st)) 200)"

definition NewUpdateStatusHandler :: "'s Updater \<Rightarrow> 's handler" where
  "NewUpdateStatusHandler updater = reads (\<lambda>rq s.
     case up_Status updater s of
       Inl err \<Rightarrow>
         if errors_Is err Api_ErrUnavailable then res_Json (errorResponse ''dependency unavailable'') 503
         else res_Json (errorResponse ''internal error'') 500
     | Inr st \<Rightarrow> res_Json (updateStatusResponse (update_status_text st)) 200)"

definition NewDropHandler :: "'s Updater \<Rightarrow> 's handler" where
  "NewDropHandler updater rq s =
     (case up_Drop updater s of
        (Inl err, s) \<Rightarrow>
          (if errors_Is err Api_ErrUnavailable
           then res_Json (errorResponse ''dependency unavailable'') 503
           else res_Json (errorResponse ''internal error'') 500, s)
      | (Inr _, s) \<Rightarrow> (WriteHeader 200, s))"

section \<open>Search handlers\<close>

text \<open>The loop that copies the comics of a result.\<close>

fun comic_responses :: "SearchComic list \<Rightarrow> comicResponse list" where
  "comic_responses [] = []"
| "comic_responses (c # cs) = \<lparr>cr_id = sc_ID c, cr_url = sc_URL c\<rparr> # comic_responses cs"

definition NewSearchHandler :: "'s Searcher \<Rightarrow> 's handler" where
  "NewSearchHandler search = reads (\<lambda>rq s.
     let phrase = rq_query rq ''phrase''; limitStr = rq_query rq ''limit'' in
     case (if limitStr \<noteq> [] then ParseUint 32 limitStr else Some 0) of
       None \<Rightarrow> res_Json (errorResponse ''bad limit'') 400
     | Some n \<Rightarrow>
    (let limit = uint32 (int n) in
     case se_Find search phrase limit s of
       Inl err \<Rightarrow>
         if errors_Is err Api_ErrBadArguments then res_Json (errorResponse ''bad request'') 400
         else if errors_Is err Api_ErrUnavailable
         then res_Json (errorResponse ''dependency unavailable'') 503
         else res_Json (errorResponse ''internal error'') 500
     | Inr result \<Rightarrow>
         res_Json (searchResponse (comic_responses (sr_Comics result)) (sr_Total result)) 200))"

definition NewIndexedSearchHandler :: "'s Searcher \<Rightarrow> 's handler" where
  "NewIndexedSearchHandler search = reads (\<lambda>rq s.
     let phrase = rq_query rq ''phrase''; limitStr = rq_query rq ''limit'' in
     case (if limitStr \<noteq> [] then ParseUint 32 limitStr else Some 0) of
       None \<Rightarrow> res_Json (errorResponse ''bad limit'') 400
     | Some n \<Rightarrow>
    (let limit = uint32 (int n) in
     case se_IndexedSearch search phrase limit s of
       Inl err \<Rightarrow>
         if errors_Is err Api_ErrBadArguments then res_Json (errorResponse ''bad request'') 400
         else if errors_Is err Api_ErrUnavailable
         then res_Json (errorResponse ''dependency unavailable'') 503
         else res_Json (errorResponse ''internal error'') 500
     | Inr result \<Rightarrow>
         res_Json (searchResponse (comic_responses (sr_Comics result)) (sr_Total result)) 200))"

section \<open>Comics handlers\<close>

definition NewComicByIDHandler :: "'s Searcher \<Rightarrow> 's handler" where
  "NewComicByIDHandler search = reads (\<lambda>rq s.
     let idStr = rq_pathvalue rq ''id'' in
     if idStr = [] then res_Json (errorResponse ''id is required'') 400
     else case Atoi idStr of
       None \<Rightarrow> res_Json (errorResponse ''invalid id'') 400
     | Some cid \<Rightarrow>
         if cid \<le> 0 then res_Json (errorResponse ''invalid id'') 400
         else
    (case se_GetComic search cid s of
       Inl err \<Rightarrow>
         if errors_Is err Api_ErrBadArguments then res_Json (errorResponse ''comic not found'') 404
         else if errors_Is err Api_ErrUnavailable
         then res_Json (errorResponse ''dependency unavailable'') 503
         else res_Json (errorResponse ''internal error'') 500
     | Inr cmt \<Rightarrow> res_Json (comicPayload \<lparr>cr_id = sc_ID cmt, cr_url = sc_URL cmt\<rparr>) 200))"

text \<open>A page parameter: absent, a positive 32-bit number, or refused.\<close>

definition page_param :: "string \<Rightarrow> u32 \<Rightarrow> u32 option" where
  "page_param str dflt =
     (if str \<noteq> [] then
        (case ParseUint 32 str of
           None \<Rightarrow> None
         | Some n \<Rightarrow> if n = 0 then None else Some (uint32 (int n)))
      else Some dflt)"

definition NewComicsListHandler :: "'s Searcher \<Rightarrow> 's handler" where
  "NewComicsListHandler search = reads (\<lambda>rq s.
     case page_param (rq_query rq ''page'') 1 of
       None \<Rightarrow> res_Json (errorResponse ''bad page'') 400
     | Some page \<Rightarrow>
    (case page_param (rq_query rq ''limit'') 10 of
       None \<Rightarrow> res_Json (errorResponse ''bad limit'') 400
     | Some limit \<Rightarrow>
    (case se_ListComics search page limit s of
       Inl err \<Rightarrow>
         if errors_Is err Api_ErrBadArguments then res_Json (errorResponse ''bad request'') 400
         else if errors_Is err Api_ErrUnavailable
         then res_Json (errorResponse ''dependency unavailable'') 503
         else res_Json (errorResponse ''internal error'') 500
     | Inr result \<Rightarrow>
         res_Json (searchResponse (comic_responses (sr_Comics result)) (sr_Total result)) 200)))"

definition NewRandomComicHandler :: "'s Searcher \<Rightarrow> 's handler" where
  "NewRandomComicHandler search = reads (\<lambda>rq s.
     case se_RandomComic search s of
       Inl err \<Rightarrow>
         if errors_Is err Api_ErrUnavailable
         then res_Json (errorResponse ''dependency unavailable'') 503
         else res_Json (errorResponse ''internal error'') 500
     | Inr cmt \<Rightarrow> res_Json (comicPayload \<lparr>cr_id = sc_ID cmt, cr_url = sc_URL cmt\<rparr>) 200)"

section \<open>Auth handlers\<close>

text \<open>The email and the password of a body (\<open>registerRequest\<close> and \<open>loginRequest\<close>).\<close>

definition decode_credentials :: "json option \<Rightarrow> (string \<times> string) option" where
  "decode_credentials body =
     (case struct_members body of
        None \<Rightarrow> None
      | Some kvs \<Rightarrow>
          (case (string_field ''email'' kvs, string_field ''password'' kvs) of
             (Some email, Some password) \<Rightarrow> Some (email, password)
           | _ \<Rightarrow> None))"

definition NewRegisterHandler :: "'s AuthPort \<Rightarrow> 's handler" where
  "NewRegisterHandler auth rq s =
     (if rq_method rq \<noteq> ''POST'' then (http_Error ''method not allowed'' 405, s)
      else case decode_credentials (rq_body rq) of
        None \<Rightarrow> (res_Json (errorResponse ''bad request'') 400, s)
      | Some (email, password) \<Rightarrow>
          if email = [] \<or> password = []
          then (res_Json (errorResponse ''email and password must not be empty'') 400, s)
          else case au_Register auth email password s of
            (Inl err, s) \<Rightarrow>
              (if errors_Is err Api_ErrInvalidEmail
               then res_Json (errorResponse ''invalid email format'') 400
               else if errors_Is err Api_ErrAlreadyExists
               then res_Json (errorResponse ''user already exists'') 409
               else if errors_Is err Api_ErrUnavailable
               then res_Json (errorResponse ''dependency unavailable'') 503
               else res_Json (errorResponse ''internal error'') 500, s)
          | (Inr token, s) \<Rightarrow> (res_Json (tokenResponse token) 200, s))"

definition NewUserLoginHandler :: "'s AuthPort \<Rightarrow> 's handler" where
  "NewUserLoginHandler auth = reads (\<lambda>rq s.
     if rq_method rq \<noteq> ''POST'' then http_Error ''method not allowed'' 405
     else case decode_credentials (rq_body rq) of
       None \<Rightarrow> res_Json (errorResponse ''bad request'') 400
     | Some (email, password) \<Rightarrow>
         if email = [] \<or> password = []
         then res_Json (errorResponse ''email and password must not be empty'') 400
         else case au_Login auth email password s of
           Inl err \<Rightarrow>
             if errors_Is err Api_ErrInvalidEmail
             then res_Json (errorResponse ''invalid email format'') 400
             else if errors_Is err Api_ErrInvalidCredentials
             then res_Json (errorResponse ''invalid credentials'') 401
             else if errors_Is err Api_ErrUnavailable
             then res_Json (errorResponse ''dependency unavailable'') 503
             else res_Json (errorResponse ''internal error'') 500
         | Inr token \<Rightarrow> res_Json (tokenResponse token) 200)"

definition decode_telegram :: "json option \<Rightarrow> TelegramProfile option" where
  "decode_telegram body =
     (case struct_members body of
        None \<Rightarrow> None
      | Some kvs \<Rightarrow>
          (case (int64_field ''tg_id'' kvs, string_field ''username'' kvs, string_field ''first_name'' kvs,
                 string_field ''last_name'' kvs) of
             (Some tid, Some un, Some fn, Some ln) \<Rightarrow>
               Some \<lparr>TgID = tid, Username = un, FirstName = fn, LastName = ln\<rparr>
           | _ \<Rightarrow> None))"

definition NewBotTelegramLoginHandler :: "'s AuthPort \<Rightarrow> 's handler" where
  "NewBotTelegramLoginHandler auth rq s =
     (case decode_telegram (rq_body rq) of
        None \<Rightarrow> (res_Json (errorResponse ''bad request'') 400, s)
      | Some tg \<Rightarrow>
          if TgID tg = 0 then (res_Json (errorResponse ''tg_id is required'') 400, s)
          else case au_BotLoginTelegram auth tg s of
            (Inl err, s) \<Rightarrow>
              (if errors_Is err Api_ErrBadArguments
               then res_Json (errorResponse ''bad request'') 400
               else if errors_Is err Api_ErrUnavailable
               then res_Json (errorResponse ''dependency unavailable'') 503
               else res_Json (errorResponse ''internal error'') 500, s)
          | (Inr token, s) \<Rightarrow> (res_Json (tokenResponse token) 200, s))"

section \<open>Favorites handlers\<close>

fun favorite_responses :: "ApiFavorite list \<Rightarrow> favoriteItemResponse list" where
  "favorite_responses [] = []"
| "favorite_responses (it # its) =
     \<lparr>fi_comic_id = af_ComicID it, fi_created_at_unix = af_CreatedAtUnix it\<rparr> # favorite_responses its"

definition NewFavoritesListHandler :: "'s FavoritesPort \<Rightarrow> 's handler" where
  "NewFavoritesListHandler fav = reads (\<lambda>rq s.
     case UserIDFromContext rq of
       None \<Rightarrow> res_Json (errorResponse ''unauthorized'') 401
     | Some userID \<Rightarrow>
         if userID = 0 then res_Json (errorResponse ''unauthorized'') 401
         else case fv_List fav userID s of
           Inl err \<Rightarrow>
             if errors_Is err Api_ErrBadArguments then res_Json (errorResponse ''bad request'') 400
             else if errors_Is err Api_ErrUnavailable
             then res_Json (errorResponse ''dependency unavailable'') 503
             else res_Json (errorResponse ''internal error'') 500
         | Inr items \<Rightarrow> res_Json (favoritesListResponse (favorite_responses items)) 200)"

definition NewFavoritesAddHandler :: "'s FavoritesPort \<Rightarrow> 's Searcher \<Rightarrow> 's handler" where
  "NewFavoritesAddHandler fav search rq s =
     (case UserIDFromContext rq of
        None \<Rightarrow> (res_Json (errorResponse ''unauthorized'') 401, s)
      | Some userID \<Rightarrow>
          if userID = 0 then (res_Json (errorResponse ''unauthorized'') 401, s)
          else case Atoi (rq_pathvalue rq ''id'') of
            None \<Rightarrow> (res_Json (errorResponse ''invalid id'') 400, s)
          | Some comicID \<Rightarrow>
              if comicID \<le> 0 then (res_Json (errorResponse ''invalid id'') 400, s)
              else case se_GetComic search comicID s of
                Inl err \<Rightarrow>
                  (if errors_Is err Api_ErrBadArguments
                   then res_Json (errorResponse ''comic not found'') 404
                   else if errors_Is err Api_ErrUnavailable
                   then res_Json (errorResponse ''dependency unavailable'') 503
                   else res_Json (errorResponse ''internal error'') 500, s)
              | Inr _ \<Rightarrow>
                  (case fv_Add fav userID (int32 comicID) s of
                     (Inl err, s) \<Rightarrow>
                       (if errors_Is err Api_ErrAlreadyExists
                        then res_Json (errorResponse ''already exists'') 409
                        else if errors_Is err Api_ErrBadArguments
                        then res_Json (errorResponse ''bad request'') 400
                        else if errors_Is err Api_ErrUnavailable
                        then res_Json (errorResponse ''dependency unavailable'') 503
                        else res_Json (errorResponse ''internal error'') 500, s)
                   | (Inr _, s) \<Rightarrow> (WriteHeader 204, s)))"

definition NewFavoritesDeleteHandler :: "'s FavoritesPort \<Rightarrow> 's handler" where
  "NewFavoritesDeleteHandler fav rq s =
     (case UserIDFromContext rq of
        None \<Rightarrow> (res_Json (errorResponse ''unauthorized'') 401, s)
      | Some userID \<Rightarrow>
          if userID = 0 then (res_Json (errorResponse ''unauthorized'') 401, s)
          else case Atoi (rq_pathvalue rq ''id'') of
            None \<Rightarrow> (res_Json (errorResponse ''invalid id'') 400, s)
          | Some comicID \<Rightarrow>
              if comicID \<le> 0 then (res_Json (errorResponse ''invalid id'') 400, s)
              else case fv_Delete fav userID (int32 comicID) s of
                (Inl err, s) \<Rightarrow>
                  (if errors_Is err Api_ErrNotFound then res_Json (errorResponse ''not found'') 404
                   else if errors_Is err Api_ErrBadArguments
                   then res_Json (errorResponse ''bad request'') 400
                   else if errors_Is err Api_ErrUnavailable
                   then res_Json (errorResponse ''dependency unavailable'') 503
                   else res_Json (errorResponse ''internal error'') 500, s)
              | (Inr _, s) \<Rightarrow> (WriteHeader 204, s))"

end
