(* ===== verification/ApiRoutes.thy ===== *)
theory ApiRoutes
  imports ApiHandlers
begin

text \<open>
  The two servers of \<open>search-services/api/main.go\<close>: the routes of the public and of the internal
  multiplexer with the middleware around each handler, the dispatch of \<open>http.ServeMux\<close>, and the
  choice of the log level.
\<close>

section \<open>Patterns and dispatch\<close>

text \<open>A pattern \<open>"METHOD /a/{id}"\<close>; the path of a request is the list of its segments.\<close>

datatype segment = Literal string | Wildcard string

datatype endpoint =
    EP_Ping | EP_Login | EP_Search | EP_ISearch | EP_Comics | EP_ComicByID | EP_Random | EP_Update
  | EP_Stats | EP_Status | EP_Drop | EP_Register | EP_UserLogin | EP_BotTelegram | EP_FavList
  | EP_FavAdd | EP_FavDelete

type_synonym route = "string \<times> segment list \<times> endpoint"

definition public_routes :: "route list" where
  "public_routes =
     [(''GET'', [Literal ''api'', Literal ''ping''], EP_Ping),
      (''POST'', [Literal ''api'', Literal ''login''], EP_Login),
      (''GET'', [Literal ''api'', Literal ''search''], EP_Search),
      (''GET'', [Literal ''api'', Literal ''isearch''], EP_ISearch),
      (''GET'', [Literal ''api'', Literal ''comics''], EP_Comics),
      (''GET'', [Literal ''api'', Literal ''comics'', Wildcard ''id''], EP_ComicByID),
      (''GET'', [Literal ''api'', Literal ''comics'', Literal ''random''], EP_Random),
      (''POST'', [Literal ''api'', Literal ''db'', Literal ''update''], EP_Update),
      (''GET'', [Literal ''api'', Literal ''db'', Literal ''stats''], EP_Stats),
      (''GET'', [Literal ''api'', Literal ''db'', Literal ''status''], EP_Status),
      (''DELETE'', [Literal ''api'', Literal ''db''], EP_Drop),
      (''POST'', [Literal ''api'', Literal ''auth'', Literal ''register''], EP_Register),
      (''POST'', [Literal ''api'', Literal ''auth'', Literal ''login''], EP_UserLogin),
      (''GET'', [Literal ''api'', Literal ''mycomics''], EP_FavList),
      (''POST'', [Literal ''api'', Literal ''mycomics'', Wildcard ''id''], EP_FavAdd),
      (''DELETE'', [Literal ''api'', Literal ''mycomics'', Wildcard ''id''], EP_FavDelete)]"

definition internal_routes :: "route list" where
  "internal_routes =
     [(''POST'', [Literal ''api'', Literal ''auth'', Literal ''bot'', Literal ''telegram'', Literal ''login''],
        EP_BotTelegram)]"

text \<open>The values of the wildcards, if the path matches; a wildcard takes one non-empty segment.\<close>

fun match_path :: "segment list \<Rightarrow> string list \<Rightarrow> (string \<times> string) list option" where
  "match_path [] [] = Some []"
| "match_path (Literal l # ps) (x # xs) = (if x = l then match_path ps xs else None)"
| "match_path (Wildcard w # ps) (x # xs) =
     (if x = [] then None else map_option (\<lambda>b. (w, x) # b) (match_path ps xs))"
| "match_path _ _ = None"

text \<open>A pattern for \<open>GET\<close> serves \<open>HEAD\<close> as well.\<close>

definition match_method :: "string \<Rightarrow> string \<Rightarrow> bool" where
  "match_method pm m = (m = pm \<or> pm = ''GET'' \<and> m = ''HEAD'')"

definition wildcards :: "segment list \<Rightarrow> nat" where
  "wildcards ps = length (filter (\<lambda>p. case p of Wildcard _ \<Rightarrow> True | Literal _ \<Rightarrow> False) ps)"

text \<open>
  The matching pattern that is most specific: among patterns for the same paths and methods, one with
  fewer wildcards.
\<close>

definition find_route :: "route list \<Rightarrow> string \<Rightarrow> string list \<Rightarrow> (endpoint \<times> (string \<times> string) list) option" where
  "find_route routes m path =
     (let hits = filter (\<lambda>(pm, ps, ep). match_method pm m \<and> match_path ps path \<noteq> None) routes in
      case sort_key (\<lambda>(pm, ps, ep). wildcards ps) hits of
        [] \<Rightarrow> None
      | (pm, ps, ep) # _ \<Rightarrow> Some (ep, the (match_path ps path)))"

text \<open>Without a route the server answers 405 when another method has the path, else 404.\<close>

definition no_route :: "route list \<Rightarrow> string list \<Rightarrow> http_response" where
  "no_route routes path =
     (if list_ex (\<lambda>(pm, ps, ep). match_path ps path \<noteq> None) routes
      then http_Error ''Method Not Allowed'' 405 else http_Error ''404 page not found'' 404)"

section \<open>The wiring of main.go\<close>

record api_config =
  AdminUser :: string
  AdminPassword :: string
  TokenTTL :: int
  AuthJWTSecret :: string
  SearchConcurrency :: int
  SearchRate :: int

record 's api_ports =
  pt_search :: "'s Searcher"
  pt_update :: "'s Updater"
  pt_auth :: "'s AuthPort"
  pt_favorites :: "'s FavoritesPort"
  pt_words_Ping :: "'s \<Rightarrow> api_err + unit"

text \<open>What the environment decides for one request: the time, the free slots, the limiter.\<close>

record moment =
  mo_now :: int
  mo_held :: int
  mo_waited :: bool

definition pingmap :: "'s api_ports \<Rightarrow> (string \<times> ('s \<Rightarrow> api_err + unit)) list" where
  "pingmap p =
     [(''words'', pt_words_Ping p), (''update'', up_Ping (pt_update p)), (''search'', se_Ping (pt_search p)),
      (''auth'', au_Ping (pt_auth p)), (''favorites'', fv_Ping (pt_favorites p))]"

definition endpoint_handler ::
  "jwt_lib \<Rightarrow> api_config \<Rightarrow> 's api_ports \<Rightarrow> moment \<Rightarrow> endpoint \<Rightarrow> 's handler" where
  "endpoint_handler lib cfg p mo ep =
     (case ep of
        EP_Ping \<Rightarrow> NewPingHandler (pingmap p)
      | EP_Login \<Rightarrow>
          reads (\<lambda>rq s. NewLoginHandler lib (AdminUser cfg) (AdminPassword cfg) (TokenTTL cfg) (mo_now mo) rq)
      | EP_Search \<Rightarrow>
          WithConcurrencyLimit (SearchConcurrency cfg) (mo_held mo) (NewSearchHandler (pt_search p))
      | EP_ISearch \<Rightarrow>
          WithRateLimit (SearchRate cfg) (mo_waited mo) (NewIndexedSearchHandler (pt_search p))
      | EP_Comics \<Rightarrow> NewComicsListHandler (pt_search p)
      | EP_ComicByID \<Rightarrow> NewComicByIDHandler (pt_search p)
      | EP_Random \<Rightarrow> NewRandomComicHandler (pt_search p)
      | EP_Update \<Rightarrow> RequireSuperuser lib (mo_now mo) (NewUpdateHandler (pt_update p))
      | EP_Stats \<Rightarrow> NewUpdateStatsHandler (pt_update p)
      | EP_Status \<Rightarrow> NewUpdateStatusHandler (pt_update p)
      | EP_Drop \<Rightarrow> RequireSuperuser lib (mo_now mo) (NewDropHandler (pt_update p))
      | EP_Register \<Rightarrow> NewRegisterHandler (pt_auth p)
      | EP_UserLogin \<Rightarrow> NewUserLoginHandler (pt_auth p)
      | EP_BotTelegram \<Rightarrow> NewBotTelegramLoginHandler (pt_auth p)
      | EP_FavList \<Rightarrow>
          RequireUser lib (AuthJWTSecret cfg) (mo_now mo) (NewFavoritesListHandler (pt_favorites p))
      | EP_FavAdd \<Rightarrow>
          RequireUser lib (AuthJWTSecret cfg) (mo_now mo)
            (NewFavoritesAddHandler (pt_favorites p) (pt_search p))
      | EP_FavDelete \<Rightarrow>
          RequireUser lib (AuthJWTSecret cfg) (mo_now mo) (NewFavoritesDeleteHandler (pt_favorites p)))"

definition serve ::
  "route list \<Rightarrow> jwt_lib \<Rightarrow> api_config \<Rightarrow> 's api_ports \<Rightarrow> moment \<Rightarrow> 's handler" where
  "serve routes lib cfg p mo rq s =
     (case find_route routes (rq_method rq) (rq_path rq) of
        None \<Rightarrow> (no_route routes (rq_path rq), s)
      | Some (ep, binds) \<Rightarrow>
          endpoint_handler lib cfg p mo ep
            (rq\<lparr>rq_pathvalue := (\<lambda>n. case map_of binds n of None \<Rightarrow> [] | Some v \<Rightarrow> v), rq_user := None\<rparr>) s)"

datatype log_level = LevelDebug | LevelInfo | LevelError

text \<open>\<open>None\<close> is the panic.\<close>

definition mustMakeLogger :: "string \<Rightarrow> log_level option" where
  "mustMakeLogger logLevel =
     (if logLevel = ''DEBUG'' then Some LevelDebug
      else if logLevel = ''INFO'' then Some LevelInfo
      else if logLevel = ''ERROR'' then Some LevelError
      else None)"

section \<open>Facts\<close>

text \<open>What each handler does to the world.\<close>

lemma handler_effects [simp]:
  "snd (NewUpdateHandler u rq s) = snd (up_Update u s)"
  "snd (NewDropHandler u rq s) = snd (up_Drop u s)"
  "snd (NewPingHandler pingers rq s) = s"
  "snd (NewSearchHandler search rq s) = s"
  "snd (NewIndexedSearchHandler search rq s) = s"
  "snd (NewComicsListHandler search rq s) = s"
  "snd (NewComicByIDHandler search rq s) = s"
  "snd (NewRandomComicHandler search rq s) = s"
  "snd (NewUpdateStatsHandler u rq s) = s"
  "snd (NewUpdateStatusHandler u rq s) = s"
  "snd (NewUserLoginHandler auth rq s) = s"
  "snd (NewFavoritesListHandler fav rq s) = s"
  by (simp_all add: NewUpdateHandler_def NewDropHandler_def NewPingHandler_def NewSearchHandler_def
      NewIndexedSearchHandler_def NewComicsListHandler_def NewComicByIDHandler_def
      NewRandomComicHandler_def NewUpdateStatsHandler_def NewUpdateStatusHandler_def
      NewUserLoginHandler_def NewFavoritesListHandler_def split: prod.splits sum.splits)

lemma register_effect:
  "snd (NewRegisterHandler auth rq s) = s \<or>
   (\<exists>e p. snd (NewRegisterHandler auth rq s) = snd (au_Register auth e p s))"
  by (auto simp: NewRegisterHandler_def split: option.splits prod.splits sum.splits) (metis snd_conv)+

lemma telegram_effect:
  "snd (NewBotTelegramLoginHandler auth rq s) = s \<or>
   (\<exists>t. TgID t \<noteq> 0 \<and> snd (NewBotTelegramLoginHandler auth rq s) = snd (au_BotLoginTelegram auth t s))"
  by (auto simp: NewBotTelegramLoginHandler_def split: option.splits prod.splits sum.splits)

lemma favorites_add_effect:
  "snd (NewFavoritesAddHandler fav search rq s) = s \<or>
   (\<exists>u k. rq_user rq = Some u \<and> snd (NewFavoritesAddHandler fav search rq s) = snd (fv_Add fav u k s))"
  by (auto simp: NewFavoritesAddHandler_def UserIDFromContext_def split: option.splits prod.splits sum.splits)
    (metis snd_conv)+

lemma favorites_delete_effect:
  "snd (NewFavoritesDeleteHandler fav rq s) = s \<or>
   (\<exists>u k. rq_user rq = Some u \<and> snd (NewFavoritesDeleteHandler fav rq s) = snd (fv_Delete fav u k s))"
  by (auto simp: NewFavoritesDeleteHandler_def UserIDFromContext_def split: option.splits prod.splits sum.splits)
    (metis snd_conv)+

text \<open>What the middleware lets through.\<close>

definition user_of :: "jwt_lib \<Rightarrow> string \<Rightarrow> int \<Rightarrow> http_request \<Rightarrow> u32 option" where
  "user_of lib secret now rq =
     (case readToken rq of
        None \<Rightarrow> None
      | Some tok \<Rightarrow>
     (case jwt_parse lib is_hs256 secret now tok of
        None \<Rightarrow> None
      | Some c \<Rightarrow> if cl_UserID c = Some 0 then None else cl_UserID c))"

definition is_superuser :: "jwt_lib \<Rightarrow> int \<Rightarrow> http_request \<Rightarrow> bool" where
  "is_superuser lib now rq =
     (case readToken rq of None \<Rightarrow> False | Some tok \<Rightarrow> IsSuperuserToken lib now tok)"

lemma RequireUser_eq:
  "RequireUser lib secret now nxt rq s =
     (case user_of lib secret now rq of
        None \<Rightarrow> (user_unauthorized, s)
      | Some u \<Rightarrow> nxt (rq\<lparr>rq_user := Some u\<rparr>) s)"
  by (auto simp: RequireUser_def user_of_def Let_def split: option.splits)

lemma RequireSuperuser_eq:
  "RequireSuperuser lib now nxt rq s =
     (if is_superuser lib now rq then nxt rq s else (writeUnauthed, s))"
  by (auto simp: RequireSuperuser_readToken is_superuser_def split: option.splits)

lemma user_of_update [simp]:
  "user_of lib secret now (rq\<lparr>rq_pathvalue := v, rq_user := w\<rparr>) = user_of lib secret now rq"
  "is_superuser lib now (rq\<lparr>rq_pathvalue := v, rq_user := w\<rparr>) = is_superuser lib now rq"
  by (simp_all add: user_of_def is_superuser_def readToken_def)

lemma limit_effects:
  "snd (nxt rq s) = s \<Longrightarrow> snd (WithConcurrencyLimit n held nxt rq s) = s"
  "snd (nxt rq s) = s \<Longrightarrow> snd (WithRateLimit n waited nxt rq s) = s"
  by (simp_all add: WithConcurrencyLimit_def WithRateLimit_def)

text \<open>Dispatch finds a route of the table that matches.\<close>

lemma find_route_Some:
  assumes "find_route routes m path = Some (ep, b)"
  shows "\<exists>pm ps. (pm, ps, ep) \<in> set routes \<and> match_method pm m \<and> match_path ps path = Some b"
proof -
  let ?hits = "filter (\<lambda>(pm, ps, ep). match_method pm m \<and> match_path ps path \<noteq> None) routes"
  obtain pm ps rest where s: "sort_key (\<lambda>(pm, ps, ep). wildcards ps) ?hits = (pm, ps, ep) # rest"
    and b: "b = the (match_path ps path)"
    using assms by (auto simp: find_route_def split: list.splits)
  have "(pm, ps, ep) \<in> set (sort_key (\<lambda>(pm, ps, ep). wildcards ps) ?hits)" unfolding s by simp
  then have "(pm, ps, ep) \<in> set ?hits" by simp
  then show ?thesis using b by auto
qed

lemma match_path_literals: "match_path (Literal l # ps) path = Some b \<longleftrightarrow>
    (\<exists>xs. path = l # xs \<and> match_path ps xs = Some b)"
  "match_path (Wildcard w # ps) path = Some b \<longleftrightarrow>
    (\<exists>x xs b'. path = x # xs \<and> x \<noteq> [] \<and> b = (w, x) # b' \<and> match_path ps xs = Some b')"
  "match_path [] path = Some b \<longleftrightarrow> path = [] \<and> b = []"
  by (cases path; auto)+

lemma public_route_cases:
  assumes "find_route public_routes m path = Some (ep, b)"
  shows "ep = EP_Update \<Longrightarrow> path = [''api'', ''db'', ''update''] \<and> m = ''POST''"
    and "ep = EP_Drop \<Longrightarrow> path = [''api'', ''db''] \<and> m = ''DELETE''"
    and "ep = EP_Register \<Longrightarrow> path = [''api'', ''auth'', ''register''] \<and> m = ''POST''"
    and "ep \<noteq> EP_BotTelegram"
  using find_route_Some [OF assms]
  by (auto simp: public_routes_def match_path_literals match_method_def)

lemma endpoint_effects:
  "snd (endpoint_handler lib cfg p mo ep rq s) = s \<or>
   (ep = EP_Update \<and> is_superuser lib (mo_now mo) rq \<and>
      snd (endpoint_handler lib cfg p mo ep rq s) = snd (up_Update (pt_update p) s)) \<or>
   (ep = EP_Drop \<and> is_superuser lib (mo_now mo) rq \<and>
      snd (endpoint_handler lib cfg p mo ep rq s) = snd (up_Drop (pt_update p) s)) \<or>
   (\<exists>u k. user_of lib (AuthJWTSecret cfg) (mo_now mo) rq = Some u \<and>
      snd (endpoint_handler lib cfg p mo ep rq s) \<in>
        {snd (fv_Add (pt_favorites p) u k s), snd (fv_Delete (pt_favorites p) u k s)}) \<or>
   (ep = EP_Register \<and> (\<exists>e pw. snd (endpoint_handler lib cfg p mo ep rq s) = snd (au_Register (pt_auth p) e pw s))) \<or>
   (ep = EP_BotTelegram \<and> (\<exists>t. TgID t \<noteq> 0 \<and>
      snd (endpoint_handler lib cfg p mo ep rq s) = snd (au_BotLoginTelegram (pt_auth p) t s)))"
proof (cases ep)
  case EP_FavAdd
  then show ?thesis
    using favorites_add_effect [of "pt_favorites p" "pt_search p" _ s]
    by (cases "user_of lib (AuthJWTSecret cfg) (mo_now mo) rq")
      (force simp: endpoint_handler_def RequireUser_eq)+
next
  case EP_FavDelete
  then show ?thesis
    using favorites_delete_effect [of "pt_favorites p" _ s]
    by (cases "user_of lib (AuthJWTSecret cfg) (mo_now mo) rq")
      (force simp: endpoint_handler_def RequireUser_eq)+
next
  case EP_Register
  then show ?thesis using register_effect [of "pt_auth p" rq s] by (auto simp: endpoint_handler_def)
next
  case EP_BotTelegram
  then show ?thesis using telegram_effect [of "pt_auth p" rq s] by (auto simp: endpoint_handler_def)
qed (simp_all add: endpoint_handler_def RequireUser_eq RequireSuperuser_eq limit_effects split: option.splits)

section \<open>Properties\<close>

text \<open>C4: Nobody changes anything without the right token, whatever the services behind the gateway do: a
  request to the public server leaves the world as it is, unless it is an update or a drop with a
  valid token of the superuser, a change of the favorites of the user that a valid token names, or
  a registration; each of them is one call of one port.\<close>

theorem changes_need_a_token:
  assumes "snd (serve public_routes lib cfg p mo rq s) = s'" and "s' \<noteq> s"
  shows "(is_superuser lib (mo_now mo) rq \<and>
      (rq_path rq = [''api'', ''db'', ''update''] \<and> rq_method rq = ''POST'' \<and> s' = snd (up_Update (pt_update p) s) \<or>
       rq_path rq = [''api'', ''db''] \<and> rq_method rq = ''DELETE'' \<and> s' = snd (up_Drop (pt_update p) s))) \<or>
    (\<exists>u k. user_of lib (AuthJWTSecret cfg) (mo_now mo) rq = Some u \<and>
      s' \<in> {snd (fv_Add (pt_favorites p) u k s), snd (fv_Delete (pt_favorites p) u k s)}) \<or>
    (rq_path rq = [''api'', ''auth'', ''register''] \<and> rq_method rq = ''POST'' \<and>
      (\<exists>e pw. s' = snd (au_Register (pt_auth p) e pw s)))"
proof (cases "find_route public_routes (rq_method rq) (rq_path rq)")
  case None
  then show ?thesis using assms by (simp add: serve_def)
next
  case (Some hit)
  then obtain ep b where hit: "find_route public_routes (rq_method rq) (rq_path rq) = Some (ep, b)"
    by (cases hit) auto
  note c = public_route_cases [OF hit]
  from assms hit endpoint_effects [of lib cfg p mo ep
      "rq\<lparr>rq_pathvalue := (\<lambda>n. case map_of b n of None \<Rightarrow> [] | Some v \<Rightarrow> v), rq_user := None\<rparr>" s]
  show ?thesis
    using c by (auto simp: serve_def)
qed

text \<open>A world that counts its changes, for the examples.\<close>

definition counting_ports :: "nat api_ports" where
  "counting_ports =
     \<lparr>pt_search = \<lparr>se_Find = (\<lambda>_ _ _. Inl (Sentinel Api_ErrUnavailable)),
         se_IndexedSearch = (\<lambda>_ _ _. Inl (Sentinel Api_ErrUnavailable)),
         se_Ping = (\<lambda>_. Inr ()),
         se_GetComic = (\<lambda>_ _. Inl (Sentinel Api_ErrUnavailable)),
         se_RandomComic = (\<lambda>_. Inl (Sentinel Api_ErrUnavailable)),
         se_ListComics = (\<lambda>_ _ _. Inl (Sentinel Api_ErrUnavailable))\<rparr>,
       pt_update = \<lparr>up_Update = (\<lambda>n. (Inr (), n + 1)), up_Stats = (\<lambda>_. Inl (Sentinel Api_ErrUnavailable)),
         up_Status = (\<lambda>_. Inr StatusUpdateIdle), up_Drop = (\<lambda>n. (Inr (), n + 1)), up_Ping = (\<lambda>_. Inr ())\<rparr>,
       pt_auth = \<lparr>au_Register = (\<lambda>_ _ n. (Inr ''t'', n + 1)), au_Login = (\<lambda>_ _ _. Inr ''t''),
         au_BotLoginTelegram = (\<lambda>_ n. (Inr ''t'', n + 1)), au_Ping = (\<lambda>_. Inr ())\<rparr>,
       pt_favorites = \<lparr>fv_Add = (\<lambda>_ _ n. (Inr (), n + 1)), fv_Delete = (\<lambda>_ _ n. (Inr (), n + 1)),
         fv_List = (\<lambda>_ _. Inr []), fv_Ping = (\<lambda>_. Inr ())\<rparr>,
       pt_words_Ping = (\<lambda>_. Inr ())\<rparr>"

definition demo_config :: api_config where
  "demo_config = \<lparr>AdminUser = ''admin'', AdminPassword = ''password'', TokenTTL = 120000000000,
     AuthJWTSecret = ''s'', SearchConcurrency = 1, SearchRate = 1\<rparr>"

definition demo_moment :: moment where
  "demo_moment = \<lparr>mo_now = 5, mo_held = 0, mo_waited = True\<rparr>"

definition super_lib :: jwt_lib where
  "super_lib = one_token_lib ''123''
     \<lparr>cl_UserID = None, cl_Subject = superuserSubject, cl_IssuedAt = 0, cl_ExpiresAt = 120\<rparr>"

definition drop_request :: http_request where
  "drop_request = (token_request ''t0.t1.t2'')\<lparr>rq_method := ''DELETE'', rq_path := [''api'', ''db'']\<rparr>"

lemma changes_need_a_token_witness:
  "snd (serve public_routes super_lib demo_config counting_ports demo_moment drop_request 0) = 1 \<and>
   is_superuser super_lib 5 drop_request"
proof -
  have s: "snd (serve public_routes super_lib demo_config counting_ports demo_moment drop_request 0) = 1"
    by code_simp
  have u: "user_of super_lib (AuthJWTSecret demo_config) (mo_now demo_moment) drop_request = None" by code_simp
  show ?thesis
    using changes_need_a_token [OF s] s u by (simp add: demo_moment_def drop_request_def token_request_def)
qed

end
