(* ===== verification/WordsService.thy ===== *)
theory WordsService
  imports GoStrings
begin

text \<open>
  The \<open>words\<close> service: \<open>search-services/words/words\<close> (the string set and the normaliser) and the
  gRPC handlers of \<open>search-services/words/main.go\<close>. The Snowball library is not part of the
  repository; \<open>english.IsStopWord\<close> and \<open>snowball.Stem\<close> are the parameters \<open>stop\<close> and \<open>stem\<close>.
\<close>

section \<open>The set of words (set.go)\<close>

text \<open>
  \<open>type set map[string]bool\<close>: a missing key reads as \<open>false\<close>. The capacity hint of \<open>newSet\<close>
  only sizes the map.
\<close>

type_synonym wset = "string \<Rightarrow> bool option"

definition newSet :: "int \<Rightarrow> wset" where
  "newSet capHint = (let capHint = (if capHint < 0 then 0 else capHint) in Map.empty)"

definition set_Has :: "wset \<Rightarrow> string \<Rightarrow> bool" where
  "set_Has s word = (case s word of Some b \<Rightarrow> b | None \<Rightarrow> False)"

definition set_Add :: "wset \<Rightarrow> string \<Rightarrow> bool \<times> wset" where
  "set_Add s word = (if set_Has s word then (False, s) else (True, s(word \<mapsto> True)))"

definition wset_elems :: "wset \<Rightarrow> string set" where
  "wset_elems s = {w. set_Has s w}"

text \<open>What a loop that skips repeated words needs of a set: the interface of \<open>set.go\<close>.\<close>

locale dedup_set =
  fixes empty :: "'s" and add :: "'s \<Rightarrow> 'a \<Rightarrow> bool \<times> 's" and elems :: "'s \<Rightarrow> 'a set"
  assumes elems_empty: "elems empty = {}"
    and add_new: "fst (add s w) = (w \<notin> elems s)"
    and elems_add: "elems (snd (add s w)) = insert w (elems s)"
begin

lemma add_fold_elems: "elems (fold (\<lambda>w s. snd (add s w)) ws s) = elems s \<union> set ws"
  by (induction ws arbitrary: s) (auto simp: elems_add)

lemma add_cases:
  "add s w = (b, s') \<Longrightarrow> b = (w \<notin> elems s) \<and> elems s' = insert w (elems s)"
  using add_new [of s w] elems_add [of s w] by simp

end

interpretation ws: dedup_set "newSet n" set_Add wset_elems for n
  by unfold_locales (auto simp: newSet_def set_Add_def set_Has_def wset_elems_def)

section \<open>The normaliser (words.go)\<close>

text \<open>The byte loop that decides whether a token is digits only.\<close>

fun all_digits :: "string \<Rightarrow> bool" where
  "all_digits [] = True"
| "all_digits (c # cs) = (if \<not> is_digit c then False else all_digits cs)"

text \<open>The loop over the tokens, with \<open>out\<close> and \<open>seen\<close> as accumulators.\<close>

fun norm_loop ::
  "(string \<Rightarrow> bool) \<Rightarrow> (string \<Rightarrow> unit go_error + string) \<Rightarrow> string list \<Rightarrow> string list \<Rightarrow> wset
    \<Rightarrow> string list" where
  "norm_loop stop stem [] out seen = out"
| "norm_loop stop stem (w # ws) out seen =
     (if w = [] then norm_loop stop stem ws out seen
      else if all_digits w then
        (case set_Add seen w of (new, seen') \<Rightarrow>
           norm_loop stop stem ws (if new then out @ [w] else out) seen')
      else if stop w then norm_loop stop stem ws out seen
      else
        (let st = (case stem w of Inl e \<Rightarrow> w | Inr t \<Rightarrow> if t = [] then w else t) in
         case set_Add seen st of (new, seen') \<Rightarrow>
           norm_loop stop stem ws (if new then out @ [st] else out) seen'))"

definition Norm ::
  "(string \<Rightarrow> bool) \<Rightarrow> (string \<Rightarrow> unit go_error + string) \<Rightarrow> string \<Rightarrow> unit go_error + string list" where
  "Norm stop stem phrase =
     (let lc = ToLower phrase;
          clean = ReplaceNonAlnum lc;
          tokens = Fields clean
      in Inr (norm_loop stop stem tokens [] (newSet (int (length tokens)))))"

subsection \<open>What the loop computes\<close>

text \<open>The word a token contributes, if any.\<close>

definition token_image ::
  "(string \<Rightarrow> bool) \<Rightarrow> (string \<Rightarrow> unit go_error + string) \<Rightarrow> string \<Rightarrow> string list" where
  "token_image stop stem w =
     (if w = [] then []
      else if list_all is_digit w then [w]
      else if stop w then []
      else case stem w of Inl _ \<Rightarrow> [w] | Inr t \<Rightarrow> if t = [] then [w] else [t])"

lemma all_digits_iff [simp]: "all_digits w = list_all is_digit w"
  by (induction w) auto

lemma norm_loop_eq:
  "norm_loop stop stem ws out seen =
     out @ first_occ (wset_elems seen) (concat (map (token_image stop stem) ws))"
proof (induction ws arbitrary: out seen)
  case (Cons w ws)
  let ?R = "concat (map (token_image stop stem) ws)"
  have step: "(case set_Add seen t of (new, seen') \<Rightarrow>
      norm_loop stop stem ws (if new then out @ [t] else out) seen') =
      out @ first_occ (wset_elems seen) (t # ?R)" for t
    using ws.add_cases [of seen t] by (cases "set_Add seen t") (auto simp: Cons.IH insert_absorb)
  show ?case
    using Cons.IH
    by (simp add: token_image_def [of stop stem w] Let_def step del: first_occ.simps split: sum.splits)
qed simp

text \<open>The tokens of a phrase: the maximal runs of letters and digits, in lower case.\<close>

definition phrase_tokens :: "string \<Rightarrow> string list" where
  "phrase_tokens phrase = Fields (ReplaceNonAlnum (ToLower phrase))"

lemma Norm_eq_first_occ:
  "Norm stop stem phrase =
     Inr (first_occ {} (concat (map (token_image stop stem) (phrase_tokens phrase))))"
  by (simp add: Norm_def Let_def norm_loop_eq phrase_tokens_def ws.elems_empty)

lemma token_image_nonempty: "[] \<notin> set (token_image stop stem w)"
  by (auto simp: token_image_def split: sum.splits)

subsection \<open>Tokens are runs of lower-case letters and digits\<close>

definition alnum_word :: "string \<Rightarrow> bool" where
  "alnum_word w = (w \<noteq> [] \<and> list_all is_lower_alnum w)"

lemma strip_space_alnum:
  assumes "is_lower_alnum c"
  shows "strip_any space_encodings (c # cs) = None"
proof -
  have "\<forall>e \<in> set space_encodings. \<not> is_lower_alnum (hd e)"
    by (simp add: space_encodings_def is_lower_alnum_def is_digit_def)
  moreover have "\<forall>e \<in> set space_encodings. e \<noteq> []" using spaces_nonempty by metis
  ultimately show ?thesis
    using assms unfolding strip_any_None by (metis hd_append2 list.sel(1))
qed

lemma strip_space_blank: "strip_any space_encodings (CHR '' '' # cs) = Some cs"
  by (simp add: space_encodings_def)

lemma fields_from_char:
  "is_lower_alnum c \<Longrightarrow> fields_from cur (c # s) = fields_from (cur @ [c]) s"
  by (simp add: fields_from.simps [of cur "c # s"] strip_space_alnum)

lemma fields_from_blank:
  "fields_from cur (CHR '' '' # s) = (if cur = [] then [] else [cur]) @ fields_from [] s"
  by (simp add: fields_from.simps [of cur "CHR '' '' # s"] strip_space_blank)

lemma fields_from_alnum:
  assumes "list_all is_lower_alnum cur" and "\<forall>c \<in> set s. is_lower_alnum c \<or> c = CHR '' ''"
  shows "\<forall>w \<in> set (fields_from cur s). alnum_word w"
  using assms
proof (induction s arbitrary: cur)
  case Nil
  then show ?case by (simp add: fields_from.simps [of cur "[]"] alnum_word_def)
next
  case (Cons c s)
  show ?case
  proof (cases "is_lower_alnum c")
    case True
    with Cons.prems Cons.IH [of "cur @ [c]"] show ?thesis by (simp add: fields_from_char)
  next
    case False
    with Cons.prems have "c = CHR '' ''" by simp
    with Cons.prems Cons.IH [of "[]"] show ?thesis by (simp add: fields_from_blank alnum_word_def)
  qed
qed

lemma phrase_tokens_alnum: "w \<in> set (phrase_tokens p) \<Longrightarrow> alnum_word w"
  using fields_from_alnum [of "[]" "ReplaceNonAlnum (ToLower p)"] replace_runs_chars
  unfolding phrase_tokens_def Fields_def ReplaceNonAlnum_def by fastforce

text \<open>Joining words with blanks and splitting again gives the words back.\<close>

fun join_blank :: "string list \<Rightarrow> string" where
  "join_blank [] = []"
| "join_blank (w # ws) = w @ CHR '' '' # join_blank ws"

lemma lower_byte_alnum: "is_lower_alnum c \<Longrightarrow> lower_byte c = c"
  by (auto simp: is_lower_alnum_def is_digit_def lower_byte_def Let_def)

lemma ToLower_clean:
  "\<forall>c \<in> set s. is_lower_alnum c \<or> c = CHR '' '' \<Longrightarrow> ToLower s = s"
proof (induction s)
  case (Cons c s)
  then have "c \<noteq> CHR 0xC4" "c \<noteq> CHR 0xE2" "lower_byte c = c"
    using lower_byte_alnum [of c] by (auto simp: is_lower_alnum_def is_digit_def lower_byte_def Let_def)
  with Cons show ?case by simp
qed simp

lemma is_lower_alnum_blank [simp]: "\<not> is_lower_alnum CHR '' ''"
  by (simp add: is_lower_alnum_def is_digit_def)

lemma replace_runs_False_append:
  "list_all is_lower_alnum w \<Longrightarrow> replace_runs False (w @ s) = w @ replace_runs False s"
  by (induction w) auto

lemma replace_runs_alnum_append:
  "w \<noteq> [] \<Longrightarrow> list_all is_lower_alnum w \<Longrightarrow> replace_runs b (w @ s) = w @ replace_runs False s"
  by (cases w) (simp_all add: replace_runs_False_append)

lemma replace_runs_join:
  "\<forall>w \<in> set ws. alnum_word w \<Longrightarrow> replace_runs False (join_blank ws) = join_blank ws"
proof (induction ws)
  case (Cons w ws)
  have "replace_runs True (join_blank ws) = replace_runs False (join_blank ws)"
  proof (cases ws)
    case (Cons v vs)
    then obtain c v' where "v = c # v'" "is_lower_alnum c"
      using Cons.prems by (cases v) (auto simp: alnum_word_def)
    then show ?thesis using Cons by simp
  qed simp
  with Cons show ?case by (simp add: replace_runs_alnum_append alnum_word_def)
qed simp

lemma fields_from_alnum_append:
  "list_all is_lower_alnum w \<Longrightarrow> fields_from cur (w @ s) = fields_from (cur @ w) s"
  by (induction w arbitrary: cur) (simp_all add: fields_from_char)

lemma Fields_join: "\<forall>w \<in> set ws. alnum_word w \<Longrightarrow> Fields (join_blank ws) = ws"
proof (induction ws)
  case Nil
  then show ?case by (simp add: Fields_def fields_from.simps)
next
  case (Cons w ws)
  then show ?case
    by (simp add: Fields_def fields_from_alnum_append alnum_word_def fields_from_blank)
qed

lemma phrase_tokens_join:
  assumes "\<forall>w \<in> set ws. alnum_word w"
  shows "phrase_tokens (join_blank ws) = ws"
proof -
  have "\<forall>c \<in> set (join_blank ws). is_lower_alnum c \<or> c = CHR '' ''"
    using assms by (induction ws) (auto simp: alnum_word_def list_all_iff)
  then show ?thesis
    using assms
    by (simp add: phrase_tokens_def ToLower_clean ReplaceNonAlnum_def replace_runs_join Fields_join)
qed

section \<open>The gRPC handlers (main.go)\<close>

definition maxPhraseLen :: nat where
  "maxPhraseLen = 4096"

definition words_server_Ping :: "rpc_status + unit" where
  "words_server_Ping = Inr ()"

definition words_server_Norm ::
  "(string \<Rightarrow> bool) \<Rightarrow> (string \<Rightarrow> unit go_error + string) \<Rightarrow> string \<Rightarrow> rpc_status + string list" where
  "words_server_Norm stop stem phrase =
     (if length phrase > maxPhraseLen
      then Inl (Status ResourceExhausted ''phrase too large (>4KiB)'')
      else case Norm stop stem phrase of
             Inl err \<Rightarrow> Inl (Status Internal (error_text (\<lambda>_. []) err))
           | Inr out \<Rightarrow> Inr out)"

section \<open>The normaliser as an interface\<close>

text \<open>
  What \<open>search\<close> and \<open>update\<close> rely on: a successful call returns distinct, non-empty words.
\<close>

locale normalizer =
  fixes norm :: "string \<Rightarrow> 'e + string list"
  assumes norm_distinct: "norm p = Inr ws \<Longrightarrow> distinct ws"
    and norm_nonempty: "norm p = Inr ws \<Longrightarrow> [] \<notin> set ws"
begin

lemma norm_card: "norm p = Inr ws \<Longrightarrow> card (set ws) = length ws"
  by (simp add: norm_distinct distinct_card)

end

lemma words_server_Norm_eq:
  "words_server_Norm stop stem p =
     (if length p > 4096 then Inl (Status ResourceExhausted ''phrase too large (>4KiB)'')
      else Inr (first_occ {} (concat (map (token_image stop stem) (phrase_tokens p)))))"
  by (simp add: words_server_Norm_def maxPhraseLen_def Norm_eq_first_occ)

interpretation nw: normalizer "words_server_Norm stop stem" for stop stem
  using token_image_nonempty
  by unfold_locales
    (auto simp: words_server_Norm_eq distinct_first_occ set_first_occ split: if_splits)

section \<open>Properties of the service\<close>

text \<open>C17: What \<open>Norm\<close> answers: a phrase of more than 4096 bytes is refused with
  \<open>ResourceExhausted\<close>; any other phrase, however odd, gives a list of distinct, non-empty words that
  are exactly the images of its tokens (numbers kept, stop words dropped, the others stemmed), in
  the order in which they first occur. The handler never answers \<open>Internal\<close>.\<close>

theorem Norm_answers:
  "if length p > maxPhraseLen
   then words_server_Norm stop stem p = Inl (Status ResourceExhausted ''phrase too large (>4KiB)'')
   else \<exists>ws. words_server_Norm stop stem p = Inr ws \<and> distinct ws \<and> [] \<notin> set ws \<and>
     set ws = (\<Union>w \<in> set (phrase_tokens p). set (token_image stop stem w)) \<and>
     ws = first_occ {} (concat (map (token_image stop stem) (phrase_tokens p))) \<and>
     length ws \<le> length (phrase_tokens p)"
proof (cases "length p > maxPhraseLen")
  case False
  let ?ws = "first_occ {} (concat (map (token_image stop stem) (phrase_tokens p)))"
  have r: "words_server_Norm stop stem p = Inr ?ws"
    using False by (simp add: words_server_Norm_eq maxPhraseLen_def)
  have "length (first_occ S xs) \<le> length xs" for S and xs :: "string list"
    by (induction xs arbitrary: S) (auto simp: le_SucI)
  moreover have "length (concat (map (token_image stop stem) ts)) \<le> length ts" for ts
    by (induction ts) (auto simp: token_image_def split: sum.splits)
  ultimately have "length ?ws \<le> length (phrase_tokens p)" by (meson order.trans)
  with r nw.norm_distinct [OF r] nw.norm_nonempty [OF r] False show ?thesis
    by (auto simp: set_first_occ)
qed (simp add: words_server_Norm_def)

text \<open>Only the tokens of a phrase matter: writing them again in lower case, with single blanks
  between them, gives the same words.\<close>

theorem Norm_canonical:
  "Norm stop stem (join_blank (phrase_tokens p)) = Norm stop stem p"
  using phrase_tokens_alnum by (simp add: Norm_eq_first_occ phrase_tokens_join)

text \<open>The words the normaliser stores are found again: a word that is the image of a token of a
  stored text is among the words of every query of at most 4096 bytes that contains that token.\<close>

theorem Norm_query_meets_text:
  assumes "w \<in> set (phrase_tokens text)" and "w \<in> set (phrase_tokens query)"
    and "words_server_Norm stop stem text = Inr stored" and "words_server_Norm stop stem query = Inr asked"
    and "token_image stop stem w \<noteq> []"
  shows "\<exists>x. x \<in> set stored \<and> x \<in> set asked"
proof -
  obtain x where "x \<in> set (token_image stop stem w)" using assms(5) by (cases "token_image stop stem w") auto
  moreover have "x \<in> set stored"
    using calculation assms(1,3) by (auto simp: words_server_Norm_eq set_first_occ split: if_splits)
  moreover have "x \<in> set asked"
    using calculation(1) assms(2,4) by (auto simp: words_server_Norm_eq set_first_occ split: if_splits)
  ultimately show ?thesis by blast
qed

lemma Norm_query_meets_text_witness:
  "\<exists>x. x \<in> set [''binary'', ''tree''] \<and> x \<in> set [''tree'']"
proof (rule Norm_query_meets_text [where w = "''trees''"])
  let ?stop = "\<lambda>w. w = ''the''"
  let ?stem = "\<lambda>w. Inr (if w = ''trees'' then ''tree'' else w) :: unit go_error + string"
  show "''trees'' \<in> set (phrase_tokens ''Binary-Trees!'')" by code_simp
  show "''trees'' \<in> set (phrase_tokens ''the trees'')" by code_simp
  show "words_server_Norm ?stop ?stem ''Binary-Trees!'' = Inr [''binary'', ''tree'']" by code_simp
  show "words_server_Norm ?stop ?stem ''the trees'' = Inr [''tree'']" by code_simp
  show "token_image ?stop ?stem ''trees'' \<noteq> []" by code_simp
qed

end
