(* ===== verification/ApiSystem.thy ===== *)
theory ApiSystem
  imports ApiRoutes WordsService
begin

text \<open>
  The gateway in front of the real services: the world is the databases, the index and the flag of the
  updater, the stubs are the gRPC handlers of the services over it (the wiring of the \<open>main.go\<close> of
  \<open>search\<close>, \<open>update\<close>, \<open>auth\<close>, \<open>favorites\<close>, \<open>words\<close> and \<open>api\<close>), and the properties follow a request
  from the route to the tables and back.
\<close>

section \<open>The world\<close>

record world =
  w_comics :: comics_table
  w_index :: InvertedIndex
  w_favorites :: fav_table
  w_auth :: auth_db
  w_running :: bool

text \<open>
  What the environment decides while a request is served: the clock in microseconds, the random
  number, the stop words and the stemmer, the last comic of xkcd, the result of a run of \<open>Update\<close> that
  won the flag, and the auth service with its libraries.
\<close>

record environment =
  e_now :: int
  e_intn :: "int \<Rightarrow> int"
  e_stop :: "string \<Rightarrow> bool"
  e_stem :: "string \<Rightarrow> unit go_error + string"
  e_last :: "update_err + int"
  e_run :: "comics_table \<Rightarrow> (update_err + unit) \<times> comics_table"
  e_auth :: "auth_db auth_service"

definition world_search :: "environment \<Rightarrow> world \<Rightarrow> SearchService" where
  "world_search e w =
     (NewSearchService (search_storage None (w_comics w)) (search_words_Norm (words_server_Norm (e_stop e) (e_stem e))))
       \<lparr>svc_index := w_index w\<rparr>"

text \<open>
  A \<open>string\<close> of a message of proto3 is UTF-8: a request with another one is not sent, and the stub of
  the client answers \<open>Internal\<close>. Strings read from JSON are always UTF-8, but the parameters of a query
  are any bytes.
\<close>

definition marshal_string :: "string \<Rightarrow> (rpc_status + 'b) \<Rightarrow> rpc_status + 'b" where
  "marshal_string s answer =
     (if ValidString s then answer
      else Inl (Status Internal ''grpc: error while marshaling: string field contains invalid UTF-8''))"

definition world_search_stub :: "environment \<Rightarrow> world search_stub" where
  "world_search_stub e =
     \<lparr>ss_Ping = (\<lambda>w. search_server_Ping (world_search e w)),
      ss_Find = (\<lambda>phrase limit w. marshal_string phrase (search_server_Find (world_search e w) phrase limit)),
      ss_IndexedSearch = (\<lambda>phrase limit w.
        marshal_string phrase (search_server_IndexedSearch (world_search e w) (w_index w) phrase limit)),
      ss_GetIDComic = (\<lambda>cid w. search_server_GetIDComic (world_search e w) cid),
      ss_GetRandomComic = (\<lambda>w. search_server_GetRandomComic (world_search e w) (e_intn e)),
      ss_GetAllComics = (\<lambda>page limit w. search_server_GetAllComics (world_search e w) page limit)\<rparr>"

definition world_update :: "environment \<Rightarrow> world \<Rightarrow> (rpc_status + unit) \<times> world" where
  "world_update e w =
     (if w_running w then (fst (update_server_Update True (Inl (Sentinel Upd_ErrAlreadyExists))), w)
      else (case e_run e (w_comics w) of (res, t) \<Rightarrow> (fst (update_server_Update True res), w\<lparr>w_comics := t\<rparr>)))"

definition world_drop :: "world \<Rightarrow> (rpc_status + unit) \<times> world" where
  "world_drop w =
     (case Update_Drop (storage_Drop None) (w_running w) (w_comics w) of
        (res, r, t) \<Rightarrow> (fst (update_server_Drop True res), w\<lparr>w_running := r, w_comics := t\<rparr>))"

definition world_update_stub :: "environment \<Rightarrow> world update_stub" where
  "world_update_stub e =
     \<lparr>ut_Ping = (\<lambda>w. update_server_Ping),
      ut_Status = (\<lambda>w. update_server_Status (Update_Status (w_running w))),
      ut_Stats = (\<lambda>w. let q = (None, w_comics w) in
        update_server_Stats (Update_Stats (storage_Stats q q q) (e_last e))),
      ut_Update = world_update e, ut_Drop = world_drop\<rparr>"

definition world_auth_stub :: "environment \<Rightarrow> world auth_stub" where
  "world_auth_stub e =
     (let lift = (\<lambda>(r, d) w. (r, w\<lparr>w_auth := d\<rparr>)); now = e_now e * 1000 in
      \<lparr>at_Ping = (\<lambda>w. auth_server_Ping (e_auth e)),
       at_Register = (\<lambda>email pw w. lift (auth_server_Register (e_auth e) now email pw (w_auth w)) w),
       at_Login = (\<lambda>email pw w. auth_server_Login (e_auth e) now email pw (w_auth w)),
       at_BotLoginTelegram = (\<lambda>tg w. lift (auth_server_BotLoginTelegram (e_auth e) now tg (w_auth w)) w)\<rparr>)"

definition world_favorites_stub :: "environment \<Rightarrow> world favorites_stub" where
  "world_favorites_stub e =
     (let lift = (\<lambda>(r, t) w. (r, w\<lparr>w_favorites := t\<rparr>)); db = fav_storage None (e_now e) in
      \<lparr>ft_Ping = (\<lambda>w. fav_server_Ping db),
       ft_Add = (\<lambda>u c w. lift (fav_server_Add db u c (w_favorites w)) w),
       ft_Delete = (\<lambda>u c w. lift (fav_server_Delete db u c (w_favorites w)) w),
       ft_List = (\<lambda>u w. fav_server_List db u (w_favorites w))\<rparr>)"

text \<open>The clients of \<open>api/main.go\<close>, each connected to its service.\<close>

definition world_ports :: "environment \<Rightarrow> world api_ports" where
  "world_ports e =
     \<lparr>pt_search = search_client (world_search_stub e), pt_update = update_client (world_update_stub e),
      pt_auth = auth_client (world_auth_stub e), pt_favorites = favorites_client (world_favorites_stub e),
      pt_words_Ping = api_words_Ping (\<lambda>w. words_server_Ping)\<rparr>"

definition public :: "jwt_lib \<Rightarrow> api_config \<Rightarrow> environment \<Rightarrow> moment \<Rightarrow> world handler" where
  "public lib cfg e mo = serve public_routes lib cfg (world_ports e) mo"

definition words_of :: "environment \<Rightarrow> string \<Rightarrow> string list" where
  "words_of e phrase = first_occ {} (concat (map (token_image (e_stop e) (e_stem e)) (phrase_tokens phrase)))"

lemma world_search_simps [simp]:
  "svc_db (world_search e w) = search_storage None (w_comics w)"
  "svc_index (world_search e w) = w_index w"
  "svc_words (world_search e w) p =
     (if length p > 4096 then Inl (Sentinel ErrBadArguments) else Inr (words_of e p))"
  by (simp_all add: world_search_def NewSearchService_def search_words_Norm_def words_server_Norm_eq words_of_def)

text \<open>A request to a given path, as the public multiplexer hands it on.\<close>

lemma public_eq:
  assumes "find_route public_routes (rq_method rq) (rq_path rq) = Some (ep, binds)"
  shows "public lib cfg e mo rq w =
    endpoint_handler lib cfg (world_ports e) mo ep
      (rq\<lparr>rq_pathvalue := (\<lambda>n. case map_of binds n of None \<Rightarrow> [] | Some v \<Rightarrow> v), rq_user := None\<rparr>) w"
  using assms by (simp add: public_def serve_def)

section \<open>Searching\<close>

text \<open>What a client may expect of a search; \<open>tot\<close> picks the number that is reported, of the hits and
  of all matches.\<close>

definition comic_item :: "Comics \<Rightarrow> comicResponse" where
  "comic_item c = \<lparr>cr_id = ID c, cr_url = URL c\<rparr>"

definition search_answer ::
  "(nat \<Rightarrow> nat \<Rightarrow> nat) \<Rightarrow> (string \<Rightarrow> string list) \<Rightarrow> Comics list \<Rightarrow> string \<Rightarrow> string \<Rightarrow> http_response" where
  "search_answer tot words cs phrase limitStr =
     (case (if limitStr \<noteq> [] then ParseUint 32 limitStr else Some 0) of
        None \<Rightarrow> res_Json (errorResponse ''bad limit'') 400
      | Some n \<Rightarrow>
          if \<not> ValidString phrase then res_Json (errorResponse ''internal error'') 500 else
          let phrase = TrimSpace phrase; tokens = words phrase;
              hits = take (if n = 0 then 10 else n) (ranking tokens cs) in
          if phrase = [] \<or> 100 < n \<or> 4096 < length phrase then res_Json (errorResponse ''bad request'') 400
          else if tokens = [] then res_Json (errorResponse ''internal error'') 500
          else res_Json (searchResponse (map comic_item hits)
                 (int (tot (length hits) (length (filter (comic_matches tokens) cs))))) 200)"

lemma reply_items:
  assumes "\<forall>c \<in> set cs. 0 < ID c \<and> int4 (ID c)"
  shows "comic_responses (search_comics (comic_replies cs)) = map comic_item cs"
  using assms
proof (induction cs)
  case (Cons c cs)
  then have "0 \<le> ID c" "ID c < 4294967296" by (simp_all add: int4_def)
  then show ?case using Cons by (simp add: comic_reply_def comic_item_def uint_uint32)
qed simp

lemma limit_word:
  assumes "n < 4294967296"
  shows "unat (uint32 (int n)) = n" and "uint32 (int n) > 100 \<longleftrightarrow> 100 < n" and "uint32 (int n) = 0 \<longleftrightarrow> n = 0"
proof -
  show u: "unat (uint32 (int n)) = n" using assms by (simp add: uint32_def unat_of_nat)
  have "unat (100 :: u32) = 100" "unat (0 :: u32) = 0" by simp_all
  then show "uint32 (int n) > 100 \<longleftrightarrow> 100 < n" "uint32 (int n) = 0 \<longleftrightarrow> n = 0"
    using u by (metis word_less_nat_alt, metis unat_eq_zero)
qed

text \<open>A table with the comics of xkcd: positive ids, fewer rows than 32 bits can count.\<close>

definition world_ok :: "world \<Rightarrow> bool" where
  "world_ok w = (table_inv (w_comics w) \<and> list_all (\<lambda>r. 0 < c_id r) (w_comics w) \<and>
     length (w_comics w) < 4294967296)"

definition comics_of :: "world \<Rightarrow> Comics list" where
  "comics_of w = table_comics (w_comics w)"

lemma world_ok_comics:
  assumes "world_ok w"
  shows "c \<in> set (comics_of w) \<Longrightarrow> 0 < ID c \<and> int4 (ID c)"
    and "length (filter P (comics_of w)) < 4294967296"
proof -
  show "c \<in> set (comics_of w) \<Longrightarrow> 0 < ID c \<and> int4 (ID c)"
    using assms by (auto simp: world_ok_def comics_of_def table_comics_def table_inv_def list_all_iff)
  show "length (filter P (comics_of w)) < 4294967296"
    using assms by (metis (no_types, lifting) comics_of_def length_filter_le length_map order.strict_trans1
        table_comics_def world_ok_def)
qed

lemma world_Find:
  assumes "world_ok w"
  shows "Find (world_search e w) phrase limit =
    (if TrimSpace phrase = [] then Inl (Sentinel ErrEmptyPhrase)
     else if limit > 100 then Inl (Sentinel ErrToLargeLimit)
     else if 4096 < length (TrimSpace phrase) then Inl (Sentinel ErrBadArguments)
     else if words_of e (TrimSpace phrase) = [] then Inl (Sentinel ErrNonePhrase)
     else Inr (take (unat (if limit = 0 then 10 else limit)) (ranking (words_of e (TrimSpace phrase)) (comics_of w))))"
  using assms Find_on_table [of "w_comics w" "world_search e w" phrase limit]
  by (auto simp: world_ok_def comics_of_def)

lemma world_IndexedSearch:
  assumes "world_ok w" and "w_index w = Build (comics_of w) NewInvertedIndex"
  shows "IndexedSearch (world_search e w) (w_index w) phrase limit =
     (case Find (world_search e w) phrase limit of
        Inl err \<Rightarrow> Inl err
      | Inr cs \<Rightarrow> Inr (cs, uint32 (int (length
           (filter (comic_matches (words_of e (TrimSpace phrase))) (comics_of w))))))"
proof -
  let ?s = "world_search e w"
  have "RebuildIndex ?s = (Inr (), ?s)"
    using assms(2) Build_indep [of _ "w_index w" NewInvertedIndex]
    by (simp add: RebuildIndex_def search_storage_def storage_All_def rows_to_comics_eq table_comics_def
        comics_of_def comp_def world_search_def NewSearchService_def)
  from st.IndexedSearch_eq_Find [OF _ _ this] assms(1) show ?thesis
    by (auto simp: world_ok_def comics_of_def world_Find [OF assms(1)] split: sum.splits)
qed

lemma gateway_Find:
  assumes "world_ok w"
  shows "fst (NewSearchHandler (pt_search (world_ports e)) rq w) =
    search_answer (\<lambda>hits matches. hits) (words_of e) (comics_of w) (rq_query rq ''phrase'') (rq_query rq ''limit'')"
proof (cases "if rq_query rq ''limit'' \<noteq> [] then ParseUint 32 (rq_query rq ''limit'') else Some 0")
  case None
  then show ?thesis by (simp add: NewSearchHandler_def reads_def search_answer_def)
next
  case (Some n)
  then have n: "n < 4294967296" using ParseUint_bound [of 32] by (auto split: if_splits)
  let ?phrase = "TrimSpace (rq_query rq ''phrase'')"
  let ?hits = "take (if n = 0 then 10 else n) (ranking (words_of e ?phrase) (comics_of w))"
  have hits: "comic_responses (search_comics (comic_replies ?hits)) = map comic_item ?hits"
    by (rule reply_items) (use world_ok_comics(1) [OF assms(1)] in \<open>auto simp: set_ranking dest!: in_set_takeD\<close>)
  have lim: "unat (if uint32 (int n) = 0 then 10 else uint32 (int n)) = (if n = 0 then 10 else n)"
    using limit_word [OF n] by simp
  have "length ?hits < 4294967296" using n by (auto simp: min_def)
  then have len: "uint (uint32 (int (length ?hits))) = int (length ?hits)" by (intro uint_uint32) simp_all
  note client = world_ports_def search_client_def world_search_stub_def api_search_Find_def
    search_server_Find_def marshal_string_def
  show ?thesis
    unfolding NewSearchHandler_def reads_def search_answer_def Let_def Some
    by (simp add: client world_Find [OF assms(1)] lim limit_word(2) [OF n] hits len other_status_def
        unavailable_code_def err_simps del: take_map length_take)
qed

lemma gateway_IndexedSearch:
  assumes "world_ok w" and "w_index w = Build (comics_of w) NewInvertedIndex"
  shows "fst (NewIndexedSearchHandler (pt_search (world_ports e)) rq w) =
    search_answer (\<lambda>hits matches. matches) (words_of e) (comics_of w) (rq_query rq ''phrase'') (rq_query rq ''limit'')"
proof (cases "if rq_query rq ''limit'' \<noteq> [] then ParseUint 32 (rq_query rq ''limit'') else Some 0")
  case None
  then show ?thesis by (simp add: NewIndexedSearchHandler_def reads_def search_answer_def)
next
  case (Some n)
  then have n: "n < 4294967296" using ParseUint_bound [of 32] by (auto split: if_splits)
  let ?phrase = "TrimSpace (rq_query rq ''phrase'')"
  let ?hits = "take (if n = 0 then 10 else n) (ranking (words_of e ?phrase) (comics_of w))"
  have hits: "comic_responses (search_comics (comic_replies ?hits)) = map comic_item ?hits"
    by (rule reply_items) (use world_ok_comics(1) [OF assms(1)] in \<open>auto simp: set_ranking dest!: in_set_takeD\<close>)
  have lim: "unat (if uint32 (int n) = 0 then 10 else uint32 (int n)) = (if n = 0 then 10 else n)"
    using limit_word [OF n] by simp
  have len: "uint (uint32 (int (length (filter P (comics_of w))))) = int (length (filter P (comics_of w)))" for P
    using world_ok_comics(2) [OF assms(1), of P] by (intro uint_uint32) simp_all
  note client = world_ports_def search_client_def world_search_stub_def api_search_IndexedSearch_def
    search_server_IndexedSearch_def marshal_string_def
  show ?thesis
    unfolding NewIndexedSearchHandler_def reads_def search_answer_def Let_def Some
    by (simp add: client world_IndexedSearch [OF assms] world_Find [OF assms(1)] lim limit_word(2) [OF n] hits len
        other_status_def unavailable_code_def err_simps del: take_map)
qed

lemma search_requests:
  assumes "world_ok w" and "SearchConcurrency cfg \<le> 0 \<or> mo_held mo < SearchConcurrency cfg"
    and "SearchRate cfg \<le> 0 \<or> mo_waited mo" and "w_index w = Build (comics_of w) NewInvertedIndex"
    and "rq_method rq = ''GET''"
  shows "public lib cfg e mo (rq\<lparr>rq_path := [''api'', ''search'']\<rparr>) w =
      (search_answer (\<lambda>hits matches. hits) (words_of e) (comics_of w)
         (rq_query rq ''phrase'') (rq_query rq ''limit''), w) \<and>
    public lib cfg e mo (rq\<lparr>rq_path := [''api'', ''isearch'']\<rparr>) w =
      (search_answer (\<lambda>hits matches. matches) (words_of e) (comics_of w)
         (rq_query rq ''phrase'') (rq_query rq ''limit''), w)"
proof -
  have r: "find_route public_routes ''GET'' [''api'', ''search''] = Some (EP_Search, [])"
    "find_route public_routes ''GET'' [''api'', ''isearch''] = Some (EP_ISearch, [])"
    by code_simp+
  have limits: "WithConcurrencyLimit (SearchConcurrency cfg) (mo_held mo) nxt q w = nxt q w"
    "WithRateLimit (SearchRate cfg) (mo_waited mo) nxt q w = nxt q w" for nxt :: "world handler" and q
    using assms(2,3) by (auto simp: WithConcurrencyLimit_def WithRateLimit_def)
  show ?thesis
    using gateway_Find [OF assms(1)] gateway_IndexedSearch [OF assms(1,4)] assms(5) r
    by (simp add: public_eq endpoint_handler_def limits prod_eq_iff)
qed

text \<open>C3: A search, from the route to the tables and back: with a free slot, \<open>GET /api/search\<close> answers
  400 for a limit that is no 32-bit number, 500 for a phrase that is not UTF-8, 400 for a blank phrase,
  a limit above 100 or a phrase of more than 4096 bytes, 500 for a phrase of stop words, and otherwise 200 with the ids and urls of the
  first \<open>limit\<close> (10 when absent or zero) of the ranking of all stored comics. \<open>GET /api/isearch\<close> with
  an index of the table gives the same status and the same hits, but reports the number of all
  matches as the total where the search reports the number of hits. Neither changes anything.\<close>

theorem search_end_to_end:
  assumes "world_ok w" and "SearchConcurrency cfg \<le> 0 \<or> mo_held mo < SearchConcurrency cfg"
    and "SearchRate cfg \<le> 0 \<or> mo_waited mo" and "w_index w = Build (comics_of w) NewInvertedIndex"
    and "rq_method rq = ''GET''"
  shows "public lib cfg e mo (rq\<lparr>rq_path := [''api'', ''search'']\<rparr>) w =
      (search_answer (\<lambda>hits matches. hits) (words_of e) (comics_of w)
         (rq_query rq ''phrase'') (rq_query rq ''limit''), w) \<and>
    public lib cfg e mo (rq\<lparr>rq_path := [''api'', ''isearch'']\<rparr>) w =
      (search_answer (\<lambda>hits matches. matches) (words_of e) (comics_of w)
         (rq_query rq ''phrase'') (rq_query rq ''limit''), w)"
  using assms by (rule search_requests)

text \<open>A small world for the examples.\<close>

definition demo_env :: environment where
  "demo_env = \<lparr>e_now = 7, e_intn = (\<lambda>n. 0), e_stop = (\<lambda>w. w = ''the''),
     e_stem = (\<lambda>w. Inr (if w = ''cats'' then ''cat'' else w)), e_last = Inr 3, e_run = (\<lambda>t. (Inr (), t)),
     e_auth = demo_auth\<rparr>"

definition demo_world :: world where
  "demo_world = \<lparr>w_comics = demo_table, w_index = Build (table_comics demo_table) NewInvertedIndex,
     w_favorites = [], w_auth = auth_empty, w_running = False\<rparr>"

lemma demo_world_ok: "world_ok demo_world"
  using demo_table_inv by (simp add: world_ok_def demo_world_def demo_table_def)

definition cats_request :: http_request where
  "cats_request = (token_request [])\<lparr>rq_query := (\<lambda>n. if n = ''phrase'' then ''The cats!'' else [])\<rparr>"

lemma search_end_to_end_witness:
  "hr_code (fst (public super_lib demo_config demo_env demo_moment (cats_request\<lparr>rq_path := [''api'', ''search'']\<rparr>)
     demo_world)) = 200"
proof -
  have c: "SearchConcurrency demo_config \<le> 0 \<or> mo_held demo_moment < SearchConcurrency demo_config"
    "SearchRate demo_config \<le> 0 \<or> mo_waited demo_moment"
    by (simp_all add: demo_config_def demo_moment_def)
  have i: "w_index demo_world = Build (comics_of demo_world) NewInvertedIndex"
    by (simp add: demo_world_def comics_of_def)
  have g: "rq_method cats_request = ''GET''" by (simp add: cats_request_def token_request_def)
  have "hr_code (search_answer (\<lambda>hits matches. hits) (words_of demo_env) (comics_of demo_world)
      (rq_query cats_request ''phrase'') (rq_query cats_request ''limit'')) = 200"
  proof -
    have t: "TrimSpace ''The cats!'' = ''The cats!''" and k: "words_of demo_env ''The cats!'' = [''cat'']"
      and v: "ValidString ''The cats!''"
      by (code_simp, code_simp, code_simp)
    show ?thesis by (simp add: search_answer_def cats_request_def Let_def t k v)
  qed
  then show ?thesis using search_end_to_end [OF demo_world_ok c i g] by simp
qed

section \<open>Favorites\<close>

lemma gateway_GetComic:
  assumes "world_ok w"
  shows "se_GetComic (pt_search (world_ports e)) cid w =
    (let i = cid mod 4294967296 in
     if i = 0 then Inl (StatusErr (Status InvalidArgument ''arguments are not acceptable''))
     else if 2147483648 \<le> i
     then Inl (StatusErr (Status Internal ''get comic by id: unable to encode the argument for int4''))
     else case List.find (\<lambda>c. ID c = i) (comics_of w) of
       None \<Rightarrow> Inl (Sentinel Api_ErrBadArguments)
     | Some c \<Rightarrow> Inr \<lparr>sc_ID = i, sc_URL = URL c\<rparr>)"
proof -
  define i where "i = cid mod 4294967296"
  have i: "uint (uint32 cid) = i" unfolding i_def by (rule uint_uint32_mod)
  have pos: "0 \<le> i" unfolding i_def by simp
  have port: "se_GetComic (pt_search (world_ports e)) cid w = api_search_GetComic (world_search_stub e) cid w"
    by (simp add: world_ports_def search_client_def)
  have stub: "ss_GetIDComic (world_search_stub e) (uint32 cid) w =
      (case GetComicByID (world_search e w) i of
        Inl err \<Rightarrow>
          (if errors_Is err ErrBadArguments
           then Inl (Status InvalidArgument (error_text search_text err))
           else if errors_Is err ErrComicNotFound
           then Inl (Status NotFound (error_text search_text err))
           else Inl (Status Internal (error_text search_text err)))
      | Inr c \<Rightarrow> Inr (comic_reply c))"
    by (simp only: world_search_stub_def search_stub.simps search_server_GetIDComic_def i)
  note answer = i_def [symmetric] Let_def port api_search_GetComic_def stub GetComicByID_def
  consider (zero) "i = 0" | (large) "0 < i" "2147483648 \<le> i" | (column) "0 < i" "i < 2147483648" "int4 i"
    using pos by (fastforce simp: int4_def)
  then show ?thesis
  proof cases
    case zero
    then show ?thesis unfolding answer by (simp add: other_status_def unavailable_code_def)
  next
    case large
    then show ?thesis
      unfolding answer
      by (simp add: search_storage_def storage_GetByID_eq int4_def other_status_def unavailable_code_def)
  next
    case column
    have get: "db_GetByID (search_storage None (w_comics w)) i =
        (case List.find (\<lambda>c. ID c = i) (comics_of w) of
           None \<Rightarrow> Inl (Sentinel ErrComicNotFound) | Some c \<Rightarrow> Inr c)"
      using assms column(3) st.db_GetByID [of "w_comics w" i] by (simp add: world_ok_def comics_of_def)
    have id: "uint (uint32 (ID c)) = i" if "List.find (\<lambda>c. ID c = i) (comics_of w) = Some c" for c
      using find_SomeD [OF that] i by (simp add: i_def uint_uint32_mod)
    show ?thesis
      using column unfolding answer
      by (cases "List.find (\<lambda>c. ID c = i) (comics_of w)") (simp_all add: get comic_reply_def id)
  qed
qed

lemma int32_mod: "int32 (n mod 4294967296) = int32 n"
  unfolding int32_def by (rule word_of_int_eq_iff [THEN iffD2]) (simp add: take_bit_eq_mod)

lemma user_of_nonzero: "user_of lib secret now rq = Some u \<Longrightarrow> u \<noteq> 0"
  by (auto simp: user_of_def split: option.splits if_splits)

text \<open>A comic is there if and only if its id is that of a row.\<close>

lemma find_comic:
  "List.find (\<lambda>c. ID c = i) (comics_of w) = None \<longleftrightarrow> i \<notin> c_id ` set (w_comics w)"
  by (auto simp: find_None_iff comics_of_def table_comics_def)

lemma gateway_favorites_Add:
  assumes "fav_inv (w_favorites w)" and "u \<noteq> 0" and "0 < sint c"
  shows "fv_Add (pt_favorites (world_ports e)) u c w =
    (if (u, c) \<in> table_favs (w_favorites w) then (Inl (Sentinel Api_ErrAlreadyExists), w)
     else (Inr (), w\<lparr>w_favorites := w_favorites w @ [\<lparr>f_user = uint u, f_comic = sint c, f_created = e_now e\<rparr>]\<rparr>))"
  using assms fs.server_Add [OF assms(1), of "e_now e" u c]
  by (simp add: world_ports_def favorites_client_def world_favorites_stub_def api_favorites_Add_def fs.valid_def
      Let_def fav_storage_def fav_storage_Add_None)

lemma favorites_add_request:
  assumes "world_ok w" and "fav_inv (w_favorites w)"
    and "user_of lib (AuthJWTSecret cfg) (mo_now mo) rq = Some u"
    and "rq_method rq = ''POST''" and "rq_path rq = [''api'', ''mycomics'', x]" and "x \<noteq> []"
  shows "public lib cfg e mo rq w =
    (case Atoi x of
       None \<Rightarrow> (res_Json (errorResponse ''invalid id'') 400, w)
     | Some n \<Rightarrow>
         let i = n mod 4294967296 in
         if n \<le> 0 then (res_Json (errorResponse ''invalid id'') 400, w)
         else if i = 0 \<or> 2147483648 \<le> i then (res_Json (errorResponse ''internal error'') 500, w)
         else if i \<notin> c_id ` set (w_comics w) then (res_Json (errorResponse ''comic not found'') 404, w)
         else if (u, int32 i) \<in> table_favs (w_favorites w) then (res_Json (errorResponse ''already exists'') 409, w)
         else (WriteHeader 204, w\<lparr>w_favorites := w_favorites w @
                [\<lparr>f_user = uint u, f_comic = i, f_created = e_now e\<rparr>]\<rparr>))"
proof -
  let ?rq = "rq\<lparr>rq_pathvalue := (\<lambda>n. case map_of [(''id'', x)] n of None \<Rightarrow> [] | Some v \<Rightarrow> v), rq_user := Some u\<rparr>"
  have "find_route public_routes (rq_method rq) (rq_path rq) = Some (EP_FavAdd, [(''id'', x)])"
    using assms(4-6) by (simp add: find_route_def public_routes_def match_method_def wildcards_def)
  then have handler: "public lib cfg e mo rq w =
      NewFavoritesAddHandler (pt_favorites (world_ports e)) (pt_search (world_ports e)) ?rq w"
    using assms(3) by (simp add: public_eq endpoint_handler_def RequireUser_eq)
  have u: "u \<noteq> 0" by (rule user_of_nonzero [OF assms(3)])
  have comics: "0 < i \<and> int4 i" if "i \<in> c_id ` set (w_comics w)" for i
    using that assms(1) by (auto simp: world_ok_def table_inv_def list_all_iff)
  show ?thesis
  proof (cases "Atoi x")
    case None
    then show ?thesis using u unfolding handler by (simp add: NewFavoritesAddHandler_def UserIDFromContext_def)
  next
    case (Some n)
    define i where "i = n mod 4294967296"
    note handler = handler [unfolded NewFavoritesAddHandler_def UserIDFromContext_def]
    note get = gateway_GetComic [OF assms(1), of e n, folded i_def, unfolded Let_def]
    consider (refused) "n \<le> 0" | (outside) "0 < n" "i = 0 \<or> 2147483648 \<le> i"
      | (missing) "0 < n" "i \<noteq> 0" "i < 2147483648" "i \<notin> c_id ` set (w_comics w)"
      | (found) "0 < n" "i \<noteq> 0" "i < 2147483648" "i \<in> c_id ` set (w_comics w)" by linarith
    then show ?thesis
    proof cases
      case missing
      then show ?thesis
        using u Some find_comic [of i w] unfolding handler by (simp add: get i_def [symmetric])
    next
      case found
      then obtain c where c: "List.find (\<lambda>c. ID c = i) (comics_of w) = Some c"
        using find_comic [of i w] by (cases "List.find (\<lambda>c. ID c = i) (comics_of w)") auto
      have n: "int32 n = int32 i" unfolding i_def by (rule int32_mod [symmetric])
      have s: "sint (int32 i) = i" "0 < sint (int32 i)" using comics [OF found(4)] by simp_all
      show ?thesis
        using u Some found unfolding handler
        by (simp add: get c n i_def [symmetric] gateway_favorites_Add [OF assms(2) u s(2)] s(1))
    qed (use u Some in \<open>auto simp: handler get i_def [symmetric]\<close>)
  qed
qed

text \<open>C28: Adding a favorite, from the route to the tables: for a user that a valid token names,
  \<open>POST /api/mycomics/{id}\<close> answers 400 for an id that is no positive number of 64 bits, and else looks
  at the id modulo \<open>2 ^ 32\<close>: 500 when that is zero or does not fit the column of type \<open>INT\<close>, from
  \<open>2 ^ 31\<close> on, 404 when no such comic is stored, 409 when it is a favorite already, and 204 otherwise,
  after which the favorite of that user and that comic is there and nothing else has changed. So an id
  beyond 32 bits is not refused, but taken for another comic.\<close>

theorem favorites_add_end_to_end:
  assumes "world_ok w" and "fav_inv (w_favorites w)"
    and "user_of lib (AuthJWTSecret cfg) (mo_now mo) rq = Some u"
    and "rq_method rq = ''POST''" and "rq_path rq = [''api'', ''mycomics'', x]" and "x \<noteq> []"
  shows "public lib cfg e mo rq w =
    (case Atoi x of
       None \<Rightarrow> (res_Json (errorResponse ''invalid id'') 400, w)
     | Some n \<Rightarrow>
         let i = n mod 4294967296 in
         if n \<le> 0 then (res_Json (errorResponse ''invalid id'') 400, w)
         else if i = 0 \<or> 2147483648 \<le> i then (res_Json (errorResponse ''internal error'') 500, w)
         else if i \<notin> c_id ` set (w_comics w) then (res_Json (errorResponse ''comic not found'') 404, w)
         else if (u, int32 i) \<in> table_favs (w_favorites w) then (res_Json (errorResponse ''already exists'') 409, w)
         else (WriteHeader 204, w\<lparr>w_favorites := w_favorites w @
                [\<lparr>f_user = uint u, f_comic = i, f_created = e_now e\<rparr>]\<rparr>))"
  using assms by (rule favorites_add_request)

definition user_lib :: jwt_lib where
  "user_lib = one_token_lib ''s'' (user_claims 3600000000000 0 7)"

definition big_id_request :: http_request where
  "big_id_request = (token_request ''t0.t1.t2'')\<lparr>rq_method := ''POST'',
     rq_path := [''api'', ''mycomics'', ''4294967301'']\<rparr>"

lemma Atoi_big_id: "Atoi ''4294967301'' = Some 4294967301"
  by (simp add: Atoi_digits is_digit_def decimal_value_def digit_val_def)

lemma favorites_add_end_to_end_witness:
  "public user_lib demo_config demo_env demo_moment big_id_request demo_world =
     (WriteHeader 204, demo_world\<lparr>w_favorites := [\<lparr>f_user = 7, f_comic = 5, f_created = 7\<rparr>]\<rparr>)"
proof -
  have f: "fav_inv (w_favorites demo_world)" by (simp add: fav_inv_def demo_world_def)
  have u: "user_of user_lib (AuthJWTSecret demo_config) (mo_now demo_moment) big_id_request = Some 7" by code_simp
  have r: "rq_method big_id_request = ''POST''" "rq_path big_id_request = [''api'', ''mycomics'', ''4294967301'']"
    "''4294967301'' \<noteq> []"
    by (simp_all add: big_id_request_def)
  have c: "5 \<in> c_id ` set (w_comics demo_world)" by (simp add: demo_world_def demo_table_def)
  show ?thesis
    using favorites_add_end_to_end [OF demo_world_ok f u r, of demo_env] c
    by (simp add: Atoi_big_id in_table_favs) (simp add: demo_world_def demo_env_def)
qed

text \<open>C39: The page of a comic, from the route to the table: \<open>GET /api/comics/{id}\<close> answers 400 for an id
  that is no positive number of 64 bits, 500 when the id modulo \<open>2 ^ 32\<close> is zero or does not fit the
  column of type \<open>INT\<close>, from \<open>2 ^ 31\<close> on, 404 when no comic with the id modulo \<open>2 ^ 32\<close> is stored, and
  otherwise 200 with that comic, even for an id beyond 32 bits.\<close>

theorem comic_page_end_to_end:
  assumes "world_ok w" and "rq_method rq = ''GET''" and "rq_path rq = [''api'', ''comics'', x]"
    and "x \<noteq> []" and "x \<noteq> ''random''"
  shows "public lib cfg e mo rq w =
    (case Atoi x of
       None \<Rightarrow> res_Json (errorResponse ''invalid id'') 400
     | Some n \<Rightarrow>
         if n \<le> 0 then res_Json (errorResponse ''invalid id'') 400
         else if n mod 4294967296 = 0 \<or> 2147483648 \<le> n mod 4294967296
         then res_Json (errorResponse ''internal error'') 500
         else case List.find (\<lambda>c. ID c = n mod 4294967296) (comics_of w) of
           None \<Rightarrow> res_Json (errorResponse ''comic not found'') 404
         | Some c \<Rightarrow> res_Json (comicPayload (comic_item c)) 200, w)"
proof -
  let ?rq = "rq\<lparr>rq_pathvalue := (\<lambda>n. case map_of [(''id'', x)] n of None \<Rightarrow> [] | Some v \<Rightarrow> v), rq_user := None\<rparr>"
  have "find_route public_routes (rq_method rq) (rq_path rq) = Some (EP_ComicByID, [(''id'', x)])"
    using assms(2-5) by (simp add: find_route_def public_routes_def match_method_def wildcards_def)
  then have handler: "public lib cfg e mo rq w = NewComicByIDHandler (pt_search (world_ports e)) ?rq w"
    by (simp add: public_eq endpoint_handler_def)
  show ?thesis
  proof (cases "Atoi x")
    case None
    then show ?thesis using assms(4) unfolding handler by (simp add: NewComicByIDHandler_def reads_def)
  next
    case (Some n)
    define i where "i = n mod 4294967296"
    note get = gateway_GetComic [OF assms(1), of e n, folded i_def, unfolded Let_def]
    show ?thesis
      unfolding handler i_def [symmetric] Some option.case
      using assms(4) Some find_SomeD [of "\<lambda>c. ID c = i" "comics_of w"]
      by (cases "List.find (\<lambda>c. ID c = i) (comics_of w)")
        (simp_all add: NewComicByIDHandler_def reads_def get comic_item_def i_def [symmetric])
  qed
qed

lemma Atoi_large_id: "Atoi ''3000000000'' = Some 3000000000"
  by (simp add: Atoi_digits is_digit_def decimal_value_def digit_val_def)

lemma comic_page_end_to_end_witness:
  "fst (public user_lib demo_config demo_env demo_moment
      (token_request []\<lparr>rq_path := [''api'', ''comics'', ''4294967301'']\<rparr>) demo_world) =
    res_Json (comicPayload \<lparr>cr_id = 5, cr_url = ''u5''\<rparr>) 200 \<and>
   fst (public user_lib demo_config demo_env demo_moment
      (token_request []\<lparr>rq_path := [''api'', ''comics'', ''3000000000'']\<rparr>) demo_world) =
    res_Json (errorResponse ''internal error'') 500"
proof -
  let ?rq = "\<lambda>x. token_request []\<lparr>rq_path := [''api'', ''comics'', x]\<rparr>"
  have r: "rq_method (?rq x) = ''GET''" "rq_path (?rq x) = [''api'', ''comics'', x]" for x
    by (simp_all add: token_request_def)
  have x: "''4294967301'' \<noteq> []" "''4294967301'' \<noteq> ''random''" and y: "''3000000000'' \<noteq> []" "''3000000000'' \<noteq> ''random''"
    by simp_all
  have "List.find (\<lambda>c. ID c = 5) (comics_of demo_world) =
      Some \<lparr>ID = 5, URL = ''u5'', Title = [''cow''], Alt = [], Words = []\<rparr>"
    by (simp add: comics_of_def demo_world_def demo_table_def table_comics_def row_to_comics_def scan_row_def)
  then show ?thesis
    using comic_page_end_to_end [OF demo_world_ok r x, of user_lib demo_config demo_env demo_moment]
      comic_page_end_to_end [OF demo_world_ok r y, of user_lib demo_config demo_env demo_moment]
    by (simp add: Atoi_big_id Atoi_large_id comic_item_def)
qed

end
