(* ===== verification/ApiUsers.thy ===== *)
theory ApiUsers
  imports ApiSystem
begin

text \<open>
  Users in front of the whole system: the story of a new user from the registration to the list of
  favorites, what the gateway answers while the updater is busy or the database is empty, and the
  constraints of all tables under any history of requests to the two servers.
\<close>

section \<open>Requests\<close>

definition api_request :: "string \<Rightarrow> string list \<Rightarrow> string \<Rightarrow> json option \<Rightarrow> http_request" where
  "api_request m path authorization body =
     \<lparr>rq_method = m, rq_path = path, rq_query = (\<lambda>_. []), rq_pathvalue = (\<lambda>_. []),
      rq_authorization = authorization, rq_body = body, rq_user = None\<rparr>"

definition credentials :: "string \<Rightarrow> string \<Rightarrow> json option" where
  "credentials email password =
     Some (JObject [(''email'', JString email), (''password'', JString password)])"

lemma decode_credentials [simp]: "decode_credentials (credentials email password) = Some (email, password)"
proof -
  have n: "field_matches ''email'' ''password'' \<longleftrightarrow> False" "field_matches ''password'' ''email'' \<longleftrightarrow> False"
    "field_matches ''email'' ''email''" "field_matches ''password'' ''password''"
    by code_simp+
  show ?thesis
    by (simp add: decode_credentials_def credentials_def struct_members_def string_field_def field_values_def
        is_string_def n)
qed

lemma api_request_simps [simp]:
  "rq_method (api_request m path a b) = m" "rq_path (api_request m path a b) = path"
  "rq_authorization (api_request m path a b) = a" "rq_body (api_request m path a b) = b"
  by (simp_all add: api_request_def)

lemma user_of_token:
  assumes "jwt_faithful lib ''HS256'' secret (user_claims ttl t u) tok" and "TrimSpace tok = tok" and "tok \<noteq> []"
    and "rq_authorization rq = ''Token '' @ tok" and "now < NewNumericDate (t + ttl) * 1000000000" and "u \<noteq> 0"
  shows "user_of lib secret now rq = Some u"
  using readToken_header [OF assms(4,2,3)] jwt_faithful_parse [OF assms(1)] assms(5,6)
  by (simp add: user_of_def is_hs256_def user_claims_def)

section \<open>Registration\<close>

lemma register_fresh:
  assumes "as_db s = auth_storage no_faults now alone None" and "auth_inv d" and "auth_seq d \<le> 4294967295"
    and "email \<notin> h_email ` set (auth_hub d)" and "validateEmail email = Inr ()" and "password \<noteq> []"
    and "bcrypt_generate (as_bcrypt s) password = Inr h" and "token_of s t (auth_seq d) tok"
  shows "auth_server_Register s t email password d =
    (Inr tok, add_hub (new_user now d) \<lparr>Email = email, PasswordHash = h\<rparr> (take_id d))"
proof -
  have create: "ap_Create (as_db s) \<lparr>Email = email, PasswordHash = h\<rparr> d =
      (Inr (new_user now d), add_hub (new_user now d) \<lparr>Email = email, PasswordHash = h\<rparr> (take_id d))"
    using assms(1,3,4) CreateComicshubUser_ok [OF assms(2)]
    by (simp add: auth_storage_def take_id_def)
  have "generateToken s t (auth_seq d) = Inr tok"
    using assms(2,3,8) by (intro generateToken_ok) (simp_all add: auth_inv_def token_of_def)
  then show ?thesis
    using create assms(5-7) validateEmail_ok_nonempty [OF assms(5)]
    by (simp add: auth_server_Register_def Auth_Register_def new_user_def)
qed

lemma register_request:
  assumes "auth_server_Register (e_auth e) (e_now e * 1000) email password (w_auth w) = (Inr tok, d')"
    and "email \<noteq> []" and "password \<noteq> []"
  shows "public lib cfg e mo (api_request ''POST'' [''api'', ''auth'', ''register''] a (credentials email password)) w =
    (res_Json (tokenResponse tok) 200, w\<lparr>w_auth := d'\<rparr>)"
proof -
  have r: "find_route public_routes ''POST'' [''api'', ''auth'', ''register''] = Some (EP_Register, [])"
    by code_simp
  show ?thesis
    using assms
    by (simp add: public_eq r endpoint_handler_def NewRegisterHandler_def world_ports_def auth_client_def
        api_auth_Register_def world_auth_stub_def Let_def)
qed

lemma list_request:
  assumes "fav_inv (w_favorites w)" and "user_of lib (AuthJWTSecret cfg) (mo_now mo) rq = Some u"
    and "rq_method rq = ''GET''" and "rq_path rq = [''api'', ''mycomics'']"
  shows "public lib cfg e mo rq w =
    (res_Json (favoritesListResponse (map (\<lambda>r. \<lparr>fi_comic_id = int32 (f_comic r),
        fi_created_at_unix = f_created r div 1000000\<rparr>)
       (sort_key (\<lambda>r. - f_created r) (filter (\<lambda>r. f_user r = uint u) (w_favorites w))))) 200, w)"
proof -
  let ?rs = "sort_key (\<lambda>r. - f_created r) (filter (\<lambda>r. f_user r = uint u) (w_favorites w))"
  have r: "find_route public_routes ''GET'' [''api'', ''mycomics''] = Some (EP_FavList, [])"
    by code_simp
  have u: "u \<noteq> 0" by (rule user_of_nonzero [OF assms(2)])
  have items: "favorite_responses (api_favorite_items (fav_reply_items (fav_items rs))) =
      map (\<lambda>r. \<lparr>fi_comic_id = int32 (f_comic r), fi_created_at_unix = f_created r div 1000000\<rparr>) rs" for rs
    by (induction rs) simp_all
  have "fav_server_List (fav_storage None (e_now e)) u (w_favorites w) = Inr (fav_reply_items (fav_items ?rs))"
    using fav_storage_List_None [OF assms(1), of u] u
    by (simp add: fav_server_List_def Fav_List_def fav_storage_def)
  then show ?thesis
    using assms(2-4) u items [of ?rs]
    by (simp add: public_eq r endpoint_handler_def RequireUser_eq NewFavoritesListHandler_def reads_def UserIDFromContext_def
        world_ports_def favorites_client_def api_favorites_List_def world_favorites_stub_def Let_def)
qed

text \<open>An empty table.\<close>

lemma empty_answers:
  assumes empty: "w_comics w = []"
  shows "public lib cfg e mo (api_request ''GET'' [''api'', ''comics'', ''random''] a b) w =
      (res_Json (errorResponse ''internal error'') 500, w)"
    and "public lib cfg e mo (api_request ''GET'' [''api'', ''comics''] a b) w = (res_Json (searchResponse [] 0) 200, w)"
proof -
  have r: "find_route public_routes ''GET'' [''api'', ''comics'', ''random''] = Some (EP_Random, [])"
    "find_route public_routes ''GET'' [''api'', ''comics''] = Some (EP_Comics, [])"
    by code_simp+
  note port = world_ports_def search_client_def world_search_stub_def endpoint_handler_def
  show "public lib cfg e mo (api_request ''GET'' [''api'', ''comics'', ''random''] a b) w =
      (res_Json (errorResponse ''internal error'') 500, w)"
    by (simp add: public_eq r port NewRandomComicHandler_def reads_def api_search_RandomComic_def
        search_server_GetRandomComic_def RandomComic_def empty search_storage_def storage_Count_def
        other_status_def unavailable_code_def)
  show "public lib cfg e mo (api_request ''GET'' [''api'', ''comics''] a b) w = (res_Json (searchResponse [] 0) 200, w)"
    by (simp add: public_eq r port NewComicsListHandler_def reads_def page_param_def api_request_def
        api_search_ListComics_def search_server_GetAllComics_def GetAllComics_def defaultLimit_def empty
        search_storage_def storage_Count_def uint32_def)
qed

section \<open>The first favorite\<close>

text \<open>A user without favorites adds one with a token, reads it with another, and cannot add it twice.\<close>

lemma first_favorite:
  assumes "world_ok w" and "fav_inv (w_favorites w)" and "\<forall>r \<in> set (w_favorites w). f_user r \<noteq> uint u"
    and user: "\<And>m path b. user_of lib (AuthJWTSecret cfg) (mo_now mo) (api_request m path (''Token '' @ tok) b) = Some u"
    and user': "\<And>m path b. user_of lib (AuthJWTSecret cfg) (mo_now mo) (api_request m path (''Token '' @ tok') b) = Some u"
    and "i \<in> c_id ` set (w_comics w)"
  shows "\<exists>w2. w_auth w2 = w_auth w \<and>
    public lib cfg e mo (api_request ''POST'' [''api'', ''mycomics'', FormatUint (nat i)] (''Token '' @ tok) None) w =
      (WriteHeader 204, w2) \<and>
    public lib cfg e mo (api_request ''GET'' [''api'', ''mycomics''] (''Token '' @ tok') None) w2 =
      (res_Json (favoritesListResponse
         [\<lparr>fi_comic_id = int32 i, fi_created_at_unix = e_now e div 1000000\<rparr>]) 200, w2) \<and>
    public lib cfg e mo (api_request ''POST'' [''api'', ''mycomics'', FormatUint (nat i)] (''Token '' @ tok') None) w2 =
      (res_Json (errorResponse ''already exists'') 409, w2)"
proof -
  define w2 where "w2 = w\<lparr>w_favorites := w_favorites w @ [\<lparr>f_user = uint u, f_comic = i, f_created = e_now e\<rparr>]\<rparr>"
  have i: "0 < i" "int4 i" using assms(1,6) by (auto simp: world_ok_def table_inv_def list_all_iff)
  then have atoi: "Atoi (FormatUint (nat i)) = Some i" "i mod 4294967296 = i" "\<not> i \<le> 0" "i \<noteq> 0" "\<not> 2147483648 \<le> i"
    by (simp_all add: Atoi_FormatUint int4_def)
  have new: "(u, int32 i) \<notin> table_favs (w_favorites w)"
    using assms(3) by (force simp: in_table_favs fav_key_def)
  have inv2: "fav_inv (w_favorites w2)"
    using fav_inv_append [OF assms(2) new, of "e_now e"] i(2) by (simp add: w2_def)
  have ok2: "world_ok w2" "w_comics w2 = w_comics w" "w_auth w2 = w_auth w"
    using assms(1) by (simp_all add: w2_def world_ok_def)
  have there: "(u, int32 i) \<in> table_favs (w_favorites w2)"
    using table_favs_append [of "w_favorites w" u "int32 i" "e_now e"] i(2) by (simp add: w2_def)
  have add: "public lib cfg e mo (api_request ''POST'' [''api'', ''mycomics'', FormatUint (nat i)] (''Token '' @ tok) None) w =
      (WriteHeader 204, w2)"
    using favorites_add_request [where rq = "api_request ''POST'' [''api'', ''mycomics'', FormatUint (nat i)] (''Token '' @ tok) None" and e = e,
        OF assms(1,2) user _ _ FormatUint_nonempty] atoi new assms(6)
    by (simp add: w2_def Let_def)
  have again: "public lib cfg e mo (api_request ''POST'' [''api'', ''mycomics'', FormatUint (nat i)] (''Token '' @ tok') None) w2 =
      (res_Json (errorResponse ''already exists'') 409, w2)"
    using favorites_add_request [where rq = "api_request ''POST'' [''api'', ''mycomics'', FormatUint (nat i)] (''Token '' @ tok') None" and e = e,
        OF ok2(1) inv2 user' _ _ FormatUint_nonempty] atoi there assms(6)
    by (simp add: ok2(2) Let_def)
  have mine: "filter (\<lambda>r. f_user r = uint u) (w_favorites w2) = [\<lparr>f_user = uint u, f_comic = i, f_created = e_now e\<rparr>]"
    using assms(3) by (auto simp: w2_def filter_empty_conv)
  have "public lib cfg e mo (api_request ''GET'' [''api'', ''mycomics''] (''Token '' @ tok') None) w2 =
      (res_Json (favoritesListResponse [\<lparr>fi_comic_id = int32 i, fi_created_at_unix = e_now e div 1000000\<rparr>]) 200, w2)"
    using list_request [where rq = "api_request ''GET'' [''api'', ''mycomics''] (''Token '' @ tok') None" and e = e,
        OF inv2 user'] by (simp add: mine)
  with ok2(3) add again show ?thesis by blast
qed

section \<open>Properties\<close>

text \<open>C10: A new user's story, through the gateway and four services: registering with a new, valid email
  answers 200 with a token; with it the user adds a stored comic and gets 204, and the list that the
  user then asks for shows exactly that comic; a second \<open>POST\<close> answers 409. The hypotheses say that
  the token signed for the new user is accepted (the documented behaviour of the JWT library), that
  the two services share the secret, that bcrypt accepts the password, and that no request comes
  after the token has expired.\<close>

theorem new_user_story:
  assumes "world_ok w" and "fav_inv (w_favorites w)" and "auth_inv (w_auth w)"
    and "auth_seq (w_auth w) \<le> 4294967295" and "\<forall>r \<in> set (w_favorites w). f_user r < auth_seq (w_auth w)"
    and "as_db (e_auth e) = auth_storage no_faults now alone None" and "as_jwt (e_auth e) = lib"
    and "as_secret (e_auth e) = AuthJWTSecret cfg" and "bcrypt_generate (as_bcrypt (e_auth e)) password = Inr h"
    and "email \<notin> h_email ` set (auth_hub (w_auth w))" and "validateEmail email = Inr ()" and "password \<noteq> []"
    and "jwt_faithful lib ''HS256'' (AuthJWTSecret cfg)
           (user_claims (as_ttl (e_auth e)) (e_now e * 1000) (uint32 (auth_seq (w_auth w)))) tok"
    and "TrimSpace tok = tok" and "tok \<noteq> []"
    and "mo_now mo < NewNumericDate (e_now e * 1000 + as_ttl (e_auth e)) * 1000000000"
    and "i \<in> c_id ` set (w_comics w)"
  shows "\<exists>w1 w2.
    public lib cfg e mo (api_request ''POST'' [''api'', ''auth'', ''register''] [] (credentials email password)) w =
      (res_Json (tokenResponse tok) 200, w1) \<and>
    public lib cfg e mo (api_request ''POST'' [''api'', ''mycomics'', FormatUint (nat i)] (''Token '' @ tok) None) w1 =
      (WriteHeader 204, w2) \<and>
    public lib cfg e mo (api_request ''GET'' [''api'', ''mycomics''] (''Token '' @ tok) None) w2 =
      (res_Json (favoritesListResponse
         [\<lparr>fi_comic_id = int32 i, fi_created_at_unix = e_now e div 1000000\<rparr>]) 200, w2) \<and>
    public lib cfg e mo (api_request ''POST'' [''api'', ''mycomics'', FormatUint (nat i)] (''Token '' @ tok) None) w2 =
      (res_Json (errorResponse ''already exists'') 409, w2)"
proof -
  define q where "q = auth_seq (w_auth w)"
  define u where "u = uint32 q"
  have q: "1 \<le> q" "q \<le> 4294967295" using assms(3,4) by (simp_all add: q_def auth_inv_def)
  have u: "uint u = q" unfolding u_def by (rule uint_uint32) (use q in simp_all)
  then have u0: "u \<noteq> 0" using q(1) by (metis not_one_le_zero unsigned_0)
  have tok: "token_of (e_auth e) (e_now e * 1000) (auth_seq (w_auth w)) tok"
    using assms(7,8,13) by (simp add: token_of_def jwt_faithful_def)
  define w1 where "w1 = w\<lparr>w_auth := add_hub (new_user now (w_auth w)) \<lparr>Email = email, PasswordHash = h\<rparr>
      (take_id (w_auth w))\<rparr>"
  have reg: "public lib cfg e mo (api_request ''POST'' [''api'', ''auth'', ''register''] [] (credentials email password)) w =
      (res_Json (tokenResponse tok) 200, w1)"
    unfolding w1_def
    by (rule register_request [OF register_fresh [OF assms(6,3,4,10,11,12,9) tok]])
      (use validateEmail_ok_nonempty [OF assms(11)] assms(12) in simp_all)
  have user: "user_of lib (AuthJWTSecret cfg) (mo_now mo) (api_request m path (''Token '' @ tok) b) = Some u" for m path b
    by (rule user_of_token [OF assms(13) [folded q_def, folded u_def] assms(14,15) _ assms(16) u0]) simp
  have "world_ok w1" "fav_inv (w_favorites w1)" "\<forall>r \<in> set (w_favorites w1). f_user r \<noteq> uint u"
    "i \<in> c_id ` set (w_comics w1)"
    using assms(1,2,5,17) u by (auto simp: w1_def world_ok_def q_def)
  from first_favorite [OF this(1-3) user user this(4), of e] reg show ?thesis by blast
qed

text \<open>A token of the first user, for the examples.\<close>

definition first_lib :: jwt_lib where
  "first_lib = one_token_lib ''s'' (user_claims 3600000000000 7000 1)"

definition first_env :: environment where
  "first_env = demo_env\<lparr>e_auth := demo_auth\<lparr>as_jwt := first_lib\<rparr>\<rparr>"

lemma new_user_story_witness:
  "\<exists>w2 :: world. fst (public first_lib demo_config first_env demo_moment
      (api_request ''GET'' [''api'', ''mycomics''] (''Token '' @ ''t0.t1.t2'') None) w2) =
    res_Json (favoritesListResponse [\<lparr>fi_comic_id = 5, fi_created_at_unix = 0\<rparr>]) 200"
proof -
  have w: "fav_inv (w_favorites demo_world)" "auth_inv (w_auth demo_world)" "auth_seq (w_auth demo_world) \<le> 4294967295"
    "\<forall>r \<in> set (w_favorites demo_world). f_user r < auth_seq (w_auth demo_world)"
    using auth_empty_inv by (simp_all add: demo_world_def fav_inv_def auth_empty_def)
  have a: "as_db (e_auth first_env) = auth_storage no_faults 7 alone None" "as_jwt (e_auth first_env) = first_lib"
    "as_secret (e_auth first_env) = AuthJWTSecret demo_config"
    "bcrypt_generate (as_bcrypt (e_auth first_env)) ''pw'' = Inr ''hpw''"
    by (simp_all add: first_env_def demo_env_def demo_auth_def demo_config_def demo_bcrypt_def)
  have v: "''a@b.io'' \<notin> h_email ` set (auth_hub (w_auth demo_world))" "''pw'' \<noteq> []" "''t0.t1.t2'' \<noteq> []"
    by (simp_all add: demo_world_def auth_empty_def)
  have m: "validateEmail ''a@b.io'' = Inr ()" and t: "TrimSpace ''t0.t1.t2'' = ''t0.t1.t2''"
    by (code_simp, code_simp)
  have j: "jwt_faithful first_lib ''HS256'' (AuthJWTSecret demo_config)
      (user_claims (as_ttl (e_auth first_env)) (e_now first_env * 1000) (uint32 (auth_seq (w_auth demo_world)))) ''t0.t1.t2''"
    using one_token_faithful [of "''s''" "user_claims 3600000000000 7000 1"]
    by (simp add: first_lib_def demo_config_def first_env_def demo_env_def demo_auth_def demo_world_def auth_empty_def uint32_def)
  have n: "mo_now demo_moment < NewNumericDate (e_now first_env * 1000 + as_ttl (e_auth first_env)) * 1000000000"
    by (simp add: demo_moment_def NewNumericDate_def first_env_def demo_env_def demo_auth_def)
  have c: "5 \<in> c_id ` set (w_comics demo_world)" by (simp add: demo_world_def demo_table_def)
  have s: "e_now first_env div 1000000 = 0" "int32 5 = 5"
    by (simp_all add: first_env_def demo_env_def int32_def)
  from new_user_story [OF demo_world_ok w a v(1) m v(2) j t v(3) n c] obtain w2 where
    "public first_lib demo_config first_env demo_moment
      (api_request ''GET'' [''api'', ''mycomics''] (''Token '' @ ''t0.t1.t2'') None) w2 =
      (res_Json (favoritesListResponse [\<lparr>fi_comic_id = int32 5, fi_created_at_unix = e_now first_env div 1000000\<rparr>]) 200, w2)"
    by blast
  then show ?thesis unfolding s by (intro exI [of _ w2]) simp
qed

text \<open>C40: What the gateway says of a busy updater and of an empty database: while an update runs, another
  \<open>POST /api/db/update\<close> of the superuser answers 202, but \<open>DELETE /api/db\<close> answers 500, and neither
  changes anything; and as long as no comic is stored, \<open>GET /api/comics/random\<close> answers 500, where the
  list of comics answers 200 with no comics.\<close>

theorem busy_and_empty_answers:
  "(is_superuser lib (mo_now mo) (api_request m path a b) \<and> w_running w \<longrightarrow>
      public lib cfg e mo (api_request ''POST'' [''api'', ''db'', ''update''] a b) w =
        (res_Json (updateStatusResponse ''already running'') 202, w) \<and>
      public lib cfg e mo (api_request ''DELETE'' [''api'', ''db''] a b) w =
        (res_Json (errorResponse ''internal error'') 500, w)) \<and>
   (w_comics w = [] \<longrightarrow>
      public lib cfg e mo (api_request ''GET'' [''api'', ''comics'', ''random''] a b) w =
        (res_Json (errorResponse ''internal error'') 500, w) \<and>
      public lib cfg e mo (api_request ''GET'' [''api'', ''comics''] a b) w =
        (res_Json (searchResponse [] 0) 200, w))"
proof (intro conjI impI; (elim conjE)?)
  assume s: "is_superuser lib (mo_now mo) (api_request m path a b)" and busy: "w_running w"
  have s': "is_superuser lib (mo_now mo) (api_request m' path' a b)" for m' path'
    using s by (simp add: is_superuser_def readToken_def)
  have r: "find_route public_routes ''POST'' [''api'', ''db'', ''update''] = Some (EP_Update, [])"
    "find_route public_routes ''DELETE'' [''api'', ''db''] = Some (EP_Drop, [])"
    by code_simp+
  note port = world_ports_def update_client_def world_update_stub_def endpoint_handler_def RequireSuperuser_eq
  show "public lib cfg e mo (api_request ''POST'' [''api'', ''db'', ''update''] a b) w =
      (res_Json (updateStatusResponse ''already running'') 202, w)"
    using busy by (simp add: public_eq r port s' NewUpdateHandler_def api_update_Update_def world_update_def
        update_server_Update_def)
  show "public lib cfg e mo (api_request ''DELETE'' [''api'', ''db''] a b) w =
      (res_Json (errorResponse ''internal error'') 500, w)"
    using busy by (simp add: public_eq r port s' NewDropHandler_def api_update_Drop_def world_drop_def Update_Drop_def
        update_server_Drop_def other_status_def unavailable_code_def)
next
  assume empty: "w_comics w = []"
  show "public lib cfg e mo (api_request ''GET'' [''api'', ''comics'', ''random''] a b) w =
      (res_Json (errorResponse ''internal error'') 500, w)"
    "public lib cfg e mo (api_request ''GET'' [''api'', ''comics''] a b) w = (res_Json (searchResponse [] 0) 200, w)"
    using empty_answers [OF empty] by auto
qed

lemma busy_and_empty_answers_witness:
  "public super_lib demo_config demo_env demo_moment (api_request ''DELETE'' [''api'', ''db''] ''Token t0.t1.t2'' None)
     (demo_world\<lparr>w_running := True\<rparr>) =
   (res_Json (errorResponse ''internal error'') 500, demo_world\<lparr>w_running := True\<rparr>)"
proof -
  have "is_superuser super_lib (mo_now demo_moment) (api_request [] [] ''Token t0.t1.t2'' None)" by code_simp
  then show ?thesis
    using busy_and_empty_answers [of super_lib demo_moment "[]" "[]" "''Token t0.t1.t2''" None
        "demo_world\<lparr>w_running := True\<rparr>" demo_config demo_env] by simp
qed

end
