(* ===== verification/ApiInvariant.thy ===== *)
theory ApiInvariant
  imports ApiSystem
begin

text \<open>
  The constraints of all tables under any history of requests to the two servers, of comics stored by a
  running update and of rebuilds of the index, whatever the databases' errors are.
\<close>

section \<open>What a run of the updater does to the table\<close>

lemma upd_reach_table_inv:
  assumes "upd_reach cfg t s" and "table_inv t" and "cfg_add cfg = storage_Add None now"
  shows "table_inv (store s)"
  using assms(1) unfolding upd_reach_def
proof (induction rule: rtranclp_induct)
  case base
  then show ?case using assms(2) by (simp add: upd_init_def)
next
  case (step s s')
  have job: "table_inv (run_job cfg j (store s))" for j
    using step.IH storage_Add_effect(1) assms(3) by (simp add: run_job_def worker_job_eq split: option.splits)
  from step.hyps(2) step.IH job show ?case by (cases rule: upd_step.cases) simp_all
qed

lemma Update_call_table_inv:
  assumes "Update_call (Update_begin get norm (storage_Add None now) n busy last_id ids) t pool res t'" and "table_inv t"
  shows "table_inv t'"
  using assms(1)
proof (cases rule: Update_call.cases)
  case (finished cfg s)
  then have "cfg_add cfg = storage_Add None now" by (auto simp: Update_begin_def split: if_splits sum.splits)
  with finished assms(2) show ?thesis by (auto intro: upd_reach_table_inv)
next
  case (interrupted cfg s err)
  then have "cfg_add cfg = storage_Add None now" by (auto simp: Update_begin_def split: if_splits sum.splits)
  with interrupted assms(2) show ?thesis by (auto intro: upd_reach_table_inv)
qed (use assms(2) in simp)

section \<open>Steps of the system\<close>

text \<open>
  An environment that keeps to the code: the auth service over its storage, with any errors of the
  database and other clients that commit whole transactions, and runs of \<open>Update\<close> over the table.
\<close>

definition sound_env :: "environment \<Rightarrow> bool" where
  "sound_env e =
     ((\<exists>faults now other fault. as_db (e_auth e) = auth_storage faults now other fault \<and>
         others_ok other) \<and>
      (\<forall>t. \<exists>get norm now n ids pool.
         Update_call (Update_begin get norm (storage_Add None now) n False (e_last e) ids) t pool
           (fst (e_run e t)) (snd (e_run e t))))"

inductive world_step :: "jwt_lib \<Rightarrow> api_config \<Rightarrow> world \<Rightarrow> world \<Rightarrow> bool" for lib cfg where
  public_request: "sound_env e \<Longrightarrow> world_step lib cfg w (snd (serve public_routes lib cfg (world_ports e) mo rq w))"
| internal_request: "sound_env e \<Longrightarrow> world_step lib cfg w (snd (serve internal_routes lib cfg (world_ports e) mo rq w))"
| update_begins: "\<not> w_running w \<Longrightarrow> world_step lib cfg w (w\<lparr>w_running := True\<rparr>)"
| comic_stored: "w_running w \<Longrightarrow>
    world_step lib cfg w (w\<lparr>w_comics := snd (storage_Add None now c (w_comics w))\<rparr>)"
| update_ends: "w_running w \<Longrightarrow> world_step lib cfg w (w\<lparr>w_running := False\<rparr>)"
| index_rebuilt: "world_step lib cfg w (w\<lparr>w_index := svc_index (rebuild_from (search_storage None (w_comics w))
    \<lparr>svc_db = search_storage None (w_comics w), svc_words = (\<lambda>p. Inr []), svc_index = w_index w\<rparr>)\<rparr>)"

definition world_start :: world where
  "world_start = \<lparr>w_comics = [], w_index = NewInvertedIndex, w_favorites = [], w_auth = auth_empty, w_running = False\<rparr>"

definition world_reach :: "jwt_lib \<Rightarrow> api_config \<Rightarrow> world \<Rightarrow> bool" where
  "world_reach lib cfg w = (world_step lib cfg)\<^sup>*\<^sup>* world_start w"

definition world_inv :: "world \<Rightarrow> bool" where
  "world_inv w =
     (table_inv (w_comics w) \<and> fav_inv (w_favorites w) \<and> auth_inv (w_auth w) \<and>
      (\<exists>t. table_inv t \<and> w_index w = Build (table_comics t) NewInvertedIndex))"

section \<open>Every port keeps the constraints\<close>

lemma auth_effects:
  "snd (au_Register (pt_auth (world_ports e)) email pw w) =
     w\<lparr>w_auth := snd (auth_server_Register (e_auth e) (e_now e * 1000) email pw (w_auth w))\<rparr>"
  "snd (au_BotLoginTelegram (pt_auth (world_ports e)) tg w) =
     w\<lparr>w_auth := snd (auth_server_BotLoginTelegram (e_auth e) (e_now e * 1000) (Some tg) (w_auth w))\<rparr>"
  by (simp_all add: world_ports_def auth_client_def api_auth_Register_def api_auth_BotLoginTelegram_def
      world_auth_stub_def Let_def split: prod.splits sum.splits)

lemma Register_state:
  "snd (auth_server_Register s t email pw d) = d \<or>
   (\<exists>p. snd (auth_server_Register s t email pw d) = snd (ap_Create (as_db s) p d))"
  by (auto simp: auth_server_Register_def Auth_Register_def split: prod.splits sum.splits) (metis snd_conv)+

lemma BotLoginTelegram_state:
  "snd (auth_server_BotLoginTelegram s t req d) = d \<or>
   (\<exists>p. snd (auth_server_BotLoginTelegram s t req d) = snd (ap_Upsert (as_db s) p d))"
  by (auto simp: auth_server_BotLoginTelegram_def Auth_BotLoginTelegram_def
      split: prod.splits sum.splits option.splits) (metis snd_conv)+

lemma auth_kept:
  assumes "sound_env e" and "auth_inv d"
  shows "auth_inv (snd (auth_server_Register (e_auth e) t email pw d))"
    and "auth_inv (snd (auth_server_BotLoginTelegram (e_auth e) t req d))"
proof -
  obtain faults now other fault where db: "as_db (e_auth e) = auth_storage faults now other fault"
    and other: "others_ok other"
    using assms(1) unfolding sound_env_def by blast
  have "auth_inv (snd (ap_Create (as_db (e_auth e)) p d))" "auth_inv (snd (ap_Upsert (as_db (e_auth e)) q d))" for p q
    using CreateComicshubUser_among [OF assms(2) other prod.collapse [symmetric]]
      UpsertTelegramUser_among [OF assms(2) other prod.collapse [symmetric]]
    by (simp_all add: db auth_storage_def)
  then show "auth_inv (snd (auth_server_Register (e_auth e) t email pw d))"
    "auth_inv (snd (auth_server_BotLoginTelegram (e_auth e) t req d))"
    using assms(2) Register_state [of "e_auth e" t email pw d]
      BotLoginTelegram_state [of "e_auth e" t req d] by auto
qed

lemma favorites_effects:
  "snd (fv_Add (pt_favorites (world_ports e)) u c w) =
     w\<lparr>w_favorites := snd (fav_server_Add (fav_storage None (e_now e)) u c (w_favorites w))\<rparr>"
  "snd (fv_Delete (pt_favorites (world_ports e)) u c w) =
     w\<lparr>w_favorites := snd (fav_server_Delete (fav_storage None (e_now e)) u c (w_favorites w))\<rparr>"
  by (simp_all add: world_ports_def favorites_client_def api_favorites_Add_def api_favorites_Delete_def
      world_favorites_stub_def Let_def split: prod.splits sum.splits)

lemma update_effects:
  "snd (up_Update (pt_update (world_ports e)) w) =
     (if w_running w then w else w\<lparr>w_comics := snd (e_run e (w_comics w))\<rparr>)"
  "snd (up_Drop (pt_update (world_ports e)) w) = (if w_running w then w else w\<lparr>w_comics := [], w_running := False\<rparr>)"
  by (simp_all add: world_ports_def update_client_def api_update_Update_def api_update_Drop_def world_update_stub_def
      world_update_def world_drop_def Update_Drop_def storage_Drop_def split: prod.splits sum.splits)

lemma run_kept: "sound_env e \<Longrightarrow> table_inv t \<Longrightarrow> table_inv (snd (e_run e t))"
  unfolding sound_env_def by (metis Update_call_table_inv)

lemma endpoint_kept:
  assumes "sound_env e" and "world_inv w"
  shows "world_inv (snd (endpoint_handler lib cfg (world_ports e) mo ep rq w))"
proof -
  have fav: "fav_inv (snd (fav_server_Add (fav_storage None (e_now e)) u k (w_favorites w)))"
    "fav_inv (snd (fav_server_Delete (fav_storage None (e_now e)) u k (w_favorites w)))" for u k
    using assms(2) fs.server_Add_favs(2) fs.server_Delete_favs(2) by (simp_all add: world_inv_def)
  have none: "table_inv []" by (simp add: table_inv_def)
  have "world_inv (snd (up_Update (pt_update (world_ports e)) w))" "world_inv (snd (up_Drop (pt_update (world_ports e)) w))"
    using assms(2) run_kept [OF assms(1)] none by (simp_all add: update_effects world_inv_def)
  moreover have "world_inv (snd (fv_Add (pt_favorites (world_ports e)) u k w))"
    "world_inv (snd (fv_Delete (pt_favorites (world_ports e)) u k w))" for u k
    using assms(2) fav by (simp_all add: favorites_effects world_inv_def)
  moreover have "world_inv (snd (au_Register (pt_auth (world_ports e)) em pw w))"
    "world_inv (snd (au_BotLoginTelegram (pt_auth (world_ports e)) tg w))" for em pw tg
    using assms(2) auth_kept [OF assms(1)] by (simp_all add: auth_effects world_inv_def)
  ultimately show ?thesis
    using endpoint_effects [of lib cfg "world_ports e" mo ep rq w] assms(2) by auto
qed

lemma serve_kept:
  "sound_env e \<Longrightarrow> world_inv w \<Longrightarrow> world_inv (snd (serve routes lib cfg (world_ports e) mo rq w))"
  by (auto simp: serve_def endpoint_kept split: option.splits)

lemma world_inv_step: "world_step lib cfg w w' \<Longrightarrow> world_inv w \<Longrightarrow> world_inv w'"
proof (induction rule: world_step.induct)
  case (index_rebuilt w)
  have "svc_index (rebuild_from (search_storage None (w_comics w)) s) = Build (table_comics (w_comics w)) NewInvertedIndex"
    for s
    using Build_indep [of _ "svc_index s" NewInvertedIndex]
    by (simp add: rebuild_from_index search_storage_def storage_All_def rows_to_comics_eq table_comics_def comp_def)
  then show ?case using index_rebuilt by (auto simp: world_inv_def)
qed (auto simp: serve_kept, auto simp: world_inv_def storage_Add_effect)

lemma world_inv_reach: "world_reach lib cfg w \<Longrightarrow> world_inv w"
  unfolding world_reach_def
proof (induction rule: rtranclp_induct)
  case base
  have "NewInvertedIndex = Build (table_comics []) NewInvertedIndex"
    by (simp add: Build_def table_comics_def NewInvertedIndex_def)
  then show ?case
    using auth_empty_inv by (auto simp: world_inv_def world_start_def table_inv_def fav_inv_def intro!: exI [of _ "[]"])
qed (rule world_inv_step)

section \<open>Properties\<close>

text \<open>C14: The constraints always hold: from the empty system, after any history of requests to the public
  and the internal server, of comics stored by a running update and of rebuilds, with any errors of
  the auth database and any transactions of its other clients, ids of comics are unique and fit the
  column, no favorite is there twice, emails and chats belong to one user each, every user has an
  account, and the index is one of a table with unique ids.\<close>

theorem constraints_always_hold:
  assumes "world_reach lib cfg w"
  shows "table_inv (w_comics w) \<and> fav_inv (w_favorites w) \<and> auth_inv (w_auth w) \<and>
    (\<exists>t. table_inv t \<and> w_index w = Build (table_comics t) NewInvertedIndex)"
  using world_inv_reach [OF assms] by (simp add: world_inv_def)

definition offline_env :: environment where
  "offline_env = demo_env\<lparr>e_last := Inl (Plain ''offline''), e_run := (\<lambda>t. (Inl (Plain ''offline''), t))\<rparr>"

lemma offline_sound: "sound_env offline_env"
proof -
  have "as_db (e_auth offline_env) = auth_storage no_faults 7 alone None"
    by (simp add: offline_env_def demo_env_def demo_auth_def)
  moreover have "others_ok alone" by (rule others_ok_alone)
  moreover have "Update_call (Update_begin get norm (storage_Add None now) n False (e_last offline_env) ids) t None
      (fst (e_run offline_env t)) (snd (e_run offline_env t))" for get norm now n ids t
    by (simp add: offline_env_def Update_begin_def Update_call.early)
  ultimately show ?thesis unfolding sound_env_def by blast
qed

definition first_request :: http_request where
  "first_request = \<lparr>rq_method = ''POST'', rq_path = [''api'', ''auth'', ''register''], rq_query = (\<lambda>_. []),
     rq_pathvalue = (\<lambda>_. []), rq_authorization = [],
     rq_body = Some (JObject [(''email'', JString ''a@b.io''), (''password'', JString ''pw'')]), rq_user = None\<rparr>"

lemma constraints_always_hold_witness:
  "\<exists>w :: world. auth_inv (w_auth w) \<and> map h_email (auth_hub (w_auth w)) = [''a@b.io'']"
proof -
  let ?w = "snd (serve public_routes demo_jwt demo_config (world_ports offline_env) demo_moment first_request world_start)"
  have "world_reach demo_jwt demo_config ?w"
    unfolding world_reach_def by (rule r_into_rtranclp, rule public_request [OF offline_sound])
  from constraints_always_hold [OF this] have "auth_inv (w_auth ?w)" by blast
  moreover have "map h_email (auth_hub (w_auth ?w)) = [''a@b.io'']" by code_simp
  ultimately show ?thesis by (rule exI [of _ ?w, OF conjI])
qed

end
