(* ===== verification/ApiPrivacy.thy ===== *)
theory ApiPrivacy
  imports ApiUsers ApiInvariant
begin

text \<open>
  Users do not see each other: what a client gets to know does not depend on what other users do with
  their favorites. Stated as noninterference over histories of requests to both servers, with the
  requests of the other users purged.
\<close>

section \<open>Histories\<close>

text \<open>A request to the public or to the internal server, with what the environment decides for it.\<close>

datatype visit = Visit (v_public: bool) (v_env: environment) (v_moment: moment) (v_request: http_request)

definition routes_of :: "visit \<Rightarrow> route list" where
  "routes_of x = (if v_public x then public_routes else internal_routes)"

definition answer :: "jwt_lib \<Rightarrow> api_config \<Rightarrow> visit \<Rightarrow> world \<Rightarrow> http_response \<times> world" where
  "answer lib cfg x w = serve (routes_of x) lib cfg (world_ports (v_env x)) (v_moment x) (v_request x) w"

definition after :: "jwt_lib \<Rightarrow> api_config \<Rightarrow> visit list \<Rightarrow> world \<Rightarrow> world" where
  "after lib cfg xs w = fold (\<lambda>x w. snd (answer lib cfg x w)) xs w"

text \<open>The user whose favorites a request is about: the one its token names, on the routes of favorites.\<close>

definition favorites_user :: "jwt_lib \<Rightarrow> api_config \<Rightarrow> visit \<Rightarrow> u32 option" where
  "favorites_user lib cfg x =
     (case find_route (routes_of x) (rq_method (v_request x)) (rq_path (v_request x)) of
        None \<Rightarrow> None
      | Some (ep, _) \<Rightarrow>
          if ep \<in> {EP_FavList, EP_FavAdd, EP_FavDelete}
          then user_of lib (AuthJWTSecret cfg) (mo_now (v_moment x)) (v_request x) else None)"

definition purge :: "jwt_lib \<Rightarrow> api_config \<Rightarrow> u32 \<Rightarrow> visit list \<Rightarrow> visit list" where
  "purge lib cfg v xs = filter (\<lambda>x. favorites_user lib cfg x \<in> {None, Some v}) xs"

section \<open>Worlds that look the same to a user\<close>

definition own :: "u32 \<Rightarrow> fav_table \<Rightarrow> fav_table" where
  "own v t = filter (\<lambda>r. f_user r = uint v) t"

abbreviation with_favs :: "fav_table \<Rightarrow> world \<Rightarrow> world" where
  "with_favs t w \<equiv> w\<lparr>w_favorites := t\<rparr>"

definition alike :: "u32 \<Rightarrow> fav_table \<Rightarrow> fav_table \<Rightarrow> bool" where
  "alike v t t' = (own v t = own v t' \<and> fav_inv t \<and> fav_inv t')"

lemma own_member: "(v, c) \<in> table_favs t \<longleftrightarrow> sint c \<in> f_comic ` set (own v t)"
  by (force simp: in_table_favs own_def fav_key_def)

lemma alike_member: "alike v t t' \<Longrightarrow> (v, c) \<in> table_favs t \<longleftrightarrow> (v, c) \<in> table_favs t'"
  by (simp add: own_member alike_def)

lemma own_add: "own v (t @ [r]) = own v t @ (if f_user r = uint v then [r] else [])"
  by (simp add: own_def)

lemma own_filter: "own v (filter P t) = filter P (own v t)"
  by (simp add: own_def conj_commute)

lemmas fav_ports = world_ports_def favorites_client_def api_favorites_Add_def api_favorites_Delete_def
  api_favorites_List_def world_favorites_stub_def Let_def

lemma fav_db_ops [simp]:
  "fdb_Add (fav_storage None now) u c t =
     (if (u, c) \<in> table_favs t then (Inl (Sentinel Fav_ErrAlreadyExists), t)
      else (Inr (), t @ [\<lparr>f_user = uint u, f_comic = sint c, f_created = now\<rparr>]))"
  "fdb_Delete (fav_storage None now) u c t =
     (if (u, c) \<in> table_favs t then Inr () else Inl (Sentinel Fav_ErrNotFound),
      filter (\<lambda>r. fav_key r \<noteq> (uint u, sint c)) t)"
  by (simp_all add: fav_storage_def fav_storage_Add_None fav_storage_Delete_None)

text \<open>Requests of the user: the answers are the same and the tables stay alike.\<close>

lemma fav_server_alike:
  assumes "alike v t t'"
  shows "fst (fav_server_Add (fav_storage None now) v c t) = fst (fav_server_Add (fav_storage None now) v c t')"
    and "alike v (snd (fav_server_Add (fav_storage None now) v c t)) (snd (fav_server_Add (fav_storage None now) v c t'))"
    and "fst (fav_server_Delete (fav_storage None now) v c t) = fst (fav_server_Delete (fav_storage None now) v c t')"
    and "alike v (snd (fav_server_Delete (fav_storage None now) v c t))
           (snd (fav_server_Delete (fav_storage None now) v c t'))"
    and "fav_server_List (fav_storage None now) v t = fav_server_List (fav_storage None now) v t'"
proof -
  have inv: "fav_inv t" "fav_inv t'" and o: "own v t = own v t'" using assms by (simp_all add: alike_def)
  note m = alike_member [OF assms, of c]
  note srv = fs.server_Add [OF inv(1)] fs.server_Add [OF inv(2)] fs.server_Delete [OF inv(1)] fs.server_Delete [OF inv(2)]
  show "fst (fav_server_Add (fav_storage None now) v c t) = fst (fav_server_Add (fav_storage None now) v c t')"
    "fst (fav_server_Delete (fav_storage None now) v c t) = fst (fav_server_Delete (fav_storage None now) v c t')"
    using m by (simp_all add: srv)
  have "own v (snd (fav_server_Add (fav_storage None now) v c t)) = own v (snd (fav_server_Add (fav_storage None now) v c t'))"
    "own v (snd (fav_server_Delete (fav_storage None now) v c t)) = own v (snd (fav_server_Delete (fav_storage None now) v c t'))"
    using m o by (simp_all add: srv own_add own_filter)
  then show "alike v (snd (fav_server_Add (fav_storage None now) v c t)) (snd (fav_server_Add (fav_storage None now) v c t'))"
    "alike v (snd (fav_server_Delete (fav_storage None now) v c t)) (snd (fav_server_Delete (fav_storage None now) v c t'))"
    using inv fs.server_Add_favs(2) fs.server_Delete_favs(2) by (simp_all add: alike_def)
  show "fav_server_List (fav_storage None now) v t = fav_server_List (fav_storage None now) v t'"
    using o by (simp add: fav_server_List_def Fav_List_def fav_storage_def fav_storage_List_None [OF inv(1)]
        fav_storage_List_None [OF inv(2)] own_def)
qed

text \<open>Requests of others leave the rows of the user.\<close>

lemma fav_server_others:
  assumes "fav_inv t" and "u \<noteq> v"
  shows "alike v t (snd (fav_server_Add (fav_storage None now) u c t))"
    and "alike v t (snd (fav_server_Delete (fav_storage None now) u c t))"
proof -
  have ne: "uint u \<noteq> uint v" using assms(2) by (simp add: uint_eq_u32)
  then have f: "filter (\<lambda>r. fav_key r \<noteq> (uint u, sint c)) (own v t) = own v t"
    by (intro filter_True) (simp add: own_def fav_key_def)
  show "alike v t (snd (fav_server_Add (fav_storage None now) u c t))"
    "alike v t (snd (fav_server_Delete (fav_storage None now) u c t))"
    using assms(1) ne f fs.server_Add_favs(2) [OF assms(1), of now u c] fs.server_Delete_favs(2) [OF assms(1), of now u c]
    by (simp_all add: alike_def fs.server_Add [OF assms(1)] fs.server_Delete [OF assms(1)] own_add own_filter)
qed

section \<open>Handlers that do not look at favorites\<close>

definition blind :: "world handler \<Rightarrow> bool" where
  "blind h = (\<forall>rq w t. h rq (with_favs t w) = apsnd (with_favs t) (h rq w))"

lemma blind_reads: "(\<And>rq w t. h rq (with_favs t w) = h rq w) \<Longrightarrow> blind (reads h)"
  by (simp add: blind_def reads_def)

lemma blind_wrappers:
  assumes "blind h"
  shows "blind (WithConcurrencyLimit n held h)" and "blind (WithRateLimit n waited h)"
    and "blind (RequireSuperuser lib now h)"
  using assms by (simp_all add: blind_def WithConcurrencyLimit_def WithRateLimit_def RequireSuperuser_eq)

lemma world_search_blind [simp]: "world_search e (with_favs t w) = world_search e w"
  by (simp add: world_search_def)

lemma search_blind [simp]:
  "se_Find (pt_search (world_ports e)) ph l (with_favs t w) = se_Find (pt_search (world_ports e)) ph l w"
  "se_IndexedSearch (pt_search (world_ports e)) ph l (with_favs t w) = se_IndexedSearch (pt_search (world_ports e)) ph l w"
  "se_Ping (pt_search (world_ports e)) (with_favs t w) = se_Ping (pt_search (world_ports e)) w"
  "se_GetComic (pt_search (world_ports e)) i (with_favs t w) = se_GetComic (pt_search (world_ports e)) i w"
  "se_RandomComic (pt_search (world_ports e)) (with_favs t w) = se_RandomComic (pt_search (world_ports e)) w"
  "se_ListComics (pt_search (world_ports e)) pg l (with_favs t w) = se_ListComics (pt_search (world_ports e)) pg l w"
  by (simp_all add: world_ports_def search_client_def world_search_stub_def api_search_Find_def
      api_search_IndexedSearch_def api_search_Ping_def api_search_GetComic_def api_search_RandomComic_def
      api_search_ListComics_def)

lemma other_ports_blind [simp]:
  "up_Stats (pt_update (world_ports e)) (with_favs t w) = up_Stats (pt_update (world_ports e)) w"
  "up_Status (pt_update (world_ports e)) (with_favs t w) = up_Status (pt_update (world_ports e)) w"
  "up_Ping (pt_update (world_ports e)) (with_favs t w) = up_Ping (pt_update (world_ports e)) w"
  "up_Update (pt_update (world_ports e)) (with_favs t w) = apsnd (with_favs t) (up_Update (pt_update (world_ports e)) w)"
  "up_Drop (pt_update (world_ports e)) (with_favs t w) = apsnd (with_favs t) (up_Drop (pt_update (world_ports e)) w)"
  "au_Register (pt_auth (world_ports e)) em pw (with_favs t w) = apsnd (with_favs t) (au_Register (pt_auth (world_ports e)) em pw w)"
  "au_Login (pt_auth (world_ports e)) em pw (with_favs t w) = au_Login (pt_auth (world_ports e)) em pw w"
  "au_BotLoginTelegram (pt_auth (world_ports e)) tg (with_favs t w) =
     apsnd (with_favs t) (au_BotLoginTelegram (pt_auth (world_ports e)) tg w)"
  "au_Ping (pt_auth (world_ports e)) (with_favs t w) = au_Ping (pt_auth (world_ports e)) w"
  "fv_Ping (pt_favorites (world_ports e)) (with_favs t w) = fv_Ping (pt_favorites (world_ports e)) w"
  "pt_words_Ping (world_ports e) (with_favs t w) = pt_words_Ping (world_ports e) w"
  by (simp_all add: world_ports_def update_client_def world_update_stub_def api_update_Stats_def api_update_Status_def
      api_update_Ping_def api_update_Update_def api_update_Drop_def world_update_def world_drop_def Update_Drop_def
      auth_client_def world_auth_stub_def api_auth_Register_def api_auth_Login_def api_auth_BotLoginTelegram_def
      api_auth_Ping_def favorites_client_def world_favorites_stub_def api_favorites_Ping_def api_words_Ping_def Let_def
      split: prod.splits sum.splits)

lemma effects_blind:
  "blind (NewUpdateHandler (pt_update (world_ports e)))" "blind (NewDropHandler (pt_update (world_ports e)))"
  "blind (NewRegisterHandler (pt_auth (world_ports e)))" "blind (NewBotTelegramLoginHandler (pt_auth (world_ports e)))"
proof -
  show "blind (NewUpdateHandler (pt_update (world_ports e)))"
    by (auto simp: blind_def NewUpdateHandler_def apsnd_def map_prod_def split: prod.splits sum.splits)
  show "blind (NewDropHandler (pt_update (world_ports e)))"
    by (auto simp: blind_def NewDropHandler_def apsnd_def map_prod_def split: prod.splits sum.splits)
  show "blind (NewRegisterHandler (pt_auth (world_ports e)))"
    by (auto simp: blind_def NewRegisterHandler_def apsnd_def map_prod_def split: prod.splits sum.splits option.splits)
  show "blind (NewBotTelegramLoginHandler (pt_auth (world_ports e)))"
    by (auto simp: blind_def NewBotTelegramLoginHandler_def apsnd_def map_prod_def split: prod.splits sum.splits option.splits)
qed

lemma queries_blind:
  "blind (NewPingHandler (pingmap (world_ports e)))" "blind (NewSearchHandler (pt_search (world_ports e)))"
  "blind (NewIndexedSearchHandler (pt_search (world_ports e)))" "blind (NewComicsListHandler (pt_search (world_ports e)))"
  "blind (NewComicByIDHandler (pt_search (world_ports e)))" "blind (NewRandomComicHandler (pt_search (world_ports e)))"
  "blind (NewUpdateStatsHandler (pt_update (world_ports e)))" "blind (NewUpdateStatusHandler (pt_update (world_ports e)))"
  "blind (NewUserLoginHandler (pt_auth (world_ports e)))"
  "blind (reads (\<lambda>rq w. NewLoginHandler lib u p ttl now rq))"
  by (simp_all add: NewPingHandler_def pingmap_def NewSearchHandler_def NewIndexedSearchHandler_def NewComicsListHandler_def
      NewComicByIDHandler_def NewRandomComicHandler_def NewUpdateStatsHandler_def NewUpdateStatusHandler_def
      NewUserLoginHandler_def blind_def reads_def Let_def split: option.split)

lemma endpoint_blind:
  assumes "ep \<notin> {EP_FavList, EP_FavAdd, EP_FavDelete}"
  shows "blind (endpoint_handler lib cfg (world_ports e) mo ep)"
  using assms by (cases ep) (simp_all add: endpoint_handler_def effects_blind queries_blind blind_wrappers)

section \<open>Unwinding\<close>

text \<open>Two outcomes with the same answer that leave worlds alike.\<close>

definition same :: "u32 \<Rightarrow> 'a \<times> world \<Rightarrow> 'a \<times> world \<Rightarrow> bool" where
  "same v r r' = (fst r = fst r' \<and> (\<exists>t'. snd r' = with_favs t' (snd r) \<and> alike v (w_favorites (snd r)) t'))"

lemma same_refl: "fav_inv (w_favorites w) \<Longrightarrow> alike v (w_favorites w) t' \<Longrightarrow> same v (r, w) (r, with_favs t' w)"
  by (auto simp: same_def)

lemma favorites_same:
  assumes "alike v (w_favorites w) t'"
  shows "same v (fv_Add (pt_favorites (world_ports e)) v c w) (fv_Add (pt_favorites (world_ports e)) v c (with_favs t' w))"
    and "same v (fv_Delete (pt_favorites (world_ports e)) v c w)
           (fv_Delete (pt_favorites (world_ports e)) v c (with_favs t' w))"
    and "fv_List (pt_favorites (world_ports e)) v (with_favs t' w) = fv_List (pt_favorites (world_ports e)) v w"
  using fav_server_alike(1-4) [OF assms, where now = "e_now e" and c = c] fav_server_alike(5) [OF assms, where now = "e_now e"]
  by (auto simp: fav_ports same_def split: prod.splits sum.splits)

lemma add_handler_same:
  assumes "alike v (w_favorites w) t'" and "rq_user rq = Some v"
  shows "same v (NewFavoritesAddHandler (pt_favorites (world_ports e)) (pt_search (world_ports e)) rq w)
    (NewFavoritesAddHandler (pt_favorites (world_ports e)) (pt_search (world_ports e)) rq (with_favs t' w))"
proof (cases "v = 0 \<or> (case Atoi (rq_pathvalue rq ''id'') of None \<Rightarrow> True | Some n \<Rightarrow>
      n \<le> 0 \<or> isl (se_GetComic (pt_search (world_ports e)) n w))")
  case True
  then show ?thesis using assms
    by (auto simp: NewFavoritesAddHandler_def UserIDFromContext_def same_def split: option.splits sum.splits)
next
  case False
  then obtain n c where "v \<noteq> 0" "Atoi (rq_pathvalue rq ''id'') = Some n" "\<not> n \<le> 0"
    "se_GetComic (pt_search (world_ports e)) n w = Inr c"
    by (auto simp: isl_def split: option.splits) (metis isl_def sum.exhaust)
  then show ?thesis using favorites_same(1) [OF assms(1), of e "int32 n"] assms(2)
    by (auto simp: NewFavoritesAddHandler_def UserIDFromContext_def same_def split: prod.splits sum.splits)
qed

lemma delete_handler_same:
  assumes "alike v (w_favorites w) t'" and "rq_user rq = Some v"
  shows "same v (NewFavoritesDeleteHandler (pt_favorites (world_ports e)) rq w)
    (NewFavoritesDeleteHandler (pt_favorites (world_ports e)) rq (with_favs t' w))"
proof (cases "v = 0 \<or> (case Atoi (rq_pathvalue rq ''id'') of None \<Rightarrow> True | Some n \<Rightarrow> n \<le> 0)")
  case True
  then show ?thesis using assms
    by (auto simp: NewFavoritesDeleteHandler_def UserIDFromContext_def same_def split: option.splits)
next
  case False
  then obtain n where "v \<noteq> 0" "Atoi (rq_pathvalue rq ''id'') = Some n" "\<not> n \<le> 0" by (auto split: option.splits)
  then show ?thesis using favorites_same(2) [OF assms(1), of e "int32 n"] assms(2)
    by (auto simp: NewFavoritesDeleteHandler_def UserIDFromContext_def same_def split: prod.splits sum.splits)
qed

lemma list_handler_same:
  assumes "alike v (w_favorites w) t'" and "rq_user rq = Some v"
  shows "same v (NewFavoritesListHandler (pt_favorites (world_ports e)) rq w)
    (NewFavoritesListHandler (pt_favorites (world_ports e)) rq (with_favs t' w))"
  using assms by (auto simp: NewFavoritesListHandler_def reads_def UserIDFromContext_def same_def
      favorites_same(3) [OF assms(1)])

text \<open>A request that may matter to the user is answered the same.\<close>

lemma favorites_endpoint_same:
  assumes "alike v (w_favorites w) t'" and "ep \<in> {EP_FavList, EP_FavAdd, EP_FavDelete}"
    and "user_of lib (AuthJWTSecret cfg) (mo_now mo) rq \<in> {None, Some v}"
  shows "same v (endpoint_handler lib cfg (world_ports e) mo ep rq w)
    (endpoint_handler lib cfg (world_ports e) mo ep rq (with_favs t' w))"
proof (cases "user_of lib (AuthJWTSecret cfg) (mo_now mo) rq")
  case None
  then show ?thesis using assms(1,2) by (auto simp: endpoint_handler_def RequireUser_eq same_def)
next
  case (Some u)
  then have "u = v" using assms(3) by simp
  then show ?thesis
    using assms(2) Some add_handler_same [OF assms(1)] delete_handler_same [OF assms(1)] list_handler_same [OF assms(1)]
    by (auto simp: endpoint_handler_def RequireUser_eq)
qed

lemma blind_same:
  assumes "blind h" and "alike v (w_favorites w) t'"
  shows "same v (h rq w) (h rq (with_favs t' w))"
proof -
  have "h rq w = apsnd (with_favs (w_favorites w)) (h rq w)"
    using assms(1) unfolding blind_def by (metis world.surjective world.update_convs(3))
  then have "w_favorites (snd (h rq w)) = w_favorites w"
    by (metis snd_apsnd world.select_convs(3) world.surjective world.update_convs(3))
  then show ?thesis using assms by (auto simp: blind_def same_def)
qed

lemma answer_same:
  assumes "alike v (w_favorites w) t'" and "favorites_user lib cfg x \<in> {None, Some v}"
  shows "same v (answer lib cfg x w) (answer lib cfg x (with_favs t' w))"
proof (cases "find_route (routes_of x) (rq_method (v_request x)) (rq_path (v_request x))")
  case None
  then show ?thesis using assms(1) by (auto simp: answer_def serve_def same_def)
next
  case (Some hit)
  then obtain ep b where hit: "find_route (routes_of x) (rq_method (v_request x)) (rq_path (v_request x)) = Some (ep, b)"
    by (cases hit) auto
  show ?thesis
  proof (cases "ep \<in> {EP_FavList, EP_FavAdd, EP_FavDelete}")
    case True
    then show ?thesis
      using assms(2) favorites_endpoint_same [OF assms(1) True] by (simp add: answer_def serve_def hit favorites_user_def)
  next
    case False
    then show ?thesis
      using blind_same [OF endpoint_blind [OF False] assms(1)] by (simp add: answer_def serve_def hit)
  qed
qed

text \<open>A request of another user cannot be noticed.\<close>

lemma others_unnoticed:
  assumes "fav_inv (w_favorites w)" and "favorites_user lib cfg x = Some u" and "u \<noteq> v"
  shows "\<exists>t. snd (answer lib cfg x w) = with_favs t w \<and> alike v (w_favorites w) t"
proof -
  obtain ep b where hit: "find_route (routes_of x) (rq_method (v_request x)) (rq_path (v_request x)) = Some (ep, b)"
    and fav: "ep \<in> {EP_FavList, EP_FavAdd, EP_FavDelete}"
    and u: "user_of lib (AuthJWTSecret cfg) (mo_now (v_moment x)) (v_request x) = Some u"
    using assms(2) by (auto simp: favorites_user_def split: option.splits if_splits)
  define rq where "rq = v_request x\<lparr>rq_pathvalue := (\<lambda>n. case map_of b n of None \<Rightarrow> [] | Some v \<Rightarrow> v), rq_user := None\<rparr>"
  have "user_of lib (AuthJWTSecret cfg) (mo_now (v_moment x)) rq = Some u" using u by (simp add: rq_def)
  then have "snd (answer lib cfg x w) = w \<or>
      (\<exists>k. snd (answer lib cfg x w) \<in> {snd (fv_Add (pt_favorites (world_ports (v_env x))) u k w),
         snd (fv_Delete (pt_favorites (world_ports (v_env x))) u k w)})"
    using endpoint_effects [of lib cfg "world_ports (v_env x)" "v_moment x" ep rq w] fav
    by (auto simp: answer_def serve_def hit rq_def)
  moreover have "alike v (w_favorites w) (w_favorites w)" using assms(1) by (simp add: alike_def)
  moreover note fav_server_others [OF assms(1,3), where now = "e_now (v_env x)"]
  ultimately consider "snd (answer lib cfg x w) = with_favs (w_favorites w) w" "alike v (w_favorites w) (w_favorites w)"
    | s where "snd (answer lib cfg x w) = with_favs s w" "alike v (w_favorites w) s"
    by (auto simp: favorites_effects)
  then show ?thesis by cases blast+
qed

lemma alike_trans: "alike v s t \<Longrightarrow> alike v s t' \<Longrightarrow> alike v t t'"
  by (simp add: alike_def)

lemma purged_history:
  assumes "alike v (w_favorites w) t'"
  shows "\<exists>t''. after lib cfg (purge lib cfg v xs) (with_favs t' w) = with_favs t'' (after lib cfg xs w) \<and>
    alike v (w_favorites (after lib cfg xs w)) t''"
  using assms
proof (induction xs arbitrary: w t')
  case Nil
  then show ?case by (auto simp: after_def purge_def)
next
  case (Cons x xs)
  show ?case
  proof (cases "favorites_user lib cfg x \<in> {None, Some v}")
    case True
    then obtain s where "snd (answer lib cfg x (with_favs t' w)) = with_favs s (snd (answer lib cfg x w))"
      "alike v (w_favorites (snd (answer lib cfg x w))) s"
      using answer_same [OF Cons.prems True] by (auto simp: same_def)
    then show ?thesis using Cons.IH True by (simp add: after_def purge_def)
  next
    case False
    then obtain u where u: "favorites_user lib cfg x = Some u" "u \<noteq> v" by auto
    have "fav_inv (w_favorites w)" using Cons.prems by (simp add: alike_def)
    from others_unnoticed [OF this u] obtain s where s: "snd (answer lib cfg x w) = with_favs s w" "alike v (w_favorites w) s"
      by blast
    have "alike v s t'" using alike_trans [OF s(2) Cons.prems] .
    then show ?thesis using Cons.IH [of "with_favs s w" t'] u s(1) by (simp add: after_def purge_def)
  qed
qed

section \<open>Properties\<close>

text \<open>C23: Users do not see each other's favorites: whatever has been requested at the two servers before, and
  however the environment behaves, the answer to a request that is not about the favorites of another
  user is the one it would be if no other user had ever asked for, added or deleted a favorite. So neither
  the list nor the status codes of a user's own requests tell anything about the favorites of others, and
  nobody can add or delete a favorite in the name of somebody else.\<close>

theorem favorites_are_private:
  assumes "fav_inv (w_favorites w)" and "favorites_user lib cfg x \<in> {None, Some v}"
  shows "fst (answer lib cfg x (after lib cfg xs w)) = fst (answer lib cfg x (after lib cfg (purge lib cfg v xs) w)) \<and>
    own v (w_favorites (after lib cfg xs w)) = own v (w_favorites (after lib cfg (purge lib cfg v xs) w))"
proof -
  have "alike v (w_favorites w) (w_favorites w)" using assms(1) by (simp add: alike_def)
  from purged_history [OF this, of lib cfg xs] obtain t where
    t: "after lib cfg (purge lib cfg v xs) w = with_favs t (after lib cfg xs w)" "alike v (w_favorites (after lib cfg xs w)) t"
    by auto
  show ?thesis
    using answer_same [OF t(2) assms(2)] t by (simp add: same_def alike_def)
qed

text \<open>An example: user 7 adds a comic; what a request without a token is answered does not change.\<close>

definition seven_visit :: visit where
  "seven_visit = Visit True demo_env demo_moment big_id_request"

lemma favorites_are_private_witness:
  "fst (answer user_lib demo_config (Visit True demo_env demo_moment (api_request ''GET'' [''api'', ''mycomics''] [] None))
     (after user_lib demo_config [seven_visit] demo_world)) = user_unauthorized \<and>
   own 8 (w_favorites (after user_lib demo_config [seven_visit] demo_world)) = []"
proof -
  let ?x = "Visit True demo_env demo_moment (api_request ''GET'' [''api'', ''mycomics''] [] None)"
  have f: "fav_inv (w_favorites demo_world)" by (simp add: fav_inv_def demo_world_def)
  have x: "favorites_user user_lib demo_config ?x = None" by code_simp
  have s: "favorites_user user_lib demo_config seven_visit = Some 7" by code_simp
  have p: "purge user_lib demo_config 8 [seven_visit] = []" by (simp add: purge_def s)
  have a: "fst (answer user_lib demo_config ?x demo_world) = user_unauthorized"
  proof -
    have "find_route public_routes ''GET'' [''api'', ''mycomics''] = Some (EP_FavList, [])"
      "user_of user_lib (AuthJWTSecret demo_config) (mo_now demo_moment) (api_request ''GET'' [''api'', ''mycomics''] [] None) = None"
      by code_simp+
    then show ?thesis
      by (simp add: answer_def routes_of_def serve_def endpoint_handler_def RequireUser_eq)
  qed
  show ?thesis
    using favorites_are_private [OF f, of user_lib demo_config ?x 8 "[seven_visit]"] x p a
    by (simp add: after_def own_def) (simp add: demo_world_def)
qed

end
