(* ===== verification/SystemUpdate.thy ===== *)
theory SystemUpdate
  imports ApiUsers UpdateServer
begin

text \<open>
  An update seen from outside: a request of the superuser, the run of the worker pool it starts, the
  message to the search service, and what the gateway answers afterwards. The environment of the
  gateway is tied here to the pool of \<open>UpdateWorkers\<close>, to the words service and to the subscriber.
\<close>

section \<open>Complete runs\<close>

text \<open>
  The update that a request starts in world \<open>w\<close>: the settings that \<open>Update\<close> computes from the last
  comic of xkcd, the ids of the table and the number of workers; xkcd is \<open>get\<close>, and the words service
  is the one of the environment.
\<close>

definition update_settings ::
  "environment \<Rightarrow> (int \<Rightarrow> update_err + XKCDInfo) \<Rightarrow> int \<Rightarrow> int \<Rightarrow> world \<Rightarrow> update_err + comics_table upd_cfg" where
  "update_settings e get now n w =
     Update_begin get (update_words_Norm (words_server_Norm (e_stop e) (e_stem e))) (storage_Add None now) n
       (w_running w) (e_last e) (storage_IDs None (w_comics w))"

text \<open>A run of the pool with those settings that nobody cancelled and that has returned.\<close>

definition complete_update ::
  "environment \<Rightarrow> (int \<Rightarrow> update_err + XKCDInfo) \<Rightarrow> int \<Rightarrow> int \<Rightarrow> world \<Rightarrow> comics_table upd_cfg
    \<Rightarrow> comics_table upd_state \<Rightarrow> bool" where
  "complete_update e get now n w cfg s =
     (update_settings e get now n w = Inr cfg \<and> 1 \<le> n \<and> answers_own_id cfg \<and>
      upd_reach cfg (w_comics w) s \<and> producer s = Returned None \<and> \<not> cancelled s \<and>
      e_run e (w_comics w) = (Inr (), store s))"

text \<open>The search service after it has got the message: its subscriber rebuilds the index.\<close>

definition after_message :: "environment \<Rightarrow> world \<Rightarrow> world" where
  "after_message e w = w\<lparr>w_index := svc_index (snd (subscriber_loop
     [SubMsg ''XKCD DB has been updated'' (search_storage None (w_comics w))] (world_search e w)))\<rparr>"

lemma after_message_simps [simp]:
  "w_comics (after_message e w) = w_comics w"
  "w_index (after_message e w) = Build (comics_of w) NewInvertedIndex"
  "comics_of (after_message e w) = comics_of w" "world_ok (after_message e w) = world_ok w"
  using Build_indep [of "comics_of w" "w_index w" NewInvertedIndex]
  by (simp_all add: after_message_def comics_of_def world_ok_def rebuild_from_index search_storage_def storage_All_def
      rows_to_comics_eq table_comics_def comp_def)

lemma settings_fields:
  assumes "update_settings e get now n w = Inr cfg"
  shows "cfg_get cfg = get" "cfg_norm cfg = update_words_Norm (words_server_Norm (e_stop e) (e_stem e))"
    "cfg_add cfg = storage_Add None now" "cfg_have cfg = map c_id (w_comics w)" "e_last e = Inr (cfg_latest cfg)"
    "cfg_workers cfg = nat (Update_workers n)" "\<not> w_running w"
  using assms by (auto simp: update_settings_def Update_begin_def storage_IDs_def split: if_splits sum.splits)

text \<open>Positive ids of 32 bits: fewer than \<open>2 ^ 32\<close> rows.\<close>

lemma positive_table:
  assumes "table_inv t" and "\<forall>i \<in> c_id ` set t. 0 < i"
  shows "length t < 4294967296" and "list_all (\<lambda>r. 0 < c_id r) t"
proof -
  have "c_id ` set t \<subseteq> {1..2147483647}"
    using assms by (intro image_subsetI) (fastforce simp: table_inv_def list_all_iff int4_def)
  then have "card (c_id ` set t) \<le> card {1..2147483647 :: int}" by (intro card_mono) simp_all
  moreover have "card (c_id ` set t) = length t"
    using assms(1) by (metis distinct_card length_map list.set_map table_inv_def)
  ultimately show "length t < 4294967296" by simp
qed (use assms(2) in \<open>simp add: list_all_iff\<close>)

text \<open>What the table holds after a complete update.\<close>

lemma complete_table:
  assumes "complete_update e get now n w cfg s" and "table_inv (w_comics w)"
  shows "table_inv (store s)"
    and "stored (store s) = override cfg (set (missing cfg)) (stored (w_comics w))"
proof -
  have r: "update_settings e get now n w = Inr cfg" "answers_own_id cfg" "upd_reach cfg (w_comics w) s"
    "producer s = Returned None" "\<not> cancelled s" and n: "1 \<le> n"
    using assms(1) by (simp_all add: complete_update_def)
  note c = settings_fields [OF r(1)]
  have "0 < cfg_workers cfg" using n by (simp add: c(6) Update_workers_def)
  from us.complete_run [OF c(3) r(2) assms(2) r(3) this r(4,5)] us.look_sequential(2) [OF c(3) r(2) assms(2)]
  show "stored (store s) = override cfg (set (missing cfg)) (stored (w_comics w))" by simp
  show "table_inv (store s)"
    using us.content_inv_reach [OF c(3) r(2) assms(2) r(3)] by (simp add: content_inv_def)
qed

lemma dom_stored: "dom (stored t) = c_id ` set t"
  using row_of_None [of t] by (auto simp: stored_def dom_def)

lemma missing_ids:
  assumes "update_settings e get now n w = Inr cfg"
  shows "set (missing cfg) = {1..cfg_latest cfg} - c_id ` set (w_comics w)"
  by (auto simp: set_missing settings_fields [OF assms])

lemma complete_ids:
  assumes "complete_update e get now n w cfg s" and "table_inv (w_comics w)"
  shows "c_id ` set (store s) \<subseteq> c_id ` set (w_comics w) \<union> {1..cfg_latest cfg}"
    and "\<forall>i \<in> set (missing cfg). job_row cfg i \<noteq> None \<Longrightarrow>
      c_id ` set (store s) = c_id ` set (w_comics w) \<union> {1..cfg_latest cfg}"
proof -
  have r: "update_settings e get now n w = Inr cfg" using assms(1) by (simp add: complete_update_def)
  note d = complete_table(2) [OF assms] dom_stored [symmetric]
  show "c_id ` set (store s) \<subseteq> c_id ` set (w_comics w) \<union> {1..cfg_latest cfg}"
    unfolding dom_stored [symmetric] d(1)
    by (auto simp: override_def missing_ids [OF r] split: if_splits)
  assume "\<forall>i \<in> set (missing cfg). job_row cfg i \<noteq> None"
  then have "dom (stored (store s)) = dom (stored (w_comics w)) \<union> set (missing cfg)"
    unfolding d(1) by (auto simp: override_def dom_def)
  then show "c_id ` set (store s) = c_id ` set (w_comics w) \<union> {1..cfg_latest cfg}"
    by (auto simp: dom_stored missing_ids [OF r])
qed

section \<open>From a text of xkcd to the words of a row\<close>

text \<open>What is stored of a text: nothing when the words service refuses it.\<close>

definition stored_words :: "environment \<Rightarrow> string \<Rightarrow> string list" where
  "stored_words e text = (if 4096 < length text then [] else words_of e text)"

lemma stored_words_eq:
  "slice_list (case update_words_Norm (words_server_Norm (e_stop e) (e_stem e)) p of Inl _ \<Rightarrow> Some [] | Inr ws \<Rightarrow> ws) =
     stored_words e p"
  by (simp add: update_words_Norm_def words_server_Norm_eq stored_words_def words_of_def slice_list_def)

lemma job_row_info:
  assumes "update_settings e get now n w = Inr cfg" and "get i = Inr info" and "x_ID info = i" and "int4 i"
  shows "job_row cfg i =
    Some (x_URL info, stored_words e (x_Title info), stored_words e (x_Alt info), stored_words e (x_Description info))"
  using assms(2-4)
  by (simp add: job_row_def job_comics_def settings_fields [OF assms(1)] content_of_def stored_words_eq)

lemma stored_comic:
  assumes "table_inv t" and "stored t i = Some (u, ti, al, wo)"
  shows "\<exists>c \<in> set (table_comics t). ID c = i \<and> URL c = u \<and> comic_tokens c = ti @ al @ wo"
proof -
  obtain r where r: "row_of t i = Some r" and f: "c_img_url r = u" "c_title r = ti" "c_alt r = al" "c_words r = wo"
    using assms(2) by (auto simp: stored_def)
  have "r \<in> set t \<and> c_id r = i" using r row_of_Some [of t i r] assms(1) by (simp add: table_inv_def)
  then show ?thesis using f by (intro bexI [of _ "row_to_comics (scan_row r)"]) (auto simp: table_comics_def)
qed

text \<open>A text and a query that share a token share a word.\<close>

lemma shared_word:
  assumes "k \<in> set (phrase_tokens text)" and "k \<in> set (phrase_tokens q)" and "token_image (e_stop e) (e_stem e) k \<noteq> []"
    and "length text \<le> 4096"
  shows "\<exists>x. x \<noteq> [] \<and> x \<in> set (stored_words e text) \<and> x \<in> set (words_of e q)"
proof -
  obtain x where x: "x \<in> set (token_image (e_stop e) (e_stem e) k)"
    using assms(3) by (cases "token_image (e_stop e) (e_stem e) k") auto
  moreover have "x \<noteq> []" using x token_image_nonempty [of "e_stop e" "e_stem e" k] by auto
  ultimately show ?thesis
    using assms(1,2,4) by (auto simp: stored_words_def words_of_def set_first_occ)
qed

section \<open>The requests\<close>

lemma update_request:
  assumes "complete_update e get now n w cfg s" and "is_superuser lib (mo_now mo) (api_request [] [] a None)"
  shows "public lib c e mo (api_request ''POST'' [''api'', ''db'', ''update''] a None) w =
    (res_Json (updateStatusResponse ''started'') 200, w\<lparr>w_comics := store s\<rparr>)"
proof -
  have run: "e_run e (w_comics w) = (Inr (), store s)" and idle: "\<not> w_running w"
    using assms(1) settings_fields(7) by (auto simp: complete_update_def)
  have s': "is_superuser lib (mo_now mo) (api_request m' path' a None)" for m' path'
    using assms(2) by (simp add: is_superuser_def readToken_def)
  have r: "find_route public_routes ''POST'' [''api'', ''db'', ''update''] = Some (EP_Update, [])"
    by code_simp
  show ?thesis
    using run idle
    by (simp add: public_eq r world_ports_def update_client_def world_update_stub_def endpoint_handler_def
        RequireSuperuser_eq s' NewUpdateHandler_def api_update_Update_def world_update_def update_server_Update_def)
qed

lemma stats_request:
  assumes "e_last e = Inr latest"
  shows "public lib c e mo (api_request ''GET'' [''api'', ''db'', ''stats''] a b) w =
    (res_Json (updateStatsResponse (\<Sum>r\<leftarrow>w_comics w. int (length (c_words r)))
       (int (card (\<Union>r \<in> set (w_comics w). set (c_words r)))) (int (length (w_comics w))) latest) 200, w)"
proof -
  have r: "find_route public_routes ''GET'' [''api'', ''db'', ''stats''] = Some (EP_Stats, [])"
    by code_simp
  have u: "length (remdups (concat (map c_words t))) = card (\<Union>r \<in> set t. set (c_words r))" for t
    by (simp add: length_remdups_card_conv)
  show ?thesis
    by (simp add: public_eq r world_ports_def update_client_def world_update_stub_def endpoint_handler_def
        NewUpdateStatsHandler_def reads_def api_update_Stats_def update_server_Stats_def Update_Stats_def
        storage_Stats_def assms u DBStats.defs ServiceStats.defs)
qed

lemma updated_world_ok:
  assumes "complete_update e get now n w cfg s" and "table_inv (w_comics w)" and "\<forall>i \<in> c_id ` set (w_comics w). 0 < i"
  shows "world_ok (w\<lparr>w_comics := store s\<rparr>)"
proof -
  have "\<forall>i \<in> c_id ` set (store s). 0 < i" using complete_ids(1) [OF assms(1,2)] assms(3) by fastforce
  from positive_table [OF complete_table(1) [OF assms(1,2)] this] complete_table(1) [OF assms(1,2)]
  show ?thesis by (simp add: world_ok_def)
qed

text \<open>The comic that a fetched text belongs to is among the matches of the query.\<close>

lemma fetched_comic:
  assumes "complete_update e get now n w cfg s" and "table_inv (w_comics w)"
    and "i \<in> {1..cfg_latest cfg} - c_id ` set (w_comics w)" and "cfg_latest cfg < 2147483648" and "get i = Inr info"
    and "text \<in> {x_Title info, x_Alt info, x_Description info}" and "length text \<le> 4096"
    and "k \<in> set (phrase_tokens text)" and "k \<in> set (phrase_tokens q)" and "token_image (e_stop e) (e_stem e) k \<noteq> []"
  shows "\<exists>c \<in> set (table_comics (store s)). ID c = i \<and> URL c = x_URL info \<and> comic_matches (words_of e q) c"
proof -
  have u: "update_settings e get now n w = Inr cfg" and own: "answers_own_id cfg"
    using assms(1) by (simp_all add: complete_update_def)
  have i: "i \<in> set (missing cfg)" "int4 i" using assms(3,4) by (auto simp: missing_ids [OF u] int4_def)
  then have "x_ID info = i" using own assms(5) by (auto simp: answers_own_id_def list_all_iff settings_fields [OF u])
  note row = job_row_info [OF u assms(5) this i(2)]
  then have "stored (store s) i = job_row cfg i"
    using i(1) unfolding complete_table(2) [OF assms(1,2)] by (simp add: override_def)
  from stored_comic [OF complete_table(1) [OF assms(1,2)] this [unfolded row]] obtain c where
    c: "c \<in> set (table_comics (store s))" "ID c = i" "URL c = x_URL info"
      "comic_tokens c = stored_words e (x_Title info) @ stored_words e (x_Alt info) @ stored_words e (x_Description info)"
    by blast
  obtain x where "x \<noteq> []" "x \<in> set (stored_words e text)" "x \<in> set (words_of e q)"
    using shared_word [OF assms(8-10,7)] by blast
  then have "comic_matches (words_of e q) c" using assms(6) c(4) unfolding comic_matches_def by auto
  with c show ?thesis by blast
qed

text \<open>A matching comic is on the list that is answered, or the list is full.\<close>

lemma answer_has:
  assumes "c \<in> set cs" and "comic_matches (words (TrimSpace q)) c" and "ValidString q"
    and "length (TrimSpace q) \<le> 4096" and "phrase_tokens (TrimSpace q) \<noteq> []"
    and "ParseUint 32 lim = Some m" and "lim \<noteq> []" and "m \<in> {1..100}"
  shows "\<exists>items num. search_answer tot words cs q lim = res_Json (searchResponse items num) 200 \<and>
    (comic_item c \<in> set items \<or> length items = m)"
proof -
  let ?hits = "take m (ranking (words (TrimSpace q)) cs)"
  have "phrase_tokens [] = []" by code_simp
  then have "TrimSpace q \<noteq> []" using assms(5) by auto
  moreover have "words (TrimSpace q) \<noteq> []" using assms(2) by (auto simp: comic_matches_def)
  ultimately have a: "search_answer tot words cs q lim = res_Json (searchResponse (map comic_item ?hits)
      (int (tot (length ?hits) (length (filter (comic_matches (words (TrimSpace q))) cs))))) 200"
    using assms(3,4,6-8) by (simp add: search_answer_def Let_def)
  have "c \<in> set (ranking (words (TrimSpace q)) cs)" using assms(1,2) by (simp add: set_ranking)
  then have "c \<in> set ?hits \<or> length ?hits = m" by (cases "length (ranking (words (TrimSpace q)) cs) \<le> m") auto
  then have "comic_item c \<in> set (map comic_item ?hits) \<or> length (map comic_item ?hits) = m" by auto
  with a show ?thesis by blast
qed

section \<open>Properties\<close>

text \<open>C2: From xkcd to the search result: when the superuser posts an update and it runs to its end, however
  its workers interleave, the gateway answers 200, and as soon as the search service has got the message,
  every comic fetched is found, by \<open>GET /api/search\<close> and by \<open>GET /api/isearch\<close>, for every query that has a
  token in common with its title, its alt text or its transcript, unless that is a stop word or the text is
  longer than 4096 bytes: the comic is on the list, or the list is already as long as the limit.\<close>

theorem update_makes_comics_searchable:
  assumes "complete_update e get now n w cfg s" and "table_inv (w_comics w)" and "\<forall>i \<in> c_id ` set (w_comics w). 0 < i"
    and "is_superuser lib (mo_now mo) (api_request [] [] a None)"
    and "i \<in> {1..cfg_latest cfg} - c_id ` set (w_comics w)" and "cfg_latest cfg < 2147483648" and "get i = Inr info"
    and "passage \<in> {x_Title info, x_Alt info, x_Description info}" and "length passage \<le> 4096"
    and "k \<in> set (phrase_tokens passage)" and "token_image (e_stop e) (e_stem e) k \<noteq> []"
    and "rq_method rq = ''GET''" and "ValidString (rq_query rq ''phrase'')"
    and "length (TrimSpace (rq_query rq ''phrase'')) \<le> 4096"
    and "k \<in> set (phrase_tokens (TrimSpace (rq_query rq ''phrase'')))"
    and "rq_query rq ''limit'' \<noteq> []" and "ParseUint 32 (rq_query rq ''limit'') = Some m" and "m \<in> {1..100}"
    and "SearchConcurrency c \<le> 0 \<or> mo_held mo' < SearchConcurrency c" and "SearchRate c \<le> 0 \<or> mo_waited mo'"
    and "route \<in> {''search'', ''isearch''}"
  shows "\<exists>w1. public lib c e mo (api_request ''POST'' [''api'', ''db'', ''update''] a None) w =
      (res_Json (updateStatusResponse ''started'') 200, w1) \<and>
    (\<exists>items num. public lib c e mo' (rq\<lparr>rq_path := [''api'', route]\<rparr>) (after_message e w1) =
        (res_Json (searchResponse items num) 200, after_message e w1) \<and>
      (\<lparr>cr_id = i, cr_url = x_URL info\<rparr> \<in> set items \<or> length items = m))"
proof -
  let ?q = "rq_query rq ''phrase''" and ?lim = "rq_query rq ''limit''"
  let ?w = "w\<lparr>w_comics := store s\<rparr>"
  let ?v = "after_message e ?w"
  obtain cm where cm: "cm \<in> set (comics_of ?w)" "ID cm = i" "URL cm = x_URL info" "comic_matches (words_of e (TrimSpace ?q)) cm"
    using fetched_comic [OF assms(1,2,5-10,15,11)] by (auto simp: comics_of_def)
  have item: "comic_item cm = \<lparr>cr_id = i, cr_url = x_URL info\<rparr>" using cm by (simp add: comic_item_def)
  have ok: "world_ok ?v" using updated_world_ok [OF assms(1-3)] by simp
  have "w_index ?v = Build (comics_of ?v) NewInvertedIndex" by simp
  note search = search_requests [OF ok assms(19,20) this assms(12)]
  have "phrase_tokens (TrimSpace ?q) \<noteq> []" using assms(15) by auto
  note answer = answer_has [where words = "words_of e", OF cm(1,4) assms(13,14) this assms(17,16,18), unfolded item]
  obtain tot where "public lib c e mo' (rq\<lparr>rq_path := [''api'', route]\<rparr>) ?v =
      (search_answer tot (words_of e) (comics_of ?w) ?q ?lim, ?v)"
    using assms(21) search by auto
  with answer [of tot] have "\<exists>items num. public lib c e mo' (rq\<lparr>rq_path := [''api'', route]\<rparr>) ?v =
      (res_Json (searchResponse items num) 200, ?v) \<and> (\<lparr>cr_id = i, cr_url = x_URL info\<rparr> \<in> set items \<or> length items = m)"
    by auto
  with update_request [OF assms(1,4)] show ?thesis by blast
qed

text \<open>C19: The statistics add up: when xkcd answers for every missing comic, if only that there is none, an
  update that runs to its end leaves as many comics as xkcd has, and \<open>GET /api/db/stats\<close> says so: the
  comics fetched and the comics in total are both the number of the last comic; the words in total are
  those of all rows, and the unique ones are counted once.\<close>

theorem stats_after_update:
  assumes "complete_update e get now n w cfg s" and "table_inv (w_comics w)"
    and "c_id ` set (w_comics w) \<subseteq> {1..cfg_latest cfg}" and "0 \<le> cfg_latest cfg" and "cfg_latest cfg < 2147483648"
    and "\<forall>i \<in> {1..cfg_latest cfg} - c_id ` set (w_comics w). case get i of Inl err \<Rightarrow> errors_Is err Upd_ErrNotFound | Inr info \<Rightarrow> True"
    and "is_superuser lib (mo_now mo) (api_request [] [] a None)"
  shows "\<exists>w1. public lib c e mo (api_request ''POST'' [''api'', ''db'', ''update''] a None) w =
      (res_Json (updateStatusResponse ''started'') 200, w1) \<and>
    public lib c e mo' (api_request ''GET'' [''api'', ''db'', ''stats''] b None) w1 =
      (res_Json (updateStatsResponse (\<Sum>r\<leftarrow>w_comics w1. int (length (c_words r)))
         (int (card (\<Union>r \<in> set (w_comics w1). set (c_words r)))) (cfg_latest cfg) (cfg_latest cfg)) 200, w1)"
proof -
  have u: "update_settings e get now n w = Inr cfg" and own: "answers_own_id cfg"
    using assms(1) by (simp_all add: complete_update_def)
  have "job_row cfg i \<noteq> None" if i: "i \<in> set (missing cfg)" for i
  proof -
    have "int4 i" "i \<in> {1..cfg_latest cfg} - c_id ` set (w_comics w)"
      using i assms(5) by (auto simp: missing_ids [OF u] int4_def)
    then show ?thesis
      using assms(6) own i
      by (auto simp: job_row_def job_comics_def content_of_def settings_fields [OF u] answers_own_id_def list_all_iff
          split: sum.splits)
  qed
  then have "c_id ` set (store s) = {1..cfg_latest cfg}"
    using complete_ids(2) [OF assms(1,2)] assms(3) by auto
  moreover have "card (c_id ` set (store s)) = length (store s)"
    using complete_table(1) [OF assms(1,2)] by (metis distinct_card length_map list.set_map table_inv_def)
  ultimately have "int (length (store s)) = cfg_latest cfg" using assms(4) by simp
  with update_request [OF assms(1,7)] stats_request [OF settings_fields(5) [OF u]] show ?thesis
    by (intro exI [of _ "w\<lparr>w_comics := store s\<rparr>"]) simp
qed


text \<open>An example: one worker, one comic, an empty table.\<close>

definition cat_info :: XKCDInfo where
  "cat_info = \<lparr>x_ID = 1, x_URL = ''u1'', x_Title = ''Cats'', x_Alt = [], x_Description = []\<rparr>"

definition empty_world :: world where
  "empty_world = demo_world\<lparr>w_comics := []\<rparr>"

definition cat_cfg :: "comics_table upd_cfg" where
  "cat_cfg = \<lparr>cfg_get = (\<lambda>i. Inr cat_info), cfg_norm = update_words_Norm (words_server_Norm (e_stop demo_env) (e_stem demo_env)),
     cfg_add = storage_Add None 0, cfg_latest = 1, cfg_have = [], cfg_workers = 1\<rparr>"

definition cat_final :: "comics_table upd_state" where
  "cat_final = demo_state 2 [] 0 [] 1 (run_job cat_cfg 1 []) (Returned None)"

definition cat_env :: environment where
  "cat_env = demo_env\<lparr>e_last := Inr 1, e_run := (\<lambda>t. (Inr (), store cat_final))\<rparr>"

lemma cat_run: "upd_reach cat_cfg [] cat_final"
proof -
  let ?R = "upd_reach cat_cfg []"
  let ?t = "run_job cat_cfg 1 []"
  note s = demo_state_def cat_cfg_def upd_init_def
  have "?R (upd_init cat_cfg [])" by (simp add: upd_reach_def)
  then have "?R (demo_state 1 [] 1 [] 0 [] Sending)" by (simp add: s)
  from upd_reach_step [OF this upd_step.p_send] have "?R (demo_state 2 [1] 1 [] 0 [] Sending)" by (simp add: s)
  from upd_reach_step [OF this upd_step.p_close] have "?R (demo_state 2 [1] 1 [] 0 [] (Draining None))" by (simp add: s)
  from upd_reach_step [OF this upd_step.w_take, of 1 "[]"]
  have "?R (demo_state 2 [] 0 [1] 0 [] (Draining None))" by (simp add: s)
  from upd_reach_step [OF this upd_step.w_work, of 1]
  have "?R (demo_state 2 [] 1 [] 0 ?t (Draining None))" by (simp add: demo_state_def)
  from upd_reach_step [OF this upd_step.w_closed]
  have "?R (demo_state 2 [] 0 [] 1 ?t (Draining None))" by (simp add: demo_state_def)
  from upd_reach_step [OF this upd_step.p_return] show ?thesis by (simp add: demo_state_def cat_final_def)
qed

lemma cat_complete: "complete_update cat_env (\<lambda>i. Inr cat_info) 0 1 empty_world cat_cfg cat_final"
proof -
  have "update_settings cat_env (\<lambda>i. Inr cat_info) 0 1 empty_world = Inr cat_cfg"
    by (simp add: update_settings_def Update_begin_def cat_env_def empty_world_def demo_world_def cat_cfg_def
        storage_IDs_def Update_workers_def)
  moreover have "answers_own_id cat_cfg"
    by (simp add: answers_own_id_def missing_def cat_cfg_def cat_info_def)
  ultimately show ?thesis
    using cat_run by (simp add: complete_update_def cat_final_def demo_state_def cat_env_def empty_world_def)
qed

definition one_cat_request :: http_request where
  "one_cat_request = (token_request [])\<lparr>rq_query := (\<lambda>n. if n = ''phrase'' then ''my CATS!'' else ''1'')\<rparr>"

lemma cat_facts:
  "table_inv (w_comics empty_world)" "\<forall>i \<in> c_id ` set (w_comics empty_world). 0 < i"
  "is_superuser super_lib (mo_now demo_moment) (api_request [] [] ''Token t0.t1.t2'' None)"
  "1 \<in> {1..cfg_latest cat_cfg} - c_id ` set (w_comics empty_world)" "cfg_latest cat_cfg < 2147483648"
  "''Cats'' \<in> {x_Title cat_info, x_Alt cat_info, x_Description cat_info}" "length ''Cats'' \<le> 4096"
  "SearchConcurrency demo_config \<le> 0 \<or> mo_held demo_moment < SearchConcurrency demo_config"
  "SearchRate demo_config \<le> 0 \<or> mo_waited demo_moment"
proof -
  show "is_superuser super_lib (mo_now demo_moment) (api_request [] [] ''Token t0.t1.t2'' None)" by code_simp
qed (simp_all add: empty_world_def table_inv_def cat_cfg_def cat_info_def demo_config_def demo_moment_def)

lemma cat_tokens:
  "''cats'' \<in> set (phrase_tokens ''Cats'')" "token_image (e_stop cat_env) (e_stem cat_env) ''cats'' \<noteq> []"
  "rq_method one_cat_request = ''GET''" "ValidString (rq_query one_cat_request ''phrase'')"
  "length (TrimSpace (rq_query one_cat_request ''phrase'')) \<le> 4096"
  "''cats'' \<in> set (phrase_tokens (TrimSpace (rq_query one_cat_request ''phrase'')))"
  "rq_query one_cat_request ''limit'' \<noteq> []" "ParseUint 32 (rq_query one_cat_request ''limit'') = Some 1"
  by (code_simp, code_simp, code_simp, code_simp, code_simp, code_simp, code_simp,
      simp add: one_cat_request_def ParseUint_def decimal_value_def is_digit_def digit_val_def)

lemma update_makes_comics_searchable_witness:
  "\<exists>w1 items num. public super_lib demo_config cat_env demo_moment
      (one_cat_request\<lparr>rq_path := [''api'', ''isearch'']\<rparr>) (after_message cat_env w1) =
        (res_Json (searchResponse items num) 200, after_message cat_env w1) \<and>
      (\<lparr>cr_id = 1, cr_url = ''u1''\<rparr> \<in> set items \<or> length items = 1)"
proof -
  have g: "(\<lambda>i. Inr cat_info) 1 = Inr cat_info" "(1 :: nat) \<in> {1..100}" "''isearch'' \<in> {''search'', ''isearch''}" by simp_all
  show ?thesis
    using update_makes_comics_searchable [where get = "\<lambda>i. Inr cat_info" and lib = super_lib and mo = demo_moment
        and c = demo_config and mo' = demo_moment and i = 1 and info = cat_info and a = "''Token t0.t1.t2''"
        and passage = "''Cats''" and k = "''cats''" and rq = one_cat_request and m = 1 and route = "''isearch''",
        OF cat_complete cat_facts(1-5) g(1) cat_facts(6,7) cat_tokens g(2) cat_facts(8,9) g(3)]
    by (auto simp: cat_info_def)
qed

lemma stats_after_update_witness:
  "\<exists>w1 wt wu. public super_lib demo_config cat_env demo_moment (api_request ''GET'' [''api'', ''db'', ''stats''] [] None) w1 =
     (res_Json (updateStatsResponse wt wu 1 1) 200, w1)"
proof -
  have f: "c_id ` set (w_comics empty_world) \<subseteq> {1..cfg_latest cat_cfg}" "0 \<le> cfg_latest cat_cfg"
    "\<forall>i \<in> {1..cfg_latest cat_cfg} - c_id ` set (w_comics empty_world).
       case (Inr cat_info :: update_err + XKCDInfo) of Inl err \<Rightarrow> errors_Is err Upd_ErrNotFound | Inr info \<Rightarrow> True"
    and l: "cfg_latest cat_cfg = 1"
    by (simp_all add: empty_world_def cat_cfg_def)
  show ?thesis
    using stats_after_update [where lib = super_lib and mo = demo_moment and c = demo_config and mo' = demo_moment
        and b = "[]", OF cat_complete cat_facts(1) f(1,2) cat_facts(5) f(3) cat_facts(3)]
    unfolding l by blast
qed

end
