(* ===== verification/ApiListing.thy ===== *)
theory ApiListing
  imports ApiUsers
begin

text \<open>
  Walking through all comics: the answers of \<open>GET /api/comics\<close> for every page and limit, from the route to
  the table, and what a client gets that asks for one page after the other.
\<close>

section \<open>The answers\<close>

text \<open>A parameter of the query: absent, a positive number of 32 bits, or refused.\<close>

definition number_param :: "string \<Rightarrow> nat \<Rightarrow> nat option" where
  "number_param str dflt =
     (if str = [] then Some dflt
      else case ParseUint 32 str of None \<Rightarrow> None | Some n \<Rightarrow> if n = 0 then None else Some n)"

definition listing_answer :: "Comics list \<Rightarrow> string \<Rightarrow> string \<Rightarrow> http_response" where
  "listing_answer cs pageStr limitStr =
     (case number_param pageStr 1 of
        None \<Rightarrow> res_Json (errorResponse ''bad page'') 400
      | Some p \<Rightarrow>
     (case number_param limitStr 10 of
        None \<Rightarrow> res_Json (errorResponse ''bad limit'') 400
      | Some l \<Rightarrow>
          if 100 < l then res_Json (errorResponse ''bad request'') 400
          else res_Json (searchResponse
                 (map comic_item (take l (drop ((p - 1) * l mod 4294967296) (sort_key ID cs)))) (int (length cs))) 200))"

lemma page_param_eq:
  "0 < d \<Longrightarrow> d < 4294967296 \<Longrightarrow> page_param str (uint32 (int d)) = map_option (\<lambda>n. uint32 (int n)) (number_param str d)"
  by (auto simp: page_param_def number_param_def split: option.splits)

lemma number_param_bounds: "number_param str d = Some n \<Longrightarrow> 0 < d \<Longrightarrow> d < 4294967296 \<Longrightarrow> 0 < n \<and> n < 4294967296"
  using ParseUint_bound [of 32 str] by (auto simp: number_param_def split: if_splits option.splits)

lemma offset_word:
  assumes "0 < p" and "p < 4294967296" and "l < 4294967296"
  shows "unat ((uint32 (int p) - 1) * uint32 (int l)) = (p - 1) * l mod 4294967296"
proof -
  have p: "uint32 (int p) - 1 = (of_nat (p - 1) :: u32)" using assms(1) by (simp add: uint32_def of_nat_diff)
  have "(uint32 (int p) - 1) * uint32 (int l) = (of_nat ((p - 1) * l) :: u32)"
    unfolding p by (simp add: uint32_def)
  then show ?thesis by (simp only: unat_of_nat) simp
qed

lemma world_GetAllComics:
  assumes "world_ok w" and "0 < p" and "p < 4294967296" and "0 < l" and "l < 4294967296"
  shows "GetAllComics (world_search e w) (uint32 (int p)) (uint32 (int l)) =
    (if 100 < l then Inl (Sentinel ErrToLargeLimit)
     else Inr (take l (drop ((p - 1) * l mod 4294967296) (sort_key ID (comics_of w))), uint32 (int (length (comics_of w)))))"
proof -
  have inv: "table_inv (w_comics w)" using assms(1) by (simp add: world_ok_def)
  show ?thesis
    using st.GetAllComics_eq [OF inv, of "world_search e w" "uint32 (int p)" "uint32 (int l)"]
      limit_word [OF assms(3)] limit_word [OF assms(5)] assms(2,4) offset_word [OF assms(2,3,5)]
    by (simp add: Let_def comics_of_def flip: unat_eq_nat_uint)
qed

lemma listing_request:
  assumes "world_ok w" and "rq_method rq = ''GET''" and "rq_path rq = [''api'', ''comics'']"
  shows "public lib cfg e mo rq w = (listing_answer (comics_of w) (rq_query rq ''page'') (rq_query rq ''limit''), w)"
proof -
  let ?p = "rq_query rq ''page''" and ?l = "rq_query rq ''limit''"
  have r: "find_route public_routes ''GET'' [''api'', ''comics''] = Some (EP_Comics, [])" by code_simp
  have dflt: "uint32 (int 1) = 1" "uint32 (int 10) = 10" by (simp_all add: uint32_def)
  have pp: "page_param ?p 1 = map_option (\<lambda>n. uint32 (int n)) (number_param ?p 1)"
    "page_param ?l 10 = map_option (\<lambda>n. uint32 (int n)) (number_param ?l 10)"
    using page_param_eq [of 1 ?p] page_param_eq [of 10 ?l] unfolding dflt by simp_all
  have handler: "public lib cfg e mo rq w = NewComicsListHandler (pt_search (world_ports e))
      (rq\<lparr>rq_pathvalue := (\<lambda>n. []), rq_user := None\<rparr>) w"
    using assms(2,3) by (simp add: public_eq r endpoint_handler_def)
  show ?thesis
  proof (cases "number_param ?p 1")
    case None
    then show ?thesis unfolding handler by (simp add: NewComicsListHandler_def reads_def listing_answer_def pp del: One_nat_def)
  next
    case p: (Some p)
    show ?thesis
    proof (cases "number_param ?l 10")
      case None
      then show ?thesis unfolding handler using p by (simp add: NewComicsListHandler_def reads_def listing_answer_def pp del: One_nat_def)
    next
      case l: (Some l)
      note b = number_param_bounds [OF p] number_param_bounds [OF l]
      let ?cs = "take l (drop ((p - 1) * l mod 4294967296) (sort_key ID (comics_of w)))"
      have items: "comic_responses (search_comics (comic_replies ?cs)) = map comic_item ?cs"
        by (rule reply_items) (use world_ok_comics(1) [OF assms(1)] in \<open>auto dest!: in_set_takeD in_set_dropD\<close>)
      have n: "uint (uint32 (int (length (comics_of w)))) = int (length (comics_of w))"
        using world_ok_comics(2) [OF assms(1), of "\<lambda>c. True"] by (intro uint_uint32) simp_all
      show ?thesis
        unfolding handler using b
        by (simp add: NewComicsListHandler_def reads_def listing_answer_def pp p l world_ports_def search_client_def
            world_search_stub_def api_search_ListComics_def search_server_GetAllComics_def world_GetAllComics [OF assms(1)]
            items n other_status_def unavailable_code_def del: take_map One_nat_def)
    qed
  qed
qed

section \<open>Walking through the pages\<close>

definition page_request :: "nat \<Rightarrow> nat \<Rightarrow> http_request" where
  "page_request p l = (api_request ''GET'' [''api'', ''comics''] [] None)
     \<lparr>rq_query := (\<lambda>n. if n = ''page'' then FormatUint p else if n = ''limit'' then FormatUint l else [])\<rparr>"

text \<open>The comics of an answer, for a client that reads them.\<close>

definition items_of :: "http_response \<Rightarrow> comicResponse list" where
  "items_of r = (case hr_body r of JsonBody (searchResponse items _) \<Rightarrow> items | _ \<Rightarrow> [])"

lemma number_param_FormatUint: "0 < n \<Longrightarrow> n < 4294967296 \<Longrightarrow> number_param (FormatUint n) d = Some n"
  by (simp add: number_param_def ParseUint_FormatUint)

lemma page_items:
  assumes "1 \<le> p" and "1 \<le> l" and "l \<le> 100" and "p * l < 4294967296"
  shows "items_of (listing_answer cs (FormatUint p) (FormatUint l)) =
    map comic_item (take l (drop ((p - 1) * l) (sort_key ID cs)))"
proof -
  have "p \<le> p * l" "(p - 1) * l \<le> p * l" using assms(2) by simp_all
  then have "p < 4294967296" "(p - 1) * l mod 4294967296 = (p - 1) * l"
    using le_less_trans [OF _ assms(4)] by (blast, intro mod_less) blast
  then show ?thesis
    using assms by (simp add: listing_answer_def number_param_FormatUint items_of_def res_Json_def)
qed

section \<open>Properties\<close>

text \<open>C24: The listing over HTTP. \<open>GET /api/comics\<close> answers 400 for a page or a limit that is no positive number
  of 32 bits and for a limit above 100; otherwise 200 with the comics from position \<open>(page - 1) * limit\<close>, taken
  modulo \<open>2 ^ 32\<close>, in the order of ids, and the number of all comics; page 1 and limit 10 by default. A
  client that asks for the pages \<open>1, ..., k\<close> gets exactly the first \<open>k * limit\<close> comics, none twice and none
  left out, as long as that number fits 32 bits; but a page far beyond the end starts over.\<close>

theorem listing_end_to_end:
  assumes "world_ok w"
  shows "(rq_method rq = ''GET'' \<and> rq_path rq = [''api'', ''comics''] \<longrightarrow>
      public lib cfg e mo rq w = (listing_answer (comics_of w) (rq_query rq ''page'') (rq_query rq ''limit''), w)) \<and>
    (1 \<le> l \<and> l \<le> 100 \<and> k * l < 4294967296 \<longrightarrow>
      concat (map (\<lambda>p. items_of (fst (public lib cfg e mo (page_request p l) w))) [1..<Suc k]) =
        map comic_item (take (k * l) (sort_key ID (comics_of w)))) \<and>
    public lib cfg e mo (page_request 67108865 64) w = public lib cfg e mo (page_request 1 64) w"
proof (intro conjI impI)
  have page: "public lib cfg e mo (page_request p l) w = (listing_answer (comics_of w) (FormatUint p) (FormatUint l), w)" for p l
    using listing_request [OF assms, of "page_request p l" lib cfg e mo] by (simp add: page_request_def)
  show "public lib cfg e mo rq w = (listing_answer (comics_of w) (rq_query rq ''page'') (rq_query rq ''limit''), w)"
    if "rq_method rq = ''GET'' \<and> rq_path rq = [''api'', ''comics'']"
    using listing_request [OF assms] that by simp
  show "concat (map (\<lambda>p. items_of (fst (public lib cfg e mo (page_request p l) w))) [1..<Suc k]) =
      map comic_item (take (k * l) (sort_key ID (comics_of w)))" if "1 \<le> l \<and> l \<le> 100 \<and> k * l < 4294967296"
  proof -
    have "map (\<lambda>p. items_of (fst (public lib cfg e mo (page_request p l) w))) [1..<Suc k] =
        map (\<lambda>p. map comic_item (take l (drop ((p - 1) * l) (sort_key ID (comics_of w))))) [1..<Suc k]"
    proof (rule map_cong [OF refl])
      fix p assume "p \<in> set [1..<Suc k]"
      then have p: "1 \<le> p" "p \<le> k" by auto
      then have "p * l < 4294967296" using that by (meson mult_le_mono1 order.strict_trans1)
      with p that show "items_of (fst (public lib cfg e mo (page_request p l) w)) =
          map comic_item (take l (drop ((p - 1) * l) (sort_key ID (comics_of w))))" by (simp add: page page_items)
    qed
    moreover have "concat (map (\<lambda>p. map comic_item (take l (drop ((p - 1) * l) (sort_key ID (comics_of w))))) [1..<Suc k]) =
        map comic_item (concat (map (\<lambda>p. take l (drop ((p - 1) * l) (sort_key ID (comics_of w)))) [1..<Suc k]))"
      by (simp add: map_concat comp_def del: upt_Suc)
    ultimately show ?thesis by (simp only: concat_slices)
  qed
  show "public lib cfg e mo (page_request 67108865 64) w = public lib cfg e mo (page_request 1 64) w"
    unfolding page by (simp add: listing_answer_def number_param_FormatUint)
qed

lemma listing_end_to_end_witness:
  "concat (map (\<lambda>p. items_of (fst (public super_lib demo_config demo_env demo_moment (page_request p 2) demo_world))) [1..<3]) =
     map comic_item (sort_key ID (comics_of demo_world))"
proof -
  have "[1..<Suc 2] = [1..<3]" "take (2 * 2) (sort_key ID (comics_of demo_world)) = sort_key ID (comics_of demo_world)"
    by (simp_all add: comics_of_def demo_world_def demo_table_def table_comics_def)
  then show ?thesis
    using listing_end_to_end [OF demo_world_ok, where k = 2 and l = 2] by (simp del: upt_Suc)
qed

end
