(* ===== verification/ApiAdmin.thy ===== *)
theory ApiAdmin
  imports SystemUpdate ApiListing
begin

text \<open>
  The administrator: logging in at the gateway, what the token is good for and how long, and what a drop of
  the database does to the searches and to the favorites of users.
\<close>

section \<open>Logging in\<close>

definition admin_body :: "string \<Rightarrow> string \<Rightarrow> json option" where
  "admin_body name password = Some (JObject [(''name'', JString name), (''password'', JString password)])"

definition superuser_claims :: "int \<Rightarrow> int \<Rightarrow> claims" where
  "superuser_claims now ttl =
     \<lparr>cl_UserID = None, cl_Subject = superuserSubject, cl_IssuedAt = NewNumericDate now,
      cl_ExpiresAt = NewNumericDate (now + ttl)\<rparr>"

lemma admin_fields [simp]:
  "string_field ''name'' [(''name'', JString n), (''password'', JString p)] = Some n"
  "string_field ''password'' [(''name'', JString n), (''password'', JString p)] = Some p"
proof -
  have "field_matches ''name'' ''password'' \<longleftrightarrow> False" "field_matches ''password'' ''name'' \<longleftrightarrow> False"
    "field_matches ''name'' ''name''" "field_matches ''password'' ''password''"
    by code_simp+
  then show "string_field ''name'' [(''name'', JString n), (''password'', JString p)] = Some n"
    "string_field ''password'' [(''name'', JString n), (''password'', JString p)] = Some p"
    by (simp_all add: string_field_def field_values_def is_string_def)
qed

lemma login_request:
  "public lib cfg e mo (api_request ''POST'' [''api'', ''login''] a (admin_body name password)) w =
    (if name \<noteq> AdminUser cfg \<or> password \<noteq> AdminPassword cfg then writeUnauthed
     else case jwt_sign lib ''HS256'' jwtSecret (superuser_claims (mo_now mo) (TokenTTL cfg)) of
       Inl err \<Rightarrow> http_Error ''internal error'' 500
     | Inr token \<Rightarrow> \<lparr>hr_code = 200, hr_body = PlainText token\<rparr>, w)"
proof -
  have r: "find_route public_routes ''POST'' [''api'', ''login''] = Some (EP_Login, [])" by code_simp
  show ?thesis
    by (simp add: public_eq r endpoint_handler_def reads_def NewLoginHandler_def GenerateSuperuserToken_def
        superuser_claims_def admin_body_def struct_members_def)
qed

lemma superuser_until:
  assumes "jwt_faithful lib ''HS256'' jwtSecret (superuser_claims t ttl) tok" and "TrimSpace tok = tok" and "tok \<noteq> []"
  shows "is_superuser lib now (api_request m path (''Token '' @ tok) b) \<longleftrightarrow> now < NewNumericDate (t + ttl) * 1000000000"
  using readToken_header [of "api_request m path (''Token '' @ tok) b", OF _ assms(2,3)] jwt_faithful_parse [OF assms(1)]
  by (simp add: is_superuser_def IsSuperuserToken_def jwt_superuser_parse_def is_hmac_def superuser_claims_def)

lemma drop_request_answer:
  "public lib cfg e mo (api_request ''DELETE'' [''api'', ''db''] a b) w =
    (if \<not> is_superuser lib (mo_now mo) (api_request ''DELETE'' [''api'', ''db''] a b) then (writeUnauthed, w)
     else if w_running w then (res_Json (errorResponse ''internal error'') 500, w)
     else (WriteHeader 200, w\<lparr>w_comics := []\<rparr>))"
proof -
  have r: "find_route public_routes ''DELETE'' [''api'', ''db''] = Some (EP_Drop, [])" by code_simp
  show ?thesis
    by (cases "w_running w") (simp_all add: public_eq r world_ports_def update_client_def world_update_stub_def endpoint_handler_def
        RequireSuperuser_eq NewDropHandler_def api_update_Drop_def world_drop_def Update_Drop_def storage_Drop_def
        update_server_Drop_def other_status_def unavailable_code_def)
qed

section \<open>Favorites of a user\<close>

lemma gateway_favorites_Delete:
  assumes "fav_inv (w_favorites w)" and "u \<noteq> 0"
  shows "fv_Delete (pt_favorites (world_ports e)) u c w =
    (if sint c \<le> 0 then (Inl (Sentinel Api_ErrBadArguments), w)
     else if (u, c) \<notin> table_favs (w_favorites w) then (Inl (Sentinel Api_ErrNotFound), w)
     else (Inr (), w\<lparr>w_favorites := filter (\<lambda>r. fav_key r \<noteq> (uint u, sint c)) (w_favorites w)\<rparr>))"
proof -
  have none: "(u, c) \<notin> table_favs (w_favorites w) \<Longrightarrow>
      filter (\<lambda>r. fav_key r \<noteq> (uint u, sint c)) (w_favorites w) = w_favorites w"
    by (intro filter_True) (force simp: in_table_favs)
  show ?thesis
    using assms(2) fs.server_Delete [OF assms(1), of "e_now e" u c] none
    by (auto simp: world_ports_def favorites_client_def world_favorites_stub_def api_favorites_Delete_def fs.valid_def
        Let_def fav_storage_def fav_storage_Delete_None)
qed

lemma favorites_delete_request:
  assumes "fav_inv (w_favorites w)" and "user_of lib (AuthJWTSecret cfg) (mo_now mo) rq = Some u"
    and "rq_method rq = ''DELETE''" and "rq_path rq = [''api'', ''mycomics'', x]" and "x \<noteq> []"
  shows "public lib cfg e mo rq w =
    (case Atoi x of
       None \<Rightarrow> (res_Json (errorResponse ''invalid id'') 400, w)
     | Some n \<Rightarrow>
         if n \<le> 0 then (res_Json (errorResponse ''invalid id'') 400, w)
         else if sint (int32 n) \<le> 0 then (res_Json (errorResponse ''bad request'') 400, w)
         else if (u, int32 n) \<notin> table_favs (w_favorites w) then (res_Json (errorResponse ''not found'') 404, w)
         else (WriteHeader 204, w\<lparr>w_favorites :=
                filter (\<lambda>r. fav_key r \<noteq> (uint u, sint (int32 n))) (w_favorites w)\<rparr>))"
proof -
  let ?rq = "rq\<lparr>rq_pathvalue := (\<lambda>n. case map_of [(''id'', x)] n of None \<Rightarrow> [] | Some v \<Rightarrow> v), rq_user := Some u\<rparr>"
  have "find_route public_routes (rq_method rq) (rq_path rq) = Some (EP_FavDelete, [(''id'', x)])"
    using assms(3-5) by (simp add: find_route_def public_routes_def match_method_def wildcards_def)
  then have handler: "public lib cfg e mo rq w = NewFavoritesDeleteHandler (pt_favorites (world_ports e)) ?rq w"
    using assms(2) by (simp add: public_eq endpoint_handler_def RequireUser_eq)
  have u: "u \<noteq> 0" by (rule user_of_nonzero [OF assms(2)])
  show ?thesis
    unfolding handler using u
    by (auto simp: NewFavoritesDeleteHandler_def UserIDFromContext_def gateway_favorites_Delete [OF assms(1) u]
        split: option.splits)
qed

section \<open>The reach of a user's token\<close>

text \<open>Neither the comics nor the index matter for the list of a user; a comic that is gone cannot be added.\<close>

lemma list_after_drop:
  assumes "fav_inv (w_favorites w)" and "user_of lib (AuthJWTSecret cfg) (mo_now mo) (api_request m path a b) = Some u"
    and "w_favorites w' = w_favorites w"
  shows "fst (public lib cfg e mo (api_request ''GET'' [''api'', ''mycomics''] a None) w') =
    fst (public lib cfg e mo (api_request ''GET'' [''api'', ''mycomics''] a None) w)"
proof -
  have u: "user_of lib (AuthJWTSecret cfg) (mo_now mo) (api_request ''GET'' [''api'', ''mycomics''] a None) = Some u"
    using assms(2) by (simp add: user_of_def readToken_def)
  show ?thesis
    using list_request [where rq = "api_request ''GET'' [''api'', ''mycomics''] a None", OF assms(1) u]
      list_request [where w = w' and rq = "api_request ''GET'' [''api'', ''mycomics''] a None", OF _ u] assms(1,3)
    by simp
qed

lemma favorite_of_dropped:
  assumes "fav_inv (w_favorites w)" and "user_of lib (AuthJWTSecret cfg) (mo_now mo) (api_request m path a b) = Some u"
    and "w_comics w = []" and "0 < i" and "int4 i"
  shows "public lib cfg e mo (api_request ''POST'' [''api'', ''mycomics'', FormatUint (nat i)] a None) w =
      (res_Json (errorResponse ''comic not found'') 404, w)"
    and "hr_code (fst (public lib cfg e mo (api_request ''DELETE'' [''api'', ''mycomics'', FormatUint (nat i)] a None) w)) =
      (if (u, int32 i) \<in> table_favs (w_favorites w) then 204 else 404)"
proof -
  have u: "user_of lib (AuthJWTSecret cfg) (mo_now mo) (api_request m' path' a None) = Some u" for m' path'
    using assms(2) by (simp add: user_of_def readToken_def)
  have atoi: "Atoi (FormatUint (nat i)) = Some i" "i mod 4294967296 = i" "\<not> i \<le> 0" "i \<noteq> 0"
    "\<not> 2147483648 \<le> i" "sint (int32 i) = i"
    using assms(4,5) by (simp_all add: Atoi_FormatUint int4_def)
  have "world_ok w" using assms(3) by (simp add: world_ok_def table_inv_def)
  then show "public lib cfg e mo (api_request ''POST'' [''api'', ''mycomics'', FormatUint (nat i)] a None) w =
      (res_Json (errorResponse ''comic not found'') 404, w)"
    using favorites_add_request [where rq = "api_request ''POST'' [''api'', ''mycomics'', FormatUint (nat i)] a None" and e = e,
        OF _ assms(1) u _ _ FormatUint_nonempty] atoi assms(3)
    by (simp add: Let_def)
  show "hr_code (fst (public lib cfg e mo (api_request ''DELETE'' [''api'', ''mycomics'', FormatUint (nat i)] a None) w)) =
      (if (u, int32 i) \<in> table_favs (w_favorites w) then 204 else 404)"
    using favorites_delete_request [where rq = "api_request ''DELETE'' [''api'', ''mycomics'', FormatUint (nat i)] a None" and e = e,
        OF assms(1) u _ _ FormatUint_nonempty] atoi
    by (simp add: res_Json_def WriteHeader_def)
qed

text \<open>Nothing is found in an empty table.\<close>

lemma nothing_found: "items_of (search_answer tot words [] q lim) = []"
proof -
  have "items_of (res_Json (searchResponse [] n) c) = []" "items_of (res_Json (errorResponse t) c) = []" for n t c
    by (simp_all add: items_of_def res_Json_def)
  moreover have "ranking toks [] = []" for toks using length_ranking [of toks "[]"] by simp
  ultimately show ?thesis by (simp add: search_answer_def Let_def split: option.splits)
qed

section \<open>Properties\<close>

text \<open>C25: The administrator drops the database: with the right name and password, and only with them, \<open>POST
  /api/login\<close> answers 200 with a token. Until the token expires, and not later, \<open>DELETE /api/db\<close> with it
  answers 200 when no update runs. Then no comic is left: the listing is empty, a random comic is answered
  with 500, and once the search service has got the message neither search finds anything. The favorites
  of users stay as they are: a user sees the same list, with comics that are gone, cannot add one of
  them again, but can still delete it.\<close>

theorem drop_story:
  assumes "jwt_faithful lib ''HS256'' jwtSecret (superuser_claims (mo_now mo) (TokenTTL cfg)) tok"
    and "TrimSpace tok = tok" and "tok \<noteq> []" and "\<not> w_running w" and "fav_inv (w_favorites w)"
    and "user_of lib (AuthJWTSecret cfg) (mo_now mo') (api_request [] [] a None) = Some u" and "0 < i" and "int4 i"
    and "SearchConcurrency cfg \<le> 0 \<or> mo_held mo' < SearchConcurrency cfg" and "SearchRate cfg \<le> 0 \<or> mo_waited mo'"
    and "rq_method rq = ''GET''" and "route \<in> {''search'', ''isearch''}"
  shows "(\<forall>name password. public lib cfg e mo (api_request ''POST'' [''api'', ''login''] [] (admin_body name password)) w =
      (if name = AdminUser cfg \<and> password = AdminPassword cfg then \<lparr>hr_code = 200, hr_body = PlainText tok\<rparr>
       else writeUnauthed, w)) \<and>
    (\<exists>dropped. (\<forall>at. public lib cfg e at (api_request ''DELETE'' [''api'', ''db''] (''Token '' @ tok) None) w =
        (if mo_now at < NewNumericDate (mo_now mo + TokenTTL cfg) * 1000000000 then (WriteHeader 200, dropped)
         else (writeUnauthed, w))) \<and>
      public lib cfg e mo' (api_request ''GET'' [''api'', ''comics''] [] None) dropped =
        (res_Json (searchResponse [] 0) 200, dropped) \<and>
      public lib cfg e mo' (api_request ''GET'' [''api'', ''comics'', ''random''] [] None) dropped =
        (res_Json (errorResponse ''internal error'') 500, dropped) \<and>
      items_of (fst (public lib cfg e mo' (rq\<lparr>rq_path := [''api'', route]\<rparr>) (after_message e dropped))) = [] \<and>
      fst (public lib cfg e mo' (api_request ''GET'' [''api'', ''mycomics''] a None) dropped) =
        fst (public lib cfg e mo' (api_request ''GET'' [''api'', ''mycomics''] a None) w) \<and>
      public lib cfg e mo' (api_request ''POST'' [''api'', ''mycomics'', FormatUint (nat i)] a None) dropped =
        (res_Json (errorResponse ''comic not found'') 404, dropped) \<and>
      hr_code (fst (public lib cfg e mo' (api_request ''DELETE'' [''api'', ''mycomics'', FormatUint (nat i)] a None) dropped)) =
        (if (u, int32 i) \<in> table_favs (w_favorites w) then 204 else 404))"
proof (intro conjI exI [of _ "w\<lparr>w_comics := []\<rparr>"] allI)
  let ?w = "w\<lparr>w_comics := []\<rparr>"
  show "public lib cfg e mo (api_request ''POST'' [''api'', ''login''] [] (admin_body name password)) w =
      (if name = AdminUser cfg \<and> password = AdminPassword cfg then \<lparr>hr_code = 200, hr_body = PlainText tok\<rparr>
       else writeUnauthed, w)" for name password
    using assms(1) by (simp add: login_request jwt_faithful_def)
  show "public lib cfg e at (api_request ''DELETE'' [''api'', ''db''] (''Token '' @ tok) None) w =
      (if mo_now at < NewNumericDate (mo_now mo + TokenTTL cfg) * 1000000000 then (WriteHeader 200, ?w)
       else (writeUnauthed, w))" for at
    unfolding drop_request_answer superuser_until [OF assms(1-3)] using assms(4) by simp
  show "public lib cfg e mo' (api_request ''GET'' [''api'', ''comics''] [] None) ?w = (res_Json (searchResponse [] 0) 200, ?w)"
    "public lib cfg e mo' (api_request ''GET'' [''api'', ''comics'', ''random''] [] None) ?w =
      (res_Json (errorResponse ''internal error'') 500, ?w)"
    using empty_answers [of ?w] by simp_all
  have ok: "world_ok (after_message e ?w)" and c: "comics_of (after_message e ?w) = []"
    by (simp_all add: world_ok_def table_inv_def comics_of_def table_comics_def)
  have "w_index (after_message e ?w) = Build (comics_of (after_message e ?w)) NewInvertedIndex" by simp
  from search_requests [OF ok assms(9,10) this assms(11)]
  show "items_of (fst (public lib cfg e mo' (rq\<lparr>rq_path := [''api'', route]\<rparr>) (after_message e ?w))) = []"
    using assms(12) unfolding c by (auto simp: nothing_found)
  show "fst (public lib cfg e mo' (api_request ''GET'' [''api'', ''mycomics''] a None) ?w) =
      fst (public lib cfg e mo' (api_request ''GET'' [''api'', ''mycomics''] a None) w)"
    by (rule list_after_drop [OF assms(5,6)]) simp
  have f: "fav_inv (w_favorites ?w)" "w_comics ?w = []" using assms(5) by simp_all
  show "public lib cfg e mo' (api_request ''POST'' [''api'', ''mycomics'', FormatUint (nat i)] a None) ?w =
      (res_Json (errorResponse ''comic not found'') 404, ?w)"
    "hr_code (fst (public lib cfg e mo' (api_request ''DELETE'' [''api'', ''mycomics'', FormatUint (nat i)] a None) ?w)) =
      (if (u, int32 i) \<in> table_favs (w_favorites w) then 204 else 404)"
    using favorite_of_dropped [OF f(1) assms(6) f(2) assms(7,8)] by simp_all
qed

text \<open>An example: the comic of user 7 is dropped.\<close>

definition admin_lib :: jwt_lib where
  "admin_lib = super_lib\<lparr>jwt_parse := (\<lambda>accepts key now tok.
     if tok = ''u0.u1.u2'' then jwt_parse user_lib accepts key now ''t0.t1.t2'' else jwt_parse super_lib accepts key now tok)\<rparr>"

definition fan_world :: world where
  "fan_world = demo_world\<lparr>w_favorites := [\<lparr>f_user = 7, f_comic = 5, f_created = 3\<rparr>]\<rparr>"

lemma drop_story_witness:
  "\<exists>w1. public admin_lib demo_config demo_env demo_moment
      (api_request ''DELETE'' [''api'', ''db''] (''Token '' @ ''t0.t1.t2'') None) fan_world = (WriteHeader 200, w1) \<and>
    public admin_lib demo_config demo_env demo_moment
      (api_request ''POST'' [''api'', ''mycomics'', FormatUint 5] ''Token u0.u1.u2'' None) w1 =
      (res_Json (errorResponse ''comic not found'') 404, w1)"
proof -
  have "superuser_claims (mo_now demo_moment) (TokenTTL demo_config) =
      \<lparr>cl_UserID = None, cl_Subject = superuserSubject, cl_IssuedAt = 0, cl_ExpiresAt = 120\<rparr>"
    by (simp add: superuser_claims_def demo_moment_def demo_config_def NewNumericDate_def)
  then have j: "jwt_faithful admin_lib ''HS256'' jwtSecret (superuser_claims (mo_now demo_moment) (TokenTTL demo_config)) ''t0.t1.t2''"
    using one_token_faithful [of "''123''" "\<lparr>cl_UserID = None, cl_Subject = superuserSubject, cl_IssuedAt = 0, cl_ExpiresAt = 120\<rparr>"]
    by (simp add: jwt_faithful_def admin_lib_def super_lib_def jwtSecret_def)
  have t: "TrimSpace ''t0.t1.t2'' = ''t0.t1.t2''" "''t0.t1.t2'' \<noteq> []" by (code_simp, simp)
  have w: "\<not> w_running fan_world" "fav_inv (w_favorites fan_world)"
    by (simp_all add: fan_world_def demo_world_def fav_inv_def int4_def)
  have u: "user_of admin_lib (AuthJWTSecret demo_config) (mo_now demo_moment) (api_request [] [] ''Token u0.u1.u2'' None) = Some 7"
    by code_simp
  have i: "(0 :: int) < 5" "int4 5" "''search'' \<in> {''search'', ''isearch''}" by (simp_all add: int4_def)
  have c: "rq_method cats_request = ''GET''" by (simp add: cats_request_def token_request_def)
  have n: "mo_now demo_moment < NewNumericDate (mo_now demo_moment + TokenTTL demo_config) * 1000000000"
    "nat 5 = 5"
    by (simp_all add: demo_moment_def demo_config_def NewNumericDate_def)
  from drop_story [OF j t w u i(1,2) cat_facts(8,9) c i(3), of demo_env, THEN conjunct2, unfolded n(2)] obtain w1 where
    "\<And>at. public admin_lib demo_config demo_env at (api_request ''DELETE'' [''api'', ''db''] (''Token '' @ ''t0.t1.t2'') None) fan_world =
      (if mo_now at < NewNumericDate (mo_now demo_moment + TokenTTL demo_config) * 1000000000 then (WriteHeader 200, w1)
       else (writeUnauthed, fan_world))"
    "public admin_lib demo_config demo_env demo_moment
      (api_request ''POST'' [''api'', ''mycomics'', FormatUint 5] ''Token u0.u1.u2'' None) w1 =
      (res_Json (errorResponse ''comic not found'') 404, w1)"
    by blast
  from this(1) [of demo_moment] this(2) show ?thesis unfolding if_P [OF n(1)] by blast
qed

end
