(* ===== verification/ApiTelegram.thy ===== *)
theory ApiTelegram
  imports ApiUsers
begin

text \<open>
  Users that come from the Telegram bot: it logs them in at the internal server of the gateway, and they
  use the public one with the tokens they get. The properties follow a chat through both servers and
  the services behind them, and say what the separation of the two servers gives.
\<close>

definition internal :: "jwt_lib \<Rightarrow> api_config \<Rightarrow> environment \<Rightarrow> moment \<Rightarrow> world handler" where
  "internal lib cfg e mo = serve internal_routes lib cfg (world_ports e) mo"

definition telegram_body :: "TelegramProfile \<Rightarrow> json option" where
  "telegram_body p = Some (JObject [(''tg_id'', JInt (TgID p)), (''username'', JString (Username p)),
     (''first_name'', JString (FirstName p)), (''last_name'', JString (LastName p))])"

definition telegram_request :: "TelegramProfile \<Rightarrow> http_request" where
  "telegram_request p =
     api_request ''POST'' [''api'', ''auth'', ''bot'', ''telegram'', ''login''] [] (telegram_body p)"

lemma decode_telegram_body:
  assumes "- 9223372036854775808 \<le> TgID p" and "TgID p \<le> 9223372036854775807"
  shows "decode_telegram (telegram_body p) = Some p"
proof -
  have n: "field_matches a b \<longleftrightarrow> a = b"
    if "a \<in> {''tg_id'', ''username'', ''first_name'', ''last_name''}"
      "b \<in> {''tg_id'', ''username'', ''first_name'', ''last_name''}" for a b
    using that by (elim insertE emptyE; simp only:; code_simp)
  show ?thesis
    using assms
    by (simp add: decode_telegram_def telegram_body_def struct_members_def string_field_def int64_field_def
        field_values_def is_string_def is_int64_def n)
qed

section \<open>A login of a chat\<close>

text \<open>The user of a chat that is known, or the one that is made for it.\<close>

definition chat_user :: "auth_db \<Rightarrow> int \<Rightarrow> int" where
  "chat_user d tid = (case tg_known d tid of None \<Rightarrow> auth_seq d | Some i \<Rightarrow> i)"

definition chat_login :: "int \<Rightarrow> TelegramProfile \<Rightarrow> auth_db \<Rightarrow> auth_db" where
  "chat_login now p d =
     (if tg_known d (TgID p) = None then add_tg now (new_user now d) p (take_id d) else set_profile now p d)"

lemma chat_login_user:
  assumes "auth_inv d" and "auth_room d" and "names_ok p"
  shows "\<exists>u. UpsertTelegramUser no_faults now alone p d = (Inr u, chat_login now p d) \<and>
      user_ID u = chat_user d (TgID p)"
    and "auth_inv (chat_login now p d)"
    and "tg_known (chat_login now p d) = (tg_known d)(TgID p \<mapsto> chat_user d (TgID p))"
    and "0 < chat_user d (TgID p)" and "chat_user d (TgID p) \<le> 4294967295"
proof -
  have seq: "auth_seq d \<le> 9223372036854775807" using assms(2) by (simp add: auth_room_def)
  have up: "UpsertTelegramUser no_faults now alone p d =
      (case tg_known d (TgID p) of
         Some uid \<Rightarrow> (Inr (the (List.find (\<lambda>u. user_ID u = uid) (auth_users d))), set_profile now p d)
       | None \<Rightarrow> (Inr (new_user now d), add_tg now (new_user now d) p (take_id d)))"
    using UpsertTelegramUser_ok [OF assms(1,3), of now] seq by (auto split: option.splits)
  have "\<exists>u d'. UpsertTelegramUser no_faults now alone p d = (Inr u, d') \<and> user_ID u = chat_user d (TgID p) \<and>
      auth_inv d' \<and> tg_known d' = (tg_known d)(TgID p \<mapsto> chat_user d (TgID p)) \<and>
      0 < chat_user d (TgID p) \<and> chat_user d (TgID p) \<le> 4294967295"
  proof (cases "tg_known d (TgID p)")
    case None
    from acc.upsert_new [where now = now, OF assms this] show ?thesis
      using None up by (auto simp: chat_user_def new_user_def)
  next
    case (Some i)
    from acc.upsert_known [where now = now, OF assms(1,3) this] acc.chat_ids [OF assms(1,2) this] show ?thesis
      using Some by (auto simp: chat_user_def fun_upd_idem)
  qed
  then show "\<exists>u. UpsertTelegramUser no_faults now alone p d = (Inr u, chat_login now p d) \<and>
      user_ID u = chat_user d (TgID p)"
    and "auth_inv (chat_login now p d)"
    and "tg_known (chat_login now p d) = (tg_known d)(TgID p \<mapsto> chat_user d (TgID p))"
    and "0 < chat_user d (TgID p)" and "chat_user d (TgID p) \<le> 4294967295"
    unfolding up by (auto simp: chat_login_def split: option.splits)
qed

text \<open>What the internal server answers to the bot, and what the databases hold then.\<close>

lemma telegram_login_request:
  assumes "auth_inv (w_auth w)" and "auth_room (w_auth w)"
    and "as_db (e_auth e) = auth_storage no_faults now alone None"
    and "0 < TgID p" and "TgID p \<le> 9223372036854775807" and "names_ok p"
    and "token_of (e_auth e) (e_now e * 1000) (chat_user (w_auth w) (TgID p)) tok"
  shows "internal lib cfg e mo (telegram_request p) w =
    (res_Json (tokenResponse tok) 200, w\<lparr>w_auth := chat_login now p (w_auth w)\<rparr>)"
proof -
  note c = chat_login_user [OF assms(1,2,6)]
  obtain u where u: "ap_Upsert (as_db (e_auth e)) p (w_auth w) = (Inr u, chat_login now p (w_auth w))"
    "user_ID u = chat_user (w_auth w) (TgID p)"
    using c(1) [of now] assms(3) by (auto simp: auth_storage_def)
  have "generateToken (e_auth e) (e_now e * 1000) (chat_user (w_auth w) (TgID p)) = Inr tok"
    using assms(7) c(4,5) by (intro generateToken_ok) (simp_all add: token_of_def)
  then have server: "auth_server_BotLoginTelegram (e_auth e) (e_now e * 1000) (Some p) (w_auth w) =
      (Inr tok, chat_login now p (w_auth w))"
    using assms(4) u by (simp add: auth_server_BotLoginTelegram_def Auth_BotLoginTelegram_def)
  have r: "find_route internal_routes ''POST'' [''api'', ''auth'', ''bot'', ''telegram'', ''login''] = Some (EP_BotTelegram, [])"
    by code_simp
  show ?thesis
    using assms(4,5) server
    by (simp add: internal_def serve_def telegram_request_def r endpoint_handler_def NewBotTelegramLoginHandler_def
        decode_telegram_body world_ports_def auth_client_def api_auth_BotLoginTelegram_def world_auth_stub_def Let_def)
qed

lemma telegram_not_public:
  "public lib cfg e mo (telegram_request p) w = (http_Error ''404 page not found'' 404, w)"
proof -
  let ?path = "[''api'', ''auth'', ''bot'', ''telegram'', ''login'']"
  have "find_route public_routes ''POST'' ?path = None"
    "\<not> list_ex (\<lambda>(pm, ps, ep). match_path ps ?path \<noteq> None) public_routes"
    by code_simp+
  then show ?thesis by (simp add: public_def serve_def telegram_request_def no_route_def)
qed

section \<open>Properties\<close>

text \<open>C11: A chat through both servers: the first login of a chat at the internal server makes one user and
  answers with a token; a later login of the same chat, whatever names without NUL bytes it brings, answers with a token
  of the same user and makes no other. A favorite added at the public server with the first token is on
  the list that is read with the second one, where it cannot be added again. The bot's request itself is
  answered with 404 at the public server.\<close>

theorem telegram_story:
  assumes "world_ok w" and "fav_inv (w_favorites w)" and "auth_inv (w_auth w)" and "auth_seq (w_auth w) \<le> 4294967294"
    and "\<forall>r \<in> set (w_favorites w). f_user r < auth_seq (w_auth w)" and "tg_known (w_auth w) (TgID p) = None"
    and "as_db (e_auth e) = auth_storage no_faults now alone None" and "as_jwt (e_auth e) = lib"
    and "as_secret (e_auth e) = AuthJWTSecret cfg" and "0 < TgID p" and "TgID p \<le> 9223372036854775807" and "TgID q = TgID p"
    and "names_ok p" and "names_ok q"
    and "jwt_faithful lib ''HS256'' (AuthJWTSecret cfg)
           (user_claims (as_ttl (e_auth e)) (e_now e * 1000) (uint32 (auth_seq (w_auth w)))) tok"
    and "jwt_faithful lib ''HS256'' (AuthJWTSecret cfg)
           (user_claims (as_ttl (e_auth e)) (t * 1000) (uint32 (auth_seq (w_auth w)))) tok'"
    and "TrimSpace tok = tok" and "tok \<noteq> []" and "TrimSpace tok' = tok'" and "tok' \<noteq> []"
    and "mo_now mo < NewNumericDate (e_now e * 1000 + as_ttl (e_auth e)) * 1000000000"
    and "mo_now mo < NewNumericDate (t * 1000 + as_ttl (e_auth e)) * 1000000000"
    and "i \<in> c_id ` set (w_comics w)"
  shows "\<exists>w1 w2 w3.
    internal lib cfg e mo (telegram_request p) w = (res_Json (tokenResponse tok) 200, w1) \<and>
    internal lib cfg (e\<lparr>e_now := t\<rparr>) mo (telegram_request q) w1 = (res_Json (tokenResponse tok') 200, w2) \<and>
    auth_users (w_auth w2) = auth_users (w_auth w) @ [new_user now (w_auth w)] \<and>
    public lib cfg e mo (api_request ''POST'' [''api'', ''mycomics'', FormatUint (nat i)] (''Token '' @ tok) None) w2 =
      (WriteHeader 204, w3) \<and>
    public lib cfg e mo (api_request ''GET'' [''api'', ''mycomics''] (''Token '' @ tok') None) w3 =
      (res_Json (favoritesListResponse
         [\<lparr>fi_comic_id = int32 i, fi_created_at_unix = e_now e div 1000000\<rparr>]) 200, w3) \<and>
    public lib cfg e mo (api_request ''POST'' [''api'', ''mycomics'', FormatUint (nat i)] (''Token '' @ tok') None) w3 =
      (res_Json (errorResponse ''already exists'') 409, w3) \<and>
    public lib cfg e mo (telegram_request p) w = (http_Error ''404 page not found'' 404, w)"
proof -
  let ?d = "w_auth w"
  define u where "u = uint32 (auth_seq ?d)"
  have q: "1 \<le> auth_seq ?d" "auth_seq ?d \<le> 4294967295" using assms(3,4) by (simp_all add: auth_inv_def)
  then have u: "uint u = auth_seq ?d" unfolding u_def by (intro uint_uint32) simp_all
  then have u0: "u \<noteq> 0" using q(1) by (metis not_one_le_zero unsigned_0)
  let ?d1 = "chat_login now p ?d"
  have new: "chat_user ?d (TgID p) = auth_seq ?d" using assms(6) by (simp add: chat_user_def)
  have room: "auth_room ?d" "auth_room ?d1"
    using assms(4,6) by (simp_all add: auth_room_def chat_login_def add_tg_def take_id_def)
  note c1 = chat_login_user(2,3) [OF assms(3) room(1) assms(13), of now]
  have same: "tg_known ?d1 (TgID q) = Some (auth_seq ?d)" "chat_user ?d1 (TgID q) = auth_seq ?d"
    using c1(2) assms(12) new by (simp_all add: chat_user_def)
  have tok: "token_of (e_auth e) (e_now e * 1000) (chat_user ?d (TgID p)) tok"
    "token_of (e_auth e) (t * 1000) (chat_user ?d1 (TgID q)) tok'"
    using assms(8,9,15,16) new same(2) by (simp_all add: token_of_def jwt_faithful_def)
  have first: "internal lib cfg e mo (telegram_request p) w = (res_Json (tokenResponse tok) 200, w\<lparr>w_auth := ?d1\<rparr>)"
    by (rule telegram_login_request [OF assms(3) room(1) assms(7,10,11,13) tok(1)])
  let ?w2 = "w\<lparr>w_auth := chat_login now q ?d1\<rparr>"
  have second: "internal lib cfg (e\<lparr>e_now := t\<rparr>) mo (telegram_request q) (w\<lparr>w_auth := ?d1\<rparr>) =
      (res_Json (tokenResponse tok') 200, ?w2)"
    using telegram_login_request [of "w\<lparr>w_auth := ?d1\<rparr>" "e\<lparr>e_now := t\<rparr>" now q tok' lib cfg mo]
      c1(1) room(2) assms(7,10,11,12,14) tok(2) by simp
  have users: "auth_users (w_auth ?w2) = auth_users ?d @ [new_user now ?d]"
    using assms(6) same(1) by (simp add: chat_login_def add_tg_def take_id_def set_profile_def)
  have user: "user_of lib (AuthJWTSecret cfg) (mo_now mo) (api_request m path (''Token '' @ tok) b) = Some u"
    "user_of lib (AuthJWTSecret cfg) (mo_now mo) (api_request m path (''Token '' @ tok') b) = Some u" for m path b
    by (rule user_of_token [OF assms(15) [folded u_def] assms(17,18) _ assms(21) u0], simp)
      (rule user_of_token [OF assms(16) [folded u_def] assms(19,20) _ assms(22) u0], simp)
  have "world_ok ?w2" "fav_inv (w_favorites ?w2)" "\<forall>r \<in> set (w_favorites ?w2). f_user r \<noteq> uint u"
    "i \<in> c_id ` set (w_comics ?w2)"
    using assms(1,2,5,23) u by (auto simp: world_ok_def)
  from first_favorite [OF this(1-3) user this(4), of e] first second users telegram_not_public [of lib cfg e mo p w]
  show ?thesis by blast
qed

lemma telegram_story_witness:
  "\<exists>w3 :: world. fst (public first_lib demo_config first_env demo_moment
      (api_request ''GET'' [''api'', ''mycomics''] (''Token '' @ ''t0.t1.t2'') None) w3) =
    res_Json (favoritesListResponse [\<lparr>fi_comic_id = 5, fi_created_at_unix = 0\<rparr>]) 200"
proof -
  let ?p = "\<lparr>TgID = 42, Username = ''u'', FirstName = [], LastName = []\<rparr>"
  let ?q = "\<lparr>TgID = 42, Username = ''v'', FirstName = ''V'', LastName = []\<rparr>"
  have w: "fav_inv (w_favorites demo_world)" "auth_inv (w_auth demo_world)" "auth_seq (w_auth demo_world) \<le> 4294967294"
    "\<forall>r \<in> set (w_favorites demo_world). f_user r < auth_seq (w_auth demo_world)"
    "tg_known (w_auth demo_world) (TgID ?p) = None"
    using auth_empty_inv by (simp_all add: demo_world_def fav_inv_def auth_empty_def tg_known_def)
  have a: "as_db (e_auth first_env) = auth_storage no_faults 7 alone None" "as_jwt (e_auth first_env) = first_lib"
    "as_secret (e_auth first_env) = AuthJWTSecret demo_config"
    by (simp_all add: first_env_def demo_env_def demo_auth_def demo_config_def)
  have p: "0 < TgID ?p" "TgID ?p \<le> 9223372036854775807" "TgID ?q = TgID ?p" "names_ok ?p" "names_ok ?q"
    and v: "''t0.t1.t2'' \<noteq> []"
    by (simp_all add: names_ok_def pg_text_def)
  have t: "TrimSpace ''t0.t1.t2'' = ''t0.t1.t2''" by code_simp
  have j: "jwt_faithful first_lib ''HS256'' (AuthJWTSecret demo_config)
      (user_claims (as_ttl (e_auth first_env)) (e_now first_env * 1000) (uint32 (auth_seq (w_auth demo_world)))) ''t0.t1.t2''"
    using one_token_faithful [of "''s''" "user_claims 3600000000000 7000 1"]
    by (simp add: first_lib_def demo_config_def first_env_def demo_env_def demo_auth_def demo_world_def auth_empty_def uint32_def)
  have n: "mo_now demo_moment < NewNumericDate (e_now first_env * 1000 + as_ttl (e_auth first_env)) * 1000000000"
    by (simp add: demo_moment_def NewNumericDate_def first_env_def demo_env_def demo_auth_def)
  have c: "5 \<in> c_id ` set (w_comics demo_world)" by (simp add: demo_world_def demo_table_def)
  have s: "e_now first_env div 1000000 = 0" "int32 5 = 5"
    by (simp_all add: first_env_def demo_env_def int32_def)
  from telegram_story [OF demo_world_ok w a p j j t v t v n n c] obtain w3 where
    "public first_lib demo_config first_env demo_moment
      (api_request ''GET'' [''api'', ''mycomics''] (''Token '' @ ''t0.t1.t2'') None) w3 =
      (res_Json (favoritesListResponse [\<lparr>fi_comic_id = int32 5, fi_created_at_unix = e_now first_env div 1000000\<rparr>]) 200, w3)"
    by blast
  then show ?thesis unfolding s by (intro exI [of _ w3]) simp
qed

end
