(* ===== verification/ApiOutages.thy ===== *)
theory ApiOutages
  imports ApiRoutes
begin

text \<open>
  The gateway when services cannot be reached: which routes need which service, what they answer when
  it is down, and that all others do not notice.
\<close>

datatype service = SearchSvc | UpdateSvc | AuthSvc | FavoritesSvc | WordsSvc

text \<open>The services a route calls, in the order of the calls; the ping asks all of them.\<close>

fun needs :: "endpoint \<Rightarrow> service list" where
  "needs EP_Ping = [WordsSvc, UpdateSvc, SearchSvc, AuthSvc, FavoritesSvc]"
| "needs EP_Login = []"
| "needs EP_Search = [SearchSvc]"
| "needs EP_ISearch = [SearchSvc]"
| "needs EP_Comics = [SearchSvc]"
| "needs EP_ComicByID = [SearchSvc]"
| "needs EP_Random = [SearchSvc]"
| "needs EP_Update = [UpdateSvc]"
| "needs EP_Stats = [UpdateSvc]"
| "needs EP_Status = [UpdateSvc]"
| "needs EP_Drop = [UpdateSvc]"
| "needs EP_Register = [AuthSvc]"
| "needs EP_UserLogin = [AuthSvc]"
| "needs EP_BotTelegram = [AuthSvc]"
| "needs EP_FavList = [FavoritesSvc]"
| "needs EP_FavAdd = [SearchSvc, FavoritesSvc]"
| "needs EP_FavDelete = [FavoritesSvc]"

text \<open>Stubs that answer every call with the same status.\<close>

definition dead_search :: "rpc_status \<Rightarrow> 's search_stub" where
  "dead_search st =
     \<lparr>ss_Ping = (\<lambda>s. Inl st), ss_Find = (\<lambda>phrase limit s. Inl st), ss_IndexedSearch = (\<lambda>phrase limit s. Inl st),
      ss_GetIDComic = (\<lambda>cid s. Inl st), ss_GetRandomComic = (\<lambda>s. Inl st), ss_GetAllComics = (\<lambda>page limit s. Inl st)\<rparr>"

definition dead_update :: "rpc_status \<Rightarrow> 's update_stub" where
  "dead_update st =
     \<lparr>ut_Ping = (\<lambda>s. Inl st), ut_Status = (\<lambda>s. Inl st), ut_Stats = (\<lambda>s. Inl st),
      ut_Update = (\<lambda>s. (Inl st, s)), ut_Drop = (\<lambda>s. (Inl st, s))\<rparr>"

definition dead_auth :: "rpc_status \<Rightarrow> 's auth_stub" where
  "dead_auth st =
     \<lparr>at_Ping = (\<lambda>s. Inl st), at_Register = (\<lambda>email pw s. (Inl st, s)), at_Login = (\<lambda>email pw s. Inl st),
      at_BotLoginTelegram = (\<lambda>tg s. (Inl st, s))\<rparr>"

definition dead_favorites :: "rpc_status \<Rightarrow> 's favorites_stub" where
  "dead_favorites st =
     \<lparr>ft_Ping = (\<lambda>s. Inl st), ft_Add = (\<lambda>u c s. (Inl st, s)), ft_Delete = (\<lambda>u c s. (Inl st, s)),
      ft_List = (\<lambda>u s. Inl st)\<rparr>"

text \<open>The ports of the gateway while some services are down.\<close>

definition shut :: "service set \<Rightarrow> rpc_status \<Rightarrow> 's api_ports \<Rightarrow> 's api_ports" where
  "shut down st p =
     \<lparr>pt_search = (if SearchSvc \<in> down then search_client (dead_search st) else pt_search p),
      pt_update = (if UpdateSvc \<in> down then update_client (dead_update st) else pt_update p),
      pt_auth = (if AuthSvc \<in> down then auth_client (dead_auth st) else pt_auth p),
      pt_favorites = (if FavoritesSvc \<in> down then favorites_client (dead_favorites st) else pt_favorites p),
      pt_words_Ping = (if WordsSvc \<in> down then api_words_Ping (\<lambda>s. Inl st) else pt_words_Ping p)\<rparr>"

definition unavailable_answer :: http_response where
  "unavailable_answer = res_Json (errorResponse ''dependency unavailable'') 503"

lemma shut_simps [simp]:
  "pt_search (shut down st p) = (if SearchSvc \<in> down then search_client (dead_search st) else pt_search p)"
  "pt_update (shut down st p) = (if UpdateSvc \<in> down then update_client (dead_update st) else pt_update p)"
  "pt_auth (shut down st p) = (if AuthSvc \<in> down then auth_client (dead_auth st) else pt_auth p)"
  "pt_favorites (shut down st p) = (if FavoritesSvc \<in> down then favorites_client (dead_favorites st) else pt_favorites p)"
  "pt_words_Ping (shut down st p) = (if WordsSvc \<in> down then api_words_Ping (\<lambda>s. Inl st) else pt_words_Ping p)"
  by (simp_all add: shut_def)

text \<open>A call of a dead service is an unavailable dependency, whatever the other codes of its client mean.\<close>

lemma dead_calls:
  assumes "unavailable_code (status_code st)"
  shows "se_Find (search_client (dead_search st)) ph l s = Inl (Sentinel Api_ErrUnavailable)"
    "se_IndexedSearch (search_client (dead_search st)) ph l s = Inl (Sentinel Api_ErrUnavailable)"
    "se_GetComic (search_client (dead_search st)) i s = Inl (Sentinel Api_ErrUnavailable)"
    "se_RandomComic (search_client (dead_search st)) s = Inl (Sentinel Api_ErrUnavailable)"
    "se_ListComics (search_client (dead_search st)) pg l s = Inl (Sentinel Api_ErrUnavailable)"
    "up_Stats (update_client (dead_update st)) s = Inl (Sentinel Api_ErrUnavailable)"
    "up_Status (update_client (dead_update st)) s = Inl (Sentinel Api_ErrUnavailable)"
    "up_Update (update_client (dead_update st)) s = (Inl (Sentinel Api_ErrUnavailable), s)"
    "up_Drop (update_client (dead_update st)) s = (Inl (Sentinel Api_ErrUnavailable), s)"
    "au_Register (auth_client (dead_auth st)) em pw s = (Inl (Sentinel Api_ErrUnavailable), s)"
    "au_Login (auth_client (dead_auth st)) em pw s = Inl (Sentinel Api_ErrUnavailable)"
    "au_BotLoginTelegram (auth_client (dead_auth st)) tg s = (Inl (Sentinel Api_ErrUnavailable), s)"
    "fv_Add (favorites_client (dead_favorites st)) u c s = (Inl (Sentinel Api_ErrUnavailable), s)"
    "fv_Delete (favorites_client (dead_favorites st)) u c s = (Inl (Sentinel Api_ErrUnavailable), s)"
    "fv_List (favorites_client (dead_favorites st)) u s = Inl (Sentinel Api_ErrUnavailable)"
  using assms
  by (auto simp: search_client_def dead_search_def api_search_Find_def api_search_IndexedSearch_def api_search_GetComic_def
      api_search_RandomComic_def api_search_ListComics_def update_client_def dead_update_def api_update_Stats_def
      api_update_Status_def api_update_Update_def api_update_Drop_def auth_client_def dead_auth_def api_auth_Register_def
      api_auth_Login_def api_auth_BotLoginTelegram_def favorites_client_def dead_favorites_def api_favorites_Add_def
      api_favorites_Delete_def api_favorites_List_def other_status_def unavailable_code_def)

text \<open>A route looks at no service but its own.\<close>

lemma untouched_route:
  assumes "set (needs ep) \<inter> down = {}"
  shows "endpoint_handler lib cfg (shut down st p) mo ep = endpoint_handler lib cfg p mo ep"
  using assms by (cases ep) (simp_all add: endpoint_handler_def pingmap_def)

section \<open>Handlers over a dead service\<close>

text \<open>
  A handler either reaches its first call, which fails, or has answered before it, as it would over
  any other port.
\<close>

definition settled :: "('p \<Rightarrow> 's handler) \<Rightarrow> 'p \<Rightarrow> http_request \<Rightarrow> 's \<Rightarrow> bool" where
  "settled h dead rq s =
     (h dead rq s = (unavailable_answer, s) \<or> (\<exists>r. \<forall>q. h q rq s = (r, s)))"

lemma settled_call: "h dead rq s = (unavailable_answer, s) \<Longrightarrow> settled h dead rq s"
  by (simp add: settled_def)

lemma settled_early: "(\<And>q. h q rq s = (r, s)) \<Longrightarrow> settled h dead rq s"
  by (auto simp: settled_def)

lemma settled_search:
  assumes "unavailable_code (status_code st)"
  shows "settled NewSearchHandler (search_client (dead_search st)) rq s"
    and "settled NewIndexedSearchHandler (search_client (dead_search st)) rq s"
proof -
  have "settled NewSearchHandler (search_client (dead_search st)) rq s \<and>
    settled NewIndexedSearchHandler (search_client (dead_search st)) rq s"
  proof (cases "if rq_query rq ''limit'' \<noteq> [] then ParseUint 32 (rq_query rq ''limit'') else Some 0")
    case None
    then show ?thesis
      by (intro conjI settled_early) (simp_all only: NewSearchHandler_def NewIndexedSearchHandler_def reads_def Let_def option.case)
  next
    case (Some n)
    then show ?thesis
      by (intro conjI settled_call) (simp_all add: NewSearchHandler_def NewIndexedSearchHandler_def reads_def Let_def
          dead_calls [OF assms] unavailable_answer_def)
  qed
  then show "settled NewSearchHandler (search_client (dead_search st)) rq s"
    "settled NewIndexedSearchHandler (search_client (dead_search st)) rq s" by simp_all
qed

lemma settled_comics:
  assumes "unavailable_code (status_code st)"
  shows "settled NewComicsListHandler (search_client (dead_search st)) rq s"
    and "settled NewComicByIDHandler (search_client (dead_search st)) rq s"
    and "settled NewRandomComicHandler (search_client (dead_search st)) rq s"
proof -
  note d = dead_calls [OF assms] unavailable_answer_def
  show "settled NewComicsListHandler (search_client (dead_search st)) rq s"
  proof (cases "page_param (rq_query rq ''page'') 1")
    case None
    then show ?thesis by (intro settled_early) (simp add: NewComicsListHandler_def reads_def)
  next
    case (Some pg)
    then show ?thesis
      by (cases "page_param (rq_query rq ''limit'') 10")
        (intro settled_early, simp add: NewComicsListHandler_def reads_def,
         intro settled_call, simp add: NewComicsListHandler_def reads_def d)
  qed
  show "settled NewComicByIDHandler (search_client (dead_search st)) rq s"
  proof (cases "rq_pathvalue rq ''id'' = [] \<or> (case Atoi (rq_pathvalue rq ''id'') of None \<Rightarrow> True | Some i \<Rightarrow> i \<le> 0)")
    case True
    then show ?thesis
      by (cases "rq_pathvalue rq ''id'' = []"; cases "Atoi (rq_pathvalue rq ''id'')")
        (intro settled_early, simp add: NewComicByIDHandler_def reads_def)+
  next
    case False
    then show ?thesis
      by (intro settled_call) (auto simp: NewComicByIDHandler_def reads_def d split: option.splits)
  qed
  show "settled NewRandomComicHandler (search_client (dead_search st)) rq s"
    by (intro settled_call) (simp add: NewRandomComicHandler_def reads_def d)
qed

lemma settled_update:
  assumes "unavailable_code (status_code st)"
  shows "settled NewUpdateHandler (update_client (dead_update st)) rq s"
    and "settled NewDropHandler (update_client (dead_update st)) rq s"
    and "settled NewUpdateStatsHandler (update_client (dead_update st)) rq s"
    and "settled NewUpdateStatusHandler (update_client (dead_update st)) rq s"
  by (intro settled_call, simp add: NewUpdateHandler_def NewDropHandler_def NewUpdateStatsHandler_def
      NewUpdateStatusHandler_def reads_def dead_calls [OF assms] unavailable_answer_def)+

lemma settled_auth:
  assumes "unavailable_code (status_code st)"
  shows "settled NewRegisterHandler (auth_client (dead_auth st)) rq s"
    and "settled NewUserLoginHandler (auth_client (dead_auth st)) rq s"
    and "settled NewBotTelegramLoginHandler (auth_client (dead_auth st)) rq s"
proof -
  note d = dead_calls [OF assms] unavailable_answer_def
  note h = NewRegisterHandler_def NewUserLoginHandler_def NewBotTelegramLoginHandler_def reads_def
  have "settled NewRegisterHandler (auth_client (dead_auth st)) rq s \<and>
    settled NewUserLoginHandler (auth_client (dead_auth st)) rq s"
  proof (cases "rq_method rq = ''POST''")
    case False
    then show ?thesis by (intro conjI settled_early) (simp_all add: h)
  next
    case post: True
    show ?thesis
    proof (cases "decode_credentials (rq_body rq)")
      case None
      then show ?thesis using post by (intro conjI settled_early) (simp_all add: h)
    next
      case (Some c)
      then show ?thesis
        using post by (cases c; cases "fst c = [] \<or> snd c = []")
          (intro conjI settled_early, simp_all add: h, intro conjI settled_call, simp_all add: h d)
    qed
  qed
  then show "settled NewRegisterHandler (auth_client (dead_auth st)) rq s"
    "settled NewUserLoginHandler (auth_client (dead_auth st)) rq s" by simp_all
  show "settled NewBotTelegramLoginHandler (auth_client (dead_auth st)) rq s"
  proof (cases "decode_telegram (rq_body rq)")
    case None
    then show ?thesis by (intro settled_early) (simp add: h)
  next
    case (Some tg)
    then show ?thesis
      by (cases "TgID tg = 0") (intro settled_early, simp add: h, intro settled_call, simp add: h d)
  qed
qed

lemma settled_favorites:
  assumes "unavailable_code (status_code st)"
  shows "settled NewFavoritesListHandler (favorites_client (dead_favorites st)) rq s"
    and "settled NewFavoritesDeleteHandler (favorites_client (dead_favorites st)) rq s"
proof -
  note d = dead_calls [OF assms] unavailable_answer_def
  note h = NewFavoritesListHandler_def NewFavoritesDeleteHandler_def UserIDFromContext_def reads_def
  show "settled NewFavoritesListHandler (favorites_client (dead_favorites st)) rq s"
  proof (cases "case rq_user rq of None \<Rightarrow> True | Some u \<Rightarrow> u = 0")
    case True
    then show ?thesis by (cases "rq_user rq") (intro settled_early, simp add: h)+
  next
    case False
    then show ?thesis by (intro settled_call) (auto simp: h d split: option.splits)
  qed
  show "settled NewFavoritesDeleteHandler (favorites_client (dead_favorites st)) rq s"
  proof (cases "case rq_user rq of None \<Rightarrow> True | Some u \<Rightarrow> u = 0 \<or>
      (case Atoi (rq_pathvalue rq ''id'') of None \<Rightarrow> True | Some i \<Rightarrow> i \<le> 0)")
    case True
    then show ?thesis
      by (cases "rq_user rq"; cases "rq_user rq = Some 0"; cases "Atoi (rq_pathvalue rq ''id'')")
        (intro settled_early, simp add: h)+
  next
    case False
    then show ?thesis by (intro settled_call) (auto simp: h d split: option.splits)
  qed
qed

text \<open>Adding a favorite looks the comic up before it is stored.\<close>

lemma settled_favorites_add:
  assumes "unavailable_code (status_code st)"
  shows "settled (\<lambda>q. NewFavoritesAddHandler (fst q) (snd q)) (fav, search_client (dead_search st)) rq s"
    and "settled (\<lambda>q. NewFavoritesAddHandler q search) (favorites_client (dead_favorites st)) rq s"
proof -
  note d = dead_calls [OF assms] unavailable_answer_def
  note h = NewFavoritesAddHandler_def UserIDFromContext_def
  consider (refused) r where "\<And>f e. NewFavoritesAddHandler f e rq s = (r, s)"
    | (called) u i where "rq_user rq = Some u" "u \<noteq> 0" "Atoi (rq_pathvalue rq ''id'') = Some i" "i > 0"
    by (cases "rq_user rq"; cases "rq_user rq = Some 0"; cases "Atoi (rq_pathvalue rq ''id'')")
      (fastforce simp: h)+
  note two = this
  show "settled (\<lambda>q. NewFavoritesAddHandler (fst q) (snd q)) (fav, search_client (dead_search st)) rq s"
    using two by cases (auto intro: settled_early settled_call simp: h d)
  show "settled (\<lambda>q. NewFavoritesAddHandler q search) (favorites_client (dead_favorites st)) rq s"
    using two
  proof cases
    case called
    then show ?thesis
      by (cases "se_GetComic search i s") (auto simp: settled_def h d)
  qed (auto intro: settled_early)
qed

text \<open>The middleware around a handler keeps the property: its own answers need no service.\<close>

lemma settled_limits:
  assumes "settled h dead rq s"
  shows "settled (\<lambda>q. WithConcurrencyLimit n held (h q)) dead rq s"
    and "settled (\<lambda>q. WithRateLimit n waited (h q)) dead rq s"
  using assms by (auto simp: settled_def WithConcurrencyLimit_def WithRateLimit_def)

lemma settled_superuser:
  "settled h dead rq s \<Longrightarrow> settled (\<lambda>q. RequireSuperuser lib now (h q)) dead rq s"
  by (auto simp: settled_def RequireSuperuser_eq)

lemma settled_user:
  "(\<And>u. settled h dead (rq\<lparr>rq_user := Some u\<rparr>) s) \<Longrightarrow>
   settled (\<lambda>q. RequireUser lib secret now (h q)) dead rq s"
  by (auto simp: settled_def RequireUser_eq split: option.splits)

lemmas settled_routes =
  settled_search [THEN settled_limits(1)] settled_search [THEN settled_limits(2)] settled_comics
  settled_update settled_update [THEN settled_superuser] settled_auth
  settled_favorites [THEN settled_user] settled_favorites_add [THEN settled_user]

text \<open>The ports that differ from \<open>p\<close> at most in services that are down.\<close>

lemma same_up:
  assumes "shut down st q = shut down st p"
  shows "SearchSvc \<notin> down \<Longrightarrow> pt_search q = pt_search p"
    and "FavoritesSvc \<notin> down \<Longrightarrow> pt_favorites q = pt_favorites p"
  using arg_cong [OF assms, of pt_search] arg_cong [OF assms, of pt_favorites] by simp_all

lemma settled_answer:
  assumes "settled h (f (shut down st p)) rq s" and "\<And>q. endpoint_handler lib cfg q mo ep = h (f q)"
  shows "endpoint_handler lib cfg (shut down st p) mo ep rq s = (unavailable_answer, s) \<or>
    (\<exists>r. \<forall>q. shut down st q = shut down st p \<longrightarrow> endpoint_handler lib cfg q mo ep rq s = (r, s))"
  using assms by (auto simp: settled_def)

lemma contained_route:
  assumes code: "unavailable_code (status_code st)" and hit: "set (needs ep) \<inter> down \<noteq> {}" and ping: "ep \<noteq> EP_Ping"
  shows "endpoint_handler lib cfg (shut down st p) mo ep rq s = (unavailable_answer, s) \<or>
    (\<exists>r. \<forall>q. shut down st q = shut down st p \<longrightarrow> endpoint_handler lib cfg q mo ep rq s = (r, s))"
proof (cases "ep = EP_FavAdd")
  case True
  note h = True endpoint_handler_def
  show ?thesis
  proof (cases "SearchSvc \<in> down")
    case True
    then show ?thesis
      by (intro settled_answer [where f = "\<lambda>q. (pt_favorites q, pt_search q)" and
            h = "\<lambda>x. RequireUser lib (AuthJWTSecret cfg) (mo_now mo) (NewFavoritesAddHandler (fst x) (snd x))"])
        (simp_all add: h settled_routes [OF code])
  next
    case False
    then have fav: "FavoritesSvc \<in> down" using hit h(1) by simp
    let ?h = "\<lambda>q. RequireUser lib (AuthJWTSecret cfg) (mo_now mo) (NewFavoritesAddHandler q (pt_search p))"
    have up: "endpoint_handler lib cfg q mo ep = ?h (pt_favorites q)" if "shut down st q = shut down st p" for q
      using same_up(1) [OF that False] by (simp add: h)
    have "settled ?h (pt_favorites (shut down st p)) rq s"
      using fav settled_favorites_add(2) [OF code, THEN settled_user] by simp
    moreover have "endpoint_handler lib cfg (shut down st p) mo ep = ?h (pt_favorites (shut down st p))"
      using False by (simp add: h)
    ultimately show ?thesis unfolding settled_def using up by metis
  qed
next
  case False
  show ?thesis
  proof (cases "hd (needs ep)")
    case SearchSvc
    then show ?thesis using hit ping False
      by (cases ep; intro settled_answer [where f = pt_search])
        (simp_all add: endpoint_handler_def settled_routes [OF code])
  next
    case UpdateSvc
    then show ?thesis using hit ping False
      by (cases ep; intro settled_answer [where f = pt_update])
        (simp_all add: endpoint_handler_def settled_routes [OF code])
  next
    case AuthSvc
    then show ?thesis using hit ping False
      by (cases ep; intro settled_answer [where f = pt_auth])
        (simp_all add: endpoint_handler_def settled_routes [OF code])
  next
    case FavoritesSvc
    then show ?thesis using hit ping False
      by (cases ep; intro settled_answer [where f = pt_favorites])
        (simp_all add: endpoint_handler_def settled_routes [OF code])
  next
    case WordsSvc
    then show ?thesis using hit ping False by (cases ep) simp_all
  qed
qed

text \<open>The names the ping reports.\<close>

fun service_name :: "service \<Rightarrow> string" where
  "service_name SearchSvc = ''search''"
| "service_name UpdateSvc = ''update''"
| "service_name AuthSvc = ''auth''"
| "service_name FavoritesSvc = ''favorites''"
| "service_name WordsSvc = ''words''"

text \<open>The endpoint a request is dispatched to, if any.\<close>

definition endpoint_of :: "http_request \<Rightarrow> endpoint option" where
  "endpoint_of rq = map_option fst (find_route public_routes (rq_method rq) (rq_path rq))"

lemma dead_pings:
  "isl (se_Ping (search_client (dead_search st)) s)" "isl (up_Ping (update_client (dead_update st)) s)"
  "isl (au_Ping (auth_client (dead_auth st)) s)" "isl (fv_Ping (favorites_client (dead_favorites st)) s)"
  "isl (api_words_Ping (\<lambda>s. Inl st) s)"
  by (simp_all add: search_client_def dead_search_def api_search_Ping_def update_client_def dead_update_def
      api_update_Ping_def auth_client_def dead_auth_def api_auth_Ping_def favorites_client_def
      dead_favorites_def api_favorites_Ping_def api_words_Ping_def)

lemma service_names:
  "n \<in> service_name ` down \<longleftrightarrow> (\<exists>x \<in> down. n = service_name x)"
  "service_name x = service_name y \<longleftrightarrow> x = y"
  by (auto simp: image_iff) (cases x; cases y; simp)+

definition ping_text :: "api_err + unit \<Rightarrow> string" where
  "ping_text r = (case r of Inl err \<Rightarrow> ''unavailable'' | Inr _ \<Rightarrow> ''ok'')"

definition ping_of :: "'s api_ports \<Rightarrow> service \<Rightarrow> 's \<Rightarrow> api_err + unit" where
  "ping_of p x = (case x of SearchSvc \<Rightarrow> se_Ping (pt_search p) | UpdateSvc \<Rightarrow> up_Ping (pt_update p)
     | AuthSvc \<Rightarrow> au_Ping (pt_auth p) | FavoritesSvc \<Rightarrow> fv_Ping (pt_favorites p) | WordsSvc \<Rightarrow> pt_words_Ping p)"

definition ping_table :: "'s api_ports \<Rightarrow> 's \<Rightarrow> string \<Rightarrow> string option" where
  "ping_table p s = map_of (map (\<lambda>x. (service_name x, ping_text (ping_of p x s))) (needs EP_Ping))"

lemma NewPingHandler_table:
  "NewPingHandler (pingmap p) rq s = (res_Json (pingResponse (ping_table p s)) 200, s)"
  by (simp add: NewPingHandler_def reads_def pingmap_def ping_table_def ping_of_def ping_text_def)

lemma ping_table_service: "ping_table p s (service_name x) = Some (ping_text (ping_of p x s))"
  by (cases x) (simp_all add: ping_table_def)

lemma ping_table_other: "(\<And>x. n \<noteq> service_name x) \<Longrightarrow> ping_table p s n = None"
  by (auto simp: ping_table_def map_of_eq_None_iff simp del: service_name.simps)

lemma ping_of_shut: "ping_text (ping_of (shut down st p) x s) =
    (if x \<in> down then ''unavailable'' else ping_text (ping_of p x s))"
  using dead_pings [of st s] by (cases x) (auto simp: ping_of_def ping_text_def split: sum.splits)

lemma ping_table_shut:
  "ping_table (shut down st p) s = (\<lambda>n. if n \<in> service_name ` down then Some ''unavailable'' else ping_table p s n)"
proof
  fix n
  show "ping_table (shut down st p) s n = (if n \<in> service_name ` down then Some ''unavailable'' else ping_table p s n)"
  proof (cases "\<exists>x. n = service_name x")
    case True
    then obtain x where "n = service_name x" ..
    then show ?thesis
      by (auto simp: ping_table_service ping_of_shut service_names simp del: service_name.simps)
  next
    case False
    then show ?thesis by (auto simp: ping_table_other)
  qed
qed

text \<open>What a request is answered with, by the endpoint that is found for it.\<close>

lemma serve_endpoint:
  assumes "endpoint_of rq = Some ep"
  obtains rq' where "\<And>p. serve public_routes lib cfg p mo rq s = endpoint_handler lib cfg p mo ep rq' s"
  using assms by (auto simp: endpoint_of_def serve_def)

section \<open>Properties\<close>

text \<open>C5: An outage is contained. Let any set of services be unreachable (each of their calls fails as
  unavailable or timed out), and the others behave in any way. A request whose route needs none of them is
  served as if they were up. A request whose route needs one is answered 503 \<open>dependency unavailable\<close>, or
  gets an answer that does not depend on them, such as one refused by the middleware or for its
  parameters; in both cases nothing is changed. The ping answers 200 and reports exactly the services
  that are down as unavailable, and the others as before.\<close>

theorem outages_contained:
  assumes "unavailable_code (status_code st)" and "endpoint_of rq = Some ep"
  shows "(set (needs ep) \<inter> down = {} \<longrightarrow>
      serve public_routes lib cfg (shut down st p) mo rq s = serve public_routes lib cfg p mo rq s) \<and>
    (ep \<noteq> EP_Ping \<and> set (needs ep) \<inter> down \<noteq> {} \<longrightarrow>
      serve public_routes lib cfg (shut down st p) mo rq s = (unavailable_answer, s) \<or>
      (\<exists>r. \<forall>q. shut down st q = shut down st p \<longrightarrow> serve public_routes lib cfg q mo rq s = (r, s))) \<and>
    (ep = EP_Ping \<longrightarrow> (\<exists>m. serve public_routes lib cfg p mo rq s = (res_Json (pingResponse m) 200, s) \<and>
      serve public_routes lib cfg (shut down st p) mo rq s =
        (res_Json (pingResponse (\<lambda>n. if n \<in> service_name ` down then Some ''unavailable'' else m n)) 200, s)))"
proof -
  obtain rq' where e: "\<And>p. serve public_routes lib cfg p mo rq s = endpoint_handler lib cfg p mo ep rq' s"
    by (rule serve_endpoint [OF assms(2), where lib = lib and cfg = cfg and mo = mo and s = s]) (rule that)
  have ping: "endpoint_handler lib cfg q mo EP_Ping rq' s = (res_Json (pingResponse (ping_table q s)) 200, s)" for q
    by (simp only: endpoint_handler_def endpoint.case NewPingHandler_table)
  have a: "set (needs ep) \<inter> down = {} \<longrightarrow> endpoint_handler lib cfg (shut down st p) mo ep rq' s = endpoint_handler lib cfg p mo ep rq' s"
    by (intro impI) (simp only: untouched_route)
  have b: "ep \<noteq> EP_Ping \<and> set (needs ep) \<inter> down \<noteq> {} \<longrightarrow>
      endpoint_handler lib cfg (shut down st p) mo ep rq' s = (unavailable_answer, s) \<or>
      (\<exists>r. \<forall>q. shut down st q = shut down st p \<longrightarrow> endpoint_handler lib cfg q mo ep rq' s = (r, s))"
    by (intro impI, elim conjE, rule contained_route [OF assms(1)])
  have c: "ep = EP_Ping \<longrightarrow> (\<exists>m. endpoint_handler lib cfg p mo ep rq' s = (res_Json (pingResponse m) 200, s) \<and>
      endpoint_handler lib cfg (shut down st p) mo ep rq' s =
        (res_Json (pingResponse (\<lambda>n. if n \<in> service_name ` down then Some ''unavailable'' else m n)) 200, s))"
    by (intro impI exI [of _ "ping_table p s"]) (simp only: ping ping_table_shut)
  show ?thesis unfolding e by (intro conjI a b c)
qed

text \<open>The search service is down: a drop with the token of the superuser works. The update service is down:
  it does not.\<close>

lemma outages_contained_witness:
  "serve public_routes super_lib demo_config (shut {SearchSvc} (Status Unavailable ''down'') counting_ports) demo_moment
     drop_request 0 = serve public_routes super_lib demo_config counting_ports demo_moment drop_request 0 \<and>
   snd (serve public_routes super_lib demo_config (shut {UpdateSvc} (Status Unavailable ''down'') counting_ports) demo_moment
     drop_request 0) = 0"
proof
  have e: "endpoint_of drop_request = Some EP_Drop" by code_simp
  have c: "unavailable_code (status_code (Status Unavailable ''down''))" by (simp add: unavailable_code_def)
  show "serve public_routes super_lib demo_config (shut {SearchSvc} (Status Unavailable ''down'') counting_ports) demo_moment
     drop_request 0 = serve public_routes super_lib demo_config counting_ports demo_moment drop_request 0"
    using outages_contained [OF c e, of "{SearchSvc}" super_lib demo_config counting_ports demo_moment 0] by simp
  show "snd (serve public_routes super_lib demo_config (shut {UpdateSvc} (Status Unavailable ''down'') counting_ports)
     demo_moment drop_request 0) = 0" by code_simp
qed

end
