(* ===== verification/JsonText.thy ===== *)
theory JsonText
  imports GoJson
begin

text \<open>
  The text of JSON: what \<open>json.NewEncoder(w).Encode\<close> writes, with the escapes of its strings, and a
  reader for it, as a client has one. The reader gives back every value that is written.
\<close>

section \<open>The writer\<close>

definition hex_digit :: "nat \<Rightarrow> char" where
  "hex_digit n = ''0123456789abcdef'' ! n"

definition unicode_escape :: "nat \<Rightarrow> string" where
  "unicode_escape n =
     [CHR 0x5C, CHR ''u'', hex_digit (n div 4096 mod 16), hex_digit (n div 256 mod 16), hex_digit (n div 16 mod 16),
      hex_digit (n mod 16)]"

text \<open>An ASCII byte; \<open><\<close>, \<open>>\<close> and \<open>&\<close> are escaped because the encoder is made for HTML by default.\<close>

definition escape_byte :: "char \<Rightarrow> string" where
  "escape_byte c =
     (let b = (of_char c :: nat) in
      if b = 34 \<or> b = 92 then [CHR 0x5C, c]
      else if b = 8 then [CHR 0x5C, CHR ''b'']
      else if b = 12 then [CHR 0x5C, CHR ''f'']
      else if b = 10 then [CHR 0x5C, CHR ''n'']
      else if b = 13 then [CHR 0x5C, CHR ''r'']
      else if b = 9 then [CHR 0x5C, CHR ''t'']
      else if b < 32 \<or> b = 60 \<or> b = 62 \<or> b = 38 then unicode_escape b
      else [c])"

text \<open>A rune of several bytes: U+2028 and U+2029 are escaped.\<close>

definition escape_rune :: "char \<Rightarrow> string \<Rightarrow> string" where
  "escape_rune c cs =
     (if cs = [] then escape_byte c
      else if c # cs = [CHR 0xE2, CHR 0x80, CHR 0xA8] then unicode_escape 0x2028
      else if c # cs = [CHR 0xE2, CHR 0x80, CHR 0xA9] then unicode_escape 0x2029
      else c # cs)"

text \<open>A byte that starts no rune is replaced by U+FFFD.\<close>

function escape_string :: "string \<Rightarrow> string" where
  "escape_string [] = []"
| "escape_string (c # cs) =
     (case rune_tail c of
        None \<Rightarrow> unicode_escape 0xFFFD @ escape_string cs
      | Some ts \<Rightarrow>
          if list_all2 (\<lambda>t x. t x) ts (take (length ts) cs)
          then escape_rune c (take (length ts) cs) @ escape_string (drop (length ts) cs)
          else unicode_escape 0xFFFD @ escape_string cs)"
  by pat_completeness auto
termination by (relation "measure length") auto

definition write_string :: "string \<Rightarrow> string" where
  "write_string s = [CHR 0x22] @ escape_string s @ [CHR 0x22]"

text \<open>The parts of an array or of an object are written with the bracket that ends it.\<close>

fun write_value :: "json \<Rightarrow> string"
  and write_items :: "json list \<Rightarrow> string"
  and write_members :: "(string \<times> json) list \<Rightarrow> string" where
  "write_value JNull = ''null''"
| "write_value (JBool b) = (if b then ''true'' else ''false'')"
| "write_value (JInt i) = fmt_d i"
| "write_value (JNumber txt) = txt"
| "write_value (JString s) = write_string s"
| "write_value (JArray vs) = CHR ''['' # write_items vs"
| "write_value (JObject kvs) = CHR ''{'' # write_members kvs"
| "write_items [] = '']''"
| "write_items [v] = write_value v @ '']''"
| "write_items (v # w # vs) = write_value v @ '','' @ write_items (w # vs)"
| "write_members [] = ''}''"
| "write_members [(k, v)] = write_string k @ '':'' @ write_value v @ ''}''"
| "write_members ((k, v) # m # kvs) = write_string k @ '':'' @ write_value v @ '','' @ write_members (m # kvs)"

section \<open>A reader\<close>

definition hex_value :: "char \<Rightarrow> nat option" where
  "hex_value c =
     (let b = (of_char c :: nat) in
      if 48 \<le> b \<and> b \<le> 57 then Some (b - 48)
      else if 97 \<le> b \<and> b \<le> 102 then Some (b - 87)
      else if 65 \<le> b \<and> b \<le> 70 then Some (b - 55)
      else None)"

definition hex4 :: "char \<Rightarrow> char \<Rightarrow> char \<Rightarrow> char \<Rightarrow> nat option" where
  "hex4 a b c d =
     (case (hex_value a, hex_value b, hex_value c, hex_value d) of
        (Some w, Some x, Some y, Some z) \<Rightarrow> Some (w * 4096 + x * 256 + y * 16 + z)
      | _ \<Rightarrow> None)"

text \<open>The bytes of a code point of at most 16 bits.\<close>

definition utf8_bytes :: "nat \<Rightarrow> string" where
  "utf8_bytes n =
     (if n < 128 then [char_of n]
      else if n < 2048 then [char_of (192 + n div 64), char_of (128 + n mod 64)]
      else [char_of (224 + n div 4096), char_of (128 + n div 64 mod 64), char_of (128 + n mod 64)])"

definition unescape :: "char \<Rightarrow> char option" where
  "unescape c =
     (if c = CHR 0x22 \<or> c = CHR 0x5C \<or> c = CHR ''/'' then Some c
      else if c = CHR ''b'' then Some (CHR 0x08)
      else if c = CHR ''f'' then Some (CHR 0x0C)
      else if c = CHR ''n'' then Some (CHR 0x0A)
      else if c = CHR ''r'' then Some (CHR 0x0D)
      else if c = CHR ''t'' then Some (CHR 0x09)
      else None)"

definition put :: "string \<Rightarrow> (string \<times> string) option \<Rightarrow> (string \<times> string) option" where
  "put p r = map_option (\<lambda>(s, rest). (p @ s, rest)) r"

fun read_chars :: "string \<Rightarrow> (string \<times> string) option" where
  "read_chars [] = None"
| "read_chars (c # cs) =
     (if c = CHR 0x22 then Some ([], cs)
      else if c = CHR 0x5C then
        (case cs of
           [] \<Rightarrow> None
         | e # cs' \<Rightarrow>
             if e = CHR ''u'' then
               (case cs' of
                  h1 # h2 # h3 # h4 # rest \<Rightarrow>
                    (case hex4 h1 h2 h3 h4 of None \<Rightarrow> None | Some n \<Rightarrow> put (utf8_bytes n) (read_chars rest))
                | _ \<Rightarrow> None)
             else (case unescape e of None \<Rightarrow> None | Some x \<Rightarrow> put [x] (read_chars cs')))
      else if (of_char c :: nat) < 32 then None
      else put [c] (read_chars cs))"

definition read_int :: "string \<Rightarrow> (json \<times> string) option" where
  "read_int s =
     (let neg = (s \<noteq> [] \<and> hd s = CHR ''-''); t = (if neg then tl s else s); ds = takeWhile is_digit t in
      if ds = [] then None
      else Some (JInt ((if neg then - 1 else 1) * int (decimal_value ds)), dropWhile is_digit t))"

text \<open>The number is a bound on the depth of calls.\<close>

fun read_value :: "nat \<Rightarrow> string \<Rightarrow> (json \<times> string) option"
  and read_items :: "nat \<Rightarrow> string \<Rightarrow> (json list \<times> string) option"
  and read_members :: "nat \<Rightarrow> string \<Rightarrow> ((string \<times> json) list \<times> string) option" where
  "read_value 0 s = None"
| "read_value (Suc n) s =
     (case s of
        [] \<Rightarrow> None
      | c # cs \<Rightarrow>
          if c = CHR 0x22 then map_option (\<lambda>(x, r). (JString x, r)) (read_chars cs)
          else if c = CHR ''['' then
            (if take 1 cs = '']'' then Some (JArray [], tl cs)
             else map_option (\<lambda>(vs, r). (JArray vs, r)) (read_items n cs))
          else if c = CHR ''{'' then
            (if take 1 cs = ''}'' then Some (JObject [], tl cs)
             else map_option (\<lambda>(kvs, r). (JObject kvs, r)) (read_members n cs))
          else if HasPrefix s ''null'' then Some (JNull, drop 4 s)
          else if HasPrefix s ''true'' then Some (JBool True, drop 4 s)
          else if HasPrefix s ''false'' then Some (JBool False, drop 5 s)
          else read_int s)"
| "read_items 0 s = None"
| "read_items (Suc n) s =
     (case read_value n s of
        Some (v, c # r) \<Rightarrow>
          if c = CHR '']'' then Some ([v], r)
          else if c = CHR '','' then map_option (\<lambda>(vs, r'). (v # vs, r')) (read_items n r)
          else None
      | _ \<Rightarrow> None)"
| "read_members 0 s = None"
| "read_members (Suc n) s =
     (case s of
        [] \<Rightarrow> None
      | q # t \<Rightarrow>
          if q \<noteq> CHR 0x22 then None
          else (case read_chars t of
            Some (k, CHR '':'' # r) \<Rightarrow>
              (case read_value n r of
                 Some (v, c # r') \<Rightarrow>
                   if c = CHR ''}'' then Some ([(k, v)], r')
                   else if c = CHR '','' then map_option (\<lambda>(kvs, x). ((k, v) # kvs, x)) (read_members n r')
                   else None
               | _ \<Rightarrow> None)
          | _ \<Rightarrow> None))"

text \<open>A text holds one value, and white space after it.\<close>

definition read_json :: "string \<Rightarrow> json option" where
  "read_json s =
     (case read_value (length s) s of
        Some (v, r) \<Rightarrow> if set r \<subseteq> {CHR 0x20, CHR 0x09, CHR 0x0A, CHR 0x0D} then Some v else None
      | None \<Rightarrow> None)"

section \<open>Reading back\<close>

lemma hex_digit_back: "n < 16 \<Longrightarrow> hex_value (hex_digit n) = Some n"
proof -
  have "\<forall>n \<in> set [0..<16]. hex_value (hex_digit n) = Some n" by code_simp
  then show "n < 16 \<Longrightarrow> hex_value (hex_digit n) = Some n" by simp
qed

lemma hex4_back:
  assumes "n < 65536"
  shows "hex4 (hex_digit (n div 4096 mod 16)) (hex_digit (n div 256 mod 16)) (hex_digit (n div 16 mod 16))
     (hex_digit (n mod 16)) = Some n"
proof -
  have d: "n div 256 = n div 16 div 16" "n div 4096 = n div 16 div 16 div 16"
    by (simp_all add: div_mult2_eq [symmetric])
  have "n div 4096 mod 16 = n div 4096" using assms by simp
  then have "n div 4096 mod 16 * 4096 + n div 256 mod 16 * 256 + n div 16 mod 16 * 16 + n mod 16 = n"
    using div_mult_mod_eq [of n 16] div_mult_mod_eq [of "n div 16" 16] div_mult_mod_eq [of "n div 16 div 16" 16]
    unfolding d by linarith
  then show ?thesis
    by (simp only: hex4_def hex_digit_back mod_less_divisor zero_less_numeral option.case prod.case)
qed

lemma put_simps [simp]: "put p None = None" "put p (Some (s, r)) = Some (p @ s, r)" "put p (put q x) = put (p @ q) x"
  by (simp_all add: put_def option.map_comp comp_def split_def)

lemma read_escape: "n < 65536 \<Longrightarrow> read_chars (unicode_escape n @ cs) = put (utf8_bytes n) (read_chars cs)"
  using hex4_back [of n] by (simp add: unicode_escape_def)

lemma char_numerals:
  "char_of (34 :: nat) = CHR 0x22" "char_of (92 :: nat) = CHR 0x5C" "char_of (8 :: nat) = CHR 0x08"
  "char_of (12 :: nat) = CHR 0x0C" "char_of (10 :: nat) = CHR 0x0A" "char_of (13 :: nat) = CHR 0x0D"
  "char_of (9 :: nat) = CHR 0x09" "char_of (226 :: nat) = CHR 0xE2" "char_of (128 :: nat) = CHR 0x80"
  "char_of (168 :: nat) = CHR 0xA8" "char_of (169 :: nat) = CHR 0xA9"
  by (simp_all add: char_of_def bit_0)

lemma read_byte: "(of_char c :: nat) < 128 \<Longrightarrow> read_chars (escape_byte c @ cs) = put [c] (read_chars cs)"
proof -
  assume a: "(of_char c :: nat) < 128"
  have c: "c = char_of (of_char c :: nat)" by simp
  consider "of_char c \<in> {34, 92, 8, 12, 10, 13, 9 :: nat}"
    | "of_char c \<notin> {34, 92, 8, 12, 10, 13, 9 :: nat}" "(of_char c :: nat) < 32 \<or> of_char c \<in> {60, 62, 38 :: nat}"
    | "of_char c \<notin> {34, 92, 8, 12, 10, 13, 9 :: nat}" "\<not> ((of_char c :: nat) < 32 \<or> of_char c \<in> {60, 62, 38 :: nat})"
    by blast
  then show ?thesis
  proof cases
    case 1
    then have "c \<in> char_of ` {34, 92, 8, 12, 10, 13, 9 :: nat}" using c by (metis imageI)
    then show ?thesis by (auto simp: escape_byte_def unescape_def char_numerals)
  next
    case 2
    then show ?thesis using a by (simp add: escape_byte_def read_escape utf8_bytes_def)
  next
    case 3
    then have "c \<noteq> CHR 0x22" "c \<noteq> CHR 0x5C" by auto
    with 3 show ?thesis by (simp add: escape_byte_def)
  qed
qed


lemma read_raw: "list_all (\<lambda>c. 128 \<le> (of_char c :: nat)) r \<Longrightarrow> read_chars (r @ cs) = put r (read_chars cs)"
proof (induction r)
  case Nil
  then show ?case by (cases "read_chars cs") auto
next
  case (Cons c r)
  then have "c \<noteq> CHR 0x22" "c \<noteq> CHR 0x5C" by auto
  then show ?case using Cons by simp
qed

lemma rune_tail_high:
  assumes "rune_tail c = Some (t # ts)" and "list_all2 (\<lambda>t x. t x) (t # ts) cs"
  shows "list_all (\<lambda>c. 128 \<le> (of_char c :: nat)) (c # cs)"
  using assms by (auto simp: rune_tail_def Let_def in_bytes_def list_all2_Cons1 split: if_splits)

lemma read_rune:
  assumes "rune_tail c = Some ts" and "list_all2 (\<lambda>t x. t x) ts r"
  shows "read_chars (escape_rune c r @ cs) = put (c # r) (read_chars cs)"
proof (cases ts)
  case Nil
  then have "(of_char c :: nat) < 128" "r = []"
    using assms by (auto simp: rune_tail_def Let_def split: if_splits)
  then show ?thesis by (simp add: escape_rune_def read_byte)
next
  case (Cons t ts')
  then have h: "list_all (\<lambda>c. 128 \<le> (of_char c :: nat)) (c # r)" and "r \<noteq> []"
    using assms rune_tail_high by auto
  then show ?thesis
    using read_raw [OF h] read_escape [of "0x2028" cs] read_escape [of "0x2029" cs]
    by (auto simp: escape_rune_def utf8_bytes_def char_numerals)
qed

lemma utf8_from_split:
  "utf8_from ts cs \<longleftrightarrow> list_all2 (\<lambda>t x. t x) ts (take (length ts) cs) \<and> utf8_from [] (drop (length ts) cs)"
  by (induction ts arbitrary: cs) (case_tac cs; auto)+

lemma read_string_back:
  "utf8_from [] s \<Longrightarrow> read_chars (escape_string s @ CHR 0x22 # rest) = Some (s, rest)"
proof (induction s rule: escape_string.induct)
  case 1
  then show ?case by simp
next
  case (2 c cs)
  then obtain ts where ts: "rune_tail c = Some ts" and "utf8_from ts cs"
    by (auto split: option.splits)
  then have u: "list_all2 (\<lambda>t x. t x) ts (take (length ts) cs)" "utf8_from [] (drop (length ts) cs)"
    using utf8_from_split by blast+
  then show ?case
    using 2(2) [OF ts u] read_rune [OF ts u(1)] ts by simp
qed


text \<open>Values whose strings are UTF-8 and whose numbers are integers.\<close>

fun plain_json :: "json \<Rightarrow> bool" where
  "plain_json JNull = True"
| "plain_json (JBool b) = True"
| "plain_json (JInt i) = True"
| "plain_json (JNumber txt) = False"
| "plain_json (JString s) = ValidString s"
| "plain_json (JArray vs) = list_all plain_json vs"
| "plain_json (JObject kvs) = list_all (\<lambda>(k, v). ValidString k \<and> plain_json v) kvs"

definition number_ends :: "string \<Rightarrow> bool" where
  "number_ends r = (case r of [] \<Rightarrow> True | c # _ \<Rightarrow> \<not> is_digit c)"

lemma number_ends_simps [simp]: "number_ends []" "number_ends (c # r) \<longleftrightarrow> \<not> is_digit c"
  by (simp_all add: number_ends_def)

lemma number_end_chars [simp]: "\<not> is_digit (CHR '','')" "\<not> is_digit (CHR '']'')" "\<not> is_digit (CHR ''}'')"
  by (simp_all add: is_digit_def)

lemma take_digits:
  assumes "list_all is_digit ds" and "number_ends r"
  shows "takeWhile is_digit (ds @ r) = ds" "dropWhile is_digit (ds @ r) = r"
  using assms by (induction ds) (cases r; simp)+

lemma FormatUint_Cons: "\<exists>c cs. FormatUint n = c # cs \<and> is_digit c \<and> c \<noteq> CHR ''-''"
  using FormatUint_nonempty [of n] FormatUint_digits [of n] hd_FormatUint [of n]
  by (cases "FormatUint n") auto

lemma read_int_back:
  assumes "number_ends r"
  shows "read_int (fmt_d i @ r) = Some (JInt i, r)"
proof -
  note d = take_digits [OF FormatUint_digits assms]
  obtain c cs where "FormatUint (nat i) = c # cs" "c \<noteq> CHR ''-''" using FormatUint_Cons by blast
  then have "hd (FormatUint (nat i) @ r) \<noteq> CHR ''-''" by simp
  then show ?thesis by (cases "i < 0") (simp_all add: read_int_def fmt_d_def d Let_def)
qed

lemma fmt_d_Cons: "\<exists>c cs. fmt_d i = c # cs \<and> (is_digit c \<or> c = CHR ''-'')"
  using FormatUint_Cons [of "nat i"] by (auto simp: fmt_d_def)

lemma write_Cons: "plain_json v \<Longrightarrow> \<exists>c cs. write_value v = c # cs \<and> c \<noteq> CHR '']'' \<and> c \<noteq> CHR ''}''"
  using fmt_d_Cons [of "case v of JInt i \<Rightarrow> i | _ \<Rightarrow> 0"]
  by (cases v) (auto simp: write_string_def is_digit_def)

lemma items_Cons:
  assumes "vs \<noteq> []" and "list_all plain_json vs"
  shows "\<exists>c cs. write_items vs = c # cs \<and> c \<noteq> CHR '']''"
proof -
  obtain v ws where vs: "vs = v # ws" "plain_json v" using assms by (cases vs) auto
  with write_Cons show ?thesis by (cases ws) fastforce+
qed

lemma members_Cons: "kvs \<noteq> [] \<Longrightarrow> \<exists>cs. write_members kvs = CHR 0x22 # cs"
  by (cases kvs rule: remdups_adj.cases) (auto simp: write_string_def)

lemma read_value_int:
  assumes "number_ends r"
  shows "read_value (Suc n) (fmt_d i @ r) = Some (JInt i, r)"
proof -
  obtain c cs where c: "fmt_d i = c # cs" "is_digit c \<or> c = CHR ''-''" using fmt_d_Cons by blast
  then have "c \<notin> {CHR 0x22, CHR ''['', CHR ''{'', CHR ''n'', CHR ''t'', CHR ''f''}" by (auto simp: is_digit_def)
  then show ?thesis using read_int_back [OF assms, of i] c(1) by (auto simp: HasPrefix_def)
qed

lemma read_key_back:
  "ValidString k \<Longrightarrow> read_chars (escape_string k @ CHR 0x22 # r) = Some (k, r)"
  by (simp add: ValidString_def read_string_back)

lemma read_back:
  "plain_json v \<Longrightarrow> number_ends r \<Longrightarrow> length (write_value v) \<le> n \<Longrightarrow> read_value n (write_value v @ r) = Some (v, r)"
  "vs \<noteq> [] \<Longrightarrow> list_all plain_json vs \<Longrightarrow> length (write_items vs) \<le> n \<Longrightarrow>
     read_items n (write_items vs @ r) = Some (vs, r)"
  "kvs \<noteq> [] \<Longrightarrow> list_all (\<lambda>(k, v). ValidString k \<and> plain_json v) kvs \<Longrightarrow> length (write_members kvs) \<le> n \<Longrightarrow>
     read_members n (write_members kvs @ r) = Some (kvs, r)"
proof (induction v and vs and kvs arbitrary: n r and n r and n r
    rule: write_value_write_items_write_members.induct)
  case 1
  then show ?case by (cases n) (simp_all add: HasPrefix_def)
next
  case (2 b)
  then show ?case by (cases n; cases b) (simp_all add: HasPrefix_def)
next
  case (3 i)
  then show ?case using fmt_d_Cons [of i] read_value_int by (cases n) auto
next
  case (4 digits)
  then show ?case by simp
next
  case (5 s)
  then show ?case by (cases n) (simp_all add: write_string_def read_key_back)
next
  case (6 vs)
  then show ?case using items_Cons [of vs] by (cases n; cases "vs = []") auto
next
  case (7 kvs)
  then show ?case using members_Cons [of kvs] by (cases n; cases "kvs = []") auto
next
  case 8
  then show ?case by simp
next
  case (9 v)
  then show ?case by (cases n) simp_all
next
  case (10 v w vs)
  then show ?case by (cases n) simp_all
next
  case 11
  then show ?case by simp
next
  case (12 k v)
  then show ?case by (cases n) (simp_all add: write_string_def read_key_back)
next
  case (13 k v m kvs)
  then show ?case by (cases n) (simp_all add: write_string_def read_key_back)
qed

lemma read_json_back:
  assumes "plain_json v" and "set r \<subseteq> {CHR 0x20, CHR 0x09, CHR 0x0A, CHR 0x0D}"
  shows "read_json (write_value v @ r) = Some v"
proof -
  have "number_ends r" using assms(2) by (cases r) (auto simp: is_digit_def)
  then show ?thesis using assms by (simp add: read_json_def read_back(1))
qed

end
