(* ===== verification/ApiJson.thy ===== *)
theory ApiJson
  imports JsonText ApiCore "HOL-Library.List_Lexorder" "HOL-Library.Char_ord"
begin

text \<open>
  The bytes of the answers of the gateway: \<open>res.Json\<close> encodes the structs of
  \<open>adapters/rest/payloads.go\<close> by their tags, and a client reads back what the handler meant.
\<close>

text \<open>The keys of a map are written in the order of their bytes.\<close>

definition map_members :: "(string \<Rightarrow> string option) \<Rightarrow> (string \<times> json) list" where
  "map_members m = map (\<lambda>k. (k, JString (the (m k)))) (sorted_list_of_set (dom m))"

definition comic_json :: "comicResponse \<Rightarrow> json" where
  "comic_json c = JObject [(''id'', JInt (cr_id c)), (''url'', JString (cr_url c))]"

definition favorite_json :: "favoriteItemResponse \<Rightarrow> json" where
  "favorite_json it =
     JObject [(''comic_id'', JInt (sint (fi_comic_id it))), (''created_at_unix'', JInt (fi_created_at_unix it))]"

text \<open>The slices are made with \<open>make\<close>, so an empty one is \<open>[]\<close> and never \<open>null\<close>.\<close>

fun payload_json :: "payload \<Rightarrow> json" where
  "payload_json (pingResponse m) = JObject [(''replies'', JObject (map_members m))]"
| "payload_json (errorResponse e) = JObject [(''error'', JString e)]"
| "payload_json (updateStatusResponse st) = JObject [(''status'', JString st)]"
| "payload_json (updateStatsResponse wt wu cf ct) =
     JObject [(''words_total'', JInt wt), (''words_unique'', JInt wu), (''comics_fetched'', JInt cf), (''comics_total'', JInt ct)]"
| "payload_json (comicPayload c) = comic_json c"
| "payload_json (searchResponse cs t) = JObject [(''comics'', JArray (map comic_json cs)), (''total'', JInt t)]"
| "payload_json (tokenResponse tok) = JObject [(''token'', JString tok)]"
| "payload_json (favoritesListResponse its) = JObject [(''items'', JArray (map favorite_json its))]"

text \<open>\<open>Encode\<close> ends the value with a newline.\<close>

definition response_text :: "http_response \<Rightarrow> string" where
  "response_text r =
     (case hr_body r of
        NoBody \<Rightarrow> []
      | PlainText s \<Rightarrow> s
      | JsonBody p \<Rightarrow> write_value (payload_json p) @ [CHR 0x0A])"

text \<open>The strings of a payload are UTF-8, and the replies of a ping are finitely many.\<close>

fun payload_ok :: "payload \<Rightarrow> bool" where
  "payload_ok (pingResponse m) \<longleftrightarrow> finite (dom m) \<and> (\<forall>k v. m k = Some v \<longrightarrow> ValidString k \<and> ValidString v)"
| "payload_ok (errorResponse e) \<longleftrightarrow> ValidString e"
| "payload_ok (updateStatusResponse st) \<longleftrightarrow> ValidString st"
| "payload_ok (updateStatsResponse wt wu cf ct) \<longleftrightarrow> True"
| "payload_ok (comicPayload c) \<longleftrightarrow> ValidString (cr_url c)"
| "payload_ok (searchResponse cs t) \<longleftrightarrow> (\<forall>c \<in> set cs. ValidString (cr_url c))"
| "payload_ok (tokenResponse tok) \<longleftrightarrow> ValidString tok"
| "payload_ok (favoritesListResponse its) \<longleftrightarrow> True"

lemma tags_valid [simp]:
  "ValidString ''replies''" "ValidString ''error''" "ValidString ''status''" "ValidString ''words_total''"
  "ValidString ''words_unique''" "ValidString ''comics_fetched''" "ValidString ''comics_total''" "ValidString ''id''"
  "ValidString ''url''" "ValidString ''comics''" "ValidString ''total''" "ValidString ''token''" "ValidString ''items''"
  "ValidString ''comic_id''" "ValidString ''created_at_unix''"
  by (rule ValidString_ascii, simp)+

lemma map_members_of:
  assumes "finite (dom m)"
  shows "map_of (map_members m) = (\<lambda>k. map_option JString (m k))"
proof
  fix k
  show "map_of (map_members m) k = map_option JString (m k)"
    using assms by (cases "m k") (auto simp: map_members_def map_of_map_restrict restrict_map_def domIff)
qed

lemma comic_json_inj [simp]: "comic_json c = comic_json d \<longleftrightarrow> c = d"
  by (cases c; cases d) (simp add: comic_json_def)

lemma favorite_json_inj [simp]: "favorite_json c = favorite_json d \<longleftrightarrow> c = d"
  by (cases c; cases d) (auto simp: favorite_json_def intro: signed_word_eqI)

lemma json_maps [simp]: "map comic_json cs = map comic_json ds \<longleftrightarrow> cs = ds"
  "map favorite_json its = map favorite_json its' \<longleftrightarrow> its = its'"
  by (rule inj_map_eq_map, simp add: inj_def)+

lemma map_members_inj:
  assumes "map_members m = map_members n" and "finite (dom m)" and "finite (dom n)"
  shows "m = n"
proof
  fix k
  have "map_option JString (m k) = map_option JString (n k)"
    using map_members_of [OF assms(2)] map_members_of [OF assms(3)] assms(1) by (metis (no_types))
  then show "m k = n k" by (cases "m k"; cases "n k") auto
qed

lemma payload_json_inj: "payload_ok p \<Longrightarrow> payload_ok q \<Longrightarrow> payload_json p = payload_json q \<Longrightarrow> p = q"
  by (cases p; cases q) (simp_all add: comic_json_def map_members_inj)

lemma payload_plain: "payload_ok p \<Longrightarrow> plain_json (payload_json p)"
  by (cases p) (auto simp: comic_json_def favorite_json_def map_members_def list_all_iff)

text \<open>C22: An answer means what the handler wrote: the text of every JSON answer reads back as the JSON of its
  payload, whatever its strings hold (quotes, backslashes, control characters, the characters that are
  escaped for HTML, text in any script), and different payloads have different texts, so a client can tell a
  list of comics from one comic, an error from a token and an empty list from a missing one.\<close>

theorem answers_read_back:
  assumes "payload_ok p" and "payload_ok q"
  shows "read_json (response_text (res_Json p c)) = Some (payload_json p) \<and>
    (response_text (res_Json p c) = response_text (res_Json q d) \<longrightarrow> p = q)"
proof -
  have r: "read_json (response_text (res_Json x c)) = Some (payload_json x)" if "payload_ok x" for x c
    using read_json_back [OF payload_plain [OF that], of "[CHR 0x0A]"] by (simp add: response_text_def res_Json_def)
  show ?thesis using r [OF assms(1)] r [OF assms(2)] payload_json_inj [OF assms] by (metis option.inject)
qed

definition odd_comic :: comicResponse where
  "odd_comic = \<lparr>cr_id = 7, cr_url = ''a\"b<'' @ [CHR 0x5C, CHR 0xE2, CHR 0x80, CHR 0xA8]\<rparr>"

lemma answers_read_back_witness:
  "response_text (res_Json (comicPayload odd_comic) 200) =
     ''{\"id\":7,\"url\":\"a'' @ [CHR 0x5C] @ ''\"b'' @ [CHR 0x5C] @ ''u003c'' @ [CHR 0x5C, CHR 0x5C, CHR 0x5C] @
     ''u2028\"}'' @ [CHR 0x0A] \<and>
   read_json (response_text (res_Json (comicPayload odd_comic) 200)) =
     Some (JObject [(''id'', JInt 7), (''url'', JString (cr_url odd_comic))])"
proof -
  have "write_value (comic_json odd_comic) =
     ''{\"id\":7,\"url\":\"a'' @ [CHR 0x5C] @ ''\"b'' @ [CHR 0x5C] @ ''u003c'' @ [CHR 0x5C, CHR 0x5C, CHR 0x5C] @
     ''u2028\"}''"
    by (simp add: comic_json_def odd_comic_def write_string_def rune_tail_def escape_rune_def escape_byte_def in_bytes_def
        unicode_escape_def hex_digit_def fmt_d_def FormatUint.simps digit_char_def char_of_def bit_0 Let_def)
  then have t: "response_text (res_Json (comicPayload odd_comic) 200) =
     ''{\"id\":7,\"url\":\"a'' @ [CHR 0x5C] @ ''\"b'' @ [CHR 0x5C] @ ''u003c'' @ [CHR 0x5C, CHR 0x5C, CHR 0x5C] @
     ''u2028\"}'' @ [CHR 0x0A]" by (simp add: response_text_def res_Json_def)
  have "payload_ok (comicPayload odd_comic)"
    by (simp add: odd_comic_def ValidString_def rune_tail_def in_bytes_def Let_def)
  from answers_read_back [OF this this, of 200] t show ?thesis
    by (simp add: comic_json_def) (simp add: odd_comic_def)
qed

end
