(* ===== verification/Startup.thy ===== *)
theory Startup
  imports UpdateServer AuthService ApiRoutes
begin

text \<open>
  The programs from their start to their end: the migrations, the constructors of the adapters, \<open>run\<close>
  and \<open>main\<close> of every service, with what they open, start and close as a list of events. A part of a
  program is a function from the database at that moment to the way it ends, the events and the
  database; the outcomes of the calls into libraries are arguments.
\<close>

section \<open>Outcomes and events\<close>

datatype os_signal = Interrupt | SIGTERM

text \<open>Calls into sqlx, golang-migrate, gRPC, net and NATS that can fail; each with its arguments.\<close>

datatype lib_call =
    SqlConnect string
  | ExecMigration
  | MigrationFiles | MigrationDriver | NewMigration
  | GrpcClient string
  | NetListen string
  | NatsConnect string
  | NatsSubscribe string

text \<open>What \<open>migrate.Up\<close> returns; \<open>ErrNoChange\<close> is compared by identity.\<close>

datatype up_result = Up_ok | Up_ErrNoChange | Up_error string

text \<open>How serving comes to an end: the listener fails, or the process gets a signal.\<close>

datatype serving_end = Serve_fails string | Signalled os_signal

text \<open>
  \<open>drains\<close>: whether the requests under way end by themselves, for programs with a time limit: within it.
  \<open>ticker_after\<close>: how many more events of \<open>main\<close> there are before the goroutine of the initiator is done
  with its first build of the index and makes its ticker.
\<close>

record outside =
  lib_error :: "lib_call \<Rightarrow> string option"
  serving_end :: serving_end
  drains :: bool
  ticker_after :: nat

datatype event =
    Connected string | Migrated | Dialled string | Listening string | BrokerConnected string
  | Subscribed string | IndexLoopStarted | Serving | GracefulStop | ForcedStop | BrokerClosed
  | ClientClosed string | Logged string string

text \<open>\<open>Returns None\<close> is a nil error. A process that a signal kills, that a panic of another goroutine
  ends, or that waits forever, runs no deferred call.\<close>

datatype finish = Returns "string option" | Killed | Crashed | Hangs

type_synonym 'd prog = "'d \<Rightarrow> finish \<times> event list \<times> 'd"

definition emit :: "event \<Rightarrow> 'd prog \<Rightarrow> 'd prog" where
  "emit e next d = (case next d of (f, es, d') \<Rightarrow> (f, e # es, d'))"

definition deferred :: "event \<Rightarrow> 'd prog \<Rightarrow> 'd prog" where
  "deferred e body d =
     (case body d of (f, es, d') \<Rightarrow>
        (f, (case f of Returns err \<Rightarrow> es @ [e] | Killed \<Rightarrow> es | Crashed \<Rightarrow> es | Hangs \<Rightarrow> es), d'))"

text \<open>\<open>if err != nil { return fmt.Errorf("<what>%v", err) }\<close>\<close>

definition attempt :: "string option \<Rightarrow> event \<Rightarrow> string \<Rightarrow> 'd prog \<Rightarrow> 'd prog" where
  "attempt res e what next d =
     (case res of Some err \<Rightarrow> (Returns (Some (what @ err)), [], d) | None \<Rightarrow> emit e next d)"

text \<open>A constructor of the program itself that may refuse its arguments.\<close>

definition construct :: "('s \<Rightarrow> string) \<Rightarrow> 's go_error + 'a \<Rightarrow> string \<Rightarrow> ('a \<Rightarrow> 'd prog) \<Rightarrow> 'd prog" where
  "construct txt res what next d =
     (case res of Inl err \<Rightarrow> (Returns (Some (what @ error_text txt err)), [], d) | Inr x \<Rightarrow> next x d)"

lemma emit_eq: "emit e next d = (f, es, d') \<longleftrightarrow> (\<exists>es'. es = e # es' \<and> next d = (f, es', d'))"
  by (auto simp: emit_def split: prod.splits)

section \<open>The schemas (migrations)\<close>

text \<open>A database as the tables that exist; the statements are \<open>CREATE ... IF NOT EXISTS\<close>.\<close>

type_synonym 'r database = "string \<rightharpoonup> 'r list"

datatype ddl = CreateTable string "string list" | CreateIndex string string

text \<open>A table refers to other tables by its foreign keys; an existing table is skipped as it is.\<close>

fun exec_ddl :: "ddl \<Rightarrow> 'r database \<Rightarrow> 'r database option" where
  "exec_ddl (CreateTable t refs) db =
     (if db t \<noteq> None then Some db
      else if list_all (\<lambda>r. db r \<noteq> None) refs then Some (db(t \<mapsto> [])) else None)"
| "exec_ddl (CreateIndex i t) db = (if db t \<noteq> None then Some db else None)"

fun exec_script :: "ddl list \<Rightarrow> 'r database \<Rightarrow> 'r database option" where
  "exec_script [] db = Some db"
| "exec_script (s # ss) db = (case exec_ddl s db of None \<Rightarrow> None | Some db' \<Rightarrow> exec_script ss db')"

definition usersMigrationUp :: "ddl list" where
  "usersMigrationUp =
     [CreateTable ''users'' [], CreateTable ''user_comicshub'' [''users''],
      CreateTable ''user_telegram'' [''users''], CreateIndex ''idx_user_telegram_tg_id'' ''user_telegram'']"

definition favoritesMigrationUp :: "ddl list" where
  "favoritesMigrationUp = [CreateTable ''favorites'' []]"

text \<open>One \<open>Exec\<close> of the script: all of it or nothing.\<close>

definition exec_up :: "ddl list \<Rightarrow> string \<Rightarrow> string option \<Rightarrow> 'r database \<Rightarrow> string option \<times> 'r database" where
  "exec_up script what err db =
     (case err of
        Some e \<Rightarrow> (Some (what @ e), db)
      | None \<Rightarrow> (case exec_script script db of
          None \<Rightarrow> (Some (what @ ''ERROR: relation does not exist (SQLSTATE 42P01)''), db)
        | Some db' \<Rightarrow> (None, db')))"

definition auth_Migrate :: "string option \<Rightarrow> 'r database \<Rightarrow> string option \<times> 'r database" where
  "auth_Migrate err db = exec_up usersMigrationUp ''apply users migration: '' err db"

definition favorites_Migrate :: "string option \<Rightarrow> 'r database \<Rightarrow> string option \<times> 'r database" where
  "favorites_Migrate err db = exec_up favoritesMigrationUp ''apply favorites migration: '' err db"

text \<open>The migration of \<open>update\<close> is run by golang-migrate: \<open>up\<close> is its effect and its result.\<close>

definition update_Migrate ::
  "(lib_call \<Rightarrow> string option) \<Rightarrow> ('d \<Rightarrow> up_result \<times> 'd) \<Rightarrow> 'd \<Rightarrow> string option \<times> 'd" where
  "update_Migrate lib up d =
     (case lib MigrationFiles of Some e \<Rightarrow> (Some e, d) | None \<Rightarrow>
      case lib MigrationDriver of Some e \<Rightarrow> (Some e, d) | None \<Rightarrow>
      case lib NewMigration of Some e \<Rightarrow> (Some e, d) | None \<Rightarrow>
      case up d of
        (Up_ok, d') \<Rightarrow> (None, d')
      | (Up_ErrNoChange, d') \<Rightarrow> (None, d')
      | (Up_error e, d') \<Rightarrow> (Some e, d'))"

definition migrate :: "('d \<Rightarrow> string option \<times> 'd) \<Rightarrow> 'd prog \<Rightarrow> 'd prog" where
  "migrate m next d =
     (case m d of
        (Some err, d') \<Rightarrow> (Returns (Some (''failed to migrate db: '' @ err)), [], d')
      | (None, d') \<Rightarrow> emit Migrated next d')"

section \<open>Constructors of the adapters\<close>

text \<open>\<open>New\<close> of the four packages \<open>adapters/db\<close>.\<close>

definition db_New :: "outside \<Rightarrow> string \<Rightarrow> string option" where
  "db_New env address = lib_error env (SqlConnect address)"

definition update_db_New :: "outside \<Rightarrow> string \<Rightarrow> string option" where
  "update_db_New env address = lib_error env (SqlConnect address)"

definition auth_db_New :: "outside \<Rightarrow> string \<Rightarrow> string option" where
  "auth_db_New env address = lib_error env (SqlConnect address)"

definition fav_db_New :: "outside \<Rightarrow> string \<Rightarrow> string option" where
  "fav_db_New env address = lib_error env (SqlConnect address)"

text \<open>The clients of \<open>words\<close> in \<open>search\<close> and in \<open>update\<close>.\<close>

definition words_NewClient :: "outside \<Rightarrow> string \<Rightarrow> string option" where
  "words_NewClient env address =
     map_option (\<lambda>e. ''new grpc client for  '' @ address @ '': '' @ e) (lib_error env (GrpcClient address))"

definition update_words_NewClient :: "outside \<Rightarrow> string \<Rightarrow> string option" where
  "update_words_NewClient env address =
     map_option (\<lambda>e. ''new grpc client for  '' @ address @ '': '' @ e) (lib_error env (GrpcClient address))"

text \<open>The five clients of the gateway; that of \<open>update\<close> does not wrap the error.\<close>

definition api_update_NewClient :: "outside \<Rightarrow> string \<Rightarrow> string option" where
  "api_update_NewClient env address = lib_error env (GrpcClient address)"

definition api_words_NewClient :: "outside \<Rightarrow> string \<Rightarrow> string option" where
  "api_words_NewClient env address =
     map_option (\<lambda>e. ''new grpc client for  '' @ address @ '': '' @ e) (lib_error env (GrpcClient address))"

definition api_search_NewClient :: "outside \<Rightarrow> string \<Rightarrow> string option" where
  "api_search_NewClient env address =
     map_option (\<lambda>e. ''new grpc client for '' @ address @ '': '' @ e) (lib_error env (GrpcClient address))"

definition api_auth_NewClient :: "outside \<Rightarrow> string \<Rightarrow> string option" where
  "api_auth_NewClient env address =
     map_option (\<lambda>e. ''new grpc client for '' @ address @ '': '' @ e) (lib_error env (GrpcClient address))"

definition api_favorites_NewClient :: "outside \<Rightarrow> string \<Rightarrow> string option" where
  "api_favorites_NewClient env address =
     map_option (\<lambda>e. ''new grpc client for '' @ address @ '': '' @ e) (lib_error env (GrpcClient address))"

definition NewSubscriber :: "outside \<Rightarrow> string \<Rightarrow> string option" where
  "NewSubscriber env address = lib_error env (NatsConnect address)"

definition Subscriber_Start :: "outside \<Rightarrow> string \<Rightarrow> string option" where
  "Subscriber_Start env subject = lib_error env (NatsSubscribe subject)"

definition NewPublisher :: "outside \<Rightarrow> string \<Rightarrow> string option" where
  "NewPublisher env address = lib_error env (NatsConnect address)"

text \<open>
  \<open>s.Serve(listener)\<close> next to the goroutine that stops the server on one of the signals that the
  context is notified of: any other signal kills the process, and \<open>GracefulStop\<close> waits for all requests.
\<close>

definition serve_grpc :: "outside \<Rightarrow> os_signal list \<Rightarrow> 'd prog" where
  "serve_grpc env notified d =
     (case serving_end env of
        Serve_fails err \<Rightarrow> (Returns (Some (''failed to serve: '' @ err)), [Serving], d)
      | Signalled sg \<Rightarrow>
          if sg \<notin> set notified then (Killed, [Serving], d)
          else if \<not> drains env then (Hangs, [Serving], d)
          else (Returns None, [Serving, GracefulStop], d))"

section \<open>The services\<close>

definition update_subject :: string where
  "update_subject = ''xkcd.db.updated''"

text \<open>\<open>search/main.go\<close>: the index is built by a goroutine while the rest is set up.\<close>

record search_config =
  sx_LogLevel :: string
  sx_Address :: string
  sx_DBAddress :: string
  sx_WordsAddress :: string
  sx_IndexTTL :: int
  sx_Broker :: string

text \<open>
  \<open>Start\<close> of the initiator: the goroutine builds the index, and then \<open>time.NewTicker\<close> panics for a period
  that is not positive, which ends the process if it gets there before \<open>main\<close> is through.
\<close>

definition initiator_Start :: "outside \<Rightarrow> int \<Rightarrow> 'd prog \<Rightarrow> 'd prog" where
  "initiator_Start env ttl next d =
     emit IndexLoopStarted (\<lambda>d. case next d of (f, es, d') \<Rightarrow>
       if ttl \<le> 0 \<and> ticker_after env \<le> length es then (Crashed, take (ticker_after env) es, d')
       else (f, es, d')) d"

definition search_run :: "outside \<Rightarrow> search_config \<Rightarrow> 'd prog" where
  "search_run env cfg =
     attempt (db_New env (sx_DBAddress cfg)) (Connected (sx_DBAddress cfg)) ''failed to connect to db: ''
    (attempt (words_NewClient env (sx_WordsAddress cfg)) (Dialled (sx_WordsAddress cfg)) ''failed create Words client: ''
    (initiator_Start env (sx_IndexTTL cfg)
    (attempt (lib_error env (NetListen (sx_Address cfg))) (Listening (sx_Address cfg)) ''failed to listen: ''
    (attempt (NewSubscriber env (sx_Broker cfg)) (BrokerConnected (sx_Broker cfg)) ''failed to start publisher: ''
    (deferred BrokerClosed
    (attempt (Subscriber_Start env update_subject) (Subscribed update_subject) ''failed to start subscriber loop: ''
    (serve_grpc env [Interrupt, SIGTERM])))))))"

text \<open>\<open>update/main.go\<close>; the timeout goes to the HTTP client, and nothing reads the check period.\<close>

record update_config =
  ux_LogLevel :: string
  ux_Address :: string
  ux_DBAddress :: string
  ux_WordsAddress :: string
  ux_XKCD_URL :: string
  ux_XKCD_Concurrency :: int
  ux_XKCD_Timeout :: int
  ux_XKCD_CheckPeriod :: int
  ux_Broker :: string

definition update_run :: "outside \<Rightarrow> ('d \<Rightarrow> up_result \<times> 'd) \<Rightarrow> update_config \<Rightarrow> 'd prog" where
  "update_run env up cfg =
     attempt (update_db_New env (ux_DBAddress cfg)) (Connected (ux_DBAddress cfg)) ''failed to connect to db: ''
    (migrate (update_Migrate (lib_error env) up)
    (construct update_text (xkcd_NewClient (ux_XKCD_URL cfg)) ''failed create XKCD client: '' (\<lambda>xkcd.
     attempt (update_words_NewClient env (ux_WordsAddress cfg)) (Dialled (ux_WordsAddress cfg)) ''failed create Words client: ''
    (construct update_text (NewUpdateService (ux_XKCD_Concurrency cfg)) ''failed create Update service: '' (\<lambda>updater.
     attempt (lib_error env (NetListen (ux_Address cfg))) (Listening (ux_Address cfg)) ''failed to listen: ''
    (attempt (NewPublisher env (ux_Broker cfg)) (BrokerConnected (ux_Broker cfg)) ''failed to create publisher: ''
    (deferred BrokerClosed
    (serve_grpc env [Interrupt]))))))))"

text \<open>\<open>auth/main.go\<close>; the ports and the libraries of the service are those of the theory \<open>AuthService\<close>.\<close>

record auth_config =
  ax_LogLevel :: string
  ax_Address :: string
  ax_DBAddress :: string
  ax_JWTSecret :: string
  ax_TokenTTL :: int

definition auth_run ::
  "outside \<Rightarrow> 'a auth_port \<Rightarrow> bcrypt_lib \<Rightarrow> jwt_lib \<Rightarrow> auth_config \<Rightarrow> 'r database prog" where
  "auth_run env db bc jw cfg =
     attempt (auth_db_New env (ax_DBAddress cfg)) (Connected (ax_DBAddress cfg)) ''failed to connect to db: ''
    (migrate (auth_Migrate (lib_error env ExecMigration))
    (construct auth_text (NewAuthService db bc jw (ax_JWTSecret cfg) (ax_TokenTTL cfg))
       ''failed to create auth service: '' (\<lambda>authorization.
     attempt (lib_error env (NetListen (ax_Address cfg))) (Listening (ax_Address cfg)) ''failed to listen: ''
    (serve_grpc env [Interrupt, SIGTERM]))))"

text \<open>\<open>favorites/main.go\<close>.\<close>

record favorites_config =
  fx_LogLevel :: string
  fx_Address :: string
  fx_DBAddress :: string

definition favorites_run :: "outside \<Rightarrow> favorites_config \<Rightarrow> 'r database prog" where
  "favorites_run env cfg =
     attempt (fav_db_New env (fx_DBAddress cfg)) (Connected (fx_DBAddress cfg)) ''failed to connect to db: ''
    (migrate (favorites_Migrate (lib_error env ExecMigration))
    (attempt (lib_error env (NetListen (fx_Address cfg))) (Listening (fx_Address cfg)) ''failed to listen: ''
    (serve_grpc env [Interrupt, SIGTERM])))"

text \<open>
  \<open>words/main.go\<close>: an error of \<open>Serve\<close> cancels the context like a signal does, and the graceful stop
  becomes a forced one after five seconds.
\<close>

record words_config =
  wx_Port :: string

definition words_run :: "outside \<Rightarrow> words_config \<Rightarrow> 'd prog" where
  "words_run env cfg =
     attempt (lib_error env (NetListen (wx_Port cfg))) (Listening (wx_Port cfg))
       (''failed to listen port '' @ wx_Port cfg @ '': '')
     (\<lambda>d. (Returns None, [Serving] @ (if drains env then [] else [ForcedStop]) @ [GracefulStop], d))"

text \<open>\<open>loadConfig\<close> of \<open>words\<close>: the file only when one is named, and then the environment.\<close>

definition words_loadConfig ::
  "(string \<Rightarrow> string + words_config) \<Rightarrow> (words_config \<Rightarrow> string + words_config) \<Rightarrow> string \<Rightarrow> string + words_config" where
  "words_loadConfig readConfig readEnv cfgPath =
     (case (if cfgPath \<noteq> [] then readConfig cfgPath else Inr \<lparr>wx_Port = []\<rparr>) of
        Inl e \<Rightarrow> Inl (''read config file: '' @ e)
      | Inr cfg \<Rightarrow> (case readEnv cfg of Inl e \<Rightarrow> Inl (''read env: '' @ e) | Inr cfg \<Rightarrow> Inr cfg))"

section \<open>The processes\<close>

datatype process_end = Exit int | Panics | KilledBySignal | NeverEnds

text \<open>The services have loggers of their own, which refuse the same levels as that of the gateway.\<close>

definition search_mustMakeLogger :: "string \<Rightarrow> log_level option" where
  "search_mustMakeLogger levelStr =
     (if levelStr = ''DEBUG'' then Some LevelDebug
      else if levelStr = ''INFO'' then Some LevelInfo
      else if levelStr = ''ERROR'' then Some LevelError
      else None)"

definition update_mustMakeLogger :: "string \<Rightarrow> log_level option" where
  "update_mustMakeLogger logLevel =
     (if logLevel = ''DEBUG'' then Some LevelDebug
      else if logLevel = ''INFO'' then Some LevelInfo
      else if logLevel = ''ERROR'' then Some LevelError
      else None)"

definition favorites_mustMakeLogger :: "string \<Rightarrow> log_level option" where
  "favorites_mustMakeLogger levelStr =
     (if levelStr = ''DEBUG'' then Some LevelDebug
      else if levelStr = ''INFO'' then Some LevelInfo
      else if levelStr = ''ERROR'' then Some LevelError
      else None)"

text \<open>\<open>auth\<close> falls back to a level where the others panic.\<close>

definition auth_mustMakeLogger :: "string \<Rightarrow> log_level option" where
  "auth_mustMakeLogger levelStr =
     Some (if levelStr = ''DEBUG'' then LevelDebug
      else if levelStr = ''INFO'' then LevelInfo
      else if levelStr = ''ERROR'' then LevelError
      else LevelInfo)"

definition exit_of :: "finish \<Rightarrow> process_end" where
  "exit_of f = (case f of Returns None \<Rightarrow> Exit 0 | Returns (Some err) \<Rightarrow> Exit 1 | Killed \<Rightarrow> KilledBySignal | Crashed \<Rightarrow> Panics | Hangs \<Rightarrow> NeverEnds)"

text \<open>\<open>main\<close>: \<open>MustLoad\<close> ends the process on an error, the logger may panic, then \<open>run\<close>.\<close>

definition service_main ::
  "(string \<Rightarrow> log_level option) \<Rightarrow> ('c \<Rightarrow> string) \<Rightarrow> ('c \<Rightarrow> 'd prog) \<Rightarrow> string + 'c \<Rightarrow> 'd \<Rightarrow> process_end \<times> event list \<times> 'd" where
  "service_main logger level run load d =
     (case load of
        Inl err \<Rightarrow> (Exit 1, [], d)
      | Inr cfg \<Rightarrow> (case logger (level cfg) of
          None \<Rightarrow> (Panics, [], d)
        | Some l \<Rightarrow> (case run cfg d of (f, es, d') \<Rightarrow> (exit_of f, es, d'))))"

definition search_main :: "outside \<Rightarrow> string + search_config \<Rightarrow> 'd \<Rightarrow> process_end \<times> event list \<times> 'd" where
  "search_main env = service_main search_mustMakeLogger sx_LogLevel (search_run env)"

definition update_main ::
  "outside \<Rightarrow> ('d \<Rightarrow> up_result \<times> 'd) \<Rightarrow> string + update_config \<Rightarrow> 'd \<Rightarrow> process_end \<times> event list \<times> 'd" where
  "update_main env up = service_main update_mustMakeLogger ux_LogLevel (update_run env up)"

definition auth_main ::
  "outside \<Rightarrow> 'a auth_port \<Rightarrow> bcrypt_lib \<Rightarrow> jwt_lib \<Rightarrow> string + auth_config \<Rightarrow> 'r database \<Rightarrow>
   process_end \<times> event list \<times> 'r database" where
  "auth_main env db bc jw = service_main auth_mustMakeLogger ax_LogLevel (auth_run env db bc jw)"

definition favorites_main ::
  "outside \<Rightarrow> string + favorites_config \<Rightarrow> 'r database \<Rightarrow> process_end \<times> event list \<times> 'r database" where
  "favorites_main env = service_main favorites_mustMakeLogger fx_LogLevel (favorites_run env)"

definition words_main :: "outside \<Rightarrow> string + words_config \<Rightarrow> 'd \<Rightarrow> process_end \<times> event list \<times> 'd" where
  "words_main env load d =
     (case load of
        Inl err \<Rightarrow> (Exit 1, [], d)
      | Inr cfg \<Rightarrow> (case words_run env cfg d of (f, es, d') \<Rightarrow> (exit_of f, es, d')))"

section \<open>The gateway (api/main.go)\<close>

record api_startup = api_config +
  gx_LogLevel :: string
  gx_Address :: string
  gx_InternalAddress :: string
  gx_Timeout :: int
  gx_WordsAddress :: string
  gx_UpdateAddress :: string
  gx_SearchAddress :: string
  gx_AuthAddress :: string
  gx_FavoritesAddress :: string

text \<open>The clients in the order in which they are made: the name of the adapter, the address, the result.\<close>

definition api_clients :: "outside \<Rightarrow> api_startup \<Rightarrow> (string \<times> string \<times> string option) list" where
  "api_clients env cfg =
     [(''update'', gx_UpdateAddress cfg, api_update_NewClient env (gx_UpdateAddress cfg)),
      (''words'', gx_WordsAddress cfg, api_words_NewClient env (gx_WordsAddress cfg)),
      (''search'', gx_SearchAddress cfg, api_search_NewClient env (gx_SearchAddress cfg)),
      (''auth'', gx_AuthAddress cfg, api_auth_NewClient env (gx_AuthAddress cfg)),
      (''favorites'', gx_FavoritesAddress cfg, api_favorites_NewClient env (gx_FavoritesAddress cfg))]"

text \<open>The first client that cannot be made is logged and ends the process.\<close>

fun dial_clients :: "(string \<times> string \<times> string option) list \<Rightarrow> bool \<times> event list" where
  "dial_clients [] = (True, [])"
| "dial_clients ((name, address, res) # cs) =
     (case res of
        Some err \<Rightarrow> (False, [Logged (''cannot init '' @ name @ '' adapter'') err])
      | None \<Rightarrow> (case dial_clients cs of (ok, es) \<Rightarrow> (ok, Dialled address # es)))"

text \<open>
  Both servers are shut down, each for the rest of ten seconds, and the clients closed, after an
  interrupt as well as after an error of one of the servers, which is only logged. Nothing waits
  longer than that.
\<close>

definition api_shutdown :: "outside \<Rightarrow> api_startup \<Rightarrow> event list" where
  "api_shutdown env cfg =
     (if drains env then [GracefulStop, GracefulStop] else []) @
     map (\<lambda>(name, address, res). ClientClosed address) (api_clients env cfg)"

definition api_main :: "outside \<Rightarrow> string + api_startup \<Rightarrow> process_end \<times> event list" where
  "api_main env load =
     (case load of
        Inl err \<Rightarrow> (Exit 1, [])
      | Inr cfg \<Rightarrow> (case mustMakeLogger (gx_LogLevel cfg) of
          None \<Rightarrow> (Panics, [])
        | Some l \<Rightarrow> (case dial_clients (api_clients env cfg) of
            (False, es) \<Rightarrow> (Exit 1, es)
          | (True, es) \<Rightarrow> (case serving_end env of
              Signalled SIGTERM \<Rightarrow> (KilledBySignal, es @ [Serving, Serving])
            | Signalled Interrupt \<Rightarrow> (Exit 0, es @ [Serving, Serving] @ api_shutdown env cfg)
            | Serve_fails err \<Rightarrow>
                (Exit 0, es @ [Serving, Serving, Logged ''server stopped unexpectedly'' err] @ api_shutdown env cfg)))))"

section \<open>Facts\<close>

lemmas run_defs = search_run_def update_run_def auth_run_def favorites_run_def words_run_def
lemmas main_defs = search_main_def update_main_def auth_main_def favorites_main_def words_main_def service_main_def

abbreviation ending :: "finish \<times> event list \<times> 'd \<Rightarrow> finish" where
  "ending r \<equiv> fst r"

abbreviation events :: "finish \<times> event list \<times> 'd \<Rightarrow> event list" where
  "events r \<equiv> fst (snd r)"

abbreviation database_of :: "finish \<times> event list \<times> 'd \<Rightarrow> 'd" where
  "database_of r \<equiv> snd (snd r)"

text \<open>What each combinator does to the end, the events and the database of the rest of the program.\<close>

lemma ending_simps [simp]:
  "ending (emit e next d) = ending (next d)"
  "ending (deferred e next d) = ending (next d)"
  "ending (attempt res e what next d) = (case res of Some err \<Rightarrow> Returns (Some (what @ err)) | None \<Rightarrow> ending (next d))"
  "ending (construct txt res' what nxt d) =
     (case res' of Inl err \<Rightarrow> Returns (Some (what @ error_text txt err)) | Inr x \<Rightarrow> ending (nxt x d))"
  "ending (migrate m next d) =
     (case fst (m d) of Some err \<Rightarrow> Returns (Some (''failed to migrate db: '' @ err)) | None \<Rightarrow> ending (next (snd (m d))))"
  by (auto simp: emit_def deferred_def attempt_def construct_def migrate_def split: prod.splits option.splits sum.splits)

lemma events_simps [simp]:
  "events (emit e next d) = e # events (next d)"
  "events (deferred e next d) =
     events (next d) @ (case ending (next d) of Returns err \<Rightarrow> [e] | Killed \<Rightarrow> [] | Crashed \<Rightarrow> [] | Hangs \<Rightarrow> [])"
  "events (attempt res e what next d) = (case res of Some err \<Rightarrow> [] | None \<Rightarrow> e # events (next d))"
  "events (construct txt res' what nxt d) = (case res' of Inl err \<Rightarrow> [] | Inr x \<Rightarrow> events (nxt x d))"
  "events (migrate m next d) = (case fst (m d) of Some err \<Rightarrow> [] | None \<Rightarrow> Migrated # events (next (snd (m d))))"
  by (auto simp: emit_def deferred_def attempt_def construct_def migrate_def
      split: prod.splits option.splits sum.splits finish.splits)

lemma database_simps [simp]:
  "database_of (emit e next d) = database_of (next d)"
  "database_of (deferred e next d) = database_of (next d)"
  "database_of (attempt res e what next d) = (case res of Some err \<Rightarrow> d | None \<Rightarrow> database_of (next d))"
  "database_of (construct txt res' what nxt d) = (case res' of Inl err \<Rightarrow> d | Inr x \<Rightarrow> database_of (nxt x d))"
  "database_of (migrate m next d) = (case fst (m d) of Some err \<Rightarrow> snd (m d) | None \<Rightarrow> database_of (next (snd (m d))))"
  by (auto simp: emit_def deferred_def attempt_def construct_def migrate_def split: prod.splits option.splits sum.splits)

lemma initiator_simps [simp]:
  "ending (initiator_Start env ttl next d) =
     (if ttl \<le> 0 \<and> ticker_after env \<le> length (events (next d)) then Crashed else ending (next d))"
  "events (initiator_Start env ttl next d) = IndexLoopStarted #
     (if ttl \<le> 0 \<and> ticker_after env \<le> length (events (next d)) then take (ticker_after env) (events (next d))
      else events (next d))"
  "database_of (initiator_Start env ttl next d) = database_of (next d)"
  by (auto simp: initiator_Start_def emit_def split: prod.splits)

lemma serve_ending:
  "ending (serve_grpc env notified d) =
     (case serving_end env of
        Serve_fails err \<Rightarrow> Returns (Some (''failed to serve: '' @ err))
      | Signalled sg \<Rightarrow> if sg \<notin> set notified then Killed else if drains env then Returns None else Hangs)"
  by (simp add: serve_grpc_def split: serving_end.splits)

lemma serve_simps [simp]:
  "events (serve_grpc env notified d) = Serving # (if ending (serve_grpc env notified d) = Returns None then [GracefulStop] else [])"
  "database_of (serve_grpc env notified d) = d"
  by (auto simp: serve_grpc_def split: serving_end.splits)

definition table_rows :: "'r database \<Rightarrow> string \<Rightarrow> 'r list" where
  "table_rows db t = (case db t of None \<Rightarrow> [] | Some rs \<Rightarrow> rs)"

text \<open>The tables of a script, added to a database where they are missing.\<close>

definition with_tables :: "string list \<Rightarrow> 'r database \<Rightarrow> 'r database" where
  "with_tables ts db = (\<lambda>t. if t \<in> set ts then Some (table_rows db t) else db t)"

lemma with_tables_simps [simp]:
  "with_tables [] db = db"
  "with_tables us (with_tables ts db) = with_tables (ts @ us) db"
  "with_tables ts db t = None \<longleftrightarrow> t \<notin> set ts \<and> db t = None"
  by (auto simp: with_tables_def table_rows_def fun_eq_iff)

lemma exec_create:
  "list_all (\<lambda>r. db r \<noteq> None) refs \<Longrightarrow> exec_ddl (CreateTable t refs) db = Some (with_tables [t] db)"
  by (auto simp: with_tables_def table_rows_def fun_eq_iff)

definition auth_tables :: "string list" where
  "auth_tables = [''users'', ''user_comicshub'', ''user_telegram'']"

lemma users_script: "exec_script usersMigrationUp db = Some (with_tables auth_tables db)"
  by (simp add: usersMigrationUp_def auth_tables_def exec_create del: exec_ddl.simps(1))

lemma favorites_script: "exec_script favoritesMigrationUp db = Some (with_tables [''favorites''] db)"
  by (simp add: favoritesMigrationUp_def exec_create del: exec_ddl.simps(1))

lemma auth_Migrate_eq:
  "auth_Migrate err db = (case err of Some e \<Rightarrow> (Some (''apply users migration: '' @ e), db)
                                    | None \<Rightarrow> (None, with_tables auth_tables db))"
  by (simp add: auth_Migrate_def exec_up_def users_script split: option.split)

lemma favorites_Migrate_eq:
  "favorites_Migrate err db = (case err of Some e \<Rightarrow> (Some (''apply favorites migration: '' @ e), db)
                                    | None \<Rightarrow> (None, with_tables [''favorites''] db))"
  by (simp add: favorites_Migrate_def exec_up_def favorites_script split: option.split)

text \<open>
  A program that keeps the balance of connections to the broker: on every path on which it returns,
  each connection that was opened has been closed.
\<close>

definition openings :: "event list \<Rightarrow> nat" where
  "openings es = length (filter (\<lambda>e. case e of BrokerConnected a \<Rightarrow> True | _ \<Rightarrow> False) es)"

definition closings :: "event list \<Rightarrow> nat" where
  "closings es = length (filter (\<lambda>e. e = BrokerClosed) es)"

lemma balance_simps [simp]:
  "openings [] = 0" "openings (e # es) = (case e of BrokerConnected a \<Rightarrow> 1 | _ \<Rightarrow> 0) + openings es"
  "closings [] = 0" "closings (e # es) = (if e = BrokerClosed then 1 else 0) + closings es"
  "openings (es @ fs) = openings es + openings fs" "closings (es @ fs) = closings es + closings fs"
  by (simp_all add: openings_def closings_def split: event.splits)

lemma search_releases:
  assumes "ending (search_run env cfg d) = Returns r"
  shows "openings (events (search_run env cfg d)) = closings (events (search_run env cfg d))"
  using assms by (auto simp: search_run_def split: option.splits)

lemma update_releases:
  assumes "ending (update_run env up cfg d) = Returns r"
  shows "openings (events (update_run env up cfg d)) = closings (events (update_run env up cfg d))"
  using assms by (auto simp: update_run_def split: option.splits sum.splits)

section \<open>Properties\<close>

text \<open>What the four services with a database have done before they serve.\<close>

lemma search_ready:
  "Serving \<in> set (events (search_run env cfg d)) \<Longrightarrow> \<exists>rest. events (search_run env cfg d) =
     [Connected (sx_DBAddress cfg), Dialled (sx_WordsAddress cfg), IndexLoopStarted, Listening (sx_Address cfg),
      BrokerConnected (sx_Broker cfg), Subscribed update_subject, Serving] @ rest"
  by (auto simp: search_run_def take_Cons' split: option.splits finish.splits if_splits)

lemma update_ready:
  "Serving \<in> set (events (update_run env up cfg d)) \<Longrightarrow>
   ux_XKCD_URL cfg \<noteq> [] \<and> 1 \<le> ux_XKCD_Concurrency cfg \<and> (\<exists>rest. events (update_run env up cfg d) =
     [Connected (ux_DBAddress cfg), Migrated, Dialled (ux_WordsAddress cfg), Listening (ux_Address cfg),
      BrokerConnected (ux_Broker cfg), Serving] @ rest)"
  by (auto simp: update_run_def xkcd_NewClient_def NewUpdateService_def split: option.splits sum.splits if_splits)

lemma auth_ready:
  "Serving \<in> set (events (auth_run env db bc jw cfg d)) \<Longrightarrow>
   ax_JWTSecret cfg \<noteq> [] \<and> 0 < ax_TokenTTL cfg \<and>
   database_of (auth_run env db bc jw cfg d) = with_tables auth_tables d \<and>
   (\<exists>rest. events (auth_run env db bc jw cfg d) =
     [Connected (ax_DBAddress cfg), Migrated, Listening (ax_Address cfg), Serving] @ rest)"
  by (auto simp: auth_run_def NewAuthService_def auth_Migrate_eq split: option.splits sum.splits if_splits)

lemma favorites_ready:
  "Serving \<in> set (events (favorites_run env cfg d)) \<Longrightarrow>
   database_of (favorites_run env cfg d) = with_tables [''favorites''] d \<and>
   (\<exists>rest. events (favorites_run env cfg d) =
     [Connected (fx_DBAddress cfg), Migrated, Listening (fx_Address cfg), Serving] @ rest)"
  by (auto simp: favorites_run_def favorites_Migrate_eq split: option.splits)

text \<open>C15: No service takes a request before it is ready. Whatever calls fail, a service that serves has
  connected to its database first, \<open>update\<close>, \<open>auth\<close> and \<open>favorites\<close> have migrated it next, and all of
  them have their listener and the connections to \<open>words\<close> and to the broker they use, in this order;
  \<open>update\<close> has a url of xkcd and at least one worker; \<open>auth\<close> has a secret that is not empty and a
  positive lifetime of its tokens. The tables of \<open>auth\<close> and of \<open>favorites\<close> then exist, with all rows that
  were there before. \<open>search\<close> does not migrate: it serves whether or not the table of comics exists.\<close>

theorem serves_only_when_ready:
  "(Serving \<in> set (events (search_run env s d)) \<longrightarrow> (\<exists>rest. events (search_run env s d) =
      [Connected (sx_DBAddress s), Dialled (sx_WordsAddress s), IndexLoopStarted, Listening (sx_Address s),
       BrokerConnected (sx_Broker s), Subscribed update_subject, Serving] @ rest)) \<and>
   (Serving \<in> set (events (update_run env up u d)) \<longrightarrow>
      ux_XKCD_URL u \<noteq> [] \<and> 1 \<le> ux_XKCD_Concurrency u \<and> (\<exists>rest. events (update_run env up u d) =
        [Connected (ux_DBAddress u), Migrated, Dialled (ux_WordsAddress u), Listening (ux_Address u),
         BrokerConnected (ux_Broker u), Serving] @ rest)) \<and>
   (Serving \<in> set (events (auth_run env port bc jw a db)) \<longrightarrow>
      ax_JWTSecret a \<noteq> [] \<and> 0 < ax_TokenTTL a \<and>
      database_of (auth_run env port bc jw a db) = with_tables auth_tables db \<and>
      (\<exists>rest. events (auth_run env port bc jw a db) =
        [Connected (ax_DBAddress a), Migrated, Listening (ax_Address a), Serving] @ rest)) \<and>
   (Serving \<in> set (events (favorites_run env f db)) \<longrightarrow>
      database_of (favorites_run env f db) = with_tables [''favorites''] db \<and>
      (\<exists>rest. events (favorites_run env f db) =
        [Connected (fx_DBAddress f), Migrated, Listening (fx_Address f), Serving] @ rest))"
  by (intro conjI impI search_ready update_ready auth_ready favorites_ready)

definition calm :: outside where
  "calm = \<lparr>lib_error = (\<lambda>c. None), serving_end = Signalled SIGTERM, drains = True, ticker_after = 2\<rparr>"

definition demo_search :: search_config where
  "demo_search = \<lparr>sx_LogLevel = ''DEBUG'', sx_Address = '':83'', sx_DBAddress = ''db'', sx_WordsAddress = ''w:81'',
     sx_IndexTTL = 20000000000, sx_Broker = ''nats''\<rparr>"

definition demo_update :: update_config where
  "demo_update = \<lparr>ux_LogLevel = ''DEBUG'', ux_Address = '':82'', ux_DBAddress = ''db'', ux_WordsAddress = ''w:81'',
     ux_XKCD_URL = ''xkcd.com'', ux_XKCD_Concurrency = 64,
     ux_XKCD_Timeout = 10000000000, ux_XKCD_CheckPeriod = 3600000000000, ux_Broker = ''nats''\<rparr>"

definition demo_auth_config :: auth_config where
  "demo_auth_config = \<lparr>ax_LogLevel = ''DEBUG'', ax_Address = '':84'', ax_DBAddress = ''db'', ax_JWTSecret = ''s'',
     ax_TokenTTL = 1\<rparr>"

definition demo_favorites :: favorites_config where
  "demo_favorites = \<lparr>fx_LogLevel = ''DEBUG'', fx_Address = '':85'', fx_DBAddress = ''db''\<rparr>"

lemmas demo_configs = demo_search_def demo_update_def demo_auth_config_def demo_favorites_def

lemma lib_calm [simp]:
  assumes "\<forall>c. lib_error env c = None"
  shows "db_New env a = None" "update_db_New env a = None" "auth_db_New env a = None" "fav_db_New env a = None"
    "words_NewClient env a = None" "update_words_NewClient env a = None" "NewSubscriber env a = None"
    "Subscriber_Start env a = None" "NewPublisher env a = None" "lib_error env c = None"
  using assms by (simp_all add: db_New_def update_db_New_def auth_db_New_def fav_db_New_def words_NewClient_def
      update_words_NewClient_def NewSubscriber_def Subscriber_Start_def NewPublisher_def)

lemma calm_no_error [simp]: "\<forall>c. lib_error calm c = None"
  by (simp add: calm_def)

lemma serves_only_when_ready_witness:
  "(\<exists>rest. events (search_run calm demo_search ()) =
      [Connected ''db'', Dialled ''w:81'', IndexLoopStarted, Listening '':83'', BrokerConnected ''nats'',
       Subscribed update_subject, Serving] @ rest) \<and>
   (\<exists>rest. events (update_run calm (\<lambda>d. (Up_ErrNoChange, d)) demo_update ()) =
      [Connected ''db'', Migrated, Dialled ''w:81'', Listening '':82'', BrokerConnected ''nats'', Serving] @ rest) \<and>
   database_of (auth_run calm (as_db demo_auth) demo_bcrypt demo_jwt demo_auth_config [''favorites'' \<mapsto> [7 :: nat]]) ''users'' = Some [] \<and>
   database_of (favorites_run calm demo_favorites [''favorites'' \<mapsto> [7 :: nat]]) ''favorites'' = Some [7]"
proof -
  have s: "Serving \<in> set (events (search_run calm demo_search ()))"
    by (simp add: search_run_def demo_search_def)
  have u: "Serving \<in> set (events (update_run calm (\<lambda>d. (Up_ErrNoChange, d)) demo_update ()))"
    by (simp add: update_run_def update_Migrate_def xkcd_NewClient_def NewUpdateService_def demo_update_def)
  have a: "Serving \<in> set (events (auth_run calm (as_db demo_auth) demo_bcrypt demo_jwt demo_auth_config [''favorites'' \<mapsto> [7 :: nat]]))"
    by (simp add: auth_run_def auth_Migrate_eq NewAuthService_def demo_auth_config_def)
  have f: "Serving \<in> set (events (favorites_run calm demo_favorites [''favorites'' \<mapsto> [7 :: nat]]))"
    by (simp add: favorites_run_def favorites_Migrate_eq)
  show ?thesis
    using serves_only_when_ready [of calm demo_search "()" "\<lambda>d. (Up_ErrNoChange, d)" demo_update "as_db demo_auth"
        demo_bcrypt demo_jwt demo_auth_config "[''favorites'' \<mapsto> [7 :: nat]]" demo_favorites] s u a f
    by (simp add: with_tables_def auth_tables_def table_rows_def del: events_simps) (simp add: demo_configs)
qed

text \<open>A configuration that every service accepts.\<close>

lemma level_known: "mustMakeLogger l = None \<longleftrightarrow> l \<notin> {''DEBUG'', ''INFO'', ''ERROR''}"
  "search_mustMakeLogger l = None \<longleftrightarrow> l \<notin> {''DEBUG'', ''INFO'', ''ERROR''}"
  "update_mustMakeLogger l = None \<longleftrightarrow> l \<notin> {''DEBUG'', ''INFO'', ''ERROR''}"
  "favorites_mustMakeLogger l = None \<longleftrightarrow> l \<notin> {''DEBUG'', ''INFO'', ''ERROR''}"
  by (simp_all add: mustMakeLogger_def search_mustMakeLogger_def update_mustMakeLogger_def favorites_mustMakeLogger_def)

lemma service_main_runs:
  assumes "logger (level cfg) \<noteq> None"
  shows "service_main logger level run (Inr cfg) d =
    (exit_of (ending (run cfg d)), events (run cfg d), database_of (run cfg d))"
  using assms by (auto simp: service_main_def split: option.splits prod.splits)

lemma dial_all:
  "list_all (\<lambda>(name, address, res). res = None) cs \<Longrightarrow>
   dial_clients cs = (True, map (\<lambda>(name, address, res). Dialled address) cs)"
  by (induction cs rule: dial_clients.induct) (simp_all split: option.splits)

lemmas api_NewClient_defs = api_update_NewClient_def api_words_NewClient_def api_search_NewClient_def
  api_auth_NewClient_def api_favorites_NewClient_def

lemma dial_calm:
  "\<forall>c. lib_error env c = None \<Longrightarrow>
   dial_clients (api_clients env cfg) = (True, map (\<lambda>(name, address, res). Dialled address) (api_clients env cfg))"
  by (rule dial_all) (simp add: api_clients_def api_NewClient_defs)

text \<open>A gateway that cannot make a client names the first that failed, and exits with 1 before it serves.\<close>

lemma dial_stops:
  "dial_clients (map (\<lambda>(n, a). (n, a, None)) cs @ (name, address, Some err) # rest) =
     (False, map (\<lambda>(n, a). Dialled a) cs @ [Logged (''cannot init '' @ name @ '' adapter'') err])"
  by (induction cs) auto

definition api_addresses :: "api_startup \<Rightarrow> string list" where
  "api_addresses g =
     [gx_UpdateAddress g, gx_WordsAddress g, gx_SearchAddress g, gx_AuthAddress g, gx_FavoritesAddress g]"

text \<open>How a server ends that \<open>serve_grpc\<close> runs, and what is seen of it when the deferred calls add \<open>closing\<close>.\<close>

definition grpc_end :: "outside \<Rightarrow> os_signal list \<Rightarrow> process_end" where
  "grpc_end env notified =
     (case serving_end env of
        Serve_fails err \<Rightarrow> Exit 1
      | Signalled sg \<Rightarrow> if sg \<notin> set notified then KilledBySignal else if drains env then Exit 0 else NeverEnds)"

definition grpc_stop :: "outside \<Rightarrow> os_signal list \<Rightarrow> event list \<Rightarrow> event list" where
  "grpc_stop env notified closing =
     (case serving_end env of
        Serve_fails err \<Rightarrow> closing
      | Signalled sg \<Rightarrow> if sg \<in> set notified \<and> drains env then GracefulStop # closing else [])"

lemma serve_end:
  "exit_of (ending (serve_grpc env notified d)) = grpc_end env notified"
  "exit_of (ending (deferred e (serve_grpc env notified) d)) = grpc_end env notified"
  "events (serve_grpc env notified d) = Serving # grpc_stop env notified []"
  "events (deferred e (serve_grpc env notified) d) = Serving # grpc_stop env notified [e]"
  by (simp_all add: serve_ending grpc_end_def grpc_stop_def exit_of_def split: serving_end.splits)

lemma search_end:
  assumes "\<forall>c. lib_error env c = None"
  shows "exit_of (ending (search_run env s d)) =
      (if sx_IndexTTL s \<le> 0 \<and> ticker_after env \<le> 4 + length (grpc_stop env [Interrupt, SIGTERM] [BrokerClosed])
       then Panics else grpc_end env [Interrupt, SIGTERM])"
    and "events (search_run env s d) =
      [Connected (sx_DBAddress s), Dialled (sx_WordsAddress s), IndexLoopStarted] @
      (let es = [Listening (sx_Address s), BrokerConnected (sx_Broker s), Subscribed update_subject, Serving] @
                grpc_stop env [Interrupt, SIGTERM] [BrokerClosed] in
       if sx_IndexTTL s \<le> 0 \<and> ticker_after env \<le> length es then take (ticker_after env) es else es)"
    and "database_of (search_run env s d) = d"
proof -
  define serve :: "'a prog" where
    "serve = deferred BrokerClosed (attempt (Subscriber_Start env update_subject) (Subscribed update_subject)
       ''failed to start subscriber loop: '' (serve_grpc env [Interrupt, SIGTERM]))"
  have serve: "ending (serve d) = ending (serve_grpc env [Interrupt, SIGTERM] d)"
    "events (serve d) = Subscribed update_subject # Serving # grpc_stop env [Interrupt, SIGTERM] [BrokerClosed]"
    "database_of (serve d) = d"
    using serve_end(4) [of BrokerClosed env "[Interrupt, SIGTERM]" d]
    by (simp_all add: serve_def lib_calm [OF assms])
  note calm = lib_calm [OF assms] serve serve_end(1)
  show "exit_of (ending (search_run env s d)) =
      (if sx_IndexTTL s \<le> 0 \<and> ticker_after env \<le> 4 + length (grpc_stop env [Interrupt, SIGTERM] [BrokerClosed])
       then Panics else grpc_end env [Interrupt, SIGTERM])"
    unfolding search_run_def serve_def [symmetric] by (simp add: calm) (simp add: exit_of_def)
  show "events (search_run env s d) =
      [Connected (sx_DBAddress s), Dialled (sx_WordsAddress s), IndexLoopStarted] @
      (let es = [Listening (sx_Address s), BrokerConnected (sx_Broker s), Subscribed update_subject, Serving] @
                grpc_stop env [Interrupt, SIGTERM] [BrokerClosed] in
       if sx_IndexTTL s \<le> 0 \<and> ticker_after env \<le> length es then take (ticker_after env) es else es)"
    unfolding search_run_def serve_def [symmetric] by (simp add: calm Let_def)
  show "database_of (search_run env s d) = d"
    unfolding search_run_def serve_def [symmetric] by (simp add: calm)
qed

lemma update_end:
  assumes "\<forall>c. lib_error env c = None" and "fst (up d) \<in> {Up_ok, Up_ErrNoChange}"
    and "ux_XKCD_URL u \<noteq> []" and "1 \<le> ux_XKCD_Concurrency u"
  shows "exit_of (ending (update_run env up u d)) = grpc_end env [Interrupt]"
    and "events (update_run env up u d) =
      [Connected (ux_DBAddress u), Migrated, Dialled (ux_WordsAddress u), Listening (ux_Address u),
       BrokerConnected (ux_Broker u), Serving] @ grpc_stop env [Interrupt] [BrokerClosed]"
    and "database_of (update_run env up u d) = snd (up d)"
proof -
  have m: "update_Migrate (lib_error env) up d = (None, snd (up d))"
    using assms(1,2) by (auto simp: update_Migrate_def split: prod.splits up_result.splits)
  note run = update_run_def lib_calm [OF assms(1)] m xkcd_NewClient_def NewUpdateService_def
  show "exit_of (ending (update_run env up u d)) = grpc_end env [Interrupt]"
    using assms(3,4) by (simp add: run serve_end(1))
  show "events (update_run env up u d) =
      [Connected (ux_DBAddress u), Migrated, Dialled (ux_WordsAddress u), Listening (ux_Address u),
       BrokerConnected (ux_Broker u), Serving] @ grpc_stop env [Interrupt] [BrokerClosed]"
    using assms(3,4) by (simp add: run serve_end(4) del: events_simps(2) serve_simps)
  show "database_of (update_run env up u d) = snd (up d)"
    using assms(3,4) by (simp add: run)
qed

lemma api_end:
  assumes "\<forall>c. lib_error env c = None" and "mustMakeLogger (gx_LogLevel g) \<noteq> None"
  shows "api_main env (Inr g) =
    (let served = map Dialled (api_addresses g) @ [Serving, Serving];
         stopped = (if drains env then [GracefulStop, GracefulStop] else []) @ map ClientClosed (api_addresses g) in
     case serving_end env of
       Signalled SIGTERM \<Rightarrow> (KilledBySignal, served)
     | Signalled Interrupt \<Rightarrow> (Exit 0, served @ stopped)
     | Serve_fails err \<Rightarrow> (Exit 0, served @ [Logged ''server stopped unexpectedly'' err] @ stopped))"
  using assms(2) dial_calm [OF assms(1), of g]
  by (auto simp: api_main_def api_addresses_def api_shutdown_def api_clients_def
      split: option.splits serving_end.splits os_signal.splits)

text \<open>C34: How the processes end once they serve, and what they have stopped and closed by then. A
  listener that fails ends \<open>search\<close>, \<open>update\<close>, \<open>auth\<close> and \<open>favorites\<close> with exit code 1, but \<open>words\<close>
  and the gateway with 0, as if all were well. An interrupt stops all of them gracefully, after the
  requests under way; so does SIGTERM, which a container is stopped with, for \<open>search\<close>, \<open>auth\<close>,
  \<open>favorites\<close> and \<open>words\<close>, but it kills \<open>update\<close> and the gateway at once. A request that does not end
  holds up the four services without a limit, while \<open>words\<close> is forced to stop and the gateway gives up,
  both after seconds. \<open>search\<close> and \<open>update\<close> close the broker on every return, and the gateway its five
  clients, but for the signal that kills it. With a period of the index that is not positive, \<open>search\<close>
  panics as soon as the initiator makes its ticker, whatever it is doing then, and closes nothing.\<close>

theorem process_ends:
  assumes "\<forall>c. lib_error env c = None" and "fst (up d) \<in> {Up_ok, Up_ErrNoChange}"
    and "search_mustMakeLogger (sx_LogLevel s) \<noteq> None" and "update_mustMakeLogger (ux_LogLevel u) \<noteq> None"
    and "favorites_mustMakeLogger (fx_LogLevel f) \<noteq> None" and "mustMakeLogger (gx_LogLevel g) \<noteq> None"
    and "ux_XKCD_URL u \<noteq> []" and "1 \<le> ux_XKCD_Concurrency u" and "ax_JWTSecret a \<noteq> []" and "0 < ax_TokenTTL a"
  shows "search_main env (Inr s) d =
      (let ready = [Connected (sx_DBAddress s), Dialled (sx_WordsAddress s), IndexLoopStarted];
           es = [Listening (sx_Address s), BrokerConnected (sx_Broker s), Subscribed update_subject, Serving] @
             grpc_stop env [Interrupt, SIGTERM] [BrokerClosed] in
       if sx_IndexTTL s \<le> 0 \<and> ticker_after env \<le> length es
       then (Panics, ready @ take (ticker_after env) es, d)
       else (grpc_end env [Interrupt, SIGTERM], ready @ es, d)) \<and>
    update_main env up (Inr u) d =
      (grpc_end env [Interrupt],
       [Connected (ux_DBAddress u), Migrated, Dialled (ux_WordsAddress u), Listening (ux_Address u),
        BrokerConnected (ux_Broker u), Serving] @ grpc_stop env [Interrupt] [BrokerClosed], snd (up d)) \<and>
    auth_main env port bc jw (Inr a) db =
      (grpc_end env [Interrupt, SIGTERM],
       [Connected (ax_DBAddress a), Migrated, Listening (ax_Address a), Serving] @
         grpc_stop env [Interrupt, SIGTERM] [], with_tables auth_tables db) \<and>
    favorites_main env (Inr f) db =
      (grpc_end env [Interrupt, SIGTERM],
       [Connected (fx_DBAddress f), Migrated, Listening (fx_Address f), Serving] @
         grpc_stop env [Interrupt, SIGTERM] [], with_tables [''favorites''] db) \<and>
    words_main env (Inr w) d =
      (Exit 0, [Listening (wx_Port w), Serving] @ (if drains env then [] else [ForcedStop]) @ [GracefulStop], d) \<and>
    api_main env (Inr g) =
      (let served = map Dialled (api_addresses g) @ [Serving, Serving];
           stopped = (if drains env then [GracefulStop, GracefulStop] else []) @ map ClientClosed (api_addresses g) in
       case serving_end env of
         Signalled SIGTERM \<Rightarrow> (KilledBySignal, served)
       | Signalled Interrupt \<Rightarrow> (Exit 0, served @ stopped)
       | Serve_fails err \<Rightarrow> (Exit 0, served @ [Logged ''server stopped unexpectedly'' err] @ stopped))"
proof (intro conjI)
  note calm = lib_calm [OF assms(1)]
  show "search_main env (Inr s) d =
      (let ready = [Connected (sx_DBAddress s), Dialled (sx_WordsAddress s), IndexLoopStarted];
           es = [Listening (sx_Address s), BrokerConnected (sx_Broker s), Subscribed update_subject, Serving] @
             grpc_stop env [Interrupt, SIGTERM] [BrokerClosed] in
       if sx_IndexTTL s \<le> 0 \<and> ticker_after env \<le> length es
       then (Panics, ready @ take (ticker_after env) es, d)
       else (grpc_end env [Interrupt, SIGTERM], ready @ es, d))"
    by (simp add: search_main_def service_main_runs [where logger = search_mustMakeLogger and level = sx_LogLevel and cfg = s, OF assms(3)]
        search_end [OF assms(1)] Let_def)
  show "update_main env up (Inr u) d =
      (grpc_end env [Interrupt],
       [Connected (ux_DBAddress u), Migrated, Dialled (ux_WordsAddress u), Listening (ux_Address u),
        BrokerConnected (ux_Broker u), Serving] @ grpc_stop env [Interrupt] [BrokerClosed], snd (up d))"
    by (simp add: update_main_def service_main_runs [where logger = update_mustMakeLogger and level = ux_LogLevel and cfg = u, OF assms(4)]
        update_end [where up = up and d = d, OF assms(1,2,7,8)])
  show "auth_main env port bc jw (Inr a) db =
      (grpc_end env [Interrupt, SIGTERM],
       [Connected (ax_DBAddress a), Migrated, Listening (ax_Address a), Serving] @
         grpc_stop env [Interrupt, SIGTERM] [], with_tables auth_tables db)"
    using assms(9,10)
    by (simp add: auth_main_def service_main_runs auth_mustMakeLogger_def auth_run_def calm auth_Migrate_eq
        NewAuthService_def serve_end del: serve_simps(1))
  show "favorites_main env (Inr f) db =
      (grpc_end env [Interrupt, SIGTERM],
       [Connected (fx_DBAddress f), Migrated, Listening (fx_Address f), Serving] @
         grpc_stop env [Interrupt, SIGTERM] [], with_tables [''favorites''] db)"
    by (simp add: favorites_main_def service_main_runs [where logger = favorites_mustMakeLogger and level = fx_LogLevel and cfg = f, OF assms(5)]
        favorites_run_def calm favorites_Migrate_eq serve_end del: serve_simps(1))
  show "words_main env (Inr w) d =
      (Exit 0, [Listening (wx_Port w), Serving] @ (if drains env then [] else [ForcedStop]) @ [GracefulStop], d)"
    by (simp add: words_main_def words_run_def calm attempt_def emit_def exit_of_def)
  show "api_main env (Inr g) =
      (let served = map Dialled (api_addresses g) @ [Serving, Serving];
           stopped = (if drains env then [GracefulStop, GracefulStop] else []) @ map ClientClosed (api_addresses g) in
       case serving_end env of
         Signalled SIGTERM \<Rightarrow> (KilledBySignal, served)
       | Signalled Interrupt \<Rightarrow> (Exit 0, served @ stopped)
       | Serve_fails err \<Rightarrow> (Exit 0, served @ [Logged ''server stopped unexpectedly'' err] @ stopped))"
    by (rule api_end [OF assms(1,6)])
qed

definition demo_gateway :: api_startup where
  "demo_gateway = api_config.extend demo_config
     \<lparr>gx_LogLevel = ''INFO'', gx_Address = '':80'', gx_InternalAddress = '':81'', gx_Timeout = 5000000000,
      gx_WordsAddress = ''w:81'',
      gx_UpdateAddress = ''u:82'', gx_SearchAddress = ''s:83'', gx_AuthAddress = ''a:84'', gx_FavoritesAddress = ''f:85''\<rparr>"

lemma process_ends_witness:
  "search_main calm (Inr (demo_search\<lparr>sx_IndexTTL := 0\<rparr>)) () =
     (Panics, [Connected ''db'', Dialled ''w:81'', IndexLoopStarted, Listening '':83'', BrokerConnected ''nats''], ()) \<and>
   search_main calm (Inr demo_search) () =
     (Exit 0, [Connected ''db'', Dialled ''w:81'', IndexLoopStarted, Listening '':83'', BrokerConnected ''nats'',
        Subscribed update_subject, Serving, GracefulStop, BrokerClosed], ()) \<and>
   fst (update_main calm (\<lambda>d. (Up_ok, d)) (Inr demo_update) ()) = KilledBySignal \<and>
   snd (api_main (calm\<lparr>serving_end := Signalled Interrupt\<rparr>) (Inr demo_gateway)) =
     map Dialled (api_addresses demo_gateway) @
     [Serving, Serving, GracefulStop, GracefulStop] @ map ClientClosed (api_addresses demo_gateway)"
proof -
  have l: "search_mustMakeLogger (sx_LogLevel s) \<noteq> None" if "s \<in> {demo_search, demo_search\<lparr>sx_IndexTTL := 0\<rparr>}" for s
    using that by (auto simp: search_mustMakeLogger_def demo_search_def)
  have l': "update_mustMakeLogger (ux_LogLevel demo_update) \<noteq> None"
    "favorites_mustMakeLogger (fx_LogLevel demo_favorites) \<noteq> None" "mustMakeLogger (gx_LogLevel demo_gateway) \<noteq> None"
    by (simp_all add: level_known demo_configs demo_gateway_def api_config.defs)
  have c: "ux_XKCD_URL demo_update \<noteq> []" "1 \<le> ux_XKCD_Concurrency demo_update"
    "ax_JWTSecret demo_auth_config \<noteq> []" "0 < ax_TokenTTL demo_auth_config"
    by (simp_all add: demo_configs)
  have u: "fst (Up_ok, ()) \<in> {Up_ok, Up_ErrNoChange}" by simp
  have e: "\<forall>c. lib_error (calm\<lparr>serving_end := Signalled Interrupt\<rparr>) c = None" by (simp add: calm_def)
  note ends = process_ends [where up = "\<lambda>d. (Up_ok, d)" and d = "()" and port = "as_db demo_auth" and bc = demo_bcrypt
        and jw = demo_jwt and db = "Map.empty :: nat database" and w = "\<lparr>wx_Port = '':81''\<rparr>", OF _ u _ l' c]
  note calmly = ends [OF calm_no_error l]
  show ?thesis
  proof (intro conjI)
    show "search_main calm (Inr (demo_search\<lparr>sx_IndexTTL := 0\<rparr>)) () = (Panics, [Connected ''db'', Dialled ''w:81'',
        IndexLoopStarted, Listening '':83'', BrokerConnected ''nats''], ())"
      using calmly [of "demo_search\<lparr>sx_IndexTTL := 0\<rparr>", THEN conjunct1]
      by (simp add: grpc_stop_def calm_def demo_search_def)
    show "search_main calm (Inr demo_search) () = (Exit 0, [Connected ''db'', Dialled ''w:81'', IndexLoopStarted,
        Listening '':83'', BrokerConnected ''nats'', Subscribed update_subject, Serving, GracefulStop, BrokerClosed], ())"
      using calmly [of demo_search, THEN conjunct1]
      by (simp add: grpc_stop_def grpc_end_def calm_def demo_search_def)
    show "fst (update_main calm (\<lambda>d. (Up_ok, d)) (Inr demo_update) ()) = KilledBySignal"
      using calmly [of demo_search, THEN conjunct2, THEN conjunct1] by (simp add: grpc_end_def calm_def)
    show "snd (api_main (calm\<lparr>serving_end := Signalled Interrupt\<rparr>) (Inr demo_gateway)) =
        map Dialled (api_addresses demo_gateway) @
        [Serving, Serving, GracefulStop, GracefulStop] @ map ClientClosed (api_addresses demo_gateway)"
      using ends [OF e l, of demo_search, THEN conjunct2, THEN conjunct2, THEN conjunct2, THEN conjunct2, THEN conjunct2]
      by (simp add: calm_def)
  qed
qed

text \<open>Migrating is safe to repeat. The migrations of \<open>auth\<close> and of \<open>favorites\<close> create the tables that are
  missing, leave the rows of every table as they are, and change nothing when they are run again, as
  every start does; when the statement fails nothing has changed. The scripts never fail by
  themselves: a table is created after the tables its keys refer to.\<close>

theorem migrations_keep_rows:
  shows "auth_Migrate None db = (None, with_tables auth_tables db)"
    and "favorites_Migrate None db = (None, with_tables [''favorites''] db)"
    and "auth_Migrate None (snd (auth_Migrate None db)) = auth_Migrate None db"
    and "favorites_Migrate None (snd (favorites_Migrate None db)) = favorites_Migrate None db"
    and "snd (auth_Migrate (Some err) db) = db \<and> snd (favorites_Migrate (Some err) db) = db"
    and "table_rows (snd (auth_Migrate r db)) t = table_rows db t \<and>
      table_rows (snd (favorites_Migrate r db)) t = table_rows db t"
  by (auto simp: auth_Migrate_eq favorites_Migrate_eq with_tables_def table_rows_def fun_eq_iff split: option.splits)

end
