(* ===== verification/Deployment.thy ===== *)
theory Deployment
  imports Startup ApiUsers
begin

text \<open>
  The configuration of the services: the tags of the \<open>Config\<close> structs, the configuration files, and the
  environment that \<open>compose.yaml\<close> gives the containers, as data. The library that reads them
  (\<open>cleanenv\<close>) is a parameter. The properties are about the services as they are deployed: which
  address and which secret each of them gets.
\<close>

section \<open>Configuration structs\<close>

text \<open>A field: its name, its path in the file, its variable, and its default (\<open>None\<close> when required).\<close>

type_synonym field_tag = "string \<times> string list \<times> string \<times> string option"

definition api_tags :: "field_tag list" where
  "api_tags =
     [(''LogLevel'', [''log_level''], ''LOG_LEVEL'', Some ''DEBUG''),
      (''HTTPConfig.Address'', [''api_server'', ''address''], ''API_ADDRESS'', Some ''localhost:80''),
      (''HTTPConfig.InternalAddress'', [''api_server'', ''internal_address''], ''API_INTERNAL_ADDRESS'', Some ''localhost:81''),
      (''HTTPConfig.Timeout'', [''api_server'', ''timeout''], ''API_TIMEOUT'', Some ''5s''),
      (''WordsAddress'', [''words_address''], ''WORDS_ADDRESS'', Some ''words:81''),
      (''UpdateAddress'', [''update_address''], ''UPDATE_ADDRESS'', Some ''update:82''),
      (''SearchAddress'', [''search_address''], ''SEARCH_ADDRESS'', Some ''search:83''),
      (''AuthAddress'', [''auth_address''], ''AUTH_ADDRESS'', Some ''auth:84''),
      (''FavoritesAddress'', [''favorites_address''], ''FAVORITES_ADDRESS'', Some ''favorites:85''),
      (''AdminUser'', [''admin_user''], ''ADMIN_USER'', None),
      (''AdminPassword'', [''admin_password''], ''ADMIN_PASSWORD'', None),
      (''TokenTTL'', [''token_ttl''], ''TOKEN_TTL'', Some ''2m''),
      (''AuthJWTSecret'', [''auth_jwt_secret''], ''AUTH_JWT_SECRET'', None),
      (''SearchConcurrency'', [''search_concurrency''], ''SEARCH_CONCURRENCY'', Some ''10''),
      (''SearchRate'', [''search_rate''], ''SEARCH_RATE'', Some ''100'')]"

definition auth_tags :: "field_tag list" where
  "auth_tags =
     [(''LogLevel'', [''log_level''], ''LOG_LEVEL'', Some ''DEBUG''),
      (''Address'', [''auth_address''], ''AUTH_ADDRESS'', Some ''localhost:80''),
      (''DBAddress'', [''db_address''], ''DB_ADDRESS'', Some ''localhost:82''),
      (''JWTSecret'', [''jwt_secret''], ''AUTH_JWT_SECRET'', None),
      (''TokenTTL'', [''token_ttl''], ''TOKEN_TTL'', Some ''24h'')]"

definition favorites_tags :: "field_tag list" where
  "favorites_tags =
     [(''LogLevel'', [''log_level''], ''LOG_LEVEL'', Some ''DEBUG''),
      (''Address'', [''favorites_address''], ''FAVORITES_ADDRESS'', Some ''localhost:80''),
      (''DBAddress'', [''db_address''], ''DB_ADDRESS'', Some ''localhost:82'')]"

definition search_tags :: "field_tag list" where
  "search_tags =
     [(''LogLevel'', [''log_level''], ''LOG_LEVEL'', Some ''DEBUG''),
      (''Address'', [''search_address''], ''SEARCH_ADDRESS'', Some ''localhost:83''),
      (''DBAddress'', [''db_address''], ''DB_ADDRESS'', Some ''localhost:82''),
      (''WordsAddress'', [''words_address''], ''WORDS_ADDRESS'', Some ''localhost:81''),
      (''IndexTTL'', [''index_ttl''], ''INDEX_TTL'', Some ''24h''),
      (''Broker.Address'', [''broker'', ''address''], ''BROKER_ADDRESS'', Some ''nats://localhost:4222'')]"

definition update_tags :: "field_tag list" where
  "update_tags =
     [(''LogLevel'', [''log_level''], ''LOG_LEVEL'', Some ''DEBUG''),
      (''Address'', [''update_address''], ''UPDATE_ADDRESS'', Some ''localhost:80''),
      (''XKCD.URL'', [''xkcd'', ''url''], ''XKCD_URL'', Some ''xkcd.com''),
      (''XKCD.Concurrency'', [''xkcd'', ''concurrency''], ''XKCD_CONCURRENCY'', Some ''1''),
      (''XKCD.Timeout'', [''xkcd'', ''timeout''], ''XKCD_TIMEOUT'', Some ''10s''),
      (''XKCD.CheckPeriod'', [''xkcd'', ''check_period''], ''XKCD_CHECK_PERIOD'', Some ''1h''),
      (''DBAddress'', [''db_address''], ''DB_ADDRESS'', Some ''localhost:82''),
      (''WordsAddress'', [''words_address''], ''WORDS_ADDRESS'', Some ''localhost:81''),
      (''Broker.Address'', [''broker'', ''address''], ''BROKER_ADDRESS'', Some ''nats://localhost:4222'')]"

definition words_tags :: "field_tag list" where
  "words_tags = [(''Port'', [''port''], ''WORDS_ADDRESS'', Some '':80'')]"

section \<open>Configuration files\<close>

type_synonym yaml = "string list \<rightharpoonup> string"

definition api_yaml :: yaml where
  "api_yaml = map_of
     [([''log_level''], ''DEBUG''), ([''words_address''], ''localhost:81''), ([''update_address''], ''localhost:82''),
      ([''search_address''], ''localhost:83''), ([''auth_address''], ''localhost:84''),
      ([''favorites_address''], ''localhost:85''), ([''auth_jwt_secret''], ''123''),
      ([''api_server'', ''address''], ''localhost:80''), ([''api_server'', ''timeout''], ''5s'')]"

definition auth_yaml :: yaml where
  "auth_yaml = map_of
     [([''log_level''], ''DEBUG''), ([''auth_address''], ''localhost:84''), ([''db_address''], ''localhost:1234''),
      ([''jwt_secret''], ''123'')]"

definition favorites_yaml :: yaml where
  "favorites_yaml = map_of
     [([''log_level''], ''DEBUG''), ([''favorites_address''], ''localhost:85''), ([''db_address''], ''localhost:1234'')]"

definition search_yaml :: yaml where
  "search_yaml = map_of
     [([''log_level''], ''DEBUG''), ([''search_address''], ''localhost:83''), ([''words_address''], ''localhost:82''),
      ([''db_address''], ''localhost:1234''), ([''index_ttl''], ''20s'')]"

definition update_yaml :: yaml where
  "update_yaml = map_of
     [([''log_level''], ''DEBUG''), ([''update_address''], ''localhost:81''), ([''words_address''], ''localhost:82''),
      ([''db_address''], ''localhost:1234''), ([''xkcd'', ''url''], ''https://xkcd.com''),
      ([''xkcd'', ''concurrency''], ''64''), ([''xkcd'', ''check_period''], ''1h''), ([''xkcd'', ''timeout''], ''10s'')]"

definition words_yaml :: yaml where
  "words_yaml = map_of [([''words_address''], ''localhost:80'')]"

section \<open>The deployment (compose.yaml)\<close>

text \<open>\<open>${NAME}\<close> and \<open>${NAME:-default}\<close> over the variables of the file \<open>.env\<close>.\<close>

definition var :: "(string \<rightharpoonup> string) \<Rightarrow> string \<Rightarrow> string" where
  "var vars n = (case vars n of None \<Rightarrow> [] | Some v \<Rightarrow> v)"

definition var_or :: "(string \<rightharpoonup> string) \<Rightarrow> string \<Rightarrow> string \<Rightarrow> string" where
  "var_or vars n dflt = (if var vars n = [] then dflt else var vars n)"

definition db_url :: "(string \<rightharpoonup> string) \<Rightarrow> string" where
  "db_url vars = ''postgres://'' @ var_or vars ''POSTGRES_USER'' ''postgres'' @ '':'' @ var vars ''POSTGRES_PASSWORD''
     @ ''@postgres:5432/'' @ var_or vars ''POSTGRES_DB'' ''postgres''"

definition compose_api :: "(string \<rightharpoonup> string) \<Rightarrow> string \<rightharpoonup> string" where
  "compose_api vars = map_of
     [(''ADMIN_USER'', var_or vars ''API_ADMIN_USER'' ''admin''),
      (''ADMIN_PASSWORD'', var_or vars ''API_ADMIN_PASSWORD'' ''password''),
      (''TOKEN_TTL'', var_or vars ''API_TOKEN_TTL'' ''12h''),
      (''API_ADDRESS'', '':8080''), (''API_INTERNAL_ADDRESS'', '':8081''),
      (''WORDS_ADDRESS'', ''words:8080''), (''UPDATE_ADDRESS'', ''update:8080''), (''SEARCH_ADDRESS'', ''search:8080''),
      (''AUTH_ADDRESS'', ''auth:8080''), (''FAVORITES_ADDRESS'', ''favorites:8080''),
      (''SEARCH_CONCURRENCY'', var_or vars ''SEARCH_CONCURRENCY'' ''10''), (''SEARCH_RATE'', var_or vars ''SEARCH_RATE'' ''100'')]"

definition compose_words :: "string \<rightharpoonup> string" where
  "compose_words = map_of [(''WORDS_ADDRESS'', '':8080'')]"

definition compose_update :: "(string \<rightharpoonup> string) \<Rightarrow> string \<rightharpoonup> string" where
  "compose_update vars = map_of
     [(''UPDATE_ADDRESS'', '':8080''), (''DB_ADDRESS'', db_url vars), (''XKCD_URL'', ''https://xkcd.com''),
      (''XKCD_CONCURRENCY'', var_or vars ''XKCD_CONCURRENCY'' ''64''), (''WORDS_ADDRESS'', ''words:8080''),
      (''BROKER_ADDRESS'', ''nats://nats:4222'')]"

definition compose_auth :: "(string \<rightharpoonup> string) \<Rightarrow> string \<rightharpoonup> string" where
  "compose_auth vars = map_of
     [(''AUTH_ADDRESS'', '':8080''), (''DB_ADDRESS'', db_url vars), (''AUTH_JWT_SECRET'', var vars ''AUTH_JWT_SECRET''),
      (''TOKEN_TTL'', var_or vars ''AUTH_TOKEN_TTL'' ''24h'')]"

definition compose_search :: "(string \<rightharpoonup> string) \<Rightarrow> string \<rightharpoonup> string" where
  "compose_search vars = map_of
     [(''SEARCH_ADDRESS'', '':8080''), (''DB_ADDRESS'', db_url vars), (''WORDS_ADDRESS'', ''words:8080''),
      (''BROKER_ADDRESS'', ''nats://nats:4222''), (''INDEX_TTL'', var_or vars ''INDEX_TTL'' ''24h'')]"

definition compose_favorites :: "(string \<rightharpoonup> string) \<Rightarrow> string \<rightharpoonup> string" where
  "compose_favorites vars = map_of [(''FAVORITES_ADDRESS'', '':8080''), (''DB_ADDRESS'', db_url vars)]"

definition dot_env_example :: "string \<rightharpoonup> string" where
  "dot_env_example = map_of
     [(''POSTGRES_USER'', ''postgres''), (''POSTGRES_PASSWORD'', ''password''), (''POSTGRES_DB'', ''postgres''),
      (''API_ADMIN_USER'', ''admin''), (''API_ADMIN_PASSWORD'', ''password''), (''API_TOKEN_TTL'', ''12h''),
      (''AUTH_JWT_SECRET'', ''jwt-secret''), (''AUTH_TOKEN_TTL'', ''24h''),
      (''PGADMIN_DEFAULT_EMAIL'', ''admin@test.com''), (''PGADMIN_DEFAULT_PASSWORD'', ''password'')]"

section \<open>Reading the configuration\<close>

text \<open>
  \<open>cleanenv.ReadConfig\<close> as a function of the file, the environment and the struct, to the text each
  field is parsed from. What is documented of it: the environment wins over the file, the file over the
  default. A default may also replace a zero value of the file, so nothing is said of those.
\<close>

type_synonym reader = "yaml \<Rightarrow> (string \<rightharpoonup> string) \<Rightarrow> field_tag list \<Rightarrow> string + (string \<rightharpoonup> string)"

definition reads_layers :: "reader \<Rightarrow> bool" where
  "reads_layers read = (\<forall>file env tags cfg. read file env tags = Inr cfg \<longrightarrow> distinct (map fst tags) \<longrightarrow>
     (\<forall>(name, path, variable, dflt) \<in> set tags.
        (\<forall>v. env variable = Some v \<longrightarrow> cfg name = Some v) \<and>
        (\<forall>v. env variable = None \<longrightarrow> file path = Some v \<longrightarrow> v \<notin> {'''', ''0'', ''0s''} \<longrightarrow> cfg name = Some v) \<and>
        (env variable = None \<longrightarrow> file path = None \<longrightarrow> cfg name = dflt)))"

lemma reads_env:
  assumes "reads_layers read" and "read file env tags = Inr cfg" and "distinct (map fst tags)"
    and "(name, path, variable, dflt) \<in> set tags" and "env variable = Some v"
  shows "cfg name = Some v"
  using assms unfolding reads_layers_def by blast

text \<open>What the environment gives a field.\<close>

definition given_env :: "field_tag list \<Rightarrow> (string \<rightharpoonup> string) \<Rightarrow> string \<Rightarrow> string option" where
  "given_env tags env name = (case map_of tags name of None \<Rightarrow> None | Some (path, variable, dflt) \<Rightarrow> env variable)"

lemma given:
  assumes "reads_layers read" and "read file env tags = Inr cfg" and "distinct (map fst tags)"
    and "given_env tags env name = Some v"
  shows "cfg name = Some v"
proof -
  obtain path variable dflt where "map_of tags name = Some (path, variable, dflt)" and v: "env variable = Some v"
    using assms(4) by (auto simp: given_env_def split: option.splits)
  then have "(name, path, variable, dflt) \<in> set tags" by (simp add: map_of_SomeD)
  then show ?thesis by (rule reads_env [OF assms(1-3) _ v])
qed

lemma reads_file:
  assumes "reads_layers read" and "read file env tags = Inr cfg" and "distinct (map fst tags)"
    and "(name, path, variable, dflt) \<in> set tags" and "env variable = None" and "file path = Some v"
    and "v \<notin> {'''', ''0'', ''0s''}"
  shows "cfg name = Some v"
  using assms unfolding reads_layers_def by blast

lemma tags_distinct [simp]:
  "distinct (map fst api_tags)" "distinct (map fst auth_tags)" "distinct (map fst favorites_tags)"
  "distinct (map fst search_tags)" "distinct (map fst update_tags)" "distinct (map fst words_tags)"
  by (simp_all add: api_tags_def auth_tags_def favorites_tags_def search_tags_def update_tags_def words_tags_def)

lemmas tags_defs = api_tags_def auth_tags_def favorites_tags_def search_tags_def update_tags_def words_tags_def
lemmas compose_defs = compose_api_def compose_auth_def compose_favorites_def compose_search_def compose_update_def
  compose_words_def

lemma api_secret:
  assumes "reads_layers read" and "read api_yaml (compose_api vars) api_tags = Inr cfg"
  shows "cfg ''AuthJWTSecret'' = Some ''123''"
  by (rule reads_file [OF assms tags_distinct(1), where path = "[''auth_jwt_secret'']" and variable = "''AUTH_JWT_SECRET''"
      and dflt = None]) (simp_all add: api_tags_def compose_api_def api_yaml_def)

lemma auth_secret:
  assumes "reads_layers read" and "read auth_yaml (compose_auth vars) auth_tags = Inr cfg"
  shows "cfg ''JWTSecret'' = Some (var vars ''AUTH_JWT_SECRET'')"
  by (rule reads_env [OF assms tags_distinct(2), where path = "[''jwt_secret'']" and variable = "''AUTH_JWT_SECRET''"
      and dflt = None]) (simp_all add: auth_tags_def compose_auth_def)

lemma protected_request:
  assumes "find_route public_routes (rq_method rq) (rq_path rq) = Some (ep, binds)"
    and "ep \<in> {EP_FavList, EP_FavAdd, EP_FavDelete}" and "user_of lib (AuthJWTSecret cfg) (mo_now mo) rq = None"
  shows "public lib cfg e mo rq w = (user_unauthorized, w)"
  using assms by (auto simp: public_eq endpoint_handler_def RequireUser_eq)

section \<open>Properties\<close>

text \<open>C27: The secrets of the deployment. \<open>compose.yaml\<close> gives \<open>AUTH_JWT_SECRET\<close> to \<open>auth\<close> only, so the gateway
  keeps the secret \<open>123\<close> of its file. Unless the variable happens to be \<open>123\<close>, every token that \<open>auth\<close>
  issues is refused: each of the three routes of the favorites answers 401 to its user and changes
  nothing. With \<open>123\<close> the token names its user until it expires. The value of \<open>.env.example\<close> is another one.\<close>

theorem deployed_secrets:
  assumes "reads_layers read"
    and "read auth_yaml (compose_auth vars) auth_tags = Inr au" and "read api_yaml (compose_api vars) api_tags = Inr gw"
    and "au ''JWTSecret'' = Some (as_secret s)" and "gw ''AuthJWTSecret'' = Some (AuthJWTSecret cfg)"
    and "jwt_faithful lib ''HS256'' (as_secret s) (user_claims (as_ttl s) t u) tok"
    and "TrimSpace tok = tok" and "tok \<noteq> []" and "u \<noteq> 0" and "mo_now mo < NewNumericDate (t + as_ttl s) * 1000000000"
    and "rq_authorization rq = ''Token '' @ tok"
    and "find_route public_routes (rq_method rq) (rq_path rq) = Some (ep, binds)"
    and "ep \<in> {EP_FavList, EP_FavAdd, EP_FavDelete}"
  shows "(if var vars ''AUTH_JWT_SECRET'' = ''123'' then user_of lib (AuthJWTSecret cfg) (mo_now mo) rq = Some u
      else public lib cfg e mo rq w = (user_unauthorized, w)) \<and>
    var dot_env_example ''AUTH_JWT_SECRET'' \<noteq> ''123''"
proof (intro conjI)
  have s: "as_secret s = var vars ''AUTH_JWT_SECRET''" using auth_secret [OF assms(1,2)] assms(4) by simp
  have g: "AuthJWTSecret cfg = ''123''" using api_secret [OF assms(1,3)] assms(5) by simp
  show "if var vars ''AUTH_JWT_SECRET'' = ''123'' then user_of lib (AuthJWTSecret cfg) (mo_now mo) rq = Some u
    else public lib cfg e mo rq w = (user_unauthorized, w)"
  proof (cases "var vars ''AUTH_JWT_SECRET'' = ''123''")
    case True
    then show ?thesis using user_of_token [OF assms(6-8,11,10,9)] s g by simp
  next
    case False
    have "user_of lib ''123'' (mo_now mo) rq = None"
      using readToken_header [OF assms(11,7,8)] jwt_faithful_parse [OF assms(6)] s False by (simp add: user_of_def)
    then show ?thesis using protected_request [OF assms(12,13)] g False by simp
  qed
  show "var dot_env_example ''AUTH_JWT_SECRET'' \<noteq> ''123''" by (simp add: var_def dot_env_example_def)
qed

text \<open>A reader with the documented layers.\<close>

definition layered :: reader where
  "layered file env tags = Inr (\<lambda>name. case map_of tags name of
     None \<Rightarrow> None
   | Some (path, variable, dflt) \<Rightarrow> (case env variable of
       Some v \<Rightarrow> Some v
     | None \<Rightarrow> (case file path of Some v \<Rightarrow> Some v | None \<Rightarrow> dflt)))"

lemma layered_reads: "reads_layers layered"
  unfolding reads_layers_def layered_def by (auto simp: map_of_is_SomeI split: prod.splits)

definition example_service :: "auth_db auth_service" where
  "example_service = demo_auth\<lparr>as_secret := ''jwt-secret'', as_ttl := 3600000000000\<rparr>"

definition example_config :: api_config where
  "example_config = demo_config\<lparr>AuthJWTSecret := ''123''\<rparr>"

lemma deployed_secrets_witness:
  "public (one_token_lib ''jwt-secret'' (user_claims 3600000000000 0 7)) example_config demo_env demo_moment
     (api_request ''GET'' [''api'', ''mycomics''] ''Token t0.t1.t2'' None) demo_world = (user_unauthorized, demo_world)"
proof -
  let ?lib = "one_token_lib ''jwt-secret'' (user_claims 3600000000000 0 7)"
  let ?rq = "api_request ''GET'' [''api'', ''mycomics''] ''Token t0.t1.t2'' None"
  obtain au where au: "layered auth_yaml (compose_auth dot_env_example) auth_tags = Inr au" by (simp add: layered_def)
  obtain gw where gw: "layered api_yaml (compose_api dot_env_example) api_tags = Inr gw" by (simp add: layered_def)
  have v: "var dot_env_example ''AUTH_JWT_SECRET'' = ''jwt-secret''" by (simp add: var_def dot_env_example_def)
  have s: "au ''JWTSecret'' = Some (as_secret example_service)"
    using auth_secret [OF layered_reads au] v by (simp add: example_service_def)
  have g: "gw ''AuthJWTSecret'' = Some (AuthJWTSecret example_config)"
    using api_secret [OF layered_reads gw] by (simp add: example_config_def)
  have j: "jwt_faithful ?lib ''HS256'' (as_secret example_service) (user_claims (as_ttl example_service) 0 7) ''t0.t1.t2''"
    using one_token_faithful by (simp add: example_service_def)
  have t: "TrimSpace ''t0.t1.t2'' = ''t0.t1.t2''" "''t0.t1.t2'' \<noteq> []" by (code_simp, simp)
  have n: "(7 :: u32) \<noteq> 0" "mo_now demo_moment < NewNumericDate (0 + as_ttl example_service) * 1000000000"
    by (simp_all add: demo_moment_def example_service_def NewNumericDate_def)
  have r: "rq_authorization ?rq = ''Token '' @ ''t0.t1.t2''" by simp
  have "find_route public_routes ''GET'' [''api'', ''mycomics''] = Some (EP_FavList, [])" by code_simp
  then have f: "find_route public_routes (rq_method ?rq) (rq_path ?rq) = Some (EP_FavList, [])" by simp
  show ?thesis
    using deployed_secrets [OF layered_reads au gw s g j t n r f, of demo_env demo_world] v by simp
qed

text \<open>
  The addresses of the deployment: every client is given the name of the container and the port its
  service listens on. (\<open>words\<close> is started without a file.)
\<close>

theorem deployed_addresses_meet:
  assumes "reads_layers read"
    and "read api_yaml (compose_api vars) api_tags = Inr gw" and "read auth_yaml (compose_auth vars) auth_tags = Inr au"
    and "read search_yaml (compose_search vars) search_tags = Inr se"
    and "read update_yaml (compose_update vars) update_tags = Inr up"
    and "read favorites_yaml (compose_favorites vars) favorites_tags = Inr fv"
    and "read Map.empty compose_words words_tags = Inr wo"
  shows "gw ''SearchAddress'' = map_option ((@) ''search'') (se ''Address'')"
    and "gw ''UpdateAddress'' = map_option ((@) ''update'') (up ''Address'')"
    and "gw ''AuthAddress'' = map_option ((@) ''auth'') (au ''Address'')"
    and "gw ''FavoritesAddress'' = map_option ((@) ''favorites'') (fv ''Address'')"
    and "gw ''WordsAddress'' = map_option ((@) ''words'') (wo ''Port'')"
    and "se ''WordsAddress'' = gw ''WordsAddress'' \<and> up ''WordsAddress'' = gw ''WordsAddress''"
    and "se ''Broker.Address'' = up ''Broker.Address'' \<and> se ''DBAddress'' = up ''DBAddress'' \<and> se ''DBAddress'' = Some (db_url vars)"
proof -
  note from_env = given [OF assms(1)]
  note g = from_env [OF assms(2) tags_distinct(1)] and a = from_env [OF assms(3) tags_distinct(2)]
    and s = from_env [OF assms(4) tags_distinct(4)] and u = from_env [OF assms(5) tags_distinct(5)]
    and f = from_env [OF assms(6) tags_distinct(3)] and w = from_env [OF assms(7) tags_distinct(6)]
  have gateway: "gw ''SearchAddress'' = Some ''search:8080''" "gw ''UpdateAddress'' = Some ''update:8080''"
    "gw ''AuthAddress'' = Some ''auth:8080''" "gw ''FavoritesAddress'' = Some ''favorites:8080''"
    "gw ''WordsAddress'' = Some ''words:8080''"
    by (rule g, simp add: given_env_def api_tags_def compose_api_def)+
  have listening: "se ''Address'' = Some '':8080''" "up ''Address'' = Some '':8080''" "au ''Address'' = Some '':8080''"
    "fv ''Address'' = Some '':8080''" "wo ''Port'' = Some '':8080''"
    by (rule s u a f w, simp add: given_env_def tags_defs compose_defs)+
  have search: "se ''WordsAddress'' = Some ''words:8080''" "se ''Broker.Address'' = Some ''nats://nats:4222''"
    "se ''DBAddress'' = Some (db_url vars)"
    by (rule s, simp add: given_env_def search_tags_def compose_search_def)+
  have update: "up ''WordsAddress'' = Some ''words:8080''" "up ''Broker.Address'' = Some ''nats://nats:4222''"
    "up ''DBAddress'' = Some (db_url vars)"
    by (rule u, simp add: given_env_def update_tags_def compose_update_def)+
  show "gw ''SearchAddress'' = map_option ((@) ''search'') (se ''Address'')"
    "gw ''UpdateAddress'' = map_option ((@) ''update'') (up ''Address'')"
    "gw ''AuthAddress'' = map_option ((@) ''auth'') (au ''Address'')"
    "gw ''FavoritesAddress'' = map_option ((@) ''favorites'') (fv ''Address'')"
    "gw ''WordsAddress'' = map_option ((@) ''words'') (wo ''Port'')"
    by (simp_all add: gateway listening)
  show "se ''WordsAddress'' = gw ''WordsAddress'' \<and> up ''WordsAddress'' = gw ''WordsAddress''"
    by (simp add: gateway search update)
  show "se ''Broker.Address'' = up ''Broker.Address'' \<and> se ''DBAddress'' = up ''DBAddress'' \<and> se ''DBAddress'' = Some (db_url vars)"
    by (simp add: search update)
qed

end
