(* ===== verification/Spec2Isabelle.thy ===== *)
theory Spec2Isabelle
  imports IndexFreshness ApiPrivacy ApiAdmin ApiTelegram ApiOutages ApiJson Deployment
begin

text \<open>
  The comics services of this repository (\<open>search-services/\<close>): a search engine for xkcd comics made of
  six Go programs. \<open>words\<close> normalises phrases; \<open>update\<close> fetches comics from xkcd with a pool of workers
  and stores them in Postgres; \<open>search\<close> finds comics in that table, directly or through an index in
  memory; \<open>auth\<close> keeps accounts and issues tokens; \<open>favorites\<close> keeps the favorites of users; \<open>api\<close> is
  the HTTP gateway in front of them. The services talk gRPC; \<open>update\<close> tells \<open>search\<close> of changes over
  NATS. All paths below are relative to \<open>search-services/\<close>.

  The code's layering is kept: a service is a core over ports, a port is a record of functions, and a
  port's adapter is the SQL, the gRPC client or the broker. State is passed explicitly, an error is the
  left side of a sum, and what the environment decides (the clock, a random number, a database error,
  what other clients commit meanwhile, which goroutine moves) is an argument or a choice of a step.

  Theories, and the code they model.

  \<^item> \<open>Prelude\<close>: integers of 32 bits, gRPC codes and statuses, Go errors (sentinels, wrapping, \<open>errors.Is\<close>),
    collections of simplification rules and the lemmas on lists that components share. \<open>GoStrings\<close>,
    \<open>GoSort\<close>, \<open>GoRegexp\<close>, \<open>GoJson\<close>: what the code uses of Go's strings and strconv (on bytes), of sorting, of
    regular expressions (a matcher by derivatives, proved to decide the language), and of decoding JSON
    into structs. \<open>Postgres\<close>: errors and transactions (aborted after an error, invisible to others until
    the commit, sequences that do not roll back; what others commit before each statement is seen, but
    for a commit that conflicts with the transaction's own writes, which waits for them). \<open>Jwt\<close>: the JWT library as a parameter.
  \<^item> \<open>WordsService\<close>: \<open>words/words/\<close> and the handlers of \<open>words/main.go\<close>. The locale \<open>normalizer\<close> is what the
    clients rely on; the stemmer and the stop words are parameters.
  \<^item> \<open>SearchIndex\<close>, \<open>SearchRank\<close>, \<open>SearchService\<close>: \<open>search/core/\<close> (the index; scores and ranking; the
    operations, proved against the locale \<open>comics_store\<close>). \<open>ComicsTable\<close>, \<open>SearchStorage\<close>: the table \<open>comics\<close>
    and \<open>search/adapters/db/\<close>, which interprets the locale. \<open>SearchServer\<close>: the handlers of
    \<open>search/adapters/grpc/\<close>, the client of \<open>words\<close>, the subscriber and the index initiator.
  \<^item> \<open>UpdateCore\<close>: the adapters of \<open>update\<close> and what one job does; the locale \<open>update_store\<close> is the contract
    of its table. \<open>UpdateWorkers\<close>: the producer, the channel and the workers of \<open>Service.Update\<close> as a step
    relation with cancellation at any moment. \<open>UpdateServer\<close>: calls of \<open>Update\<close> from start to return, the
    flag \<open>running\<close> under concurrent calls, the publisher and the handlers.
  \<^item> \<open>IndexFreshness\<close>: how changes of the table reach the index: updates, the publisher, the subscriber's
    channel and the two goroutines that rebuild, as one step relation with labels; a run is the list of
    its labels, failed updates, lost messages and failed reads of the table among them.
  \<^item> \<open>Favorites\<close>: \<open>favorites/core/\<close>, its table and its handlers; the locale \<open>fav_store\<close> is the contract of the
    table as a set of pairs.
  \<^item> \<open>AuthStorage\<close>, \<open>AuthService\<close>: \<open>auth/adapters/db/storage.go\<close> with its transactions, and
    \<open>auth/core/service.go\<close> with the handlers of \<open>auth/adapters/grpc/\<close>; the locale \<open>account_store\<close> is the
    contract between the two. bcrypt is a parameter.
  \<^item> \<open>ApiCore\<close>, \<open>ApiClients\<close>, \<open>ApiMiddleware\<close>, \<open>ApiHandlers\<close>, \<open>ApiRoutes\<close>: the gateway \<open>api/\<close>: its vocabulary,
    its gRPC clients, tokens and limits, all HTTP handlers, and the two route tables of \<open>api/main.go\<close> with
    the dispatch of \<open>http.ServeMux\<close>. They are parametric in the world behind the ports.
  \<^item> \<open>ApiSystem\<close>, \<open>ApiUsers\<close>, \<open>ApiInvariant\<close>: the gateway in front of the modelled services, with the stubs
    of its clients instantiated by their handlers; properties from the route to the tables and back.
  \<^item> \<open>SystemUpdate\<close>: all parts of an update at once: the route, the pool of workers with the client of xkcd and
    of \<open>words\<close>, the table, the message, the subscriber, and the searches and statistics afterwards.
    \<open>ApiTelegram\<close>: the internal server of the gateway next to the public one. \<open>ApiOutages\<close>: the gateway while
    any set of services cannot be reached, over arbitrary ports for the others.
  \<^item> \<open>ApiPrivacy\<close>: histories of requests to both servers and what of them a user can observe. \<open>ApiListing\<close>: the
    listing page by page. \<open>ApiAdmin\<close>: the login of the administrator, the drop of the database and what is left
    after it.
  \<^item> \<open>JsonText\<close>, \<open>ApiJson\<close>: the bytes of the answers: what encoding/json writes for the tagged structs of
    \<open>adapters/rest/payloads.go\<close>, and a reader that gives the payload back.
  \<^item> \<open>Startup\<close>: the migrations (\<open>adapters/db/migrations.go\<close> and the scripts of \<open>auth\<close> and \<open>favorites\<close>), the
    constructors of the adapters, and \<open>run\<close> and \<open>main\<close> of the six programs as what they open, start and
    close and how they end. \<open>Deployment\<close>: the tags of the \<open>Config\<close> structs, the files \<open>config.yaml\<close> and the
    environment of \<open>compose.yaml\<close> as data; cleanenv is a parameter.

  What the lemmas show.

  \<^item> Search: the ranking is by score and id and independent of the sorting algorithm; the search of the
    table and the search of a fresh index agree; the answers of the two HTTP routes and of the listing are
    determined exactly, errors included, and walking through the pages shows every comic once.
  \<^item> Update: every run of the pool ends, a complete one leaves what fetching the missing comics one by
    one leaves, at every moment a row is an old one or a fetched one, and one writer works at a time.
    After it each fetched comic is found by every query that shares a token with one of its texts, and
    the statistics of the gateway are those of the table.
  \<^item> Freshness: in every run, whatever fails, when nothing is under way the index is that of the table,
    unless after the rebuild that read the table last an update failed, a message was lost or could not be
    followed, or an older rebuild replaced the index; each of these exceptions is reachable, and the next
    tick makes the index fresh again in any case.
  \<^item> Accounts: transactions are atomic under all errors and whatever other clients commit before any of
    their statements; registration, login and
    Telegram login fit together; tokens name their user without loss, and tokens of users and of the
    superuser are not interchangeable.
  \<^item> Gateway: nothing but a registration changes anything without the right token; favorites and comics
    are answered exactly; the constraints of all tables hold after any history of requests. A
    chat that logs in twice at the internal server is one user at the public one. A service that is down
    affects only the routes that call it: they answer 503, or what does not depend on it, and change
    nothing. What a user is answered does not depend on what other users do with their favorites
    (noninterference over purged histories). The administrator's token lasts as long as configured, and a
    drop with it empties listing and searches but leaves the favorites of users.
  \<^item> Programs: a service serves only after it has connected, migrated and checked its settings; with which
    exit code each program ends on a failed listener and on either signal, and what it has stopped and
    closed by then; that \<open>search\<close> panics for a period of the index that is not positive; migrations keep all rows; which addresses and
    secrets the containers get, and what that means for the tokens of users.

  Bounds. Ids of comics are those of a column \<open>INT\<close>; limits, pages and user ids are words of 32 bits, and
  the places where the code converts without a check are modelled with the wrap-around; the driver refuses
  an id that does not fit the column, which is an error and not a comic that is missing. Where a count
  is sent as 32 bits, the theorems assume fewer than \<open>2 ^ 32\<close> rows. Loops are
  structural recursions over their input, and the pool's termination is proved by a measure; only the
  reader of JSON has a bound on its depth, the length of the text, which is enough for every text
  that is written (\<open>read_json_back\<close>).

  Not modelled. Contexts and timeouts appear as errors of ports and as cancellation of the pool;
  logging is left out. The code generated by protoc, gRPC, NATS and Postgres themselves are represented by
  the outcomes of their calls; a failed commit has not happened. golang-migrate and cleanenv are
  parameters. Postgres refuses texts with a NUL byte: modelled for the names of Telegram users, which
  reach it unchecked; the image URLs of xkcd are taken to be free of it. Of the time at which a signal arrives only the time of serving is modelled, and of two
  events that end serving only the first. The Telegram bot (Python) is not modelled.
\<close>

end
